(* ===== verification/Go_Prelude.thy ===== *)
theory Go_Prelude
  imports Complex_Main "HOL-Library.Word" "HOL-Library.AList"
begin

text \<open>
  The Go values every component of the model shares: bytes, strings, 64-bit integers,
  instants and durations, slices, the big-endian codecs of \<open>encoding/binary\<close>, and maps.
  Beside them stand the interfaces (locales) the components are written against: a keyed
  store, a message codec, a stream codec and an invariant machine.
\<close>

unbundle bit_operations_syntax

named_theorems wire_simps \<open>closed forms of the packet builders\<close>
named_theorems gomap_simps \<open>lookup laws of Go maps\<close>

subsection \<open>Bytes, strings and integers\<close>

type_synonym byte = "8 word"
type_synonym bytes = "byte list"

text \<open>A Go string is a sequence of bytes, and so is a HOL \<^typ>\<open>string\<close>: the conversions
  \<open>[]byte(s)\<close> and \<open>string(b)\<close> keep the bytes.\<close>

definition byte_of_char :: "char \<Rightarrow> byte" where
  "byte_of_char c = word_of_nat (of_char c)"

definition char_of_byte :: "byte \<Rightarrow> char" where
  "char_of_byte b = char_of (unat b)"

definition string_bytes :: "string \<Rightarrow> bytes" where
  "string_bytes s = map byte_of_char s"

definition bytes_string :: "bytes \<Rightarrow> string" where
  "bytes_string b = map char_of_byte b"

text \<open>Go's \<open>int\<close>, \<open>int64\<close> and \<open>time.Duration\<close> are 64-bit two's complement values. They
  are integers here, and every addition or multiplication that can leave the range goes
  through \<open>wrap64\<close>.\<close>

definition wrap64 :: "int \<Rightarrow> int" where
  "wrap64 x = (x + 9223372036854775808) mod 18446744073709551616 - 9223372036854775808"

text \<open>Integer division truncates towards zero.\<close>

definition sdiv64 :: "int \<Rightarrow> int \<Rightarrow> int" where
  "sdiv64 a b = wrap64 (sgn a * sgn b * (\<bar>a\<bar> div \<bar>b\<bar>))"

definition in64 :: "int \<Rightarrow> bool" where
  "in64 x \<longleftrightarrow> - 9223372036854775808 \<le> x \<and> x < 9223372036854775808"

subsection \<open>Instants and durations\<close>

text \<open>A \<open>time.Time\<close> is its distance in nanoseconds from Go's zero time (1 January of the
  year 1, UTC), which \<open>IsZero\<close> recognises; \<open>Sub\<close> saturates at the ends of the duration
  range.\<close>

type_synonym gotime = int
type_synonym duration = int

definition time_IsZero :: "gotime \<Rightarrow> bool" where
  "time_IsZero t \<longleftrightarrow> t = 0"

definition time_Add :: "gotime \<Rightarrow> duration \<Rightarrow> gotime" where
  "time_Add t d = t + d"

definition time_Sub :: "gotime \<Rightarrow> gotime \<Rightarrow> duration" where
  "time_Sub t u = max (- 9223372036854775808) (min 9223372036854775807 (t - u))"

definition time_Before :: "gotime \<Rightarrow> gotime \<Rightarrow> bool" where
  "time_Before t u \<longleftrightarrow> t < u"

definition time_Unix :: "gotime \<Rightarrow> int" where
  "time_Unix t = t div 1000000000 - 62135596800"

definition time_UnixNano :: "gotime \<Rightarrow> int" where
  "time_UnixNano t = wrap64 (t - 62135596800000000000)"

abbreviation millisecond :: duration where "millisecond \<equiv> 1000000"
abbreviation second :: duration where "second \<equiv> 1000000000"
abbreviation minute :: duration where "minute \<equiv> 60000000000"

subsection \<open>Slices\<close>

text \<open>\<open>subslice i j b\<close> is \<open>b[i:j]\<close> for \<open>i \<le> j \<le> len(b)\<close>; \<open>copy_into dst i src\<close> is the buffer
  after \<open>copy(dst[i:], src)\<close>, which copies as much as fits.\<close>

definition subslice :: "nat \<Rightarrow> nat \<Rightarrow> 'a list \<Rightarrow> 'a list" where
  "subslice i j b = take (j - i) (drop i b)"

definition copy_into :: "'a list \<Rightarrow> nat \<Rightarrow> 'a list \<Rightarrow> 'a list" where
  "copy_into dst i src =
     take i dst @ take (length dst - i) src @ drop (i + length src) dst"

subsection \<open>Big-endian integers\<close>

definition put_be16 :: "16 word \<Rightarrow> bytes" where
  "put_be16 w = [ucast (drop_bit 8 w), ucast w]"

definition get_be16 :: "bytes \<Rightarrow> 16 word" where
  "get_be16 b = push_bit 8 (ucast (b ! 0)) OR ucast (b ! 1)"

definition put_be32 :: "32 word \<Rightarrow> bytes" where
  "put_be32 w = [ucast (drop_bit 24 w), ucast (drop_bit 16 w), ucast (drop_bit 8 w), ucast w]"

definition get_be32 :: "bytes \<Rightarrow> 32 word" where
  "get_be32 b = push_bit 24 (ucast (b ! 0)) OR push_bit 16 (ucast (b ! 1))
     OR push_bit 8 (ucast (b ! 2)) OR ucast (b ! 3)"

definition put_be64 :: "64 word \<Rightarrow> bytes" where
  "put_be64 w =
     [ucast (drop_bit 56 w), ucast (drop_bit 48 w), ucast (drop_bit 40 w), ucast (drop_bit 32 w),
      ucast (drop_bit 24 w), ucast (drop_bit 16 w), ucast (drop_bit 8 w), ucast w]"

definition get_be64 :: "bytes \<Rightarrow> 64 word" where
  "get_be64 b = push_bit 56 (ucast (b ! 0)) OR push_bit 48 (ucast (b ! 1))
     OR push_bit 40 (ucast (b ! 2)) OR push_bit 32 (ucast (b ! 3))
     OR push_bit 24 (ucast (b ! 4)) OR push_bit 16 (ucast (b ! 5))
     OR push_bit 8 (ucast (b ! 6)) OR ucast (b ! 7)"

subsection \<open>Maps\<close>

text \<open>A Go map is an association list with distinct keys. Its iteration order, which Go
  leaves open, is the order of the list; a statement over every well-formed list therefore
  covers every order.\<close>

type_synonym ('k, 'v) gomap = "('k \<times> 'v) list"

definition gm_wf :: "('k, 'v) gomap \<Rightarrow> bool" where
  "gm_wf m \<longleftrightarrow> distinct (map fst m)"

definition gm_get :: "('k, 'v) gomap \<Rightarrow> 'k \<Rightarrow> 'v option" where
  "gm_get m k = map_of m k"

definition gm_has :: "('k, 'v) gomap \<Rightarrow> 'k \<Rightarrow> bool" where
  "gm_has m k \<longleftrightarrow> map_of m k \<noteq> None"

definition gm_put :: "'k \<Rightarrow> 'v \<Rightarrow> ('k, 'v) gomap \<Rightarrow> ('k, 'v) gomap" where
  "gm_put k v m = AList.update k v m"

definition gm_del :: "'k \<Rightarrow> ('k, 'v) gomap \<Rightarrow> ('k, 'v) gomap" where
  "gm_del k m = filter (\<lambda>e. fst e \<noteq> k) m"

definition gm_keys :: "('k, 'v) gomap \<Rightarrow> 'k list" where
  "gm_keys m = map fst m"

definition gm_len :: "('k, 'v) gomap \<Rightarrow> nat" where
  "gm_len m = length m"

text \<open>\<open>for k, v := range m { if bad(k, v) { delete(m, k) } }\<close>\<close>

definition gm_prune :: "('k \<Rightarrow> 'v \<Rightarrow> bool) \<Rightarrow> ('k, 'v) gomap \<Rightarrow> ('k, 'v) gomap" where
  "gm_prune bad m = filter (\<lambda>e. \<not> bad (fst e) (snd e)) m"

subsection \<open>Network addresses and connections\<close>

text \<open>A \<open>net.Addr\<close> is its dynamic type with the text its \<open>String\<close> method gives; a UDP and a
  TCP address of the same host and port have the same text. A \<open>net.Conn\<close> is a handle.\<close>

datatype netaddr = UDPAddr string | TCPAddr string | OtherAddr string

fun addr_String :: "netaddr \<Rightarrow> string" where
  "addr_String (UDPAddr s) = s"
| "addr_String (TCPAddr s) = s"
| "addr_String (OtherAddr s) = s"

fun is_udp_addr :: "netaddr \<Rightarrow> bool" where
  "is_udp_addr (UDPAddr s) = True"
| "is_udp_addr (TCPAddr s) = False"
| "is_udp_addr (OtherAddr s) = False"

type_synonym conn = nat

subsection \<open>Facts about bytes and strings\<close>

lemma char_of_byte_of_char [simp]: "char_of_byte (byte_of_char c) = c"
proof -
  have "of_char c < (256::nat)" by simp
  then have "unat (word_of_nat (of_char c) :: byte) = (of_char c :: nat)"
    by (simp add: unat_of_nat take_bit_eq_mod)
  then show ?thesis by (simp add: char_of_byte_def byte_of_char_def)
qed

lemma byte_of_char_of_byte [simp]: "byte_of_char (char_of_byte b) = b"
proof -
  have "unat b < 256" using unsigned_less [of b, where ?'a = nat] by simp
  then have "of_char (char_of (unat b) :: char) = unat b" by simp
  then show ?thesis by (simp add: char_of_byte_def byte_of_char_def)
qed

lemma bytes_string_string_bytes [simp]: "bytes_string (string_bytes s) = s"
  by (induction s) (auto simp: bytes_string_def string_bytes_def)

lemma string_bytes_bytes_string [simp]: "string_bytes (bytes_string b) = b"
  by (induction b) (auto simp: bytes_string_def string_bytes_def)

lemma length_string_bytes [simp]: "length (string_bytes s) = length s"
  by (simp add: string_bytes_def)

lemma length_bytes_string [simp]: "length (bytes_string b) = length b"
  by (simp add: bytes_string_def)

lemma string_bytes_inject [simp]: "string_bytes s = string_bytes t \<longleftrightarrow> s = t"
  by (metis bytes_string_string_bytes)

lemma bytes_string_inject [simp]: "bytes_string s = bytes_string t \<longleftrightarrow> s = t"
  by (metis string_bytes_bytes_string)

subsection \<open>Facts about integers and instants\<close>

lemma wrap64_id: "in64 x \<Longrightarrow> wrap64 x = x"
  by (simp add: in64_def wrap64_def)

lemma in64_wrap64 [simp]: "in64 (wrap64 x)"
proof -
  have "0 \<le> (x + 9223372036854775808) mod 18446744073709551616"
    "(x + 9223372036854775808) mod 18446744073709551616 < 18446744073709551616"
    by simp_all
  then show ?thesis unfolding in64_def wrap64_def by linarith
qed

lemma wrap64_add_wrap64 [simp]: "wrap64 (wrap64 x + y) = wrap64 (x + y)"
  unfolding wrap64_def by (simp add: mod_simps algebra_simps)

lemma wrap64_low: "-18446744073709551616 \<le> x \<Longrightarrow> x < - 9223372036854775808 \<Longrightarrow> wrap64 x = x + 18446744073709551616"
  using mod_add_self2 [of "x + 9223372036854775808" 18446744073709551616]
    mod_pos_pos_trivial [of "x + 9223372036854775808 + 18446744073709551616" 18446744073709551616]
  unfolding wrap64_def by linarith

lemma wrap64_high: "9223372036854775808 \<le> x \<Longrightarrow> x < 18446744073709551616 \<Longrightarrow> wrap64 x = x - 18446744073709551616"
  unfolding wrap64_def by (subst mod_pos_geq) auto

lemma sdiv64_nonneg: "0 \<le> a \<Longrightarrow> a < 9223372036854775808 \<Longrightarrow> 0 < b \<Longrightarrow> sdiv64 a b = a div b"
proof -
  assume a: "0 \<le> a" "a < 9223372036854775808" and b: "0 < b"
  then have "0 \<le> a div b" by (simp add: pos_imp_zdiv_nonneg_iff)
  moreover have "a div b \<le> a" using a(1) b
    by (metis div_by_1 int_one_le_iff_zero_less zdiv_mono2 zero_less_one)
  ultimately have "wrap64 (a div b) = a div b" using a(2) by (intro wrap64_id) (simp add: in64_def)
  moreover have "sgn a * sgn b * (\<bar>a\<bar> div \<bar>b\<bar>) = a div b" using a(1) b by (simp add: sgn_if)
  ultimately show ?thesis by (simp add: sdiv64_def)
qed

lemma time_Sub_exact: "in64 (t - u) \<Longrightarrow> time_Sub t u = t - u"
  by (simp add: time_Sub_def in64_def)

lemma time_Sub_ge_iff: "0 < d \<Longrightarrow> in64 d \<Longrightarrow> d \<le> time_Sub t u \<longleftrightarrow> d \<le> t - u"
  by (auto simp: time_Sub_def in64_def)

lemma time_Sub_gt_iff: "0 \<le> d \<Longrightarrow> d < 9223372036854775807 \<Longrightarrow> d < time_Sub t u \<longleftrightarrow> d < t - u"
  by (auto simp: time_Sub_def)

subsection \<open>Facts about slices\<close>

lemma length_subslice [simp]: "length (subslice i j b) = min (j - i) (length b - i)"
  by (simp add: subslice_def)

lemma length_copy_into [simp]: "i \<le> length dst \<Longrightarrow> length (copy_into dst i src) = length dst"
  by (simp add: copy_into_def)

lemma copy_into_append:
  "length a = i \<Longrightarrow> copy_into (a @ b) i src = a @ copy_into b 0 src"
  by (simp add: copy_into_def)

lemma copy_into_0_exact: "length dst = length src \<Longrightarrow> copy_into dst 0 src = src"
  by (simp add: copy_into_def)

lemma subslice_append_left [simp]: "length a \<le> i \<Longrightarrow> subslice i j (a @ b) = subslice (i - length a) (j - length a) b"
  by (simp add: subslice_def)

lemma subslice_prefix [simp]: "length a = j \<Longrightarrow> subslice 0 j (a @ b) = a"
  by (simp add: subslice_def)

lemma subslice_split: "i \<le> j \<Longrightarrow> subslice i j b @ drop j b = drop i b"
  unfolding subslice_def
  by (metis append_take_drop_id drop_drop le_add_diff_inverse2)

subsection \<open>Facts about big-endian integers\<close>

lemma length_put_be [simp]:
  "length (put_be16 v) = 2" "length (put_be32 w) = 4" "length (put_be64 x) = 8"
  by (simp_all add: put_be16_def put_be32_def put_be64_def)

lemma bit_byte_piece:
  "bit (push_bit k (ucast (ucast (drop_bit k w) :: byte)) :: 'a::len word) n \<longleftrightarrow>
     k \<le> n \<and> n < k + 8 \<and> bit (w :: 'a word) n"
  by (auto simp: bit_simps dest: bit_imp_le_length)

lemma bit_low_byte:
  "bit (ucast (ucast w :: byte) :: 'a::len word) n \<longleftrightarrow> n < 8 \<and> bit (w :: 'a word) n"
  by (auto simp: bit_simps dest: bit_imp_le_length)

lemmas byte_pieces = bit_byte_piece bit_low_byte bit_or_iff

lemma get_put_be16 [simp]: "get_be16 (put_be16 w @ r) = w"
  unfolding get_be16_def put_be16_def
  by (rule bit_word_eqI) (auto simp: byte_pieces)

lemma get_put_be32 [simp]: "get_be32 (put_be32 w @ r) = w"
  unfolding get_be32_def put_be32_def
  by (rule bit_word_eqI) (auto simp: byte_pieces)

lemma get_put_be64 [simp]: "get_be64 (put_be64 w @ r) = w"
  unfolding get_be64_def put_be64_def
  by (rule bit_word_eqI) (auto simp: byte_pieces)

subsection \<open>Keyed stores\<close>

text \<open>The contract of a keyed store: what a lookup returns after each update, and that every
  update keeps the representation well-formed.\<close>

locale keyed_store =
  fixes empty :: 's
    and put :: "'k \<Rightarrow> 'v \<Rightarrow> 's \<Rightarrow> 's"
    and del :: "'k \<Rightarrow> 's \<Rightarrow> 's"
    and get :: "'s \<Rightarrow> 'k \<Rightarrow> 'v option"
    and keys :: "'s \<Rightarrow> 'k list"
    and size_of :: "'s \<Rightarrow> nat"
    and wf :: "'s \<Rightarrow> bool"
  assumes wf_empty: "wf empty"
    and wf_put: "wf s \<Longrightarrow> wf (put k v s)"
    and wf_del: "wf s \<Longrightarrow> wf (del k s)"
    and get_empty: "get empty k = None"
    and get_put: "wf s \<Longrightarrow> get (put k v s) k' = (if k' = k then Some v else get s k')"
    and get_del: "wf s \<Longrightarrow> get (del k s) k' = (if k' = k then None else get s k')"
    and distinct_keys: "wf s \<Longrightarrow> distinct (keys s)"
    and set_keys: "wf s \<Longrightarrow> k \<in> set (keys s) \<longleftrightarrow> get s k \<noteq> None"
    and size_keys: "wf s \<Longrightarrow> size_of s = length (keys s)"
begin

lemma keys_put: "wf s \<Longrightarrow> set (keys (put k v s)) = insert k (set (keys s))"
  by (auto simp: set_keys wf_put get_put split: if_splits)

lemma keys_del: "wf s \<Longrightarrow> set (keys (del k s)) = set (keys s) - {k}"
  by (auto simp: set_keys wf_del get_del split: if_splits)

lemma size_card: "wf s \<Longrightarrow> size_of s = card (set (keys s))"
  by (simp add: size_keys distinct_card distinct_keys)

lemma size_put: "wf s \<Longrightarrow> size_of (put k v s) = (if get s k = None then Suc (size_of s) else size_of s)"
proof -
  assume wf: "wf s"
  have "size_of (put k v s) = card (insert k (set (keys s)))"
    by (simp add: size_card wf_put wf keys_put)
  then show ?thesis
    using wf by (simp add: card_insert_if size_card set_keys)
qed

lemma size_del_le: "wf s \<Longrightarrow> size_of (del k s) \<le> size_of s"
  by (simp add: size_card wf_del keys_del card_Diff1_le)

lemma put_then_del: "wf s \<Longrightarrow> get (del k (put k v s)) k' = get (del k s) k'"
  by (simp add: get_put get_del wf_put)

end

lemma gm_wf_Nil [simp]: "gm_wf []"
  by (simp add: gm_wf_def)

lemma gm_wf_put [simp]: "gm_wf m \<Longrightarrow> gm_wf (gm_put k v m)"
  by (simp add: gm_wf_def gm_put_def distinct_update)

lemma gm_wf_filter [simp]: "gm_wf m \<Longrightarrow> gm_wf (filter P m)"
  by (induction m) (auto simp: gm_wf_def)

lemma gm_wf_del [simp]: "gm_wf m \<Longrightarrow> gm_wf (gm_del k m)"
  by (simp add: gm_del_def)

lemma gm_wf_prune [simp]: "gm_wf m \<Longrightarrow> gm_wf (gm_prune bad m)"
  by (simp add: gm_prune_def)

lemma gm_get_Nil [simp]: "gm_get [] k = None"
  by (simp add: gm_get_def)

lemma gm_has_get [gomap_simps]: "gm_has m k \<longleftrightarrow> gm_get m k \<noteq> None"
  by (simp add: gm_has_def gm_get_def)

lemma gm_get_put [gomap_simps, simp]: "gm_get (gm_put k v m) k' = (if k' = k then Some v else gm_get m k')"
  by (simp add: gm_get_def gm_put_def update_conv')

lemma gm_get_del [gomap_simps, simp]: "gm_get (gm_del k m) k' = (if k' = k then None else gm_get m k')"
  by (induction m) (auto simp: gm_get_def gm_del_def)

lemma gm_get_prune [gomap_simps]:
  "gm_wf m \<Longrightarrow> gm_get (gm_prune bad m) k =
     (case gm_get m k of None \<Rightarrow> None | Some v \<Rightarrow> if bad k v then None else Some v)"
  by (induction m)
    (auto simp: gm_get_def gm_prune_def gm_wf_def map_of_eq_None_iff split: option.splits
       dest: map_of_SomeD)

lemma gm_keys_iff: "k \<in> set (gm_keys m) \<longleftrightarrow> gm_get m k \<noteq> None"
  by (auto simp: gm_keys_def gm_get_def map_of_eq_None_iff)

lemma gm_get_mem: "gm_wf m \<Longrightarrow> (k, v) \<in> set m \<longleftrightarrow> gm_get m k = Some v"
  by (auto simp: gm_wf_def gm_get_def)

interpretation gm: keyed_store "[] :: ('k \<times> 'v) list" gm_put gm_del gm_get gm_keys gm_len gm_wf
  by unfold_locales (simp_all add: gm_keys_iff, simp_all add: gm_keys_def gm_wf_def gm_len_def)

subsection \<open>Message codecs\<close>

text \<open>A codec promises that what it encodes it can decode; the client facts are that no two
  valid messages share an encoding and that a decoded encoding is never an error.\<close>

locale codec =
  fixes enc :: "'a \<Rightarrow> bytes"
    and dec :: "bytes \<Rightarrow> 'e + 'a"
    and ok :: "'a \<Rightarrow> bool"
  assumes dec_enc: "ok x \<Longrightarrow> dec (enc x) = Inr x"
begin

lemma enc_inj: "ok x \<Longrightarrow> ok y \<Longrightarrow> enc x = enc y \<Longrightarrow> x = y"
  by (metis dec_enc sum.inject(2))

lemma dec_enc_no_error: "ok x \<Longrightarrow> dec (enc x) \<noteq> Inl e"
  by (simp add: dec_enc)

end

text \<open>A stream codec decodes one item off the front of a longer input and leaves the rest, so
  that a concatenation of encodings decodes item by item.\<close>

fun take_items :: "(bytes \<Rightarrow> ('a \<times> bytes) option) \<Rightarrow> nat \<Rightarrow> bytes \<Rightarrow> 'a list" where
  "take_items next1 0 b = []"
| "take_items next1 (Suc n) b =
     (case next1 b of None \<Rightarrow> [] | Some (x, r) \<Rightarrow> x # take_items next1 n r)"

locale stream_codec =
  fixes enc :: "'a \<Rightarrow> bytes"
    and next1 :: "bytes \<Rightarrow> ('a \<times> bytes) option"
    and ok :: "'a \<Rightarrow> bool"
  assumes next1_enc: "ok x \<Longrightarrow> next1 (enc x @ r) = Some (x, r)"
begin

lemma take_items_concat:
  "list_all ok xs \<Longrightarrow> take_items next1 (length xs) (concat (map enc xs) @ r) = xs"
  by (induction xs) (simp_all add: next1_enc)

lemma enc_prefix_free: "ok x \<Longrightarrow> ok y \<Longrightarrow> enc x @ r = enc y @ r' \<Longrightarrow> x = y \<and> r = r'"
  by (metis next1_enc option.inject prod.inject)

end

subsection \<open>Machines and invariants\<close>

text \<open>A component driven by events: one operation per event, and an invariant every operation
  keeps. The client fact is that every run keeps it.\<close>

locale invariant_machine =
  fixes step :: "'s \<Rightarrow> 'e \<Rightarrow> 's"
    and inv :: "'s \<Rightarrow> bool"
  assumes inv_step: "inv s \<Longrightarrow> inv (step s e)"
begin

lemma inv_run: "inv s \<Longrightarrow> inv (foldl step s es)"
  by (induction es arbitrary: s) (simp_all add: inv_step)

end

text \<open>A component with several threads of control: a step relation. Reachable states are those
  a finite sequence of steps leads to.\<close>

locale invariant_relation =
  fixes init :: "'s \<Rightarrow> bool"
    and step :: "'s \<Rightarrow> 's \<Rightarrow> bool"
    and inv :: "'s \<Rightarrow> bool"
  assumes inv_init: "init s \<Longrightarrow> inv s"
    and inv_step: "inv s \<Longrightarrow> step s t \<Longrightarrow> inv t"
begin

lemma inv_steps: "step\<^sup>*\<^sup>* s t \<Longrightarrow> inv s \<Longrightarrow> inv t"
  by (induction rule: rtranclp_induct) (auto intro: inv_step)

lemma inv_reachable: "init s \<Longrightarrow> step\<^sup>*\<^sup>* s t \<Longrightarrow> inv t"
  using inv_init inv_steps by blast

end

text \<open>A component whose steps are events that may be impossible: a run is a list of events, and it
  exists only if each event is possible when its turn comes.\<close>

fun run_events :: "('e \<Rightarrow> 's \<Rightarrow> 's option) \<Rightarrow> 'e list \<Rightarrow> 's \<Rightarrow> 's option" where
  "run_events step [] s = Some s"
| "run_events step (e # es) s = (case step e s of None \<Rightarrow> None | Some s' \<Rightarrow> run_events step es s')"

lemma run_events_append:
  "run_events step (xs @ ys) s = (case run_events step xs s of None \<Rightarrow> None | Some s' \<Rightarrow> run_events step ys s')"
  by (induction step xs s rule: run_events.induct) (auto split: option.splits)

lemma run_events_snoc:
  "run_events step (xs @ [e]) s = Some t \<longleftrightarrow> (\<exists>u. run_events step xs s = Some u \<and> step e u = Some t)"
  by (auto simp: run_events_append split: option.splits)

locale event_machine =
  fixes step :: "'e \<Rightarrow> 's \<Rightarrow> 's option"
    and inv :: "'e list \<Rightarrow> 's \<Rightarrow> bool"
  assumes inv_event: "inv es s \<Longrightarrow> step e s = Some t \<Longrightarrow> inv (es @ [e]) t"
begin

lemma inv_run: "inv [] s \<Longrightarrow> run_events step es s = Some t \<Longrightarrow> inv es t"
  by (induction es arbitrary: t rule: rev_induct) (auto simp: run_events_snoc intro: inv_event)

end

end
