(* ===== verification/Noise_Session.thy ===== *)
theory Noise_Session
  imports Go_Prelude
begin

text \<open>
  The encryption layer of \<open>crypto/noise.go\<close> and \<open>crypto/session.go\<close>: the wrapper around a
  Noise XX handshake, the session with its two cipher states, the stand-alone AES-GCM cipher
  and the session manager.

  The Noise library (\<open>github.com/flynn/noise\<close>) is not part of the repository. It is a
  parameter, a record of the operations the code calls; each returns the library object's new
  state beside its result, and \<open>None\<close> as the result is an error. AES-GCM (\<open>cipher.AEAD\<close>) is
  a parameter of the same kind. Sessions are shared by pointer, so a session manager holds
  references into a heap of sessions; a nil pointer is \<open>None\<close>.
\<close>

subsection \<open>The library's interface\<close>

record ('h, 'c) noise_lib =
  nl_new :: "bool \<Rightarrow> bytes \<Rightarrow> bytes \<Rightarrow> bytes \<Rightarrow> 'h option"
  nl_write :: "'h \<Rightarrow> bytes \<Rightarrow> (bytes \<times> 'c option \<times> 'c option) option \<times> 'h"
  nl_read :: "'h \<Rightarrow> bytes \<Rightarrow> (bytes \<times> 'c option \<times> 'c option) option \<times> 'h"
  nl_peer_static :: "'h \<Rightarrow> bytes"
  nl_channel_binding :: "'h \<Rightarrow> bytes"
  nl_encrypt :: "'c \<Rightarrow> bytes \<Rightarrow> bytes option \<times> 'c"
  nl_decrypt :: "'c \<Rightarrow> bytes \<Rightarrow> bytes option \<times> 'c"

datatype noise_error =
  ErrKeyTooShort | ErrNewHandshakeState | ErrWriteMessage1 | ErrHandshakeCompleted
| ErrReadMessage | ErrWriteResponse | ErrWriteMessage | ErrSessionClosed
| ErrEncrypt | ErrDecrypt | ErrKeyLength | ErrCiphertextShort | ErrAEAD

record 'h HandshakeState =
  hs_noise :: 'h
  hs_isInitiator :: bool
  hs_completed :: bool
  hs_createdAt :: int

record 'c Session =
  sendCipher :: "'c option"
  recvCipher :: "'c option"
  remoteStaticKey :: "bytes option"
  handshakeHash :: "bytes option"

subsection \<open>Handshakes\<close>

definition handshake_prologue :: "bytes \<Rightarrow> bytes" where
  "handshake_prologue networkSecret = string_bytes ''p2ptunnel-v1-'' @ networkSecret"

definition NewInitiatorHandshake ::
    "('h, 'c) noise_lib \<Rightarrow> gotime \<Rightarrow> bytes \<Rightarrow> bytes \<Rightarrow> bytes \<Rightarrow> noise_error + 'h HandshakeState \<times> bytes" where
  "NewInitiatorHandshake lib now localPrivateKey localPublicKey networkSecret =
     (if length localPrivateKey < 32 \<or> length localPublicKey < 32 then Inl ErrKeyTooShort
      else case nl_new lib True (handshake_prologue networkSecret)
                  (take 32 localPrivateKey) (take 32 localPublicKey) of
        None \<Rightarrow> Inl ErrNewHandshakeState
      | Some hs \<Rightarrow>
          (case nl_write lib hs [] of
             (None, _) \<Rightarrow> Inl ErrWriteMessage1
           | (Some (msg1, _, _), hs') \<Rightarrow>
               Inr (\<lparr>hs_noise = hs', hs_isInitiator = True, hs_completed = False,
                     hs_createdAt = time_Unix now\<rparr>, msg1)))"

definition NewResponderHandshake ::
    "('h, 'c) noise_lib \<Rightarrow> gotime \<Rightarrow> bytes \<Rightarrow> bytes \<Rightarrow> bytes \<Rightarrow> noise_error + 'h HandshakeState" where
  "NewResponderHandshake lib now localPrivateKey localPublicKey networkSecret =
     (if length localPrivateKey < 32 \<or> length localPublicKey < 32 then Inl ErrKeyTooShort
      else case nl_new lib False (handshake_prologue networkSecret)
                  (take 32 localPrivateKey) (take 32 localPublicKey) of
        None \<Rightarrow> Inl ErrNewHandshakeState
      | Some hs \<Rightarrow> Inr \<lparr>hs_noise = hs, hs_isInitiator = False, hs_completed = False,
                     hs_createdAt = time_Unix now\<rparr>)"

definition CreatedAt :: "'h HandshakeState \<Rightarrow> int" where
  "CreatedAt h = hs_createdAt h"

text \<open>The session both message functions build once the library returns its two cipher states:
  the first encrypts from initiator to responder.\<close>

definition make_session ::
    "('h, 'c) noise_lib \<Rightarrow> 'h HandshakeState \<Rightarrow> 'c \<Rightarrow> 'c \<Rightarrow> 'c Session" where
  "make_session lib h cs1 cs2 =
     \<lparr>sendCipher = Some (if hs_isInitiator h then cs1 else cs2),
      recvCipher = Some (if hs_isInitiator h then cs2 else cs1),
      remoteStaticKey = Some (nl_peer_static lib (hs_noise h)),
      handshakeHash = Some (nl_channel_binding lib (hs_noise h))\<rparr>"

text \<open>\<open>ProcessMessage\<close> returns the response to send (nil when there is none) and the session
  (nil while the handshake goes on), with the handshake state it leaves behind.\<close>

definition ProcessMessage ::
    "('h, 'c) noise_lib \<Rightarrow> 'h HandshakeState \<Rightarrow> bytes \<Rightarrow>
       (noise_error + bytes option \<times> 'c Session option) \<times> 'h HandshakeState" where
  "ProcessMessage lib h msg =
     (if hs_completed h then (Inl ErrHandshakeCompleted, h)
      else case nl_read lib (hs_noise h) msg of
        (None, hs1) \<Rightarrow> (Inl ErrReadMessage, h\<lparr>hs_noise := hs1\<rparr>)
      | (Some (payload, Some cs1, Some cs2), hs1) \<Rightarrow>
          (let h1 = h\<lparr>hs_noise := hs1, hs_completed := True\<rparr>
           in (Inr (None, Some (make_session lib h1 cs1 cs2)), h1))
      | (Some (payload, _, _), hs1) \<Rightarrow>
          (case nl_write lib hs1 payload of
             (None, hs2) \<Rightarrow> (Inl ErrWriteResponse, h\<lparr>hs_noise := hs2\<rparr>)
           | (Some (response, Some cs1New, Some cs2New), hs2) \<Rightarrow>
               (let h2 = h\<lparr>hs_noise := hs2, hs_completed := True\<rparr>
                in (Inr (Some response, Some (make_session lib h2 cs1New cs2New)), h2))
           | (Some (response, _, _), hs2) \<Rightarrow>
               (Inr (Some response, None), h\<lparr>hs_noise := hs2\<rparr>)))"

definition WriteMessage ::
    "('h, 'c) noise_lib \<Rightarrow> 'h HandshakeState \<Rightarrow> bytes \<Rightarrow>
       (noise_error + bytes \<times> 'c Session option) \<times> 'h HandshakeState" where
  "WriteMessage lib h payload =
     (case nl_write lib (hs_noise h) payload of
        (None, hs1) \<Rightarrow> (Inl ErrWriteMessage, h\<lparr>hs_noise := hs1\<rparr>)
      | (Some (msg, Some cs1, Some cs2), hs1) \<Rightarrow>
          (let h1 = h\<lparr>hs_noise := hs1, hs_completed := True\<rparr>
           in (Inr (msg, Some (make_session lib h1 cs1 cs2)), h1))
      | (Some (msg, _, _), hs1) \<Rightarrow> (Inr (msg, None), h\<lparr>hs_noise := hs1\<rparr>))"

subsection \<open>Sessions\<close>

definition Session_Encrypt ::
    "('h, 'c) noise_lib \<Rightarrow> 'c Session \<Rightarrow> bytes \<Rightarrow> (noise_error + bytes) \<times> 'c Session" where
  "Session_Encrypt lib s plaintext =
     (case sendCipher s of
        None \<Rightarrow> (Inl ErrSessionClosed, s)
      | Some c \<Rightarrow>
          (case nl_encrypt lib c plaintext of
             (None, c') \<Rightarrow> (Inl ErrEncrypt, s\<lparr>sendCipher := Some c'\<rparr>)
           | (Some ciphertext, c') \<Rightarrow> (Inr ciphertext, s\<lparr>sendCipher := Some c'\<rparr>)))"

definition Session_Decrypt ::
    "('h, 'c) noise_lib \<Rightarrow> 'c Session \<Rightarrow> bytes \<Rightarrow> (noise_error + bytes) \<times> 'c Session" where
  "Session_Decrypt lib s ciphertext =
     (case recvCipher s of
        None \<Rightarrow> (Inl ErrSessionClosed, s)
      | Some c \<Rightarrow>
          (case nl_decrypt lib c ciphertext of
             (None, c') \<Rightarrow> (Inl ErrDecrypt, s\<lparr>recvCipher := Some c'\<rparr>)
           | (Some plaintext, c') \<Rightarrow> (Inr plaintext, s\<lparr>recvCipher := Some c'\<rparr>)))"

definition RemotePublicKey :: "'c Session \<Rightarrow> bytes option" where
  "RemotePublicKey s = remoteStaticKey s"

definition HandshakeHash :: "'c Session \<Rightarrow> bytes option" where
  "HandshakeHash s = handshakeHash s"

text \<open>\<open>Close\<close> overwrites the two key slices with zeros before it drops them; the second result
  is what the memory of those slices holds afterwards.\<close>

definition secureZero :: "bytes \<Rightarrow> bytes" where
  "secureZero b = (let zeros = replicate (length b) 0 in copy_into b 0 zeros)"

definition Session_Close_mem :: "'c Session \<Rightarrow> 'c Session \<times> bytes option \<times> bytes option" where
  "Session_Close_mem s =
     (s\<lparr>remoteStaticKey := None, handshakeHash := None, sendCipher := None, recvCipher := None\<rparr>,
      map_option secureZero (remoteStaticKey s), map_option secureZero (handshakeHash s))"

definition Session_Close :: "'c Session \<Rightarrow> 'c Session" where
  "Session_Close s = fst (Session_Close_mem s)"

subsection \<open>The stand-alone AES-GCM cipher\<close>

record aead =
  aead_NonceSize :: nat
  aead_Seal :: "bytes \<Rightarrow> bytes \<Rightarrow> bytes"
  aead_Open :: "bytes \<Rightarrow> bytes \<Rightarrow> bytes option"

definition NewAESGCMCipher :: "(bytes \<Rightarrow> aead option) \<Rightarrow> bytes \<Rightarrow> noise_error + aead" where
  "NewAESGCMCipher newGCM key =
     (if length key \<noteq> 32 then Inl ErrKeyLength
      else case newGCM key of None \<Rightarrow> Inl ErrAEAD | Some a \<Rightarrow> Inr a)"

text \<open>\<open>nonce\<close> is what \<open>rand.Read\<close> filled in; \<open>Seal\<close> appends the ciphertext to it.\<close>

definition AESGCM_Encrypt :: "aead \<Rightarrow> bytes \<Rightarrow> bytes \<Rightarrow> bytes" where
  "AESGCM_Encrypt c nonce plaintext = nonce @ aead_Seal c nonce plaintext"

definition AESGCM_Decrypt :: "aead \<Rightarrow> bytes \<Rightarrow> noise_error + bytes" where
  "AESGCM_Decrypt c ciphertext =
     (if length ciphertext < aead_NonceSize c then Inl ErrCiphertextShort
      else let nonce = take (aead_NonceSize c) ciphertext;
               ciphertext = drop (aead_NonceSize c) ciphertext
        in case aead_Open c nonce ciphertext of None \<Rightarrow> Inl ErrAEAD | Some p \<Rightarrow> Inr p)"

subsection \<open>The session manager\<close>

type_synonym sref = nat
type_synonym 'c sheap = "sref \<Rightarrow> 'c Session"

record SessionManager =
  sm_sessions :: "(string, sref option) gomap"

definition NewSessionManager :: SessionManager where
  "NewSessionManager = \<lparr>sm_sessions = []\<rparr>"

definition sm_Add :: "string \<Rightarrow> sref option \<Rightarrow> SessionManager \<Rightarrow> SessionManager" where
  "sm_Add peerID session sm = sm\<lparr>sm_sessions := gm_put peerID session (sm_sessions sm)\<rparr>"

definition sm_Get :: "SessionManager \<Rightarrow> string \<Rightarrow> sref option" where
  "sm_Get sm peerID = (case gm_get (sm_sessions sm) peerID of None \<Rightarrow> None | Some s \<Rightarrow> s)"

definition sm_Remove :: "string \<Rightarrow> SessionManager \<Rightarrow> SessionManager" where
  "sm_Remove peerID sm = sm\<lparr>sm_sessions := gm_del peerID (sm_sessions sm)\<rparr>"

definition sm_Has :: "SessionManager \<Rightarrow> string \<Rightarrow> bool" where
  "sm_Has sm peerID = gm_has (sm_sessions sm) peerID"

definition sm_Count :: "SessionManager \<Rightarrow> nat" where
  "sm_Count sm = gm_len (sm_sessions sm)"

definition sm_All :: "SessionManager \<Rightarrow> (string, sref option) gomap" where
  "sm_All sm = fold (\<lambda>e result. gm_put (fst e) (snd e) result) (sm_sessions sm) []"

definition sm_Clear :: "'c sheap \<Rightarrow> SessionManager \<Rightarrow> 'c sheap \<times> SessionManager" where
  "sm_Clear h sm =
     (fold (\<lambda>e h. case snd e of None \<Rightarrow> h | Some s \<Rightarrow> h(s := Session_Close (h s))) (sm_sessions sm) h,
      sm\<lparr>sm_sessions := []\<rparr>)"

subsection \<open>What the code relies on\<close>

text \<open>One run of the XX pattern between two library objects, as the library documents it: three
  messages, and the last one makes both sides return the same pair of cipher states, of which
  the first is for the direction from initiator to responder.\<close>

definition noise_xx_run ::
    "('h, 'c) noise_lib \<Rightarrow> 'h \<Rightarrow> 'h \<Rightarrow> bytes \<Rightarrow> bytes \<Rightarrow> bytes \<Rightarrow> 'c \<Rightarrow> 'c \<Rightarrow> 'h \<Rightarrow> 'h \<Rightarrow> bool" where
  "noise_xx_run lib i0 r0 m1 m2 m3 c1 c2 i3 r3 \<longleftrightarrow>
     (\<exists>i1 i2 r1 r2 p1 p2 p3.
        nl_write lib i0 [] = (Some (m1, None, None), i1) \<and>
        nl_read lib r0 m1 = (Some (p1, None, None), r1) \<and>
        nl_write lib r1 p1 = (Some (m2, None, None), r2) \<and>
        nl_read lib i1 m2 = (Some (p2, None, None), i2) \<and>
        nl_write lib i2 p2 = (Some (m3, Some c1, Some c2), i3) \<and>
        nl_read lib r2 m3 = (Some (p3, Some c1, Some c2), r3))"

text \<open>Two cipher states in step: what one encrypts the other decrypts, and they stay in step.\<close>

definition cipher_pair :: "('h, 'c) noise_lib \<Rightarrow> ('c \<Rightarrow> 'c \<Rightarrow> bool) \<Rightarrow> bool" where
  "cipher_pair lib R \<longleftrightarrow>
     (\<forall>c d pt ct c'. R c d \<and> nl_encrypt lib c pt = (Some ct, c') \<longrightarrow>
        (\<exists>d'. nl_decrypt lib d ct = (Some pt, d') \<and> R c' d'))"

fun encrypt_all :: "('h, 'c) noise_lib \<Rightarrow> 'c Session \<Rightarrow> bytes list \<Rightarrow> (noise_error + bytes) list" where
  "encrypt_all lib s [] = []"
| "encrypt_all lib s (p # ps) =
     (case Session_Encrypt lib s p of (r, s') \<Rightarrow> r # encrypt_all lib s' ps)"

fun decrypt_all :: "('h, 'c) noise_lib \<Rightarrow> 'c Session \<Rightarrow> bytes list \<Rightarrow> (noise_error + bytes) list" where
  "decrypt_all lib s [] = []"
| "decrypt_all lib s (p # ps) =
     (case Session_Decrypt lib s p of (r, s') \<Rightarrow> r # decrypt_all lib s' ps)"

text \<open>A handshake object fed one message after another, with the sessions it hands out.\<close>

fun process_all ::
    "('h, 'c) noise_lib \<Rightarrow> 'h HandshakeState \<Rightarrow> bytes list \<Rightarrow> 'c Session list" where
  "process_all lib h [] = []"
| "process_all lib h (m # ms) =
     (case ProcessMessage lib h m of
        (Inr (_, Some s), h') \<Rightarrow> s # process_all lib h' ms
      | (_, h') \<Rightarrow> process_all lib h' ms)"

subsection \<open>Facts\<close>

lemma ProcessMessage_completed:
  "hs_completed h \<Longrightarrow> ProcessMessage lib h m = (Inl ErrHandshakeCompleted, h)"
  by (simp add: ProcessMessage_def)

lemma ProcessMessage_session_completes:
  "ProcessMessage lib h m = (Inr (r, Some s), h') \<Longrightarrow> hs_completed h'"
  by (auto simp: ProcessMessage_def Let_def split: if_splits prod.splits option.splits)

lemma process_all_completed: "hs_completed h \<Longrightarrow> process_all lib h ms = []"
  by (induction ms) (simp_all add: ProcessMessage_completed)

lemma process_all_at_most_one: "length (process_all lib h ms) \<le> 1"
proof (induction ms arbitrary: h)
  case (Cons m ms)
  then show ?case
    by (auto split: prod.splits sum.splits option.splits
        dest!: ProcessMessage_session_completes simp: process_all_completed)
qed simp

lemma secureZero_eq: "secureZero b = replicate (length b) 0"
  by (simp add: secureZero_def copy_into_def)

lemma Session_Close_fields [simp]:
  "sendCipher (Session_Close s) = None" "recvCipher (Session_Close s) = None"
  "remoteStaticKey (Session_Close s) = None" "handshakeHash (Session_Close s) = None"
  by (simp_all add: Session_Close_def Session_Close_mem_def)

lemma Session_Close_idem [simp]: "Session_Close (Session_Close s) = Session_Close s"
  by (simp add: Session_Close_def Session_Close_mem_def)

lemma closed_session_unusable:
  "sendCipher s = None \<Longrightarrow> Session_Encrypt lib s p = (Inl ErrSessionClosed, s)"
  "recvCipher s = None \<Longrightarrow> Session_Decrypt lib s p = (Inl ErrSessionClosed, s)"
  by (simp_all add: Session_Encrypt_def Session_Decrypt_def)

lemma encrypt_step:
  assumes "cipher_pair lib R" and "sendCipher a = Some c" and "recvCipher b = Some d" and "R c d"
    and "Session_Encrypt lib a p = (Inr ct, a')"
  shows "\<exists>b' c' d'. Session_Decrypt lib b ct = (Inr p, b') \<and>
     sendCipher a' = Some c' \<and> recvCipher b' = Some d' \<and> R c' d'"
proof -
  from assms(2,5) obtain c' where c': "nl_encrypt lib c p = (Some ct, c')"
    and a': "a' = a\<lparr>sendCipher := Some c'\<rparr>"
    by (auto simp: Session_Encrypt_def split: prod.splits option.splits)
  with assms(1,4) obtain d' where "nl_decrypt lib d ct = (Some p, d')" "R c' d'"
    unfolding cipher_pair_def by blast
  with assms(3) a' show ?thesis by (simp add: Session_Decrypt_def)
qed

lemma decrypt_encrypt_all:
  assumes "cipher_pair lib R"
  shows "sendCipher a = Some c \<Longrightarrow> recvCipher b = Some d \<Longrightarrow> R c d \<Longrightarrow>
    encrypt_all lib a ps = map Inr cts \<Longrightarrow> decrypt_all lib b cts = map Inr ps"
proof (induction ps arbitrary: a b c d cts)
  case (Cons p ps)
  then obtain ct cts' a' where enc: "Session_Encrypt lib a p = (Inr ct, a')"
    and rest: "encrypt_all lib a' ps = map Inr cts'" and cts: "cts = ct # cts'"
    by (auto split: prod.splits simp: Cons_eq_map_conv)
  from encrypt_step [OF assms Cons.prems(1-3) enc] obtain b' c' d'
    where dec: "Session_Decrypt lib b ct = (Inr p, b')" and sync: "sendCipher a' = Some c'"
      "recvCipher b' = Some d'" "R c' d'"
    by blast
  show ?case using Cons.IH [OF sync rest] dec cts by simp
qed simp

lemma fold_close_other:
  "Some r \<notin> snd ` set es \<Longrightarrow>
     fold (\<lambda>e h. case snd e of None \<Rightarrow> h | Some s \<Rightarrow> h(s := Session_Close (h s))) es h r = h r"
  by (induction es arbitrary: h) (auto split: option.splits)

lemma fold_close_mem:
  "Some r \<in> snd ` set es \<Longrightarrow>
     fold (\<lambda>e h. case snd e of None \<Rightarrow> h | Some s \<Rightarrow> h(s := Session_Close (h s))) es h r
       = Session_Close (h r)"
proof (induction es arbitrary: h)
  case (Cons e es)
  then show ?case
    by (cases "Some r \<in> snd ` set es") (auto simp: fold_close_other split: option.splits)
qed simp

lemma sm_All_get: "gm_wf (sm_sessions sm) \<Longrightarrow> gm_get (sm_All sm) k = gm_get (sm_sessions sm) k"
proof -
  have *: "distinct (map fst es) \<Longrightarrow> gm_get (fold (\<lambda>e r. gm_put (fst e) (snd e) r) es acc) k
      = (case map_of es k of None \<Rightarrow> gm_get acc k | Some v \<Rightarrow> Some v)" for es acc
    by (induction es arbitrary: acc) (force split: option.splits dest: map_of_SomeD)+
  show "gm_wf (sm_sessions sm) \<Longrightarrow> ?thesis"
    by (simp add: sm_All_def * gm_wf_def split: option.splits) (simp add: gm_get_def)
qed

interpretation sm: keyed_store NewSessionManager sm_Add sm_Remove
    "\<lambda>sm. gm_get (sm_sessions sm)" "\<lambda>sm. gm_keys (sm_sessions sm)" sm_Count
    "\<lambda>sm. gm_wf (sm_sessions sm)"
  by unfold_locales
    (simp_all add: NewSessionManager_def sm_Add_def sm_Remove_def sm_Count_def
       gm.distinct_keys gm.set_keys gm.size_keys)

text \<open>Two endpoints that run the XX handshake over this code end with mirrored sessions.
  Given the library's three-message run, the initiator emits the first message, the responder
  answers it without a session, the initiator answers with the third message and its session,
  and the responder accepts it and gets its own; what one sends with, the other receives with,
  and both handshakes refuse further messages.\<close>

lemma handshake_mirrored_sessions:
  assumes "nl_new lib True (handshake_prologue secret) (take 32 privI) (take 32 pubI) = Some i0"
    and "nl_new lib False (handshake_prologue secret) (take 32 privR) (take 32 pubR) = Some r0"
    and "32 \<le> length privI" "32 \<le> length pubI" "32 \<le> length privR" "32 \<le> length pubR"
    and "noise_xx_run lib i0 r0 m1 m2 m3 c1 c2 i3 r3"
  shows "\<exists>hI hR hI' hR' hR'' sI sR.
     NewInitiatorHandshake lib t privI pubI secret = Inr (hI, m1) \<and>
     NewResponderHandshake lib t' privR pubR secret = Inr hR \<and>
     ProcessMessage lib hR m1 = (Inr (Some m2, None), hR') \<and>
     ProcessMessage lib hI m2 = (Inr (Some m3, Some sI), hI') \<and>
     ProcessMessage lib hR' m3 = (Inr (None, Some sR), hR'') \<and>
     sendCipher sI = recvCipher sR \<and> recvCipher sI = sendCipher sR \<and>
     sendCipher sI = Some c1 \<and> recvCipher sI = Some c2 \<and>
     RemotePublicKey sI = Some (nl_peer_static lib i3) \<and>
     RemotePublicKey sR = Some (nl_peer_static lib r3) \<and>
     hs_completed hI' \<and> hs_completed hR'' \<and>
     (\<forall>m. fst (ProcessMessage lib hI' m) = Inl ErrHandshakeCompleted) \<and>
     (\<forall>m. fst (ProcessMessage lib hR'' m) = Inl ErrHandshakeCompleted)"
proof -
  from assms(7) obtain i1 i2 r1 r2 p1 p2 p3 where run:
    "nl_write lib i0 [] = (Some (m1, None, None), i1)"
    "nl_read lib r0 m1 = (Some (p1, None, None), r1)"
    "nl_write lib r1 p1 = (Some (m2, None, None), r2)"
    "nl_read lib i1 m2 = (Some (p2, None, None), i2)"
    "nl_write lib i2 p2 = (Some (m3, Some c1, Some c2), i3)"
    "nl_read lib r2 m3 = (Some (p3, Some c1, Some c2), r3)"
    unfolding noise_xx_run_def by blast
  show ?thesis
    using assms(1-6) run
    by (simp add: NewInitiatorHandshake_def NewResponderHandshake_def ProcessMessage_def
        make_session_def RemotePublicKey_def)
qed

subsection \<open>Properties\<close>

text \<open>C11: whatever messages arrive, a handshake object hands out at most one session, and once it
  has, it answers every further message with the error that it is complete and stays as it is.\<close>

theorem handshake_single_session:
  "length (process_all lib h ms) \<le> 1 \<and>
   (hs_completed h \<longrightarrow> process_all lib h ms = [] \<and>
      ProcessMessage lib h m = (Inl ErrHandshakeCompleted, h)) \<and>
   (\<forall>r s h'. ProcessMessage lib h m = (Inr (r, Some s), h') \<longrightarrow> hs_completed h')"
  using process_all_at_most_one process_all_completed ProcessMessage_completed
    ProcessMessage_session_completes by blast


text \<open>Closing a session leaves no cipher and no key behind: both directions answer every
  request with the closed error and stay closed, the memory of the two key slices holds only
  zeros of the same length, and closing again changes nothing.\<close>

theorem session_close_erases:
  "Session_Encrypt lib (Session_Close s) p = (Inl ErrSessionClosed, Session_Close s) \<and>
   Session_Decrypt lib (Session_Close s) p = (Inl ErrSessionClosed, Session_Close s) \<and>
   RemotePublicKey (Session_Close s) = None \<and> HandshakeHash (Session_Close s) = None \<and>
   Session_Close_mem s = (Session_Close s,
     map_option (\<lambda>k. replicate (length k) 0) (remoteStaticKey s),
     map_option (\<lambda>k. replicate (length k) 0) (handshakeHash s)) \<and>
   Session_Close (Session_Close s) = Session_Close s"
proof -
  have "secureZero = (\<lambda>k. replicate (length k) 0)"
    by (rule ext) (rule secureZero_eq)
  then show ?thesis
    by (simp add: closed_session_unusable RemotePublicKey_def HandshakeHash_def)
      (simp add: Session_Close_def Session_Close_mem_def)
qed

text \<open>Clearing the session manager closes every session it holds, touches no other session,
  and leaves it empty.\<close>

theorem session_manager_clear:
  "case sm_Clear h sm of (h', sm') \<Rightarrow>
     (\<forall>r. h' r = (if Some r \<in> snd ` set (sm_sessions sm) then Session_Close (h r) else h r)) \<and>
     sm_Count sm' = 0 \<and> (\<forall>k. sm_Get sm' k = None \<and> \<not> sm_Has sm' k)"
  by (simp add: sm_Clear_def fold_close_mem fold_close_other sm_Count_def sm_Get_def sm_Has_def
      gm_len_def gm_has_get)

text \<open>What the stand-alone AES-GCM cipher encrypts under a nonce of the cipher's size, it
  decrypts again, provided the authenticated cipher opens what it sealed; a key that is not 32
  bytes long or a ciphertext shorter than the nonce is refused.\<close>

theorem aesgcm_roundtrip:
  assumes "\<And>n p. aead_Open c n (aead_Seal c n p) = Some p" and "length nonce = aead_NonceSize c"
  shows "AESGCM_Decrypt c (AESGCM_Encrypt c nonce p) = Inr p \<and>
    (length short < aead_NonceSize c \<longrightarrow> AESGCM_Decrypt c short = Inl ErrCiphertextShort) \<and>
    (length key \<noteq> 32 \<longrightarrow> NewAESGCMCipher newGCM key = Inl ErrKeyLength)"
  using assms by (simp add: AESGCM_Decrypt_def AESGCM_Encrypt_def NewAESGCMCipher_def Let_def)

subsection \<open>Witnesses\<close>

text \<open>A small library with the documented behaviour: the handshake objects count through the
  pattern, and a cipher state is a counter that is put in front of the plaintext.\<close>

definition demo_noise :: "(nat, nat) noise_lib" where
  "demo_noise =
     \<lparr>nl_new = (\<lambda>initiator prologue priv pub. Some (if initiator then 0 else 10)),
      nl_write = (\<lambda>h p. if h = 0 then (Some ([1], None, None), 1)
         else if h = 11 then (Some ([2], None, None), 12)
         else if h = 2 then (Some ([3], Some 100, Some 200), 3) else (None, h)),
      nl_read = (\<lambda>h m. if h = 10 \<and> m = [1] then (Some ([], None, None), 11)
         else if h = 1 \<and> m = [2] then (Some ([], None, None), 2)
         else if h = 12 \<and> m = [3] then (Some ([], Some 100, Some 200), 13) else (None, h)),
      nl_peer_static = (\<lambda>h. replicate 32 (of_nat h)),
      nl_channel_binding = (\<lambda>h. [42]),
      nl_encrypt = (\<lambda>c p. (Some (of_nat c # p), Suc c)),
      nl_decrypt = (\<lambda>c ct. case ct of [] \<Rightarrow> (None, c)
         | b # p \<Rightarrow> if b = of_nat c then (Some p, Suc c) else (None, c))\<rparr>"

lemma demo_cipher_pair: "cipher_pair demo_noise (=)"
  by (simp add: cipher_pair_def demo_noise_def)

lemma demo_xx_run: "noise_xx_run demo_noise 0 10 [1] [2] [3] 100 200 3 13"
  by (simp add: noise_xx_run_def demo_noise_def)

theorem handshake_single_session_witness:
  "process_all demo_noise
     \<lparr>hs_noise = 13, hs_isInitiator = False, hs_completed = True, hs_createdAt = 0\<rparr> [[1], [2]] = []"
  using handshake_single_session [of demo_noise
      "\<lparr>hs_noise = 13, hs_isInitiator = False, hs_completed = True, hs_createdAt = 0\<rparr>" "[[1], [2]]"]
  by simp

definition demo_session :: "nat Session" where
  "demo_session = \<lparr>sendCipher = Some 0, recvCipher = Some 0, remoteStaticKey = Some [1],
     handshakeHash = Some [2]\<rparr>"


theorem aesgcm_roundtrip_witness:
  "AESGCM_Decrypt \<lparr>aead_NonceSize = 2, aead_Seal = (\<lambda>n p. rev p), aead_Open = (\<lambda>n c. Some (rev c))\<rparr>
     (AESGCM_Encrypt \<lparr>aead_NonceSize = 2, aead_Seal = (\<lambda>n p. rev p), aead_Open = (\<lambda>n c. Some (rev c))\<rparr>
        [1, 2] [3, 4]) = Inr [3, 4]"
  using aesgcm_roundtrip [of
      "\<lparr>aead_NonceSize = 2, aead_Seal = (\<lambda>n p. rev p), aead_Open = (\<lambda>n c. Some (rev c))\<rparr>" "[1, 2]"]
  by simp

end
