(* ===== verification/Peer.thy ===== *)
theory Peer
  imports Noise_Session
begin

text \<open>
  One remote node and the table of them: \<open>peer/peer.go\<close>. A peer is a record of the struct's
  fields (the two mutexes aside: every method holds the lock for its whole body, so a method is
  one step). Sessions and connections are shared by pointer and compared by pointer, so a peer
  holds a reference to its session and the handle of its connection; \<open>world\<close> keeps the sessions
  and the connections that have been closed. \<open>time.Now()\<close> is an argument.
\<close>

subsection \<open>Data\<close>

datatype ConnState =
  StateDisconnected | StateConnecting | StateHandshaking | StateConnected | StateDisconnecting

fun ConnState_String :: "ConnState \<Rightarrow> string" where
  "ConnState_String StateDisconnected = ''Disconnected''"
| "ConnState_String StateConnecting = ''Connecting''"
| "ConnState_String StateHandshaking = ''Handshaking''"
| "ConnState_String StateConnected = ''Connected''"
| "ConnState_String StateDisconnecting = ''Disconnecting''"

record 'c world =
  w_sess :: "'c sheap"
  w_closed :: "conn list"

record Peer =
  ID :: string
  Addr :: "netaddr option"
  OriginalAddr :: string
  Conn :: "conn option"
  Transport :: string
  LinkMode :: string
  RelayTarget :: "netaddr option"
  PSession :: "sref option"
  LastSeen :: gotime
  RemoteChannels :: "(bytes, unit) gomap option"
  PState :: ConnState
  ConnectedAt :: gotime
  BytesSent :: int
  BytesReceived :: int
  MessagesSent :: int
  MessagesRecv :: int
  ConnectLatency :: duration
  ReassemblyBuffer :: "bytes option"
  LastFrameTime :: gotime
  consecutiveDecryptFails :: int
  consecutiveRehandshakeFails :: int
  rehandshakeInFlight :: bool
  rehandshakeBackoff :: duration
  rehandshakeNextAttempt :: gotime
  rehandshakeWindowStart :: gotime
  rehandshakeWindowCount :: int

record PeerStats =
  st_State :: ConnState
  st_Transport :: string
  st_LinkMode :: string
  st_ConnectedAt :: gotime
  st_LastSeen :: gotime
  st_BytesSent :: int
  st_BytesReceived :: int
  st_MessagesSent :: int
  st_MessagesRecv :: int
  st_ConnectLatency :: duration

subsection \<open>Reassembly of fragments\<close>

definition resetReassemblyLocked :: "Peer \<Rightarrow> Peer" where
  "resetReassemblyLocked p = p\<lparr>ReassemblyBuffer := None, LastFrameTime := 0\<rparr>"

definition ResetReassembly :: "Peer \<Rightarrow> Peer" where
  "ResetReassembly p = resetReassemblyLocked p"

definition StartReassembly :: "gotime \<Rightarrow> Peer \<Rightarrow> bytes \<Rightarrow> Peer" where
  "StartReassembly now p frameData = p\<lparr>ReassemblyBuffer := Some frameData, LastFrameTime := now\<rparr>"

definition AppendReassembly :: "gotime \<Rightarrow> Peer \<Rightarrow> bytes \<Rightarrow> nat \<Rightarrow> (bool \<times> bool) \<times> Peer" where
  "AppendReassembly now p frameData maxSize =
     (case ReassemblyBuffer p of
        None \<Rightarrow> ((False, False), p)
      | Some buf \<Rightarrow>
          if maxSize < length buf + length frameData then ((False, True), resetReassemblyLocked p)
          else ((True, False), p\<lparr>ReassemblyBuffer := Some (buf @ frameData), LastFrameTime := now\<rparr>))"

definition FinishReassembly :: "Peer \<Rightarrow> bytes \<Rightarrow> nat \<Rightarrow> (bytes \<times> bool \<times> bool) \<times> Peer" where
  "FinishReassembly p frameData maxSize =
     (case ReassemblyBuffer p of
        None \<Rightarrow> (([], False, False), p)
      | Some buf \<Rightarrow>
          if maxSize < length buf + length frameData then (([], False, True), resetReassemblyLocked p)
          else ((buf @ frameData, True, False), resetReassemblyLocked p))"

subsection \<open>Transport, session and life cycle\<close>

definition close_conn :: "conn option \<Rightarrow> 'c world \<Rightarrow> 'c world" where
  "close_conn c w = (case c of None \<Rightarrow> w | Some k \<Rightarrow> w\<lparr>w_closed := k # w_closed w\<rparr>)"

definition close_session :: "sref option \<Rightarrow> 'c world \<Rightarrow> 'c world" where
  "close_session s w =
     (case s of None \<Rightarrow> w | Some r \<Rightarrow> w\<lparr>w_sess := (w_sess w)(r := Session_Close (w_sess w r))\<rparr>)"

definition clear_rehandshake :: "Peer \<Rightarrow> Peer" where
  "clear_rehandshake p = p\<lparr>consecutiveDecryptFails := 0, consecutiveRehandshakeFails := 0,
     rehandshakeBackoff := 0, rehandshakeNextAttempt := 0, rehandshakeWindowStart := 0,
     rehandshakeWindowCount := 0, rehandshakeInFlight := False\<rparr>"

definition UpgradeTransport ::
    "gotime \<Rightarrow> 'c world \<Rightarrow> Peer \<Rightarrow> netaddr option \<Rightarrow> conn option \<Rightarrow> string \<Rightarrow> sref option \<Rightarrow> 'c world \<times> Peer" where
  "UpgradeTransport now w p addr conn transport session =
     (if Transport p = ''tcp'' \<and> transport \<noteq> ''tcp'' then (w, p)
      else
        let w1 = (if Conn p \<noteq> None \<and> Conn p \<noteq> conn \<and> Transport p \<noteq> ''udp''
                  then close_conn (Conn p) w else w);
            w2 = (if PSession p \<noteq> None \<and> PSession p \<noteq> session
                  then close_session (PSession p) w1 else w1)
        in (w2, clear_rehandshake (p\<lparr>Addr := addr, Conn := conn, Transport := transport,
                  PSession := session, LastSeen := now\<rparr>)))"

definition SetLinkMode :: "string \<Rightarrow> netaddr option \<Rightarrow> Peer \<Rightarrow> Peer" where
  "SetLinkMode mode relayTarget p = p\<lparr>LinkMode := mode, RelayTarget := relayTarget\<rparr>"

definition GetTransportInfo :: "Peer \<Rightarrow> string \<times> netaddr option \<times> conn option" where
  "GetTransportInfo p = (Transport p, Addr p, Conn p)"

definition GetSession :: "Peer \<Rightarrow> sref option" where
  "GetSession p = PSession p"

definition GetLinkMode :: "Peer \<Rightarrow> string" where
  "GetLinkMode p = LinkMode p"

definition UpdateLastSeen :: "gotime \<Rightarrow> Peer \<Rightarrow> Peer" where
  "UpdateLastSeen now p = p\<lparr>LastSeen := now\<rparr>"

definition GetLastSeen :: "Peer \<Rightarrow> gotime" where
  "GetLastSeen p = LastSeen p"

definition GetOriginalAddr :: "Peer \<Rightarrow> string" where
  "GetOriginalAddr p = OriginalAddr p"

definition Peer_Close :: "'c world \<Rightarrow> Peer \<Rightarrow> 'c world \<times> Peer" where
  "Peer_Close w p =
     (let p1 = p\<lparr>PState := StateDisconnected\<rparr>;
          w1 = close_session (PSession p1) w;
          p2 = p1\<lparr>PSession := None\<rparr>;
          (w2, p3) = (if Conn p2 \<noteq> None \<and> Transport p2 = ''tcp''
                      then (close_conn (Conn p2) w1, p2\<lparr>Conn := None\<rparr>) else (w1, p2))
      in (w2, clear_rehandshake p3))"

definition SetState :: "gotime \<Rightarrow> ConnState \<Rightarrow> Peer \<Rightarrow> Peer" where
  "SetState now state p =
     (let p = p\<lparr>PState := state\<rparr>
      in if state = StateConnected \<and> time_IsZero (ConnectedAt p) then p\<lparr>ConnectedAt := now\<rparr> else p)"

definition GetState :: "Peer \<Rightarrow> ConnState" where
  "GetState p = PState p"

subsection \<open>Remote channels\<close>

definition AddRemoteChannel :: "bytes \<Rightarrow> Peer \<Rightarrow> Peer" where
  "AddRemoteChannel channelHash p =
     (let m = (case RemoteChannels p of None \<Rightarrow> [] | Some m \<Rightarrow> m)
      in p\<lparr>RemoteChannels := Some (gm_put channelHash () m)\<rparr>)"

definition RemoveRemoteChannel :: "bytes \<Rightarrow> Peer \<Rightarrow> Peer" where
  "RemoveRemoteChannel channelHash p =
     (case RemoteChannels p of None \<Rightarrow> p
      | Some m \<Rightarrow> p\<lparr>RemoteChannels := Some (gm_del channelHash m)\<rparr>)"

definition HasRemoteChannel :: "Peer \<Rightarrow> bytes \<Rightarrow> bool" where
  "HasRemoteChannel p channelHash =
     (case RemoteChannels p of None \<Rightarrow> False | Some m \<Rightarrow> gm_has m channelHash)"

subsection \<open>Statistics\<close>

definition AddBytesSent :: "int \<Rightarrow> Peer \<Rightarrow> Peer" where
  "AddBytesSent n p = p\<lparr>BytesSent := wrap64 (BytesSent p + n), MessagesSent := wrap64 (MessagesSent p + 1)\<rparr>"

definition AddBytesReceived :: "int \<Rightarrow> Peer \<Rightarrow> Peer" where
  "AddBytesReceived n p =
     p\<lparr>BytesReceived := wrap64 (BytesReceived p + n), MessagesRecv := wrap64 (MessagesRecv p + 1)\<rparr>"

definition GetStats :: "Peer \<Rightarrow> PeerStats" where
  "GetStats p = \<lparr>st_State = PState p, st_Transport = Transport p, st_LinkMode = LinkMode p,
     st_ConnectedAt = ConnectedAt p, st_LastSeen = LastSeen p, st_BytesSent = BytesSent p,
     st_BytesReceived = BytesReceived p, st_MessagesSent = MessagesSent p,
     st_MessagesRecv = MessagesRecv p, st_ConnectLatency = ConnectLatency p\<rparr>"

subsection \<open>The peer store\<close>

text \<open>The store maps an ID to a pointer; the peers themselves live in a heap.\<close>

type_synonym pref = nat
type_synonym pheap = "pref \<Rightarrow> Peer"
type_synonym PeerStore = "(string, pref) gomap"

definition NewPeerStore :: PeerStore where
  "NewPeerStore = []"

definition ps_Add :: "pheap \<Rightarrow> pref \<Rightarrow> PeerStore \<Rightarrow> PeerStore" where
  "ps_Add h p ps = gm_put (ID (h p)) p ps"

definition ps_Remove :: "string \<Rightarrow> PeerStore \<Rightarrow> PeerStore" where
  "ps_Remove pid ps = gm_del pid ps"

definition ps_Get :: "PeerStore \<Rightarrow> string \<Rightarrow> pref option" where
  "ps_Get ps pid = gm_get ps pid"

definition ps_IDs :: "PeerStore \<Rightarrow> string list" where
  "ps_IDs ps = gm_keys ps"

definition ps_Count :: "PeerStore \<Rightarrow> nat" where
  "ps_Count ps = gm_len ps"

subsection \<open>Decryption failures and fast re-handshake\<close>

datatype peer_error = ErrNoSession | ErrSession noise_error

definition Peer_Decrypt ::
    "('h, 'c) noise_lib \<Rightarrow> 'c world \<Rightarrow> Peer \<Rightarrow> bytes \<Rightarrow> (peer_error + bytes) \<times> 'c world" where
  "Peer_Decrypt lib w p payload =
     (case PSession p of
        None \<Rightarrow> (Inl ErrNoSession, w)
      | Some r \<Rightarrow>
          (case Session_Decrypt lib (w_sess w r) payload of
             (Inl e, s') \<Rightarrow> (Inl (ErrSession e), w\<lparr>w_sess := (w_sess w)(r := s')\<rparr>)
           | (Inr pt, s') \<Rightarrow> (Inr pt, w\<lparr>w_sess := (w_sess w)(r := s')\<rparr>)))"

definition IncDecryptFailures :: "Peer \<Rightarrow> int \<times> Peer" where
  "IncDecryptFailures p =
     (let c = wrap64 (consecutiveDecryptFails p + 1) in (c, p\<lparr>consecutiveDecryptFails := c\<rparr>))"

definition ResetDecryptFailures :: "Peer \<Rightarrow> Peer" where
  "ResetDecryptFailures p = p\<lparr>consecutiveDecryptFails := 0\<rparr>"

definition TryBeginRehandshake :: "Peer \<Rightarrow> bool \<times> Peer" where
  "TryBeginRehandshake p =
     (if rehandshakeInFlight p then (False, p) else (True, p\<lparr>rehandshakeInFlight := True\<rparr>))"

definition EndRehandshake :: "Peer \<Rightarrow> Peer" where
  "EndRehandshake p = p\<lparr>rehandshakeInFlight := False\<rparr>"

definition ReserveRehandshakeAttempt ::
    "gotime \<Rightarrow> duration \<Rightarrow> int \<Rightarrow> Peer \<Rightarrow> (bool \<times> duration) \<times> Peer" where
  "ReserveRehandshakeAttempt now window maxInWindow p =
     (if \<not> time_IsZero (rehandshakeNextAttempt p) \<and> time_Before now (rehandshakeNextAttempt p)
      then ((False, time_Sub (rehandshakeNextAttempt p) now), p)
      else
        let p1 = (if 0 < window \<and> (time_IsZero (rehandshakeWindowStart p) \<or>
                       window \<le> time_Sub now (rehandshakeWindowStart p))
                  then p\<lparr>rehandshakeWindowStart := now, rehandshakeWindowCount := 0\<rparr> else p)
        in if 0 < window \<and> 0 < maxInWindow \<and> maxInWindow \<le> rehandshakeWindowCount p1
           then let wait = time_Sub (time_Add (rehandshakeWindowStart p1) window) now
                in ((False, if wait < 0 then 0 else wait), p1)
           else ((True, 0), p1\<lparr>rehandshakeWindowCount := wrap64 (rehandshakeWindowCount p1 + 1)\<rparr>))"

definition RecordRehandshakeFailure ::
    "gotime \<Rightarrow> duration \<Rightarrow> duration \<Rightarrow> Peer \<Rightarrow> (int \<times> duration) \<times> Peer" where
  "RecordRehandshakeFailure now baseBackoff maxBackoff p =
     (let baseBackoff = (if baseBackoff \<le> 0 then second else baseBackoff);
          maxBackoff = (if 0 < maxBackoff \<and> maxBackoff < baseBackoff then baseBackoff else maxBackoff);
          fails = wrap64 (consecutiveRehandshakeFails p + 1);
          b1 = (if rehandshakeBackoff p \<le> 0 then baseBackoff
                else let d = wrap64 (rehandshakeBackoff p * 2)
                     in if d < baseBackoff then baseBackoff else d);
          b2 = (if 0 < maxBackoff \<and> maxBackoff < b1 then maxBackoff else b1)
      in ((fails, b2), p\<lparr>consecutiveRehandshakeFails := fails, rehandshakeBackoff := b2,
                         rehandshakeNextAttempt := time_Add now b2\<rparr>))"

definition RecordRehandshakeSuccess :: "gotime \<Rightarrow> duration \<Rightarrow> Peer \<Rightarrow> Peer" where
  "RecordRehandshakeSuccess now cooldown p =
     p\<lparr>consecutiveRehandshakeFails := 0, rehandshakeBackoff := 0,
       rehandshakeNextAttempt := (if 0 < cooldown then time_Add now cooldown else 0)\<rparr>"

subsection \<open>Facts about sessions and connections\<close>

lemma w_sess_close_conn [simp]: "w_sess (close_conn c w) = w_sess w"
  by (simp add: close_conn_def split: option.splits)

lemma w_closed_close_session [simp]: "w_closed (close_session s w) = w_closed w"
  by (simp add: close_session_def split: option.splits)

lemma w_sess_close_session [simp]:
  "w_sess (close_session s w) r = (if s = Some r then Session_Close (w_sess w r) else w_sess w r)"
  by (simp add: close_session_def split: option.splits)

lemma w_closed_close_conn [simp]:
  "set (w_closed (close_conn c w)) = set_option c \<union> set (w_closed w)"
  by (simp add: close_conn_def split: option.splits)

lemma clear_rehandshake_fields [simp]:
  "ID (clear_rehandshake p) = ID p" "Addr (clear_rehandshake p) = Addr p"
  "OriginalAddr (clear_rehandshake p) = OriginalAddr p" "Conn (clear_rehandshake p) = Conn p"
  "Transport (clear_rehandshake p) = Transport p" "LinkMode (clear_rehandshake p) = LinkMode p"
  "RelayTarget (clear_rehandshake p) = RelayTarget p" "PSession (clear_rehandshake p) = PSession p"
  "LastSeen (clear_rehandshake p) = LastSeen p" "PState (clear_rehandshake p) = PState p"
  "RemoteChannels (clear_rehandshake p) = RemoteChannels p"
  "ReassemblyBuffer (clear_rehandshake p) = ReassemblyBuffer p"
  "consecutiveDecryptFails (clear_rehandshake p) = 0"
  "consecutiveRehandshakeFails (clear_rehandshake p) = 0"
  "rehandshakeInFlight (clear_rehandshake p) = False"
  "rehandshakeBackoff (clear_rehandshake p) = 0"
  "rehandshakeNextAttempt (clear_rehandshake p) = 0"
  "rehandshakeWindowStart (clear_rehandshake p) = 0"
  "rehandshakeWindowCount (clear_rehandshake p) = 0"
  by (simp_all add: clear_rehandshake_def)

lemma UpgradeTransport_ID [simp]: "ID (snd (UpgradeTransport now w p addr c t s)) = ID p"
  by (simp add: UpgradeTransport_def Let_def)

lemma Peer_Close_ID [simp]: "ID (snd (Peer_Close w p)) = ID p"
  by (simp add: Peer_Close_def Let_def)

interpretation ps: keyed_store NewPeerStore gm_put ps_Remove ps_Get ps_IDs ps_Count gm_wf
  by unfold_locales
    (simp_all add: NewPeerStore_def ps_Remove_def ps_Get_def ps_IDs_def ps_Count_def
       gm.distinct_keys gm.set_keys gm.size_keys)

subsection \<open>The reassembly machine\<close>

text \<open>What the data path may do to a peer's reassembly buffer, with fragments of at most
  \<open>frag\<close> bytes and the limit \<open>maxSize\<close>.\<close>

inductive reassembly_step :: "nat \<Rightarrow> nat \<Rightarrow> Peer \<Rightarrow> Peer \<Rightarrow> bool" for frag maxSize where
  reset: "reassembly_step frag maxSize p (ResetReassembly p)"
| start: "length d \<le> frag \<Longrightarrow> reassembly_step frag maxSize p (StartReassembly now p d)"
| append: "length d \<le> frag \<Longrightarrow>
     reassembly_step frag maxSize p (snd (AppendReassembly now p d maxSize))"
| finish: "length d \<le> frag \<Longrightarrow>
     reassembly_step frag maxSize p (snd (FinishReassembly p d maxSize))"

definition buffer_within :: "nat \<Rightarrow> Peer \<Rightarrow> bool" where
  "buffer_within m p \<longleftrightarrow> (case ReassemblyBuffer p of None \<Rightarrow> True | Some b \<Rightarrow> length b \<le> m)"

lemma reassembly_step_within:
  "reassembly_step frag maxSize p q \<Longrightarrow> buffer_within (max frag maxSize) p \<Longrightarrow>
     buffer_within (max frag maxSize) q"
  by (induction rule: reassembly_step.induct)
    (auto simp: buffer_within_def ResetReassembly_def resetReassemblyLocked_def StartReassembly_def
       AppendReassembly_def FinishReassembly_def split: option.splits)

interpretation reasm: invariant_relation "\<lambda>p. ReassemblyBuffer p = None" "reassembly_step frag maxSize"
    "buffer_within (max frag maxSize)" for frag maxSize
  by unfold_locales (simp add: buffer_within_def, rule reassembly_step_within)

subsection \<open>The re-handshake gate\<close>

text \<open>The operations that touch the gate's fields between two handshakes, as one machine; a run
  lists the instants of the granted attempts.\<close>

datatype gate_event =
  GReserve gotime
| GFailure gotime duration duration
| GSuccess gotime duration
| GBegin
| GEnd
| GDecryptFail
| GDecryptOK

fun gate_step :: "duration \<Rightarrow> int \<Rightarrow> Peer \<Rightarrow> gate_event \<Rightarrow> gotime option \<times> Peer" where
  "gate_step window maxInWindow p (GReserve now) =
     (case ReserveRehandshakeAttempt now window maxInWindow p of
        ((ok, _), p') \<Rightarrow> (if ok then Some now else None, p'))"
| "gate_step window maxInWindow p (GFailure now b m) = (None, snd (RecordRehandshakeFailure now b m p))"
| "gate_step window maxInWindow p (GSuccess now c) = (None, RecordRehandshakeSuccess now c p)"
| "gate_step window maxInWindow p GBegin = (None, snd (TryBeginRehandshake p))"
| "gate_step window maxInWindow p GEnd = (None, EndRehandshake p)"
| "gate_step window maxInWindow p GDecryptFail = (None, snd (IncDecryptFailures p))"
| "gate_step window maxInWindow p GDecryptOK = (None, ResetDecryptFailures p)"

fun grants :: "duration \<Rightarrow> int \<Rightarrow> Peer \<Rightarrow> gate_event list \<Rightarrow> gotime list" where
  "grants window maxInWindow p [] = []"
| "grants window maxInWindow p (e # es) =
     (case gate_step window maxInWindow p e of
        (None, p') \<Rightarrow> grants window maxInWindow p' es
      | (Some t, p') \<Rightarrow> t # grants window maxInWindow p' es)"

fun reserve_times :: "gate_event list \<Rightarrow> gotime list" where
  "reserve_times [] = []"
| "reserve_times (GReserve t # es) = t # reserve_times es"
| "reserve_times (_ # es) = reserve_times es"

definition in_window :: "gotime \<Rightarrow> duration \<Rightarrow> gotime list \<Rightarrow> nat" where
  "in_window a d ts = length (filter (\<lambda>t. a \<le> t \<and> t < a + d) ts)"

abbreviation wstart :: "Peer \<Rightarrow> gotime" where "wstart \<equiv> rehandshakeWindowStart"
abbreviation wcount :: "Peer \<Rightarrow> int" where "wcount \<equiv> rehandshakeWindowCount"

text \<open>What one reservation does to the window: nothing when it is refused; otherwise it counts,
  in the current window or in one it opens.\<close>

lemma reserve_cases:
  assumes "ReserveRehandshakeAttempt now window mx p = ((ok, d), p')"
    and "0 < window" "in64 window" "0 < mx" "in64 mx" "0 \<le> wcount p" "wcount p \<le> mx"
  shows "(\<not> ok \<and> p' = p)
    \<or> (ok \<and> wstart p \<noteq> 0 \<and> now < wstart p + window \<and> wcount p < mx \<and>
        wstart p' = wstart p \<and> wcount p' = wcount p + 1)
    \<or> (ok \<and> (wstart p = 0 \<or> wstart p + window \<le> now) \<and> wstart p' = now \<and> wcount p' = 1)"
proof (cases "rehandshakeNextAttempt p \<noteq> 0 \<and> now < rehandshakeNextAttempt p")
  case True
  with assms(1) show ?thesis
    by (simp add: ReserveRehandshakeAttempt_def time_IsZero_def time_Before_def)
next
  case False
  have sub: "window \<le> time_Sub now (wstart p) \<longleftrightarrow> wstart p + window \<le> now"
    using time_Sub_ge_iff [OF assms(2,3), of now "wstart p"] by linarith
  have free: "\<not> (\<not> time_IsZero (rehandshakeNextAttempt p) \<and> time_Before now (rehandshakeNextAttempt p))"
    using False by (simp add: time_IsZero_def time_Before_def)
  show ?thesis
  proof (cases "wstart p = 0 \<or> wstart p + window \<le> now")
    case True
    then have "0 < window \<and> (time_IsZero (wstart p) \<or> window \<le> time_Sub now (wstart p))"
      using assms(2) sub by (auto simp: time_IsZero_def)
    then have "ReserveRehandshakeAttempt now window mx p =
        ((True, 0), p\<lparr>rehandshakeWindowStart := now, rehandshakeWindowCount := 1\<rparr>)"
      unfolding ReserveRehandshakeAttempt_def if_not_P [OF free] Let_def
      using assms(4) by (simp add: wrap64_def)
    with assms(1) True show ?thesis by auto
  next
    case opened: False
    then have "\<not> (0 < window \<and> (time_IsZero (wstart p) \<or> window \<le> time_Sub now (wstart p)))"
      using sub by (auto simp: time_IsZero_def)
    then have eq: "ReserveRehandshakeAttempt now window mx p =
        (if mx \<le> wcount p
         then ((False, max 0 (time_Sub (time_Add (wstart p) window) now)), p)
         else ((True, 0), p\<lparr>rehandshakeWindowCount := wrap64 (wcount p + 1)\<rparr>))"
      unfolding ReserveRehandshakeAttempt_def if_not_P [OF free] Let_def
      using assms(2,4) by (simp add: max_def)
    have "wcount p < mx \<Longrightarrow> wrap64 (wcount p + 1) = wcount p + 1"
      using assms(5,6) by (intro wrap64_id) (auto simp: in64_def)
    with eq assms(1) opened show ?thesis by (auto split: if_splits)
  qed
qed

lemma gate_step_frame:
  "gate_step window mx p e = (r, p') \<Longrightarrow> (\<And>t. e \<noteq> GReserve t) \<Longrightarrow>
     r = None \<and> wstart p' = wstart p \<and> wcount p' = wcount p"
  by (cases e)
    (auto simp: RecordRehandshakeFailure_def RecordRehandshakeSuccess_def TryBeginRehandshake_def
       EndRehandshake_def IncDecryptFailures_def ResetDecryptFailures_def Let_def)

text \<open>One event of a run, seen through the window's two fields: either no grant and an unchanged
  window, or a grant counted in the window, or a grant that opens a window.\<close>

lemma gate_step_cases:
  assumes "gate_step window mx p e = (r, p')"
    and "0 < window" "in64 window" "0 < mx" "in64 mx" "0 \<le> wcount p" "wcount p \<le> mx"
  obtains (quiet) "r = None" "wstart p' = wstart p" "wcount p' = wcount p"
    | (counted) t where "e = GReserve t" "r = Some t" "t < wstart p + window" "wcount p < mx"
        "wstart p' = wstart p" "wcount p' = wcount p + 1"
    | (opened) t where "e = GReserve t" "r = Some t" "wstart p' = t" "wcount p' = 1"
        "wstart p = 0 \<or> wstart p + window \<le> t"
proof (cases "\<exists>t. e = GReserve t")
  case True
  then obtain t where t: "e = GReserve t" by blast
  obtain ok d q where res: "ReserveRehandshakeAttempt t window mx p = ((ok, d), q)"
    by (metis surj_pair)
  with t assms(1) have "r = (if ok then Some t else None)" "p' = q" by simp_all
  with reserve_cases [OF res assms(2-7)] t that show ?thesis by fastforce
next
  case False
  with gate_step_frame [OF assms(1)] that(1) show ?thesis by metis
qed

lemma grants_ge: "\<forall>t \<in> set (reserve_times es). a \<le> t \<Longrightarrow> \<forall>t \<in> set (grants w m p es). a \<le> t"
proof (induction es arbitrary: p)
  case (Cons e es)
  then show ?case by (cases e) (auto split: prod.splits option.splits if_splits)
qed simp

lemma in_window_Cons [simp]:
  "in_window a d (t # ts) = (if a \<le> t \<and> t < a + d then Suc (in_window a d ts) else in_window a d ts)"
  by (simp add: in_window_def)

lemma in_window_Nil [simp]: "in_window a d [] = 0"
  by (simp add: in_window_def)

text \<open>Inside a window that was opened at or after \<open>a\<close>, only what is left of its budget is
  granted before \<open>a + window\<close>.\<close>

lemma sorted_reserve_tl: "sorted (reserve_times (e # es)) \<Longrightarrow> sorted (reserve_times es)"
  by (cases e) auto

lemma grants_in_open_window:
  assumes "0 < window" "in64 window" "0 < mx" "in64 mx"
  shows "0 \<le> wcount p \<Longrightarrow> wcount p \<le> mx \<Longrightarrow> wstart p \<noteq> 0 \<Longrightarrow> a \<le> wstart p \<Longrightarrow>
    sorted (reserve_times es) \<Longrightarrow>
    int (in_window a window (grants window mx p es)) \<le> mx - wcount p"
proof (induction es arbitrary: p)
  case (Cons e es)
  obtain r p' where st: "gate_step window mx p e = (r, p')" by (metis surj_pair)
  have srt: "sorted (reserve_times es)" using Cons.prems(5) by (rule sorted_reserve_tl)
  from st assms Cons.prems(1,2) show ?case
  proof (cases rule: gate_step_cases)
    case quiet
    with Cons.IH [of p'] Cons.prems srt st show ?thesis by simp
  next
    case (counted t)
    with Cons.IH [of p'] Cons.prems srt st show ?thesis by simp
  next
    case (opened t)
    then have "a + window \<le> t" using Cons.prems(3,4) by simp
    moreover have "\<forall>u \<in> set (grants window mx p' es). t \<le> u"
      using Cons.prems(5) opened(1) by (intro grants_ge) simp
    ultimately have "in_window a window (grants window mx p (e # es)) = 0"
      using st opened(2) by (auto simp: in_window_def filter_empty_conv)
    with Cons.prems(2) show ?thesis by simp
  qed
qed simp

lemma grants_after:
  assumes "0 < window" "in64 window" "0 < mx" "in64 mx"
  shows "0 \<le> wcount p \<Longrightarrow> wcount p \<le> mx \<Longrightarrow> sorted (reserve_times es) \<Longrightarrow>
    \<forall>t \<in> set (reserve_times es). a \<le> t \<and> 0 < t \<Longrightarrow>
    int (in_window a window (grants window mx p es)) \<le> (mx - wcount p) + mx"
proof (induction es arbitrary: p)
  case (Cons e es)
  obtain r p' where st: "gate_step window mx p e = (r, p')" by (metis surj_pair)
  have srt: "sorted (reserve_times es)" using Cons.prems(3) by (rule sorted_reserve_tl)
  have ts: "\<forall>t \<in> set (reserve_times es). a \<le> t \<and> 0 < t" using Cons.prems(4) by (cases e) auto
  from st assms Cons.prems(1,2) show ?case
  proof (cases rule: gate_step_cases)
    case quiet
    with Cons.IH [of p'] Cons.prems srt ts st show ?thesis by simp
  next
    case (counted t)
    with Cons.IH [of p'] Cons.prems srt ts st show ?thesis by simp
  next
    case (opened t)
    then have "int (in_window a window (grants window mx p' es)) \<le> mx - wcount p'"
      using Cons.prems(4) srt assms by (intro grants_in_open_window) auto
    with opened Cons.prems(1,2) st show ?thesis by simp
  qed
qed simp

lemma grants_any:
  assumes "0 < window" "in64 window" "0 < mx" "in64 mx"
  shows "0 \<le> wcount p \<Longrightarrow> wcount p \<le> mx \<Longrightarrow> sorted (reserve_times es) \<Longrightarrow>
    \<forall>t \<in> set (reserve_times es). 0 < t \<Longrightarrow>
    int (in_window a window (grants window mx p es)) \<le> 2 * mx"
proof (induction es arbitrary: p)
  case (Cons e es)
  obtain r p' where st: "gate_step window mx p e = (r, p')" by (metis surj_pair)
  have srt: "sorted (reserve_times es)" using Cons.prems(3) by (rule sorted_reserve_tl)
  have pos: "\<forall>t \<in> set (reserve_times es). 0 < t" using Cons.prems(4) by (cases e) auto
  have cnt: "0 \<le> wcount p'" "wcount p' \<le> mx"
    using st assms Cons.prems(1,2) by (cases rule: gate_step_cases, auto)+
  have ih: "int (in_window a window (grants window mx p' es)) \<le> 2 * mx"
    using Cons.IH cnt srt pos by blast
  show ?case
  proof (cases "\<exists>t. e = GReserve t \<and> a \<le> t")
    case True
    then have "\<forall>t \<in> set (reserve_times (e # es)). a \<le> t \<and> 0 < t"
      using Cons.prems(3,4) by fastforce
    from grants_after [OF assms Cons.prems(1-3) this] Cons.prems(1) show ?thesis by simp
  next
    case False
    from st assms Cons.prems(1,2) show ?thesis
      by (cases rule: gate_step_cases) (use False st ih in auto)
  qed
qed simp

subsection \<open>The re-handshake backoff\<close>

lemma failure_backoff_bounds:
  assumes "RecordRehandshakeFailure now base mx p = ((n, d), p')"
  shows "(if base \<le> 0 then second else base) \<le> d \<and>
    (0 < mx \<longrightarrow> d \<le> max (if base \<le> 0 then second else base) mx) \<and>
    rehandshakeBackoff p' = d \<and> rehandshakeNextAttempt p' = now + d"
  using assms by (auto simp: RecordRehandshakeFailure_def Let_def time_Add_def split: if_splits)

lemma failure_backoff_step:
  assumes "0 < base" "base \<le> mx" "2 * mx < 9223372036854775808"
    and "rehandshakeBackoff p = b" "b = 0 \<or> base \<le> b" "b \<le> mx"
  shows "rehandshakeBackoff (snd (RecordRehandshakeFailure t base mx p)) =
    (if b = 0 then base else min mx (2 * b))"
proof -
  have "wrap64 (b * 2) = b * 2" using assms by (intro wrap64_id) (auto simp: in64_def)
  with assms show ?thesis by (auto simp: RecordRehandshakeFailure_def Let_def)
qed

lemma failure_backoff_run:
  assumes "0 < base" "base \<le> mx" "2 * mx < 9223372036854775808"
  shows "rehandshakeBackoff p = min mx (base * 2 ^ k) \<Longrightarrow>
    rehandshakeBackoff (fold (\<lambda>t p. snd (RecordRehandshakeFailure t base mx p)) ts p)
      = min mx (base * 2 ^ (k + length ts))"
proof (induction ts arbitrary: p k)
  case (Cons t ts)
  have pow: "base \<le> base * 2 ^ k" using assms(1) by simp
  then have pos: "base \<le> min mx (base * 2 ^ k)" using assms(2) by linarith
  have "rehandshakeBackoff (snd (RecordRehandshakeFailure t base mx p)) = min mx (2 * min mx (base * 2 ^ k))"
    using failure_backoff_step [OF assms Cons.prems] pos assms(1) by (simp split: if_splits)
  also have "\<dots> = min mx (base * 2 ^ Suc k)" using assms(1,2) by (auto simp: min_def)
  finally show ?case using Cons.IH [of _ "Suc k"] by simp
qed simp

subsection \<open>Properties\<close>

text \<open>Switching a peer's transport. A peer on TCP ignores every other transport: nothing is
  changed or closed. Otherwise the new address, connection, transport and session are
  installed, the old session is closed unless it is the new one, the old connection is closed
  unless it is the new one or belonged to the shared UDP socket, no other session or connection
  is touched, and the decrypt-failure and re-handshake state starts afresh.\<close>

theorem upgrade_transport_effect:
  "case UpgradeTransport now w p addr c t s of (w', p') \<Rightarrow>
    (if Transport p = ''tcp'' \<and> t \<noteq> ''tcp'' then w' = w \<and> p' = p
     else Addr p' = addr \<and> Conn p' = c \<and> Transport p' = t \<and> PSession p' = s \<and> ID p' = ID p \<and>
       LastSeen p' = now \<and> consecutiveDecryptFails p' = 0 \<and> rehandshakeInFlight p' = False \<and>
       rehandshakeNextAttempt p' = 0 \<and>
       (\<forall>r. w_sess w' r = (if PSession p = Some r \<and> s \<noteq> Some r then Session_Close (w_sess w r) else w_sess w r)) \<and>
       set (w_closed w') = set (w_closed w) \<union>
         (if Conn p \<noteq> c \<and> Transport p \<noteq> ''udp'' then set_option (Conn p) else {}))"
  by (auto simp: UpgradeTransport_def Let_def)

text \<open>Closing a peer marks it disconnected, closes its session and forgets it, closes the
  connection when it is a TCP one, and leaves every other session alone; decrypting with the
  closed peer fails because there is no session.\<close>

theorem peer_close_effect:
  "case Peer_Close w p of (w', p') \<Rightarrow>
     PState p' = StateDisconnected \<and> PSession p' = None \<and> ID p' = ID p \<and>
     (\<forall>r. w_sess w' r = (if PSession p = Some r then Session_Close (w_sess w r) else w_sess w r)) \<and>
     set (w_closed w') = set (w_closed w) \<union>
        (if Transport p = ''tcp'' then set_option (Conn p) else {}) \<and>
     Conn p' = (if Transport p = ''tcp'' then None else Conn p) \<and>
     fst (Peer_Decrypt lib w' p' payload) = Inl ErrNoSession"
  by (auto simp: Peer_Close_def Let_def Peer_Decrypt_def)


text \<open>C12: the re-handshake gate limits the rate. Whatever failures, successes, begins and ends
  are mixed in, the attempts granted inside any interval as long as the window number at most
  twice the limit, as long as the clock does not run backwards. (The window is fixed to the
  first attempt in it, so an interval can meet two of them.)\<close>

theorem rehandshake_rate_limit:
  assumes "0 < window" "in64 window" "0 < maxInWindow" "in64 maxInWindow"
    and "0 \<le> rehandshakeWindowCount p" "rehandshakeWindowCount p \<le> maxInWindow"
    and "sorted (reserve_times es)" and "\<forall>t \<in> set (reserve_times es). 0 < t"
  shows "int (in_window a window (grants window maxInWindow p es)) \<le> 2 * maxInWindow"
  using assms by (rule grants_any)

text \<open>After a failed re-handshake the delay to the next attempt is never below the base
  (one second if none is set) and never above the cap (raised to the base if it is lower), even
  when doubling overflows; the next attempt is due that much later.\<close>

theorem rehandshake_backoff_bounds:
  assumes "RecordRehandshakeFailure now base mx p = ((n, d), p')"
  shows "(if base \<le> 0 then second else base) \<le> d \<and>
    (0 < mx \<longrightarrow> d \<le> max (if base \<le> 0 then second else base) mx) \<and>
    rehandshakeBackoff p' = d \<and> rehandshakeNextAttempt p' = now + d"
  using assms by (rule failure_backoff_bounds)

text \<open>From a clear state, the delay after \<open>k + 1\<close> failures in a row is the base doubled
  \<open>k\<close> times, capped at the maximum.\<close>

theorem rehandshake_backoff_doubles:
  assumes "0 < base" "base \<le> mx" "2 * mx < 9223372036854775808" and "rehandshakeBackoff p = 0"
  shows "rehandshakeBackoff (fold (\<lambda>t p. snd (RecordRehandshakeFailure t base mx p)) (t # ts) p)
    = min mx (base * 2 ^ length ts)"
proof -
  have "rehandshakeBackoff (snd (RecordRehandshakeFailure t base mx p)) = min mx (base * 2 ^ 0)"
    using failure_backoff_step [OF assms(1-4)] assms(1,2) by simp
  from failure_backoff_run [OF assms(1-3) this, of ts] show ?thesis by simp
qed

subsection \<open>Witnesses\<close>

definition new_peer :: "string \<Rightarrow> Peer" where
  "new_peer i = \<lparr>ID = i, Addr = None, OriginalAddr = [], Conn = None, Transport = [], LinkMode = [],
     RelayTarget = None, PSession = None, LastSeen = 0, RemoteChannels = None,
     PState = StateDisconnected, ConnectedAt = 0, BytesSent = 0, BytesReceived = 0,
     MessagesSent = 0, MessagesRecv = 0, ConnectLatency = 0, ReassemblyBuffer = None,
     LastFrameTime = 0, consecutiveDecryptFails = 0, consecutiveRehandshakeFails = 0,
     rehandshakeInFlight = False, rehandshakeBackoff = 0, rehandshakeNextAttempt = 0,
     rehandshakeWindowStart = 0, rehandshakeWindowCount = 0\<rparr>"


theorem rehandshake_rate_limit_witness:
  "int (in_window 5 10 (grants 10 1 (new_peer ''a'') [GReserve 5, GReserve 6, GReserve 15])) \<le> 2"
  using rehandshake_rate_limit [of 10 1 "new_peer ''a''" "[GReserve 5, GReserve 6, GReserve 15]" 5]
  by (simp add: in64_def new_peer_def)

theorem rehandshake_backoff_bounds_witness:
  "\<exists>n d p'. RecordRehandshakeFailure 7 0 5 (new_peer ''a'') = ((n, d), p') \<and> second \<le> d"
proof -
  obtain n d p' where r: "RecordRehandshakeFailure 7 0 5 (new_peer ''a'') = ((n, d), p')"
    by (metis surj_pair)
  from rehandshake_backoff_bounds [OF this] r show ?thesis by auto
qed

theorem rehandshake_backoff_doubles_witness:
  "rehandshakeBackoff (fold (\<lambda>t p. snd (RecordRehandshakeFailure t 500 8000 p)) [1, 2, 3] (new_peer ''a'')) = 2000"
  using rehandshake_backoff_doubles [of 500 8000 "new_peer ''a''" 1 "[2, 3]"]
  by (simp add: new_peer_def)

end
