(* ===== verification/Go_Float.thy ===== *)
theory Go_Float
  imports Go_Prelude
begin

text \<open>
  Go's \<open>float64\<close>. A value is not-a-number, an infinity or a rational number (the two zeros are
  not told apart). An arithmetic operation on finite values is the exact result, rounded; the
  rounding function is a parameter \<open>rnd\<close>, and \<open>ieee_rounding\<close> collects what IEEE 754 says of it
  that the proofs use. Comparisons with not-a-number are false.
\<close>

datatype gofloat = NaN | NInf | Fin rat | PInf

fun fl_lt :: "gofloat \<Rightarrow> gofloat \<Rightarrow> bool" where
  "fl_lt NaN _ = False"
| "fl_lt _ NaN = False"
| "fl_lt NInf b = (b \<noteq> NInf)"
| "fl_lt (Fin x) b = (case b of Fin y \<Rightarrow> x < y | PInf \<Rightarrow> True | _ \<Rightarrow> False)"
| "fl_lt PInf b = False"

fun fl_neg :: "gofloat \<Rightarrow> gofloat" where
  "fl_neg NaN = NaN"
| "fl_neg NInf = PInf"
| "fl_neg PInf = NInf"
| "fl_neg (Fin x) = Fin (- x)"

fun fl_add :: "(rat \<Rightarrow> gofloat) \<Rightarrow> gofloat \<Rightarrow> gofloat \<Rightarrow> gofloat" where
  "fl_add rnd NaN _ = NaN"
| "fl_add rnd _ NaN = NaN"
| "fl_add rnd (Fin x) (Fin y) = rnd (x + y)"
| "fl_add rnd (Fin x) b = b"
| "fl_add rnd a (Fin y) = a"
| "fl_add rnd PInf b = (if b = PInf then PInf else NaN)"
| "fl_add rnd NInf b = (if b = NInf then NInf else NaN)"

definition fl_sub :: "(rat \<Rightarrow> gofloat) \<Rightarrow> gofloat \<Rightarrow> gofloat \<Rightarrow> gofloat" where
  "fl_sub rnd a b = fl_add rnd a (fl_neg b)"

fun fl_sign :: "gofloat \<Rightarrow> int" where
  "fl_sign NaN = 0"
| "fl_sign NInf = -1"
| "fl_sign PInf = 1"
| "fl_sign (Fin x) = (if x < 0 then -1 else if x = 0 then 0 else 1)"

text \<open>The product of an infinity and a zero is not a number.\<close>

fun fl_mul :: "(rat \<Rightarrow> gofloat) \<Rightarrow> gofloat \<Rightarrow> gofloat \<Rightarrow> gofloat" where
  "fl_mul rnd NaN _ = NaN"
| "fl_mul rnd _ NaN = NaN"
| "fl_mul rnd (Fin x) (Fin y) = rnd (x * y)"
| "fl_mul rnd a b =
     (let s = fl_sign a * fl_sign b in if s = 0 then NaN else if s < 0 then NInf else PInf)"

text \<open>Division is only ever by a positive finite value.\<close>

fun fl_div :: "(rat \<Rightarrow> gofloat) \<Rightarrow> gofloat \<Rightarrow> gofloat \<Rightarrow> gofloat" where
  "fl_div rnd (Fin x) (Fin y) =
     (if y \<noteq> 0 then rnd (x / y) else if x = 0 then NaN else if 0 < x then PInf else NInf)"
| "fl_div rnd NaN _ = NaN"
| "fl_div rnd _ NaN = NaN"
| "fl_div rnd (Fin x) b = Fin 0"
| "fl_div rnd a (Fin y) = (if fl_sign a * fl_sign (Fin y) < 0 then NInf else PInf)"
| "fl_div rnd a b = NaN"

definition fl_of_int :: "(rat \<Rightarrow> gofloat) \<Rightarrow> int \<Rightarrow> gofloat" where
  "fl_of_int rnd k = rnd (of_int k)"

text \<open>The conversion to \<open>int64\<close> drops the fraction; a value that does not fit, an infinity or
  not-a-number gives a result the language leaves open (\<open>None\<close>).\<close>

definition rat_trunc :: "rat \<Rightarrow> int" where
  "rat_trunc x = (if x < 0 then \<lceil>x\<rceil> else \<lfloor>x\<rfloor>)"

fun fl_to_int64 :: "gofloat \<Rightarrow> int option" where
  "fl_to_int64 (Fin x) = (if in64 (rat_trunc x) then Some (rat_trunc x) else None)"
| "fl_to_int64 _ = None"

definition ieee_rounding :: "(rat \<Rightarrow> gofloat) \<Rightarrow> bool" where
  "ieee_rounding rnd \<longleftrightarrow>
     (\<forall>x. rnd x \<noteq> NaN) \<and>
     (\<forall>x y. x \<le> y \<longrightarrow> \<not> fl_lt (rnd y) (rnd x)) \<and>
     (\<forall>k. \<bar>k\<bar> \<le> 9007199254740992 \<longrightarrow> rnd (of_int k) = Fin (of_int k)) \<and>
     (\<forall>x y. rnd x = Fin y \<longrightarrow> rnd y = Fin y)"

lemma rounding_exact: "ieee_rounding rnd \<Longrightarrow> \<bar>k\<bar> \<le> 9007199254740992 \<Longrightarrow> rnd (of_int k) = Fin (of_int k)"
  by (simp add: ieee_rounding_def)

lemma rounding_not_NaN: "ieee_rounding rnd \<Longrightarrow> rnd x \<noteq> NaN"
  by (simp add: ieee_rounding_def)

lemma rounding_idem: "ieee_rounding rnd \<Longrightarrow> rnd x = Fin y \<Longrightarrow> rnd y = Fin y"
  by (simp add: ieee_rounding_def)

text \<open>Between two values that do not overflow nothing overflows.\<close>

lemma rounding_between:
  assumes "ieee_rounding rnd" "lo \<le> x" "x \<le> hi" "rnd lo = Fin a" "rnd hi = Fin b"
  shows "\<exists>w. rnd x = Fin w \<and> a \<le> w \<and> w \<le> b"
proof -
  have "\<not> fl_lt (rnd hi) (rnd x)" "\<not> fl_lt (rnd x) (rnd lo)" "rnd x \<noteq> NaN"
    using assms(1-3) unfolding ieee_rounding_def by blast+
  then show ?thesis using assms(4,5) by (cases "rnd x") auto
qed

lemma rat_trunc_mono: "x \<le> y \<Longrightarrow> 0 \<le> x \<Longrightarrow> rat_trunc x \<le> rat_trunc y"
  by (simp add: rat_trunc_def floor_mono)

lemma rat_trunc_of_int [simp]: "rat_trunc (of_int k) = k"
  by (simp add: rat_trunc_def)

lemma ieee_Fin: "ieee_rounding Fin"
  by (simp add: ieee_rounding_def)

end
