(* ===== verification/Identity.thy ===== *)
theory Identity
  imports Go_Prelude
begin

text \<open>
  Node identities: \<open>crypto/identity.go\<close>. An identity is derived from one Ed25519 private key; it
  is stored as a JSON file that holds the key in hexadecimal. The hash, the keyed hash, the
  scalar multiplication of Curve25519 and Ed25519 are a parameter (\<open>crypto_lib\<close>), and so is the JSON package for the
  one-field struct the code writes. The file system is a map from paths to contents; which
  operation fails is an argument.
\<close>

subsection \<open>Hexadecimal\<close>

definition hex_digit :: "nat \<Rightarrow> char" where
  "hex_digit n = ''0123456789abcdef'' ! n"

definition hex_EncodeToString :: "bytes \<Rightarrow> string" where
  "hex_EncodeToString b = concat (map (\<lambda>w. [hex_digit (unat w div 16), hex_digit (unat w mod 16)]) b)"

definition from_hex_char :: "char \<Rightarrow> nat option" where
  "from_hex_char c = map_of (zip ''0123456789abcdefABCDEF''
     [0, 1, 2, 3, 4, 5, 6, 7, 8, 9, 10, 11, 12, 13, 14, 15, 10, 11, 12, 13, 14, 15]) c"

fun hex_DecodeString :: "string \<Rightarrow> bytes option" where
  "hex_DecodeString [] = Some []"
| "hex_DecodeString [c] = None"
| "hex_DecodeString (a # b # s) =
     (case (from_hex_char a, from_hex_char b) of
        (Some x, Some y) \<Rightarrow> map_option (\<lambda>r. word_of_nat (16 * x + y) # r) (hex_DecodeString s)
      | _ \<Rightarrow> None)"

subsection \<open>Identities\<close>

record crypto_lib =
  Sum256 :: "bytes \<Rightarrow> bytes"
  HMAC :: "bytes \<Rightarrow> bytes \<Rightarrow> bytes"
  ScalarBaseMult :: "bytes \<Rightarrow> bytes"
  ed_Sign :: "bytes \<Rightarrow> bytes \<Rightarrow> bytes"
  ed_Verify :: "bytes \<Rightarrow> bytes \<Rightarrow> bytes \<Rightarrow> bool"

record json_lib =
  MarshalIndent :: "string \<Rightarrow> bytes option"
  Unmarshal :: "bytes \<Rightarrow> string option"

datatype identity_error =
  ErrGenerateKey | ErrPrivateKeyLength | ErrMkdir | ErrMarshal | ErrWriteFile | ErrUnmarshal
| ErrHex | ErrReadFile

record Identity =
  PrivateKey :: bytes
  PublicKey :: bytes
  NoisePrivateKey :: bytes
  NoisePublicKey :: bytes
  NodeID :: bytes

definition NodeID_String :: "bytes \<Rightarrow> string" where
  "NodeID_String i = hex_EncodeToString i"

definition NodeID_ShortString :: "bytes \<Rightarrow> string" where
  "NodeID_ShortString i = hex_EncodeToString (take 4 i)"

text \<open>\<open>copy(dst[:], src)\<close> into a fresh array of \<open>n\<close> bytes.\<close>

definition fixed_array :: "nat \<Rightarrow> bytes \<Rightarrow> bytes" where
  "fixed_array n b = copy_into (replicate n 0) 0 b"

text \<open>\<open>gen\<close> is what \<open>ed25519.GenerateKey\<close> returned: public and private key, or an error.\<close>

definition NewIdentity :: "crypto_lib \<Rightarrow> (bytes \<times> bytes) option \<Rightarrow> identity_error + Identity" where
  "NewIdentity cl gen =
     (case gen of None \<Rightarrow> Inl ErrGenerateKey
      | Some (pub, priv) \<Rightarrow>
          let noisePriv = fixed_array 32 (take 32 priv);
              noisePub = ScalarBaseMult cl noisePriv;
              idHash = Sum256 cl noisePub;
              nid = fixed_array 16 (take 16 idHash)
          in Inr \<lparr>PrivateKey = priv, PublicKey = pub, NoisePrivateKey = noisePriv,
                  NoisePublicKey = noisePub, NodeID = nid\<rparr>)"

definition IdentityFromPrivateKey :: "crypto_lib \<Rightarrow> bytes \<Rightarrow> identity_error + Identity" where
  "IdentityFromPrivateKey cl privKey =
     (if length privKey \<noteq> 64 then Inl ErrPrivateKeyLength
      else let pub = drop 32 privKey;
               noisePriv = fixed_array 32 (take 32 privKey);
               noisePub = ScalarBaseMult cl noisePriv;
               idHash = Sum256 cl noisePub;
               nid = fixed_array 16 (take 16 idHash)
           in Inr \<lparr>PrivateKey = privKey, PublicKey = pub, NoisePrivateKey = noisePriv,
                   NoisePublicKey = noisePub, NodeID = nid\<rparr>)"

definition Identity_Sign :: "crypto_lib \<Rightarrow> Identity \<Rightarrow> bytes \<Rightarrow> bytes" where
  "Identity_Sign cl i message = ed_Sign cl (PrivateKey i) message"

definition Identity_Verify :: "crypto_lib \<Rightarrow> Identity \<Rightarrow> bytes \<Rightarrow> bytes \<Rightarrow> bool" where
  "Identity_Verify cl i message signature = ed_Verify cl (PublicKey i) message signature"

subsection \<open>Storing and loading\<close>

type_synonym filesystem = "(string, bytes) gomap"

record fs_ops =
  mkdir_ok :: bool
  write_ok :: bool
  read_ok :: bool

definition ToJSON :: "json_lib \<Rightarrow> Identity \<Rightarrow> identity_error + bytes" where
  "ToJSON jl i =
     (case MarshalIndent jl (hex_EncodeToString (PrivateKey i)) of
        None \<Rightarrow> Inl ErrMarshal | Some b \<Rightarrow> Inr b)"

definition SaveIdentity ::
    "json_lib \<Rightarrow> fs_ops \<Rightarrow> Identity \<Rightarrow> string \<Rightarrow> filesystem \<Rightarrow> identity_error option \<times> filesystem" where
  "SaveIdentity jl ops i path fs =
     (if \<not> mkdir_ok ops then (Some ErrMkdir, fs)
      else case MarshalIndent jl (hex_EncodeToString (PrivateKey i)) of
        None \<Rightarrow> (Some ErrMarshal, fs)
      | Some jsonData \<Rightarrow>
          if \<not> write_ok ops then (Some ErrWriteFile, fs) else (None, gm_put path jsonData fs))"

definition IdentityFromJSON :: "crypto_lib \<Rightarrow> json_lib \<Rightarrow> bytes \<Rightarrow> identity_error + Identity" where
  "IdentityFromJSON cl jl jsonData =
     (case Unmarshal jl jsonData of
        None \<Rightarrow> Inl ErrUnmarshal
      | Some s \<Rightarrow>
          (case hex_DecodeString s of
             None \<Rightarrow> Inl ErrHex
           | Some privKeyBytes \<Rightarrow>
               if length privKeyBytes \<noteq> 64 then Inl ErrPrivateKeyLength
               else IdentityFromPrivateKey cl privKeyBytes))"

definition LoadIdentity ::
    "crypto_lib \<Rightarrow> json_lib \<Rightarrow> fs_ops \<Rightarrow> string \<Rightarrow> filesystem \<Rightarrow> identity_error + Identity" where
  "LoadIdentity cl jl ops path fs =
     (case (if read_ok ops then gm_get fs path else None) of
        None \<Rightarrow> Inl ErrReadFile
      | Some jsonData \<Rightarrow> IdentityFromJSON cl jl jsonData)"

definition IdentityExists :: "string \<Rightarrow> filesystem \<Rightarrow> bool" where
  "IdentityExists path fs = gm_has fs path"

definition LoadOrCreateIdentity ::
    "crypto_lib \<Rightarrow> json_lib \<Rightarrow> fs_ops \<Rightarrow> (bytes \<times> bytes) option \<Rightarrow> string \<Rightarrow> filesystem \<Rightarrow>
       (identity_error + Identity) \<times> filesystem" where
  "LoadOrCreateIdentity cl jl ops gen path fs =
     (let create =
        (case NewIdentity cl gen of
           Inl e \<Rightarrow> (Inl e, fs)
         | Inr i \<Rightarrow>
             (case SaveIdentity jl ops i path fs of
                (Some e, fs') \<Rightarrow> (Inl e, fs')
              | (None, fs') \<Rightarrow> (Inr i, fs')))
      in if gm_has fs path
         then case LoadIdentity cl jl ops path fs of Inr i \<Rightarrow> (Inr i, fs) | Inl _ \<Rightarrow> create
         else create)"

definition ExportPublicKey :: "Identity \<Rightarrow> string" where
  "ExportPublicKey i = hex_EncodeToString (NoisePublicKey i)"

definition GetFingerprint :: "crypto_lib \<Rightarrow> Identity \<Rightarrow> string" where
  "GetFingerprint cl i = hex_EncodeToString (take 8 (Sum256 cl (NoisePublicKey i)))"

subsection \<open>Facts\<close>

lemma length_hex [simp]: "length (hex_EncodeToString b) = 2 * length b"
  by (induction b) (simp_all add: hex_EncodeToString_def)

lemma from_hex_digit: "n < 16 \<Longrightarrow> from_hex_char (hex_digit n) = Some n"
proof -
  have "list_all (\<lambda>n. from_hex_char (hex_digit n) = Some n) [0..<16]" by code_simp
  then show "n < 16 \<Longrightarrow> ?thesis" by (simp add: list_all_iff)
qed

lemma hex_Cons: "hex_EncodeToString (w # b) =
    hex_digit (unat w div 16) # hex_digit (unat w mod 16) # hex_EncodeToString b"
  by (simp add: hex_EncodeToString_def)

lemma hex_decode_encode: "hex_DecodeString (hex_EncodeToString b) = Some b"
proof (induction b)
  case (Cons w b)
  have "unat w < 256" using unsigned_less [of w, where ?'a = nat] by simp
  then have "unat w div 16 < 16" "unat w mod 16 < 16" by auto
  then show ?case by (simp add: hex_Cons from_hex_digit Cons)
qed (simp add: hex_EncodeToString_def)

interpretation hexc: codec "\<lambda>b. string_bytes (hex_EncodeToString b)"
  "\<lambda>s. case hex_DecodeString (bytes_string s) of None \<Rightarrow> Inl ErrHex | Some b \<Rightarrow> Inr b" "\<lambda>_. True"
  by unfold_locales (simp add: hex_decode_encode)

lemma hex_inject: "hex_EncodeToString a = hex_EncodeToString b \<longleftrightarrow> a = b"
  using hexc.enc_inj by auto

lemma fixed_array_exact: "length b = n \<Longrightarrow> fixed_array n b = b"
  by (simp add: fixed_array_def copy_into_0_exact)

lemma length_fixed_array [simp]: "length (fixed_array n b) = n"
  by (simp add: fixed_array_def)

text \<open>Both ways of making an identity agree when the generated key pair is a well-formed one.\<close>

lemma new_identity_is_from_private:
  "length priv = 64 \<Longrightarrow> pub = drop 32 priv \<Longrightarrow>
     NewIdentity cl (Some (pub, priv)) = IdentityFromPrivateKey cl priv"
  by (simp add: NewIdentity_def IdentityFromPrivateKey_def Let_def)

lemma identity_fields:
  "IdentityFromPrivateKey cl priv = Inr i \<Longrightarrow>
     PrivateKey i = priv \<and> length priv = 64 \<and>
     NodeID i = fixed_array 16 (take 16 (Sum256 cl (NoisePublicKey i)))"
  by (auto simp: IdentityFromPrivateKey_def Let_def split: if_splits)

lemma json_restores:
  assumes "\<And>s b. MarshalIndent jl s = Some b \<Longrightarrow> Unmarshal jl b = Some s"
    and "MarshalIndent jl (hex_EncodeToString (PrivateKey i)) = Some b"
    and "IdentityFromPrivateKey cl (PrivateKey i) = Inr i"
  shows "IdentityFromJSON cl jl b = Inr i"
  using assms(1) [OF assms(2)] identity_fields [OF assms(3)] assms(3)
  by (simp add: IdentityFromJSON_def hex_decode_encode)

subsection \<open>Properties\<close>

text \<open>C38: a generated identity survives storage. Provided the JSON package reads back what it
  wrote and the key generator returns a 64-byte private key that ends in the public key,
  restoring the JSON form of a new identity gives the same identity, every derived key and the
  node ID included.\<close>

theorem identity_json_roundtrip:
  assumes "\<And>s b. MarshalIndent jl s = Some b \<Longrightarrow> Unmarshal jl b = Some s"
    and "length priv = 64" "pub = drop 32 priv"
    and "NewIdentity cl (Some (pub, priv)) = Inr i" and "ToJSON jl i = Inr b"
  shows "IdentityFromJSON cl jl b = Inr i"
proof -
  have i: "IdentityFromPrivateKey cl priv = Inr i"
    using assms(4) new_identity_is_from_private [OF assms(2,3)] by simp
  have m: "MarshalIndent jl (hex_EncodeToString (PrivateKey i)) = Some b"
    using assms(5) by (simp add: ToJSON_def split: option.splits)
  from json_restores [of jl i b cl] assms(1) m i identity_fields [OF i] show ?thesis by simp
qed


subsection \<open>Witnesses\<close>

definition demo_json :: json_lib where
  "demo_json = \<lparr>MarshalIndent = (\<lambda>s. Some (string_bytes s)), Unmarshal = (\<lambda>b. Some (bytes_string b))\<rparr>"

definition demo_crypto :: crypto_lib where
  "demo_crypto = \<lparr>Sum256 = (\<lambda>b. take 32 (rev b @ replicate 32 7)),
     HMAC = (\<lambda>k m. take 32 (m @ k @ replicate 32 9)), ScalarBaseMult = map (\<lambda>x. x + 1),
     ed_Sign = (\<lambda>k m. k @ m), ed_Verify = (\<lambda>k m s. True)\<rparr>"

lemma demo_json_reads_back: "MarshalIndent demo_json s = Some b \<Longrightarrow> Unmarshal demo_json b = Some s"
  by (auto simp: demo_json_def)

theorem identity_json_roundtrip_witness:
  "\<exists>i b. NewIdentity demo_crypto (Some (replicate 32 2, replicate 32 1 @ replicate 32 2)) = Inr i \<and>
     ToJSON demo_json i = Inr b \<and> IdentityFromJSON demo_crypto demo_json b = Inr i"
proof -
  let ?priv = "replicate 32 1 @ replicate 32 2 :: bytes"
  obtain i where i: "NewIdentity demo_crypto (Some (replicate 32 2, ?priv)) = Inr i"
    by (simp add: NewIdentity_def Let_def)
  obtain b where b: "ToJSON demo_json i = Inr b"
    by (simp add: ToJSON_def demo_json_def)
  from identity_json_roundtrip [OF demo_json_reads_back _ _ i b] i b show ?thesis by auto
qed


end
