(* ===== verification/Node_Config.thy ===== *)
theory Node_Config
  imports Go_Float Identity
begin

text \<open>
  The configuration of a node: \<open>node/config.go\<close>, with the two nested structs \<open>KCPConfig\<close>
  (\<open>node/kcp.go\<close>) and \<open>ReconnectConfig\<close> (\<open>node/reconnect.go\<close>). A nil pointer is \<open>None\<close>. An
  option is a function on configurations; a pointer handed to an option is copied into the
  configuration. \<open>net.ResolveUDPAddr\<close> is a parameter. The messages of the joined errors are a
  datatype.
\<close>

subsection \<open>Data\<close>

record KCPConfig =
  NoDelay :: int
  Interval :: int
  Resend :: int
  NC :: int
  SndWnd :: int
  RcvWnd :: int
  MTU :: int
  StreamMode :: bool

definition DefaultKCPConfig :: KCPConfig where
  "DefaultKCPConfig = \<lparr>NoDelay = 0, Interval = 30, Resend = 2, NC = 1, SndWnd = 64, RcvWnd = 64,
     MTU = 1350, StreamMode = True\<rparr>"

record ReconnectConfig =
  rc_Enabled :: bool
  MaxRetries :: int
  InitialDelay :: duration
  MaxDelay :: duration
  BackoffMultiplier :: gofloat
  JitterFactor :: gofloat
  ReconnectTimeout :: duration

text \<open>The jitter factor is the \<open>float64\<close> nearest to 0.2.\<close>

definition DefaultReconnectConfig :: ReconnectConfig where
  "DefaultReconnectConfig = \<lparr>rc_Enabled = True, MaxRetries = 10, InitialDelay = second,
     MaxDelay = 5 * minute, BackoffMultiplier = Fin 2, JitterFactor = Fin (3602879701896397 / 18014398509481984),
     ReconnectTimeout = 30 * second\<rparr>"

datatype logger = Nop | UserLogger nat

record Config =
  NetworkPassword :: string
  ListenPort :: int
  DialTimeout :: duration
  HeartbeatInterval :: duration
  HeartbeatTimeout :: duration
  EnableHolePunch :: bool
  EnableRelay :: bool
  RelayNodes :: "string list"
  MaxPeers :: int
  cfg_Logger :: "logger option"
  EnableRelayAuth :: bool
  RelayAuthTTL :: duration
  cfg_Identity :: "Identity option"
  cfg_KCPConfig :: "KCPConfig option"
  EnableReconnect :: bool
  cfg_ReconnectConfig :: "ReconnectConfig option"
  MaxConsecutiveDecryptFailures :: int
  FastRehandshakeBaseBackoff :: duration
  FastRehandshakeMaxBackoff :: duration
  FastRehandshakeWindow :: duration
  FastRehandshakeMaxAttemptsWindow :: int
  FastRehandshakeFailThreshold :: int
  FastRehandshakePendingTTL :: duration
  Channels :: "string list"

definition DefaultConfig :: Config where
  "DefaultConfig = \<lparr>NetworkPassword = [], ListenPort = 0, DialTimeout = 10 * second,
     HeartbeatInterval = 5 * second, HeartbeatTimeout = 30 * second, EnableHolePunch = True,
     EnableRelay = True, RelayNodes = [], MaxPeers = 50, cfg_Logger = Some Nop,
     EnableRelayAuth = True, RelayAuthTTL = 5 * minute, cfg_Identity = None, cfg_KCPConfig = None,
     EnableReconnect = True, cfg_ReconnectConfig = None, MaxConsecutiveDecryptFailures = 16,
     FastRehandshakeBaseBackoff = 500 * millisecond, FastRehandshakeMaxBackoff = 8 * second,
     FastRehandshakeWindow = 30 * second, FastRehandshakeMaxAttemptsWindow = 6,
     FastRehandshakeFailThreshold = 3, FastRehandshakePendingTTL = 30 * second, Channels = []\<rparr>"

subsection \<open>Validation\<close>

datatype config_error =
  NeedPassword | BadListenPort | BadDialTimeout | BadHeartbeatInterval | BadHeartbeatTimeout
| TimeoutNotAboveInterval | TimeoutBelowTwiceInterval | BadMaxPeers | BadRelayAuthTTL
| BadMaxDecryptFailures | BadBaseBackoff | BadMaxBackoff | MaxBelowBaseBackoff | BadWindow
| BadMaxAttemptsWindow | BadFailThreshold | BadPendingTTL | BadMaxRetries | BadInitialDelay
| BadMaxDelay | MaxBelowInitialDelay | BadMultiplier | BadJitter | BadReconnectTimeout
| BadRelayAddress string

text \<open>\<open>errs_if b e\<close> is \<open>if b { errs = append(errs, e) }\<close>.\<close>

definition errs_if :: "bool \<Rightarrow> config_error \<Rightarrow> config_error list" where
  "errs_if b e = (if b then [e] else [])"

definition validate_reconnect :: "ReconnectConfig \<Rightarrow> config_error list" where
  "validate_reconnect rc =
     errs_if (MaxRetries rc < 0) BadMaxRetries @
     errs_if (InitialDelay rc \<le> 0) BadInitialDelay @
     errs_if (MaxDelay rc \<le> 0) BadMaxDelay @
     errs_if (0 < InitialDelay rc \<and> 0 < MaxDelay rc \<and> MaxDelay rc < InitialDelay rc) MaxBelowInitialDelay @
     errs_if (fl_lt (BackoffMultiplier rc) (Fin 1)) BadMultiplier @
     errs_if (fl_lt (JitterFactor rc) (Fin 0) \<or> fl_lt (Fin 1) (JitterFactor rc)) BadJitter @
     errs_if (ReconnectTimeout rc \<le> 0) BadReconnectTimeout"

definition Validate_errors :: "(string \<Rightarrow> 'a option) \<Rightarrow> Config \<Rightarrow> config_error list" where
  "Validate_errors ResolveUDPAddr c =
     errs_if (NetworkPassword c = []) NeedPassword @
     errs_if (ListenPort c < 0 \<or> 65535 < ListenPort c) BadListenPort @
     errs_if (DialTimeout c \<le> 0) BadDialTimeout @
     errs_if (HeartbeatInterval c \<le> 0) BadHeartbeatInterval @
     errs_if (HeartbeatTimeout c \<le> 0) BadHeartbeatTimeout @
     errs_if (HeartbeatTimeout c \<le> HeartbeatInterval c) TimeoutNotAboveInterval @
     errs_if (HeartbeatTimeout c < wrap64 (2 * HeartbeatInterval c)) TimeoutBelowTwiceInterval @
     errs_if (MaxPeers c < 1) BadMaxPeers @
     errs_if (EnableRelayAuth c \<and> RelayAuthTTL c \<le> 0) BadRelayAuthTTL @
     errs_if (MaxConsecutiveDecryptFailures c \<le> 0) BadMaxDecryptFailures @
     errs_if (FastRehandshakeBaseBackoff c \<le> 0) BadBaseBackoff @
     errs_if (FastRehandshakeMaxBackoff c \<le> 0) BadMaxBackoff @
     errs_if (FastRehandshakeMaxBackoff c < FastRehandshakeBaseBackoff c) MaxBelowBaseBackoff @
     errs_if (FastRehandshakeWindow c \<le> 0) BadWindow @
     errs_if (FastRehandshakeMaxAttemptsWindow c \<le> 0) BadMaxAttemptsWindow @
     errs_if (FastRehandshakeFailThreshold c \<le> 0) BadFailThreshold @
     errs_if (FastRehandshakePendingTTL c \<le> 0) BadPendingTTL @
     (case cfg_ReconnectConfig c of None \<Rightarrow> [] | Some rc \<Rightarrow> validate_reconnect rc) @
     concat (map (\<lambda>addr. errs_if (ResolveUDPAddr addr = None) (BadRelayAddress addr)) (RelayNodes c))"

text \<open>\<open>Validate\<close> returns the joined errors and leaves a non-nil logger behind.\<close>

definition Validate :: "(string \<Rightarrow> 'a option) \<Rightarrow> Config \<Rightarrow> config_error list option \<times> Config" where
  "Validate ResolveUDPAddr c =
     (let errs = Validate_errors ResolveUDPAddr c;
          c' = (if cfg_Logger c = None then c\<lparr>cfg_Logger := Some Nop\<rparr> else c)
      in (if errs \<noteq> [] then Some errs else None, c'))"

subsection \<open>Options\<close>

type_synonym Option = "Config \<Rightarrow> Config"

definition WithNetworkPassword :: "string \<Rightarrow> Option" where
  "WithNetworkPassword password c = c\<lparr>NetworkPassword := password\<rparr>"

definition WithListenPort :: "int \<Rightarrow> Option" where
  "WithListenPort port c = c\<lparr>ListenPort := port\<rparr>"

definition WithDialTimeout :: "duration \<Rightarrow> Option" where
  "WithDialTimeout timeout c = c\<lparr>DialTimeout := timeout\<rparr>"

definition WithHeartbeatInterval :: "duration \<Rightarrow> Option" where
  "WithHeartbeatInterval interval c = c\<lparr>HeartbeatInterval := interval\<rparr>"

definition WithEnableHolePunch :: "bool \<Rightarrow> Option" where
  "WithEnableHolePunch enable c = c\<lparr>EnableHolePunch := enable\<rparr>"

definition WithEnableRelay :: "bool \<Rightarrow> Option" where
  "WithEnableRelay enable c = c\<lparr>EnableRelay := enable\<rparr>"

definition WithMaxPeers :: "int \<Rightarrow> Option" where
  "WithMaxPeers mx c = c\<lparr>MaxPeers := mx\<rparr>"

definition WithRelayNodes :: "string list \<Rightarrow> Option" where
  "WithRelayNodes addrs c = c\<lparr>RelayNodes := addrs\<rparr>"

definition WithLogger :: "logger option \<Rightarrow> Option" where
  "WithLogger l c = (if l \<noteq> None then c\<lparr>cfg_Logger := l\<rparr> else c)"

definition WithEnableRelayAuth :: "bool \<Rightarrow> Option" where
  "WithEnableRelayAuth enable c = c\<lparr>EnableRelayAuth := enable\<rparr>"

definition WithRelayAuthTTL :: "duration \<Rightarrow> Option" where
  "WithRelayAuthTTL ttl c = c\<lparr>RelayAuthTTL := ttl\<rparr>"

definition WithIdentity :: "Identity option \<Rightarrow> Option" where
  "WithIdentity identity c = c\<lparr>cfg_Identity := identity\<rparr>"

definition WithKCPConfig :: "KCPConfig option \<Rightarrow> Option" where
  "WithKCPConfig cfg c = c\<lparr>cfg_KCPConfig := cfg\<rparr>"

definition WithEnableReconnect :: "bool \<Rightarrow> Option" where
  "WithEnableReconnect enable c = c\<lparr>EnableReconnect := enable\<rparr>"

definition WithReconnectConfig :: "ReconnectConfig option \<Rightarrow> Option" where
  "WithReconnectConfig cfg c = c\<lparr>cfg_ReconnectConfig := cfg\<rparr>"

definition reconnect_or_default :: "Config \<Rightarrow> ReconnectConfig" where
  "reconnect_or_default c =
     (case cfg_ReconnectConfig c of None \<Rightarrow> DefaultReconnectConfig | Some rc \<Rightarrow> rc)"

definition WithReconnectMaxRetries :: "int \<Rightarrow> Option" where
  "WithReconnectMaxRetries maxRetries c =
     c\<lparr>cfg_ReconnectConfig := Some ((reconnect_or_default c)\<lparr>MaxRetries := maxRetries\<rparr>)\<rparr>"

definition WithReconnectBackoff :: "duration \<Rightarrow> duration \<Rightarrow> gofloat \<Rightarrow> Option" where
  "WithReconnectBackoff initialDelay maxDelay multiplier c =
     c\<lparr>cfg_ReconnectConfig := Some ((reconnect_or_default c)\<lparr>InitialDelay := initialDelay,
        MaxDelay := maxDelay, BackoffMultiplier := multiplier\<rparr>)\<rparr>"

definition WithMaxConsecutiveDecryptFailures :: "int \<Rightarrow> Option" where
  "WithMaxConsecutiveDecryptFailures mx c = c\<lparr>MaxConsecutiveDecryptFailures := mx\<rparr>"

definition WithFastRehandshakeBackoff :: "duration \<Rightarrow> duration \<Rightarrow> Option" where
  "WithFastRehandshakeBackoff baseDelay maxDelay c =
     c\<lparr>FastRehandshakeBaseBackoff := baseDelay, FastRehandshakeMaxBackoff := maxDelay\<rparr>"

definition WithFastRehandshakeWindow :: "duration \<Rightarrow> int \<Rightarrow> Option" where
  "WithFastRehandshakeWindow window maxAttempts c =
     c\<lparr>FastRehandshakeWindow := window, FastRehandshakeMaxAttemptsWindow := maxAttempts\<rparr>"

definition WithFastRehandshakeFailThreshold :: "int \<Rightarrow> Option" where
  "WithFastRehandshakeFailThreshold threshold c = c\<lparr>FastRehandshakeFailThreshold := threshold\<rparr>"

definition WithFastRehandshakePendingTTL :: "duration \<Rightarrow> Option" where
  "WithFastRehandshakePendingTTL ttl c = c\<lparr>FastRehandshakePendingTTL := ttl\<rparr>"

definition WithChannelID :: "string \<Rightarrow> Option" where
  "WithChannelID channelName c =
     (if channelName \<in> set (Channels c) then c else c\<lparr>Channels := Channels c @ [channelName]\<rparr>)"

subsection \<open>What validation means\<close>

definition valid_reconnect :: "ReconnectConfig \<Rightarrow> bool" where
  "valid_reconnect rc \<longleftrightarrow> 0 \<le> MaxRetries rc \<and> 0 < InitialDelay rc \<and> InitialDelay rc \<le> MaxDelay rc \<and>
     \<not> fl_lt (BackoffMultiplier rc) (Fin 1) \<and> \<not> fl_lt (JitterFactor rc) (Fin 0) \<and>
     \<not> fl_lt (Fin 1) (JitterFactor rc) \<and> 0 < ReconnectTimeout rc"

definition valid_config :: "(string \<Rightarrow> 'a option) \<Rightarrow> Config \<Rightarrow> bool" where
  "valid_config ResolveUDPAddr c \<longleftrightarrow>
     NetworkPassword c \<noteq> [] \<and> 0 \<le> ListenPort c \<and> ListenPort c \<le> 65535 \<and> 0 < DialTimeout c \<and>
     0 < HeartbeatInterval c \<and> HeartbeatInterval c < HeartbeatTimeout c \<and>
     wrap64 (2 * HeartbeatInterval c) \<le> HeartbeatTimeout c \<and> 1 \<le> MaxPeers c \<and>
     (EnableRelayAuth c \<longrightarrow> 0 < RelayAuthTTL c) \<and> 0 < MaxConsecutiveDecryptFailures c \<and>
     0 < FastRehandshakeBaseBackoff c \<and> FastRehandshakeBaseBackoff c \<le> FastRehandshakeMaxBackoff c \<and>
     0 < FastRehandshakeWindow c \<and> 0 < FastRehandshakeMaxAttemptsWindow c \<and>
     0 < FastRehandshakeFailThreshold c \<and> 0 < FastRehandshakePendingTTL c \<and>
     (\<forall>rc \<in> set_option (cfg_ReconnectConfig c). valid_reconnect rc) \<and>
     (\<forall>a \<in> set (RelayNodes c). ResolveUDPAddr a \<noteq> None)"

lemma errs_if_Nil [simp]: "errs_if b e = [] \<longleftrightarrow> \<not> b"
  by (simp add: errs_if_def)

lemma validate_reconnect_Nil: "validate_reconnect rc = [] \<longleftrightarrow> valid_reconnect rc"
  unfolding validate_reconnect_def valid_reconnect_def by auto

lemma Validate_errors_Nil: "Validate_errors R c = [] \<longleftrightarrow> valid_config R c"
  unfolding Validate_errors_def valid_config_def
  by (cases "cfg_ReconnectConfig c") (auto simp: validate_reconnect_Nil)

lemma distinct_WithChannelID: "distinct (Channels c) \<Longrightarrow> distinct (Channels (WithChannelID n c))"
  by (simp add: WithChannelID_def)

text \<open>The options only ever add a channel that is not there yet.\<close>

lemma channels_of_options:
  "Channels (WithNetworkPassword pw c) = Channels c" "Channels (WithListenPort p c) = Channels c"
  "Channels (WithLogger l c) = Channels c" "Channels (WithMaxPeers m c) = Channels c"
  "Channels (WithIdentity i c) = Channels c"
  by (simp_all add: WithNetworkPassword_def WithListenPort_def WithLogger_def WithMaxPeers_def
      WithIdentity_def)

subsection \<open>Properties\<close>

text \<open>Validation accepts exactly the configurations that satisfy \<open>valid_config\<close>: no check is
  missing and none is stricter. Whatever the verdict, it changes at most a nil logger.\<close>

theorem validate_iff_valid:
  "case Validate R c of (r, c') \<Rightarrow>
     (r = None \<longleftrightarrow> valid_config R c) \<and> cfg_Logger c' \<noteq> None \<and> c' = c\<lparr>cfg_Logger := cfg_Logger c'\<rparr> \<and>
     (cfg_Logger c \<noteq> None \<longrightarrow> c' = c)"
  by (auto simp: Validate_def Let_def Validate_errors_Nil)

text \<open>The defaults with a password are valid, and stay valid under every choice of channels,
  peer limit of at least one, and port in range; without a password they are rejected for that
  reason alone.\<close>

theorem default_config_valid:
  assumes "pw \<noteq> []" "0 \<le> port" "port \<le> 65535" "1 \<le> mx"
  shows "fst (Validate R (fold WithChannelID chs
      (WithMaxPeers mx (WithListenPort port (WithNetworkPassword pw DefaultConfig))))) = None \<and>
    distinct (Channels (fold WithChannelID chs
      (WithMaxPeers mx (WithListenPort port (WithNetworkPassword pw DefaultConfig))))) \<and>
    fst (Validate R DefaultConfig) = Some [NeedPassword]"
proof -
  let ?c0 = "WithMaxPeers mx (WithListenPort port (WithNetworkPassword pw DefaultConfig))"
  have c0: "valid_config R ?c0" "distinct (Channels ?c0)"
    using assms by (auto simp: valid_config_def WithMaxPeers_def WithListenPort_def
        WithNetworkPassword_def DefaultConfig_def wrap64_def)
  have step: "valid_config R (WithChannelID n c)" if "valid_config R c" for n c
    using that by (simp add: WithChannelID_def valid_config_def)
  have "valid_config R (fold WithChannelID chs c) \<and> distinct (Channels (fold WithChannelID chs c))"
    if "valid_config R c" "distinct (Channels c)" for c
    using that by (induction chs arbitrary: c) (simp_all add: step distinct_WithChannelID)
  with c0 have "valid_config R (fold WithChannelID chs ?c0)" "distinct (Channels (fold WithChannelID chs ?c0))"
    by blast+
  moreover have "fst (Validate R DefaultConfig) = Some [NeedPassword]"
    by (simp add: Validate_def Validate_errors_def DefaultConfig_def errs_if_def wrap64_def)
  ultimately show ?thesis by (simp add: Validate_def Let_def Validate_errors_Nil)
qed

text \<open>Two gaps of the validation. A not-a-number multiplier or jitter factor passes, because
  every comparison with it is false; and an interval of more than half the duration range makes
  twice the interval wrap around, so that a timeout below twice the interval is accepted.\<close>

theorem validation_gaps:
  "fst (Validate R (DefaultConfig\<lparr>NetworkPassword := ''pw'', cfg_ReconnectConfig :=
      Some (DefaultReconnectConfig\<lparr>BackoffMultiplier := NaN, JitterFactor := NaN\<rparr>)\<rparr>)) = None \<and>
   fst (Validate R (DefaultConfig\<lparr>NetworkPassword := ''pw'',
      HeartbeatInterval := 5000000000000000000, HeartbeatTimeout := 5000000000000000001\<rparr>)) = None"
  by (simp add: Validate_def Validate_errors_def DefaultConfig_def DefaultReconnectConfig_def
      validate_reconnect_def errs_if_def wrap64_def)

subsection \<open>Witnesses\<close>

theorem default_config_valid_witness:
  "fst (Validate Some (fold WithChannelID [''a'', ''b'', ''a'']
      (WithMaxPeers 5 (WithListenPort 4000 (WithNetworkPassword ''pw'' DefaultConfig))))) = None"
  using default_config_valid [of "''pw''" 4000 5 Some "[''a'', ''b'', ''a'']"] by simp

end
