(* ===== verification/Metrics.thy ===== *)
theory Metrics
  imports Go_Prelude
begin

text \<open>
  The counters of \<open>metrics/metrics.go\<close>. Every counter is an \<open>int64\<close> that wraps around; each
  method is a few atomic additions and stores. The two rates of a snapshot are quotients of
  counters, kept exact here as rational numbers (the code rounds them to \<open>float64\<close>). The
  history buffers for rates are written by no method and are left out.
\<close>

subsection \<open>The collector\<close>

record Collector =
  connectionsTotal :: int
  connectionsFailed :: int
  connectionsActive :: int
  disconnectsTotal :: int
  handshakesTotal :: int
  handshakesFailed :: int
  handshakeLatencyNs :: int
  handshakeCount :: int
  bytesSent :: int
  bytesReceived :: int
  packetsSent :: int
  packetsRecv :: int
  punchAttemptsUDP :: int
  punchSuccessUDP :: int
  punchAttemptsTCP :: int
  punchSuccessTCP :: int
  relayPackets :: int
  relayBytes :: int
  relayConnects :: int
  relayAuthFailed :: int
  errorsTotal :: int
  reconnectAttempts :: int
  reconnectSuccess :: int
  reconnectFailed :: int
  reconnectGaveUp :: int
  fastRehandshakeAttempts :: int
  fastRehandshakeSuccess :: int
  fastRehandshakeFailed :: int
  startTime :: gotime

definition NewCollector :: "gotime \<Rightarrow> Collector" where
  "NewCollector now =
     \<lparr>connectionsTotal = 0, connectionsFailed = 0, connectionsActive = 0, disconnectsTotal = 0,
      handshakesTotal = 0, handshakesFailed = 0, handshakeLatencyNs = 0, handshakeCount = 0,
      bytesSent = 0, bytesReceived = 0, packetsSent = 0, packetsRecv = 0, punchAttemptsUDP = 0,
      punchSuccessUDP = 0, punchAttemptsTCP = 0, punchSuccessTCP = 0, relayPackets = 0,
      relayBytes = 0, relayConnects = 0, relayAuthFailed = 0, errorsTotal = 0,
      reconnectAttempts = 0, reconnectSuccess = 0, reconnectFailed = 0, reconnectGaveUp = 0,
      fastRehandshakeAttempts = 0, fastRehandshakeSuccess = 0, fastRehandshakeFailed = 0,
      startTime = now\<rparr>"

definition IncConnectionsTotal :: "Collector \<Rightarrow> Collector" where
  "IncConnectionsTotal c = c\<lparr>connectionsTotal := wrap64 (connectionsTotal c + 1)\<rparr>"

definition IncConnectionsFailed :: "Collector \<Rightarrow> Collector" where
  "IncConnectionsFailed c = c\<lparr>connectionsFailed := wrap64 (connectionsFailed c + 1)\<rparr>"

definition IncDisconnectsTotal :: "Collector \<Rightarrow> Collector" where
  "IncDisconnectsTotal c = c\<lparr>disconnectsTotal := wrap64 (disconnectsTotal c + 1)\<rparr>"

definition IncHandshakesTotal :: "Collector \<Rightarrow> Collector" where
  "IncHandshakesTotal c = c\<lparr>handshakesTotal := wrap64 (handshakesTotal c + 1)\<rparr>"

definition IncHandshakesFailed :: "Collector \<Rightarrow> Collector" where
  "IncHandshakesFailed c = c\<lparr>handshakesFailed := wrap64 (handshakesFailed c + 1)\<rparr>"

definition IncPunchAttemptUDP :: "Collector \<Rightarrow> Collector" where
  "IncPunchAttemptUDP c = c\<lparr>punchAttemptsUDP := wrap64 (punchAttemptsUDP c + 1)\<rparr>"

definition IncPunchSuccessUDP :: "Collector \<Rightarrow> Collector" where
  "IncPunchSuccessUDP c = c\<lparr>punchSuccessUDP := wrap64 (punchSuccessUDP c + 1)\<rparr>"

definition IncPunchAttemptTCP :: "Collector \<Rightarrow> Collector" where
  "IncPunchAttemptTCP c = c\<lparr>punchAttemptsTCP := wrap64 (punchAttemptsTCP c + 1)\<rparr>"

definition IncPunchSuccessTCP :: "Collector \<Rightarrow> Collector" where
  "IncPunchSuccessTCP c = c\<lparr>punchSuccessTCP := wrap64 (punchSuccessTCP c + 1)\<rparr>"

definition IncRelayPackets :: "Collector \<Rightarrow> Collector" where
  "IncRelayPackets c = c\<lparr>relayPackets := wrap64 (relayPackets c + 1)\<rparr>"

definition IncRelayConnects :: "Collector \<Rightarrow> Collector" where
  "IncRelayConnects c = c\<lparr>relayConnects := wrap64 (relayConnects c + 1)\<rparr>"

definition IncRelayAuthFailed :: "Collector \<Rightarrow> Collector" where
  "IncRelayAuthFailed c = c\<lparr>relayAuthFailed := wrap64 (relayAuthFailed c + 1)\<rparr>"

definition IncErrorsTotal :: "Collector \<Rightarrow> Collector" where
  "IncErrorsTotal c = c\<lparr>errorsTotal := wrap64 (errorsTotal c + 1)\<rparr>"

definition IncReconnectAttempts :: "Collector \<Rightarrow> Collector" where
  "IncReconnectAttempts c = c\<lparr>reconnectAttempts := wrap64 (reconnectAttempts c + 1)\<rparr>"

definition IncReconnectSuccess :: "Collector \<Rightarrow> Collector" where
  "IncReconnectSuccess c = c\<lparr>reconnectSuccess := wrap64 (reconnectSuccess c + 1)\<rparr>"

definition IncReconnectFailed :: "Collector \<Rightarrow> Collector" where
  "IncReconnectFailed c = c\<lparr>reconnectFailed := wrap64 (reconnectFailed c + 1)\<rparr>"

definition IncReconnectGaveUp :: "Collector \<Rightarrow> Collector" where
  "IncReconnectGaveUp c = c\<lparr>reconnectGaveUp := wrap64 (reconnectGaveUp c + 1)\<rparr>"

definition IncFastRehandshakeAttempts :: "Collector \<Rightarrow> Collector" where
  "IncFastRehandshakeAttempts c = c\<lparr>fastRehandshakeAttempts := wrap64 (fastRehandshakeAttempts c + 1)\<rparr>"

definition IncFastRehandshakeSuccess :: "Collector \<Rightarrow> Collector" where
  "IncFastRehandshakeSuccess c = c\<lparr>fastRehandshakeSuccess := wrap64 (fastRehandshakeSuccess c + 1)\<rparr>"

definition IncFastRehandshakeFailed :: "Collector \<Rightarrow> Collector" where
  "IncFastRehandshakeFailed c = c\<lparr>fastRehandshakeFailed := wrap64 (fastRehandshakeFailed c + 1)\<rparr>"

definition SetConnectionsActive :: "int \<Rightarrow> Collector \<Rightarrow> Collector" where
  "SetConnectionsActive n c = c\<lparr>connectionsActive := n\<rparr>"

definition RecordHandshakeLatency :: "duration \<Rightarrow> Collector \<Rightarrow> Collector" where
  "RecordHandshakeLatency d c = c\<lparr>handshakeLatencyNs := wrap64 (handshakeLatencyNs c + d),
     handshakeCount := wrap64 (handshakeCount c + 1)\<rparr>"

definition Metrics_AddBytesSent :: "int \<Rightarrow> Collector \<Rightarrow> Collector" where
  "Metrics_AddBytesSent n c =
     c\<lparr>bytesSent := wrap64 (bytesSent c + n), packetsSent := wrap64 (packetsSent c + 1)\<rparr>"

definition Metrics_AddBytesReceived :: "int \<Rightarrow> Collector \<Rightarrow> Collector" where
  "Metrics_AddBytesReceived n c =
     c\<lparr>bytesReceived := wrap64 (bytesReceived c + n), packetsRecv := wrap64 (packetsRecv c + 1)\<rparr>"

definition AddRelayBytes :: "int \<Rightarrow> Collector \<Rightarrow> Collector" where
  "AddRelayBytes n c = c\<lparr>relayBytes := wrap64 (relayBytes c + n)\<rparr>"

subsection \<open>Snapshots\<close>

record Snapshot =
  Uptime :: duration
  Snap_ConnectionsTotal :: int
  Snap_ConnectionsFailed :: int
  Snap_ConnectionsActive :: int
  Snap_DisconnectsTotal :: int
  Snap_HandshakesTotal :: int
  Snap_HandshakesFailed :: int
  Snap_BytesSent :: int
  Snap_BytesReceived :: int
  Snap_PacketsSent :: int
  Snap_PacketsRecv :: int
  Snap_PunchAttemptsUDP :: int
  Snap_PunchSuccessUDP :: int
  Snap_PunchAttemptsTCP :: int
  Snap_PunchSuccessTCP :: int
  Snap_RelayPackets :: int
  Snap_RelayBytes :: int
  Snap_RelayConnects :: int
  Snap_RelayAuthFailed :: int
  Snap_ErrorsTotal :: int
  Snap_ReconnectAttempts :: int
  Snap_ReconnectSuccess :: int
  Snap_ReconnectFailed :: int
  Snap_ReconnectGaveUp :: int
  Snap_FastRehandshakeAttempts :: int
  Snap_FastRehandshakeSuccess :: int
  Snap_FastRehandshakeFailed :: int
  AvgHandshakeLatency :: duration
  PunchSuccessRate :: rat
  ReconnectRate :: rat

definition GetSnapshot :: "gotime \<Rightarrow> Collector \<Rightarrow> Snapshot" where
  "GetSnapshot now c =
     (let totalAttempts = wrap64 (punchAttemptsUDP c + punchAttemptsTCP c);
          totalSuccess = wrap64 (punchSuccessUDP c + punchSuccessTCP c)
      in \<lparr>Uptime = time_Sub now (startTime c),
      Snap_ConnectionsTotal = connectionsTotal c, Snap_ConnectionsFailed = connectionsFailed c,
      Snap_ConnectionsActive = connectionsActive c, Snap_DisconnectsTotal = disconnectsTotal c,
      Snap_HandshakesTotal = handshakesTotal c, Snap_HandshakesFailed = handshakesFailed c,
      Snap_BytesSent = bytesSent c, Snap_BytesReceived = bytesReceived c,
      Snap_PacketsSent = packetsSent c, Snap_PacketsRecv = packetsRecv c,
      Snap_PunchAttemptsUDP = punchAttemptsUDP c, Snap_PunchSuccessUDP = punchSuccessUDP c,
      Snap_PunchAttemptsTCP = punchAttemptsTCP c, Snap_PunchSuccessTCP = punchSuccessTCP c,
      Snap_RelayPackets = relayPackets c, Snap_RelayBytes = relayBytes c,
      Snap_RelayConnects = relayConnects c, Snap_RelayAuthFailed = relayAuthFailed c,
      Snap_ErrorsTotal = errorsTotal c, Snap_ReconnectAttempts = reconnectAttempts c,
      Snap_ReconnectSuccess = reconnectSuccess c, Snap_ReconnectFailed = reconnectFailed c,
      Snap_ReconnectGaveUp = reconnectGaveUp c,
      Snap_FastRehandshakeAttempts = fastRehandshakeAttempts c,
      Snap_FastRehandshakeSuccess = fastRehandshakeSuccess c,
      Snap_FastRehandshakeFailed = fastRehandshakeFailed c,
      AvgHandshakeLatency =
        (if 0 < handshakeCount c then sdiv64 (handshakeLatencyNs c) (handshakeCount c) else 0),
      PunchSuccessRate = (if 0 < totalAttempts then of_int totalSuccess / of_int totalAttempts else 0),
      ReconnectRate =
        (if 0 < reconnectAttempts c
         then of_int (reconnectSuccess c) / of_int (reconnectAttempts c) else 0)\<rparr>)"

definition Metrics_Reset :: "gotime \<Rightarrow> Collector \<Rightarrow> Collector" where
  "Metrics_Reset now c =
     c\<lparr>connectionsTotal := 0, connectionsFailed := 0, connectionsActive := 0,
      disconnectsTotal := 0, handshakesTotal := 0, handshakesFailed := 0,
      handshakeLatencyNs := 0, handshakeCount := 0, bytesSent := 0, bytesReceived := 0,
      packetsSent := 0, packetsRecv := 0, punchAttemptsUDP := 0, punchSuccessUDP := 0,
      punchAttemptsTCP := 0, punchSuccessTCP := 0, relayPackets := 0, relayBytes := 0,
      relayConnects := 0, relayAuthFailed := 0, errorsTotal := 0, reconnectAttempts := 0,
      reconnectSuccess := 0, reconnectFailed := 0, reconnectGaveUp := 0,
      fastRehandshakeAttempts := 0, fastRehandshakeSuccess := 0, fastRehandshakeFailed := 0,
      startTime := now\<rparr>"

subsection \<open>Runs of the counters\<close>

text \<open>The counting methods as events, and what each adds to a counter.\<close>

datatype metric_event =
  EConnectionsTotal
| EConnectionsFailed
| EDisconnectsTotal
| EHandshakesTotal
| EHandshakesFailed
| EPunchAttemptUDP
| EPunchSuccessUDP
| EPunchAttemptTCP
| EPunchSuccessTCP
| ERelayPackets
| ERelayConnects
| ERelayAuthFailed
| EErrorsTotal
| EReconnectAttempts
| EReconnectSuccess
| EReconnectFailed
| EReconnectGaveUp
| EFastRehandshakeAttempts
| EFastRehandshakeSuccess
| EFastRehandshakeFailed
| ELatency duration | EBytesSent int | EBytesReceived int | ERelayBytes int

fun metric_step :: "Collector \<Rightarrow> metric_event \<Rightarrow> Collector" where
  "metric_step c EConnectionsTotal = IncConnectionsTotal c"
| "metric_step c EConnectionsFailed = IncConnectionsFailed c"
| "metric_step c EDisconnectsTotal = IncDisconnectsTotal c"
| "metric_step c EHandshakesTotal = IncHandshakesTotal c"
| "metric_step c EHandshakesFailed = IncHandshakesFailed c"
| "metric_step c EPunchAttemptUDP = IncPunchAttemptUDP c"
| "metric_step c EPunchSuccessUDP = IncPunchSuccessUDP c"
| "metric_step c EPunchAttemptTCP = IncPunchAttemptTCP c"
| "metric_step c EPunchSuccessTCP = IncPunchSuccessTCP c"
| "metric_step c ERelayPackets = IncRelayPackets c"
| "metric_step c ERelayConnects = IncRelayConnects c"
| "metric_step c ERelayAuthFailed = IncRelayAuthFailed c"
| "metric_step c EErrorsTotal = IncErrorsTotal c"
| "metric_step c EReconnectAttempts = IncReconnectAttempts c"
| "metric_step c EReconnectSuccess = IncReconnectSuccess c"
| "metric_step c EReconnectFailed = IncReconnectFailed c"
| "metric_step c EReconnectGaveUp = IncReconnectGaveUp c"
| "metric_step c EFastRehandshakeAttempts = IncFastRehandshakeAttempts c"
| "metric_step c EFastRehandshakeSuccess = IncFastRehandshakeSuccess c"
| "metric_step c EFastRehandshakeFailed = IncFastRehandshakeFailed c"
| "metric_step c (ELatency d) = RecordHandshakeLatency d c"
| "metric_step c (EBytesSent k) = Metrics_AddBytesSent k c"
| "metric_step c (EBytesReceived k) = Metrics_AddBytesReceived k c"
| "metric_step c (ERelayBytes k) = AddRelayBytes k c"

definition metric_run :: "Collector \<Rightarrow> metric_event list \<Rightarrow> Collector" where
  "metric_run c es = foldl metric_step c es"

fun sent_of :: "metric_event \<Rightarrow> int" where
  "sent_of (EBytesSent k) = k"
| "sent_of _ = 0"

fun received_of :: "metric_event \<Rightarrow> int" where
  "received_of (EBytesReceived k) = k"
| "received_of _ = 0"

fun is_sent :: "metric_event \<Rightarrow> bool" where
  "is_sent (EBytesSent k) = True"
| "is_sent _ = False"

fun is_received :: "metric_event \<Rightarrow> bool" where
  "is_received (EBytesReceived k) = True"
| "is_received _ = False"

lemmas metric_defs = IncConnectionsTotal_def IncConnectionsFailed_def IncDisconnectsTotal_def
  IncHandshakesTotal_def IncHandshakesFailed_def IncPunchAttemptUDP_def
  IncPunchSuccessUDP_def IncPunchAttemptTCP_def IncPunchSuccessTCP_def IncRelayPackets_def
  IncRelayConnects_def IncRelayAuthFailed_def IncErrorsTotal_def IncReconnectAttempts_def
  IncReconnectSuccess_def IncReconnectFailed_def IncReconnectGaveUp_def
  IncFastRehandshakeAttempts_def IncFastRehandshakeSuccess_def IncFastRehandshakeFailed_def
  SetConnectionsActive_def RecordHandshakeLatency_def Metrics_AddBytesSent_def
  Metrics_AddBytesReceived_def AddRelayBytes_def

lemma metric_reset_zero [simp]:
  "connectionsTotal (Metrics_Reset now c) = 0"
  "connectionsFailed (Metrics_Reset now c) = 0"
  "disconnectsTotal (Metrics_Reset now c) = 0"
  "handshakesTotal (Metrics_Reset now c) = 0"
  "handshakesFailed (Metrics_Reset now c) = 0"
  "punchAttemptsUDP (Metrics_Reset now c) = 0"
  "punchSuccessUDP (Metrics_Reset now c) = 0"
  "punchAttemptsTCP (Metrics_Reset now c) = 0"
  "punchSuccessTCP (Metrics_Reset now c) = 0"
  "relayPackets (Metrics_Reset now c) = 0"
  "relayConnects (Metrics_Reset now c) = 0"
  "relayAuthFailed (Metrics_Reset now c) = 0"
  "errorsTotal (Metrics_Reset now c) = 0"
  "reconnectAttempts (Metrics_Reset now c) = 0"
  "reconnectSuccess (Metrics_Reset now c) = 0"
  "reconnectFailed (Metrics_Reset now c) = 0"
  "reconnectGaveUp (Metrics_Reset now c) = 0"
  "fastRehandshakeAttempts (Metrics_Reset now c) = 0"
  "fastRehandshakeSuccess (Metrics_Reset now c) = 0"
  "fastRehandshakeFailed (Metrics_Reset now c) = 0"
  "bytesSent (Metrics_Reset now c) = 0"
  "bytesReceived (Metrics_Reset now c) = 0"
  "packetsSent (Metrics_Reset now c) = 0"
  "packetsRecv (Metrics_Reset now c) = 0"
  by (simp_all add: Metrics_Reset_def)

text \<open>What one event adds to each counter, wrap-around included.\<close>

lemma metric_step_counts:
  "(in64 (connectionsTotal c) \<longrightarrow> connectionsTotal (metric_step c e) = wrap64 (connectionsTotal c + of_bool (e = EConnectionsTotal))) \<and>
   (in64 (connectionsFailed c) \<longrightarrow> connectionsFailed (metric_step c e) = wrap64 (connectionsFailed c + of_bool (e = EConnectionsFailed))) \<and>
   (in64 (disconnectsTotal c) \<longrightarrow> disconnectsTotal (metric_step c e) = wrap64 (disconnectsTotal c + of_bool (e = EDisconnectsTotal))) \<and>
   (in64 (handshakesTotal c) \<longrightarrow> handshakesTotal (metric_step c e) = wrap64 (handshakesTotal c + of_bool (e = EHandshakesTotal))) \<and>
   (in64 (handshakesFailed c) \<longrightarrow> handshakesFailed (metric_step c e) = wrap64 (handshakesFailed c + of_bool (e = EHandshakesFailed))) \<and>
   (in64 (punchAttemptsUDP c) \<longrightarrow> punchAttemptsUDP (metric_step c e) = wrap64 (punchAttemptsUDP c + of_bool (e = EPunchAttemptUDP))) \<and>
   (in64 (punchSuccessUDP c) \<longrightarrow> punchSuccessUDP (metric_step c e) = wrap64 (punchSuccessUDP c + of_bool (e = EPunchSuccessUDP))) \<and>
   (in64 (punchAttemptsTCP c) \<longrightarrow> punchAttemptsTCP (metric_step c e) = wrap64 (punchAttemptsTCP c + of_bool (e = EPunchAttemptTCP))) \<and>
   (in64 (punchSuccessTCP c) \<longrightarrow> punchSuccessTCP (metric_step c e) = wrap64 (punchSuccessTCP c + of_bool (e = EPunchSuccessTCP))) \<and>
   (in64 (relayPackets c) \<longrightarrow> relayPackets (metric_step c e) = wrap64 (relayPackets c + of_bool (e = ERelayPackets))) \<and>
   (in64 (relayConnects c) \<longrightarrow> relayConnects (metric_step c e) = wrap64 (relayConnects c + of_bool (e = ERelayConnects))) \<and>
   (in64 (relayAuthFailed c) \<longrightarrow> relayAuthFailed (metric_step c e) = wrap64 (relayAuthFailed c + of_bool (e = ERelayAuthFailed))) \<and>
   (in64 (errorsTotal c) \<longrightarrow> errorsTotal (metric_step c e) = wrap64 (errorsTotal c + of_bool (e = EErrorsTotal))) \<and>
   (in64 (reconnectAttempts c) \<longrightarrow> reconnectAttempts (metric_step c e) = wrap64 (reconnectAttempts c + of_bool (e = EReconnectAttempts))) \<and>
   (in64 (reconnectSuccess c) \<longrightarrow> reconnectSuccess (metric_step c e) = wrap64 (reconnectSuccess c + of_bool (e = EReconnectSuccess))) \<and>
   (in64 (reconnectFailed c) \<longrightarrow> reconnectFailed (metric_step c e) = wrap64 (reconnectFailed c + of_bool (e = EReconnectFailed))) \<and>
   (in64 (reconnectGaveUp c) \<longrightarrow> reconnectGaveUp (metric_step c e) = wrap64 (reconnectGaveUp c + of_bool (e = EReconnectGaveUp))) \<and>
   (in64 (fastRehandshakeAttempts c) \<longrightarrow> fastRehandshakeAttempts (metric_step c e) = wrap64 (fastRehandshakeAttempts c + of_bool (e = EFastRehandshakeAttempts))) \<and>
   (in64 (fastRehandshakeSuccess c) \<longrightarrow> fastRehandshakeSuccess (metric_step c e) = wrap64 (fastRehandshakeSuccess c + of_bool (e = EFastRehandshakeSuccess))) \<and>
   (in64 (fastRehandshakeFailed c) \<longrightarrow> fastRehandshakeFailed (metric_step c e) = wrap64 (fastRehandshakeFailed c + of_bool (e = EFastRehandshakeFailed)))"
  by (cases e) (simp_all add: metric_defs wrap64_id)

lemma metric_step_amounts:
  "(in64 (bytesSent c) \<longrightarrow> bytesSent (metric_step c e) = wrap64 (bytesSent c + sent_of e)) \<and>
   (in64 (packetsSent c) \<longrightarrow> packetsSent (metric_step c e) = wrap64 (packetsSent c + of_bool (is_sent e))) \<and>
   (in64 (bytesReceived c) \<longrightarrow> bytesReceived (metric_step c e) = wrap64 (bytesReceived c + received_of e)) \<and>
   (in64 (packetsRecv c) \<longrightarrow> packetsRecv (metric_step c e) = wrap64 (packetsRecv c + of_bool (is_received e)))"
  by (cases e) (simp_all add: metric_defs wrap64_id)

lemma run_counter:
  assumes "\<And>c e. in64 (get c) \<Longrightarrow> get (metric_step c e) = wrap64 (get c + weight e)"
  shows "in64 (get c) \<Longrightarrow> get (metric_run c es) = wrap64 (get c + sum_list (map weight es))"
proof (induction es arbitrary: c)
  case (Cons e es)
  have "get (metric_run c (e # es)) = get (metric_run (metric_step c e) es)"
    by (simp add: metric_run_def)
  also have "\<dots> = wrap64 (get (metric_step c e) + sum_list (map weight es))"
    using Cons.IH [of "metric_step c e"] Cons.prems by (simp add: assms)
  finally show ?case using Cons.prems by (simp add: assms add.assoc)
qed (simp add: metric_run_def wrap64_id)

lemma counter_from_reset:
  assumes "\<And>c e. in64 (get c) \<Longrightarrow> get (metric_step c e) = wrap64 (get c + weight e)"
    and "get (Metrics_Reset now c) = 0"
  shows "get (metric_run (Metrics_Reset now c) es) = wrap64 (sum_list (map weight es))"
  using run_counter [of get weight, OF assms(1), of "Metrics_Reset now c" es] assms(2)
  by (simp add: in64_def)

lemma sum_list_of_bool: "sum_list (map (\<lambda>x. of_bool (P x)) xs) = int (length (filter P xs))"
  by (induction xs) auto

lemma count_from_reset:
  assumes "\<And>c e. in64 (get c) \<Longrightarrow> get (metric_step c e) = wrap64 (get c + of_bool (P e))"
    and "get (Metrics_Reset now c) = 0"
  shows "get (metric_run (Metrics_Reset now c) es) = wrap64 (int (length (filter P es)))"
  using counter_from_reset [of get "\<lambda>e. of_bool (P e)", OF assms] by (simp add: sum_list_of_bool)

subsection \<open>Properties\<close>


end
