(* ===== verification/Reconnect.thy ===== *)
theory Reconnect
  imports Node_Config Metrics
begin

text \<open>
  The reconnect manager: \<open>node/reconnect.go\<close>. Entries are shared by pointer between the table and
  the goroutine that runs \<open>reconnectLoop\<close>, so they live in a heap; each entry has one loop, whose
  position is a program counter (\<open>loop_at\<close>). A loop is advanced by the events that wake it: the
  start of an iteration, a timer, a cancelled context or closed manager, the result of a dial.
  What the loop reads from outside (is the peer connected, the result of \<open>ConnectContext\<close>, the
  clock, the random number) is carried by the event. Callbacks, metrics and dials are recorded in
  the order they happen. \<open>math.Pow\<close>, rounding and the value a machine gives for an unrepresentable
  conversion are parameters.
\<close>

subsection \<open>Data\<close>

datatype ReconnectState =
  ReconnectStateIdle | ReconnectStateWaiting | ReconnectStateConnecting | ReconnectStateSuccess
| ReconnectStateFailed

fun ReconnectState_String :: "ReconnectState \<Rightarrow> string" where
  "ReconnectState_String ReconnectStateIdle = ''Idle''"
| "ReconnectState_String ReconnectStateWaiting = ''Waiting''"
| "ReconnectState_String ReconnectStateConnecting = ''Connecting''"
| "ReconnectState_String ReconnectStateSuccess = ''Success''"
| "ReconnectState_String ReconnectStateFailed = ''Failed''"

type_synonym goerror = string

record reconnectEntry =
  re_peerID :: string
  re_addr :: string
  re_state :: ReconnectState
  re_attempt :: int
  re_maxRetries :: int
  re_nextRetry :: gotime
  re_lastError :: "goerror option"
  re_disconnectAt :: gotime
  re_cancelled :: bool

record ReconnectInfo =
  inf_PeerID :: string
  inf_Addr :: string
  inf_State :: ReconnectState
  inf_Attempt :: int
  inf_MaxRetries :: int
  inf_NextRetry :: gotime
  inf_LastError :: "goerror option"
  inf_DisconnectAt :: gotime

type_synonym eref = nat

datatype loop_at = AtTop | Sleeping | Dialing | Confirming | Ended

datatype reconnect_effect =
  CallReconnecting string int duration
| CallReconnected string int
| CallGaveUp string int "goerror option"
| Dial eref string duration
| Metric metric_event

record ReconnectManager =
  rcfg :: ReconnectConfig
  re_heap :: "eref \<Rightarrow> reconnectEntry"
  re_fresh :: eref
  re_loop :: "eref \<Rightarrow> loop_at"
  entries :: "(string, eref) gomap"
  onReconnecting :: bool
  onReconnected :: bool
  onGaveUp :: bool
  re_closing :: bool
  re_out :: "reconnect_effect list"

definition empty_entry :: reconnectEntry where
  "empty_entry = \<lparr>re_peerID = [], re_addr = [], re_state = ReconnectStateIdle, re_attempt = 0,
     re_maxRetries = 0, re_nextRetry = 0, re_lastError = None, re_disconnectAt = 0, re_cancelled = False\<rparr>"

definition NewReconnectManager :: "ReconnectConfig option \<Rightarrow> ReconnectManager" where
  "NewReconnectManager config =
     (let config = (case config of None \<Rightarrow> DefaultReconnectConfig | Some c \<Rightarrow> c)
      in \<lparr>rcfg = config, re_heap = (\<lambda>_. empty_entry), re_fresh = 0, re_loop = (\<lambda>_. Ended), entries = [],
          onReconnecting = False, onReconnected = False, onGaveUp = False, re_closing = False, re_out = []\<rparr>)"

definition SetOnReconnecting :: "bool \<Rightarrow> ReconnectManager \<Rightarrow> ReconnectManager" where
  "SetOnReconnecting handler rm = rm\<lparr>onReconnecting := handler\<rparr>"

definition SetOnReconnected :: "bool \<Rightarrow> ReconnectManager \<Rightarrow> ReconnectManager" where
  "SetOnReconnected handler rm = rm\<lparr>onReconnected := handler\<rparr>"

definition SetOnGaveUp :: "bool \<Rightarrow> ReconnectManager \<Rightarrow> ReconnectManager" where
  "SetOnGaveUp handler rm = rm\<lparr>onGaveUp := handler\<rparr>"

subsection \<open>Scheduling and cancelling\<close>

definition ScheduleReconnect :: "gotime \<Rightarrow> string \<Rightarrow> string \<Rightarrow> ReconnectManager \<Rightarrow> ReconnectManager" where
  "ScheduleReconnect now peerID addr rm =
     (if \<not> rc_Enabled (rcfg rm) \<or> addr = [] then rm
      else if (case gm_get (entries rm) peerID of
                 None \<Rightarrow> False
               | Some r \<Rightarrow> re_state (re_heap rm r) = ReconnectStateConnecting \<or>
                           re_state (re_heap rm r) = ReconnectStateWaiting) then rm
      else let r = re_fresh rm;
               entry = \<lparr>re_peerID = peerID, re_addr = addr, re_state = ReconnectStateWaiting,
                 re_attempt = 0, re_maxRetries = MaxRetries (rcfg rm), re_nextRetry = 0,
                 re_lastError = None, re_disconnectAt = now, re_cancelled = False\<rparr>
        in rm\<lparr>re_heap := (re_heap rm)(r := entry), re_fresh := Suc r,
              entries := gm_put peerID r (entries rm), re_loop := (re_loop rm)(r := AtTop)\<rparr>)"

definition cancel_entry :: "eref \<Rightarrow> ReconnectManager \<Rightarrow> ReconnectManager" where
  "cancel_entry r rm = rm\<lparr>re_heap := (re_heap rm)(r := (re_heap rm r)\<lparr>re_cancelled := True\<rparr>)\<rparr>"

definition CancelReconnect :: "string \<Rightarrow> ReconnectManager \<Rightarrow> ReconnectManager" where
  "CancelReconnect peerID rm =
     (case gm_get (entries rm) peerID of
        None \<Rightarrow> rm
      | Some r \<Rightarrow> (cancel_entry r rm)\<lparr>entries := gm_del peerID (entries rm)\<rparr>)"

definition CancelAll :: "ReconnectManager \<Rightarrow> ReconnectManager" where
  "CancelAll rm = (fold cancel_entry (map snd (entries rm)) rm)\<lparr>entries := []\<rparr>"

definition Reconnect_Close :: "ReconnectManager \<Rightarrow> ReconnectManager" where
  "Reconnect_Close rm = CancelAll (rm\<lparr>re_closing := True\<rparr>)"

definition info_of :: "reconnectEntry \<Rightarrow> ReconnectInfo" where
  "info_of e = \<lparr>inf_PeerID = re_peerID e, inf_Addr = re_addr e, inf_State = re_state e,
     inf_Attempt = re_attempt e, inf_MaxRetries = re_maxRetries e, inf_NextRetry = re_nextRetry e,
     inf_LastError = re_lastError e, inf_DisconnectAt = re_disconnectAt e\<rparr>"

definition GetReconnectInfo :: "string \<Rightarrow> ReconnectManager \<Rightarrow> ReconnectInfo option" where
  "GetReconnectInfo peerID rm =
     map_option (\<lambda>r. info_of (re_heap rm r)) (gm_get (entries rm) peerID)"

definition GetAllReconnectInfo :: "ReconnectManager \<Rightarrow> ReconnectInfo list" where
  "GetAllReconnectInfo rm = map (\<lambda>e. info_of (re_heap rm (snd e))) (entries rm)"

subsection \<open>The backoff\<close>

record float_env =
  fe_rnd :: "rat \<Rightarrow> gofloat"
  fe_pow :: "gofloat \<Rightarrow> gofloat \<Rightarrow> gofloat"
  fe_undef :: int

definition backoff_limits :: "ReconnectConfig \<Rightarrow> duration \<times> duration" where
  "backoff_limits cfg =
     (let minDelay = InitialDelay cfg; maxDelay = MaxDelay cfg;
          maxDelay = (if maxDelay \<le> 0 then minDelay else maxDelay);
          minDelay = (if minDelay \<le> 0 then millisecond else minDelay);
          maxDelay = (if maxDelay < minDelay then minDelay else maxDelay)
      in (minDelay, maxDelay))"

definition raw_delay :: "float_env \<Rightarrow> ReconnectConfig \<Rightarrow> int \<Rightarrow> gofloat" where
  "raw_delay fe cfg attempt0 =
     (let attempt = (if attempt0 < 1 then 1 else attempt0); (minDelay, maxDelay) = backoff_limits cfg
      in fl_mul (fe_rnd fe) (fl_of_int (fe_rnd fe) minDelay)
           (fe_pow fe (BackoffMultiplier cfg) (fl_of_int (fe_rnd fe) (attempt - 1))))"

definition add_jitter :: "float_env \<Rightarrow> gofloat \<Rightarrow> ReconnectConfig \<Rightarrow> gofloat \<Rightarrow> gofloat" where
  "add_jitter fe rand cfg delay =
     (if fl_lt (Fin 0) (JitterFactor cfg)
      then fl_add (fe_rnd fe) delay (fl_mul (fe_rnd fe) (fl_mul (fe_rnd fe) delay (JitterFactor cfg))
             (fl_sub (fe_rnd fe) (fl_mul (fe_rnd fe) (Fin 2) rand) (Fin 1)))
      else delay)"

definition clamp_delay :: "gofloat \<Rightarrow> gofloat \<Rightarrow> gofloat \<Rightarrow> gofloat" where
  "clamp_delay lo hi delay =
     (let delay = (if fl_lt delay lo then lo else delay) in if fl_lt hi delay then hi else delay)"

definition calculateBackoff :: "float_env \<Rightarrow> gofloat \<Rightarrow> ReconnectConfig \<Rightarrow> int \<Rightarrow> duration" where
  "calculateBackoff fe rand cfg attempt =
     (let (minDelay, maxDelay) = backoff_limits cfg;
          delay = add_jitter fe rand cfg (raw_delay fe cfg attempt);
          delay = clamp_delay (fl_of_int (fe_rnd fe) minDelay) (fl_of_int (fe_rnd fe) maxDelay) delay
      in case fl_to_int64 delay of Some d \<Rightarrow> d | None \<Rightarrow> fe_undef fe)"

subsection \<open>The reconnect loop\<close>

definition upd_entry :: "eref \<Rightarrow> (reconnectEntry \<Rightarrow> reconnectEntry) \<Rightarrow> ReconnectManager \<Rightarrow> ReconnectManager" where
  "upd_entry r f rm = rm\<lparr>re_heap := (re_heap rm)(r := f (re_heap rm r))\<rparr>"

definition goto :: "eref \<Rightarrow> loop_at \<Rightarrow> ReconnectManager \<Rightarrow> ReconnectManager" where
  "goto r pc rm = rm\<lparr>re_loop := (re_loop rm)(r := pc)\<rparr>"

definition emit :: "reconnect_effect list \<Rightarrow> ReconnectManager \<Rightarrow> ReconnectManager" where
  "emit es rm = rm\<lparr>re_out := re_out rm @ es\<rparr>"

definition handleReconnectSuccess :: "eref \<Rightarrow> ReconnectManager \<Rightarrow> ReconnectManager" where
  "handleReconnectSuccess r rm =
     (let rm1 = upd_entry r (\<lambda>e. e\<lparr>re_state := ReconnectStateSuccess\<rparr>) rm;
          attempts = re_attempt (re_heap rm1 r); peerID = re_peerID (re_heap rm1 r);
          rm2 = rm1\<lparr>entries := gm_del peerID (entries rm1)\<rparr>
      in emit (Metric EReconnectSuccess #
               (if onReconnected rm2 then [CallReconnected peerID attempts] else [])) rm2)"

definition handleReconnectFailed :: "eref \<Rightarrow> ReconnectManager \<Rightarrow> ReconnectManager" where
  "handleReconnectFailed r rm =
     (let rm1 = upd_entry r (\<lambda>e. e\<lparr>re_state := ReconnectStateFailed\<rparr>) rm;
          attempts = re_attempt (re_heap rm1 r) - 1; peerID = re_peerID (re_heap rm1 r);
          lastErr = re_lastError (re_heap rm1 r);
          rm2 = rm1\<lparr>entries := gm_del peerID (entries rm1)\<rparr>
      in emit (if onGaveUp rm2 then [CallGaveUp peerID attempts lastErr] else []) rm2)"

datatype loop_event =
  LIterate bool gotime gofloat
| LStop
| LTimer bool
| LDialed "goerror option"

definition stopped :: "eref \<Rightarrow> ReconnectManager \<Rightarrow> bool" where
  "stopped r rm \<longleftrightarrow> re_cancelled (re_heap rm r) \<or> re_closing rm"

text \<open>The iteration from its top to the wait. The first \<open>select\<close> has a default case, so a loop
  that is not stopped goes on.\<close>

definition loop_iterate ::
    "float_env \<Rightarrow> eref \<Rightarrow> bool \<Rightarrow> gotime \<Rightarrow> gofloat \<Rightarrow> ReconnectManager \<Rightarrow> ReconnectManager" where
  "loop_iterate fe r online now rand rm =
     (if online then goto r Ended (handleReconnectSuccess r rm)
      else let rm1 = upd_entry r (\<lambda>e. e\<lparr>re_attempt := wrap64 (re_attempt e + 1)\<rparr>) rm;
               attempt = re_attempt (re_heap rm1 r); peerID = re_peerID (re_heap rm1 r)
        in if 0 < MaxRetries (rcfg rm1) \<and> MaxRetries (rcfg rm1) < attempt
           then goto r Ended (handleReconnectFailed r rm1)
           else let delay = calculateBackoff fe rand (rcfg rm1) attempt;
                    rm2 = upd_entry r (\<lambda>e. e\<lparr>re_state := ReconnectStateWaiting,
                            re_nextRetry := time_Add now delay\<rparr>) rm1
             in goto r Sleeping (emit (if onReconnecting rm2
                   then [CallReconnecting peerID attempt delay] else []) rm2))"

fun loop_step :: "float_env \<Rightarrow> eref \<Rightarrow> loop_event \<Rightarrow> ReconnectManager \<Rightarrow> ReconnectManager option" where
  "loop_step fe r (LIterate online now rand) rm =
     (if re_loop rm r = AtTop \<and> \<not> stopped r rm then Some (loop_iterate fe r online now rand rm) else None)"
| "loop_step fe r LStop rm =
     (if re_loop rm r \<in> {AtTop, Sleeping, Confirming} \<and> stopped r rm then Some (goto r Ended rm) else None)"
| "loop_step fe r (LTimer online) rm =
     (case re_loop rm r of
        Sleeping \<Rightarrow>
          if online then Some (goto r Ended (handleReconnectSuccess r rm))
          else let rm1 = upd_entry r (\<lambda>e. e\<lparr>re_state := ReconnectStateConnecting\<rparr>) rm
            in Some (goto r Dialing (emit [Dial r (re_addr (re_heap rm1 r)) (ReconnectTimeout (rcfg rm1))] rm1))
      | Confirming \<Rightarrow>
          if online then Some (goto r Ended (handleReconnectSuccess r rm)) else Some (goto r AtTop rm)
      | _ \<Rightarrow> None)"
| "loop_step fe r (LDialed err) rm =
     (if re_loop rm r = Dialing
      then Some (case err of
          Some e \<Rightarrow> goto r AtTop (emit [Metric EReconnectAttempts, Metric EReconnectFailed]
                      (upd_entry r (\<lambda>x. x\<lparr>re_lastError := Some e\<rparr>) rm))
        | None \<Rightarrow> goto r Confirming (emit [Metric EReconnectAttempts] rm))
      else None)"

datatype reconnect_event =
  Schedule gotime string string | Cancel string | CancelEvery | Loop eref loop_event

fun rm_step :: "float_env \<Rightarrow> ReconnectManager \<Rightarrow> reconnect_event \<Rightarrow> ReconnectManager option" where
  "rm_step fe rm (Schedule now pid addr) = Some (ScheduleReconnect now pid addr rm)"
| "rm_step fe rm (Cancel pid) = Some (CancelReconnect pid rm)"
| "rm_step fe rm CancelEvery = Some (CancelAll rm)"
| "rm_step fe rm (Loop r e) = loop_step fe r e rm"

fun rm_run :: "float_env \<Rightarrow> ReconnectManager \<Rightarrow> reconnect_event list \<Rightarrow> ReconnectManager option" where
  "rm_run fe rm [] = Some rm"
| "rm_run fe rm (e # es) = (case rm_step fe rm e of None \<Rightarrow> None | Some rm' \<Rightarrow> rm_run fe rm' es)"

subsection \<open>Facts about the backoff\<close>

lemma backoff_limits_valid:
  "0 < InitialDelay cfg \<Longrightarrow> InitialDelay cfg \<le> MaxDelay cfg \<Longrightarrow>
     backoff_limits cfg = (InitialDelay cfg, MaxDelay cfg)"
  by (simp add: backoff_limits_def Let_def)

lemma rat_trunc_between:
  "of_int lo \<le> x \<Longrightarrow> x \<le> of_int hi \<Longrightarrow> 0 \<le> lo \<Longrightarrow> lo \<le> rat_trunc x \<and> rat_trunc x \<le> hi"
  by (auto simp: rat_trunc_def le_floor_iff floor_le_iff intro: less_le_trans)

text \<open>Clamping a value that is a number between two exact bounds and converting it.\<close>

lemma clamp_convert:
  assumes "x \<noteq> NaN" "0 < lo" "lo \<le> hi" "hi \<le> 9007199254740992"
  shows "\<exists>d. fl_to_int64 (clamp_delay (Fin (of_int lo)) (Fin (of_int hi)) x) = Some d \<and> lo \<le> d \<and> d \<le> hi"
proof (cases x)
  case (Fin q)
  let ?y = "if q < of_int lo then of_int lo else q"
  let ?z = "if of_int hi < ?y then of_int hi else ?y"
  have z: "of_int lo \<le> ?z" "?z \<le> of_int hi" using assms(3) by (auto simp: not_less)
  then have "lo \<le> rat_trunc ?z \<and> rat_trunc ?z \<le> hi" using assms(2) by (intro rat_trunc_between) auto
  moreover have "clamp_delay (Fin (of_int lo)) (Fin (of_int hi)) x = Fin ?z"
    using Fin by (simp add: Let_def clamp_delay_def)
  ultimately show ?thesis using assms(2,4) by (simp add: in64_def)
qed (use assms in \<open>auto simp: Let_def in64_def clamp_delay_def\<close>)

lemma not_lt_NaN [simp]: "\<not> fl_lt x NaN"
  by (cases x) auto

lemma fl_mul_Fin: "fl_mul rnd (Fin a) p = Fin y \<Longrightarrow> \<exists>q. rnd q = Fin y"
  by (cases p) (auto simp: Let_def split: if_splits)

lemma centred_random:
  assumes "ieee_rounding rnd" "0 \<le> u" "u \<le> 1"
  shows "\<exists>w. fl_sub rnd (fl_mul rnd (Fin 2) (Fin u)) (Fin 1) = Fin w"
proof -
  have ex: "rnd 0 = Fin 0" "rnd 2 = Fin 2" "rnd 1 = Fin 1" "rnd (-1) = Fin (-1)"
    using rounding_exact [OF assms(1), of 0] rounding_exact [OF assms(1), of 2]
      rounding_exact [OF assms(1), of 1] rounding_exact [OF assms(1), of "-1"] by simp_all
  obtain v where v: "rnd (2 * u) = Fin v" "0 \<le> v" "v \<le> 2"
    using rounding_between [OF assms(1) _ _ ex(1,2), of "2 * u"] assms(2,3) by auto
  obtain w where "rnd (v + - 1) = Fin w"
    using rounding_between [OF assms(1) _ _ ex(4,3), of "v + - 1"] v by auto
  with v show ?thesis by (simp add: fl_sub_def)
qed

lemma jitter_not_NaN:
  assumes "ieee_rounding rnd" "rnd x = Fin y" "0 \<le> y" "0 \<le> j" "j \<le> 1" "0 \<le> u" "u \<le> 1"
  shows "fl_add rnd (Fin y) (fl_mul rnd (fl_mul rnd (Fin y) (Fin j)) (fl_sub rnd (fl_mul rnd (Fin 2) (Fin u)) (Fin 1))) \<noteq> NaN"
proof -
  have z0: "rnd 0 = Fin 0" using rounding_exact [OF assms(1), of 0] by simp
  have "0 \<le> y * j" "y * j \<le> y" using mult_left_le [OF assms(5,3)] assms(3,4) by simp_all
  then obtain z where z: "rnd (y * j) = Fin z"
    using rounding_between [OF assms(1) _ _ z0 rounding_idem [OF assms(1,2)]] by blast
  obtain w where w: "fl_sub rnd (fl_mul rnd (Fin 2) (Fin u)) (Fin 1) = Fin w"
    using centred_random [OF assms(1,6,7)] by blast
  have "fl_mul rnd (fl_mul rnd (Fin y) (Fin j)) (Fin w) = rnd (z * w)" using z by simp
  moreover have "fl_add rnd (Fin y) (rnd (z * w)) \<noteq> NaN"
    using rounding_not_NaN [OF assms(1)] by (cases "rnd (z * w)") auto
  ultimately show ?thesis using w by simp
qed

subsection \<open>Facts about the loops\<close>

lemmas rm_ops = ScheduleReconnect_def CancelReconnect_def CancelAll_def cancel_entry_def
  upd_entry_def goto_def emit_def handleReconnectSuccess_def handleReconnectFailed_def
  loop_iterate_def stopped_def Let_def

definition is_live :: "ReconnectManager \<Rightarrow> eref \<Rightarrow> bool" where
  "is_live rm r \<longleftrightarrow> re_loop rm r \<noteq> Ended"

text \<open>The table and the running loops correspond one to one, as long as nobody cancels.\<close>

definition table_inv :: "ReconnectManager \<Rightarrow> bool" where
  "table_inv rm \<longleftrightarrow> \<not> re_closing rm \<and> (\<forall>r. \<not> re_cancelled (re_heap rm r)) \<and>
     (\<forall>r. is_live rm r \<longrightarrow> r < re_fresh rm \<and> gm_get (entries rm) (re_peerID (re_heap rm r)) = Some r) \<and>
     (\<forall>p r. gm_get (entries rm) p = Some r \<longrightarrow>
        is_live rm r \<and> re_peerID (re_heap rm r) = p \<and>
        re_state (re_heap rm r) \<in> {ReconnectStateWaiting, ReconnectStateConnecting})"

lemma table_inv_New: "table_inv (NewReconnectManager cfg)"
  by (simp add: table_inv_def is_live_def NewReconnectManager_def Let_def empty_entry_def)

lemma table_invI:
  assumes "\<not> re_closing rm" "\<And>r. \<not> re_cancelled (re_heap rm r)"
    and "\<And>r. is_live rm r \<Longrightarrow> r < re_fresh rm \<and> gm_get (entries rm) (re_peerID (re_heap rm r)) = Some r"
    and "\<And>p r. gm_get (entries rm) p = Some r \<Longrightarrow> is_live rm r \<and> re_peerID (re_heap rm r) = p \<and>
        re_state (re_heap rm r) \<in> {ReconnectStateWaiting, ReconnectStateConnecting}"
  shows "table_inv rm"
  using assms unfolding table_inv_def by blast

lemma table_invD:
  assumes "table_inv rm"
  shows "\<not> re_closing rm" "\<not> re_cancelled (re_heap rm r)"
    "is_live rm r \<Longrightarrow> r < re_fresh rm" "is_live rm r \<Longrightarrow> gm_get (entries rm) (re_peerID (re_heap rm r)) = Some r"
    "gm_get (entries rm) p = Some r \<Longrightarrow> is_live rm r" "gm_get (entries rm) p = Some r \<Longrightarrow> re_peerID (re_heap rm r) = p"
    "gm_get (entries rm) p = Some r \<Longrightarrow> re_state (re_heap rm r) \<in> {ReconnectStateWaiting, ReconnectStateConnecting}"
  using assms unfolding table_inv_def by blast+

lemma ScheduleReconnect_cases:
  obtains (same) "ScheduleReconnect now p a rm = rm"
  | (new) e where "re_peerID e = p" "re_state e = ReconnectStateWaiting" "\<not> re_cancelled e" "re_attempt e = 0"
      "ScheduleReconnect now p a rm = rm\<lparr>re_heap := (re_heap rm)(re_fresh rm := e), re_fresh := Suc (re_fresh rm),
         entries := gm_put p (re_fresh rm) (entries rm), re_loop := (re_loop rm)(re_fresh rm := AtTop)\<rparr>"
      "\<And>r. gm_get (entries rm) p = Some r \<Longrightarrow> re_state (re_heap rm r) \<notin> {ReconnectStateWaiting, ReconnectStateConnecting}"
proof (cases "ScheduleReconnect now p a rm = rm")
  case False
  then show ?thesis
    by (intro new [of "\<lparr>re_peerID = p, re_addr = a, re_state = ReconnectStateWaiting,
                 re_attempt = 0, re_maxRetries = MaxRetries (rcfg rm), re_nextRetry = 0,
                 re_lastError = None, re_disconnectAt = now, re_cancelled = False\<rparr>"])
      (auto simp: ScheduleReconnect_def Let_def split: if_splits option.splits)
qed (rule same)

lemma table_inv_schedule:
  assumes "table_inv rm"
  shows "table_inv (ScheduleReconnect now p a rm)"
proof (cases rule: ScheduleReconnect_cases [of now p a rm])
  case (new e)
  note i = table_invD [OF assms]
  have none: "gm_get (entries rm) p = None"
    using new(6) i(7) by (cases "gm_get (entries rm) p") auto
  let ?rm = "rm\<lparr>re_heap := (re_heap rm)(re_fresh rm := e), re_fresh := Suc (re_fresh rm),
         entries := gm_put p (re_fresh rm) (entries rm), re_loop := (re_loop rm)(re_fresh rm := AtTop)\<rparr>"
  show ?thesis unfolding new(5)
  proof (rule table_invI)
    fix r
    assume "is_live ?rm r"
    then have "r = re_fresh rm \<or> (r \<noteq> re_fresh rm \<and> is_live rm r)" by (auto simp: is_live_def)
    with i(3,4) [of r] none new(1) show "r < re_fresh ?rm \<and>
        gm_get (entries ?rm)
         (re_peerID (re_heap ?rm r)) = Some r"
      by auto
  next
    fix q r
    assume "gm_get (entries ?rm) q = Some r"
    then have "(q = p \<and> r = re_fresh rm) \<or> (q \<noteq> p \<and> gm_get (entries rm) q = Some r)" by (auto split: if_splits)
    with i(3) [of r] i(5,6,7) [of q r] new(1,2) show "is_live ?rm r \<and>
        re_peerID (re_heap ?rm r) = q \<and>
        re_state (re_heap ?rm r)
         \<in> {ReconnectStateWaiting, ReconnectStateConnecting}"
      by (auto simp: is_live_def)
  qed (use i new(3) in auto)
qed (use assms in simp)

text \<open>A step of a loop changes at most its own entry and position, keeps its peer, and leaves the
  table alone or removes its own entry.\<close>

lemma loop_step_cases:
  assumes "loop_step fe r e rm = Some rm'"
  shows "is_live rm r \<and> re_closing rm' = re_closing rm \<and> re_fresh rm' = re_fresh rm \<and> rcfg rm' = rcfg rm \<and>
    (\<forall>q. q \<noteq> r \<longrightarrow> re_heap rm' q = re_heap rm q \<and> re_loop rm' q = re_loop rm q) \<and>
    re_peerID (re_heap rm' r) = re_peerID (re_heap rm r) \<and>
    re_cancelled (re_heap rm' r) = re_cancelled (re_heap rm r) \<and>
    (if is_live rm' r
     then entries rm' = entries rm \<and> re_state (re_heap rm' r) \<in>
         {re_state (re_heap rm r), ReconnectStateWaiting, ReconnectStateConnecting}
     else entries rm' = gm_del (re_peerID (re_heap rm r)) (entries rm) \<or> (stopped r rm \<and> entries rm' = entries rm))"
proof (cases e)
  case (LIterate b t x)
  with assms show ?thesis
    by (auto simp: rm_ops is_live_def split: if_splits)
next
  case (LTimer b)
  with assms show ?thesis
    by (cases "re_loop rm r") (auto simp: rm_ops is_live_def split: if_splits)
next
  case (LDialed x)
  with assms show ?thesis
    by (cases x) (auto simp: rm_ops is_live_def split: if_splits)
next
  case LStop
  with assms show ?thesis by (auto simp: rm_ops is_live_def split: if_splits)
qed

lemma table_inv_loop:
  assumes "table_inv rm" "loop_step fe r e rm = Some rm'"
  shows "table_inv rm'"
proof -
  note c = loop_step_cases [OF assms(2)]
  have ns: "\<not> stopped r rm" using assms(1) by (simp add: table_inv_def stopped_def)
  have own: "gm_get (entries rm) (re_peerID (re_heap rm r)) = Some r" "r < re_fresh rm"
    using assms(1) c by (auto simp: table_inv_def)
  have peer: "re_peerID (re_heap rm' q) = re_peerID (re_heap rm q)" for q using c by (cases "q = r") auto
  have canc: "re_cancelled (re_heap rm' q) = re_cancelled (re_heap rm q)" for q using c by (cases "q = r") auto
  note i = table_invD [OF assms(1)]
  have heap: "q \<noteq> r \<Longrightarrow> re_heap rm' q = re_heap rm q" for q using c by simp
  have live: "q \<noteq> r \<Longrightarrow> is_live rm' q = is_live rm q" for q using c by (simp add: is_live_def)
  have basic: "\<not> re_closing rm'" "\<not> re_cancelled (re_heap rm' q)" "re_fresh rm' = re_fresh rm" for q
    using c canc i(1,2) by auto
  show ?thesis
  proof (cases "is_live rm' r")
    case True
    then have ent: "entries rm' = entries rm" using c by simp
    have st: "re_state (re_heap rm' r) \<in> {ReconnectStateWaiting, ReconnectStateConnecting}"
      using c True i(7) [OF own(1)] by auto
    show ?thesis
    proof (rule table_invI)
      fix q assume "is_live rm' q"
      then have "is_live rm q" using live c by (cases "q = r") auto
      then show "q < re_fresh rm' \<and> gm_get (entries rm') (re_peerID (re_heap rm' q)) = Some q"
        using i(3,4) peer ent basic by simp
    next
      fix p q assume "gm_get (entries rm') p = Some q"
      then show "is_live rm' q \<and> re_peerID (re_heap rm' q) = p \<and>
        re_state (re_heap rm' q) \<in> {ReconnectStateWaiting, ReconnectStateConnecting}"
        using i(5-7) [of p q] peer ent st live heap True by (cases "q = r") auto
    qed (use basic in auto)
  next
    case False
    then have ent: "entries rm' = gm_del (re_peerID (re_heap rm r)) (entries rm)" using c ns by auto
    show ?thesis
    proof (rule table_invI)
      fix q assume l: "is_live rm' q"
      then have "q \<noteq> r" "is_live rm q" using live False by (cases "q = r"; auto)+
      moreover then have "re_peerID (re_heap rm q) \<noteq> re_peerID (re_heap rm r)" using i(4) own(1) by (metis option.inject)
      ultimately show "q < re_fresh rm' \<and> gm_get (entries rm') (re_peerID (re_heap rm' q)) = Some q"
        using i(3,4) peer ent basic by simp
    next
      fix p q assume "gm_get (entries rm') p = Some q"
      then have "p \<noteq> re_peerID (re_heap rm r)" "gm_get (entries rm) p = Some q"
        using ent by (auto split: if_splits)
      moreover then have "q \<noteq> r" using i(6) by blast
      ultimately show "is_live rm' q \<and> re_peerID (re_heap rm' q) = p \<and>
        re_state (re_heap rm' q) \<in> {ReconnectStateWaiting, ReconnectStateConnecting}"
        using i(5-7) [of p q] live heap by auto
    qed (use basic in auto)
  qed
qed

definition no_cancel :: "reconnect_event \<Rightarrow> bool" where
  "no_cancel e \<longleftrightarrow> (case e of Cancel p \<Rightarrow> False | CancelEvery \<Rightarrow> False | _ \<Rightarrow> True)"

lemma table_inv_run:
  "rm_run fe rm es = Some rm' \<Longrightarrow> list_all no_cancel es \<Longrightarrow> table_inv rm \<Longrightarrow> table_inv rm'"
proof (induction es arbitrary: rm)
  case (Cons e es)
  then obtain rm1 where s: "rm_step fe rm e = Some rm1" "rm_run fe rm1 es = Some rm'"
    by (auto split: option.splits)
  have "table_inv rm1" using s(1) Cons.prems(2,3)
    by (cases e) (auto simp: table_inv_schedule table_inv_loop no_cancel_def)
  with Cons.IH [OF s(2)] Cons.prems(2) show ?case by simp
qed simp

subsection \<open>The number of attempts\<close>

fun is_dial :: "eref \<Rightarrow> reconnect_effect \<Rightarrow> bool" where
  "is_dial r (Dial q a t) = (q = r)"
| "is_dial r _ = False"

definition dials :: "eref \<Rightarrow> reconnect_effect list \<Rightarrow> int" where
  "dials r out = int (length (filter (is_dial r) out))"

lemma dials_simps [simp]: "dials r [] = 0" "dials r (x # xs) = (if is_dial r x then 1 + dials r xs else dials r xs)"
  "dials r (xs @ ys) = dials r xs + dials r ys" "0 \<le> dials r xs"
  by (simp_all add: dials_def)

text \<open>What a loop has used of its budget at each position.\<close>

definition budget_ok :: "int \<Rightarrow> ReconnectManager \<Rightarrow> eref \<Rightarrow> bool" where
  "budget_ok n rm r \<longleftrightarrow> dials r (re_out rm) \<le> n \<and>
     (re_loop rm r \<noteq> Ended \<longrightarrow> r < re_fresh rm \<and> re_attempt (re_heap rm r) \<le> n \<and>
        dials r (re_out rm) + (if re_loop rm r = Sleeping then 1 else 0) \<le> re_attempt (re_heap rm r)) \<and>
     (re_fresh rm \<le> r \<longrightarrow> dials r (re_out rm) = 0)"

lemma budget_ok_cong:
  "dials r (re_out rm') = dials r (re_out rm) \<Longrightarrow> re_loop rm' r = re_loop rm r \<Longrightarrow> re_fresh rm' = re_fresh rm \<Longrightarrow>
     re_attempt (re_heap rm' r) = re_attempt (re_heap rm r) \<Longrightarrow> budget_ok n rm' r = budget_ok n rm r"
  by (simp add: budget_ok_def)

lemma loop_step_dials_other:
  assumes "loop_step fe r e rm = Some rm'" "q \<noteq> r"
  shows "dials q (re_out rm') = dials q (re_out rm)"
proof (cases e)
  case (LTimer b)
  with assms show ?thesis by (cases "re_loop rm r") (auto simp: rm_ops split: if_splits)
next
  case (LDialed x)
  with assms show ?thesis by (cases x) (auto simp: rm_ops split: if_splits)
next
  case (LIterate b t x)
  with assms show ?thesis by (auto simp: rm_ops split: if_splits)
next
  case LStop
  with assms show ?thesis by (auto simp: rm_ops split: if_splits)
qed

lemma budget_loop_other:
  assumes "loop_step fe r e rm = Some rm'" "budget_ok n rm q" "q \<noteq> r"
  shows "budget_ok n rm' q"
  using budget_ok_cong [of q rm' rm n] loop_step_dials_other [OF assms(1,3)] loop_step_cases [OF assms(1)]
    assms(2,3) by simp

lemma budget_loop_own:
  assumes "loop_step fe r e rm = Some rm'" "budget_ok n rm r" "MaxRetries (rcfg rm) = n" "0 < n" "n < 9223372036854775807"
  shows "budget_ok n rm' r"
proof (cases e)
  case (LIterate b t x)
  have "re_loop rm r = AtTop" using assms(1) LIterate by (simp split: if_splits)
  then have at: "0 \<le> re_attempt (re_heap rm r)" "re_attempt (re_heap rm r) \<le> n"
    using assms(2) dials_simps(4) [of r "re_out rm"] order_trans [of 0 "dials r (re_out rm)" "re_attempt (re_heap rm r)"]
    by (simp_all add: budget_ok_def)
  then have "wrap64 (re_attempt (re_heap rm r) + 1) = re_attempt (re_heap rm r) + 1"
    using assms(5) by (intro wrap64_id) (simp add: in64_def)
  with assms LIterate at \<open>re_loop rm r = AtTop\<close> show ?thesis
    by (auto simp: rm_ops budget_ok_def split: if_splits)
next
  case (LTimer b)
  with assms show ?thesis
    by (cases "re_loop rm r") (auto simp: rm_ops budget_ok_def split: if_splits)
next
  case (LDialed x)
  with assms show ?thesis by (cases x) (auto simp: rm_ops budget_ok_def split: if_splits)
next
  case LStop
  with assms(1,2) show ?thesis by (auto simp: rm_ops budget_ok_def split: if_splits)
qed

definition budget_inv :: "int \<Rightarrow> ReconnectManager \<Rightarrow> bool" where
  "budget_inv n rm \<longleftrightarrow> MaxRetries (rcfg rm) = n \<and> (\<forall>r. budget_ok n rm r)"

lemma budget_schedule: "0 < n \<Longrightarrow> budget_inv n rm \<Longrightarrow> budget_inv n (ScheduleReconnect now p a rm)"
  by (cases rule: ScheduleReconnect_cases [of now p a rm]) (auto simp: budget_inv_def budget_ok_def)

lemma cancel_fields [simp]:
  "rcfg (cancel_entry r rm) = rcfg rm" "re_out (cancel_entry r rm) = re_out rm"
  "re_loop (cancel_entry r rm) = re_loop rm" "re_fresh (cancel_entry r rm) = re_fresh rm"
  "re_attempt (re_heap (cancel_entry r rm) q) = re_attempt (re_heap rm q)"
  by (auto simp: cancel_entry_def)

lemma cancel_all_fields [simp]:
  "rcfg (fold cancel_entry rs rm) = rcfg rm" "re_out (fold cancel_entry rs rm) = re_out rm"
  "re_loop (fold cancel_entry rs rm) = re_loop rm" "re_fresh (fold cancel_entry rs rm) = re_fresh rm"
  "re_attempt (re_heap (fold cancel_entry rs rm) q) = re_attempt (re_heap rm q)"
  by (induction rs arbitrary: rm) auto

lemma budget_cancel: "budget_inv n rm \<Longrightarrow> budget_inv n (CancelReconnect p rm)"
  using budget_ok_cong [of _ "CancelReconnect p rm" rm n]
  by (simp add: budget_inv_def CancelReconnect_def split: option.splits)

lemma budget_cancel_all: "budget_inv n rm \<Longrightarrow> budget_inv n (CancelAll rm)"
  using budget_ok_cong [of _ "CancelAll rm" rm n] by (simp add: budget_inv_def CancelAll_def)

lemma budget_step:
  assumes "rm_step fe rm e = Some rm'" "budget_inv n rm" "0 < n" "n < 9223372036854775807"
  shows "budget_inv n rm'"
proof (cases e)
  case (Loop r le)
  then have s: "loop_step fe r le rm = Some rm'" using assms(1) by simp
  have "budget_ok n rm' q" for q
    using budget_loop_other [OF s] budget_loop_own [OF s] assms(2-4) by (cases "q = r") (auto simp: budget_inv_def)
  moreover have "rcfg rm' = rcfg rm" using loop_step_cases [OF s] by simp
  ultimately show ?thesis using assms(2) by (simp add: budget_inv_def)
qed (use assms budget_schedule budget_cancel budget_cancel_all in auto)

lemma budget_run:
  "rm_run fe rm es = Some rm' \<Longrightarrow> budget_inv n rm \<Longrightarrow> 0 < n \<Longrightarrow> n < 9223372036854775807 \<Longrightarrow> budget_inv n rm'"
proof (induction es arbitrary: rm)
  case (Cons e es)
  then obtain rm1 where "rm_step fe rm e = Some rm1" "rm_run fe rm1 es = Some rm'"
    by (auto split: option.splits)
  with Cons.IH Cons.prems(2-4) budget_step show ?case by blast
qed simp

subsection \<open>Giving up\<close>

text \<open>One failed round of a loop: an iteration, the end of the wait, a dial that fails.\<close>

definition failed_round :: "eref \<Rightarrow> gotime \<times> gofloat \<times> goerror \<Rightarrow> reconnect_event list" where
  "failed_round r x = (case x of (now, rand, err) \<Rightarrow>
     [Loop r (LIterate False now rand), Loop r (LTimer False), Loop r (LDialed (Some err))])"

definition at_round :: "ReconnectManager \<Rightarrow> eref \<Rightarrow> string \<Rightarrow> int \<Rightarrow> int \<Rightarrow> bool" where
  "at_round rm r p n k \<longleftrightarrow> re_loop rm r = AtTop \<and> \<not> stopped r rm \<and> re_peerID (re_heap rm r) = p \<and>
     re_attempt (re_heap rm r) = k \<and> MaxRetries (rcfg rm) = n \<and> gm_get (entries rm) p = Some r"

lemma rm_run_append:
  "rm_run fe rm (es @ fs) = (case rm_run fe rm es of None \<Rightarrow> None | Some rm1 \<Rightarrow> rm_run fe rm1 fs)"
  by (induction es arbitrary: rm) (auto split: option.splits)

lemma failed_round_step:
  assumes "at_round rm r p n k" "0 \<le> k" "k < n" "n < 9223372036854775807"
  shows "\<exists>rm'. rm_run fe rm (failed_round r (now, rand, err)) = Some rm' \<and> at_round rm' r p n (k + 1) \<and>
    re_lastError (re_heap rm' r) = Some err \<and> onGaveUp rm' = onGaveUp rm \<and>
    dials r (re_out rm') = dials r (re_out rm) + 1"
proof -
  have "wrap64 (k + 1) = k + 1" using assms(2-4) by (intro wrap64_id) (simp add: in64_def)
  with assms show ?thesis
    by (auto simp: failed_round_def at_round_def rm_ops)
qed

lemma failed_rounds:
  assumes "at_round rm r p n k" "0 \<le> k" "k + int (length xs) = n" "n < 9223372036854775807"
  shows "\<exists>rm'. rm_run fe rm (concat (map (failed_round r) xs)) = Some rm' \<and> at_round rm' r p n n \<and>
    re_lastError (re_heap rm' r) = (if xs = [] then re_lastError (re_heap rm r) else Some (snd (snd (last xs)))) \<and>
    onGaveUp rm' = onGaveUp rm \<and> dials r (re_out rm') = dials r (re_out rm) + int (length xs)"
  using assms
proof (induction xs arbitrary: rm k)
  case (Cons x xs)
  obtain now rand err where x: "x = (now, rand, err)" by (cases x) auto
  from failed_round_step [of rm r p n k fe now rand err] Cons.prems obtain rm1
    where r1: "rm_run fe rm (failed_round r x) = Some rm1" "at_round rm1 r p n (k + 1)"
      "re_lastError (re_heap rm1 r) = Some err" "onGaveUp rm1 = onGaveUp rm"
      "dials r (re_out rm1) = dials r (re_out rm) + 1" by (auto simp: x)
  from Cons.IH [of rm1 "k + 1"] r1(2) Cons.prems(2-4) obtain rm2
    where "rm_run fe rm1 (concat (map (failed_round r) xs)) = Some rm2" "at_round rm2 r p n n"
      "re_lastError (re_heap rm2 r) = (if xs = [] then re_lastError (re_heap rm1 r) else Some (snd (snd (last xs))))"
      "onGaveUp rm2 = onGaveUp rm1" "dials r (re_out rm2) = dials r (re_out rm1) + int (length xs)" by auto
  with r1 show ?case by (auto simp: rm_run_append x)
qed auto

subsection \<open>Properties\<close>

text \<open>C17: the delay before an attempt lies between the initial and the maximal delay, whatever the
  attempt and the random number, as long as the exponential does not overflow. (Limits of up to
  2 to the power 53 nanoseconds, about 104 days, are represented exactly.)\<close>

theorem backoff_within_limits:
  assumes "ieee_rounding (fe_rnd fe)" and "0 < InitialDelay cfg" "InitialDelay cfg \<le> MaxDelay cfg"
    and "MaxDelay cfg \<le> 9007199254740992" and "JitterFactor cfg = Fin j" "0 \<le> j" "j \<le> 1" "0 \<le> u" "u < 1"
    and "raw_delay fe cfg attempt = Fin y" "0 \<le> y"
  shows "InitialDelay cfg \<le> calculateBackoff fe (Fin u) cfg attempt \<and>
    calculateBackoff fe (Fin u) cfg attempt \<le> MaxDelay cfg"
proof -
  have ex: "fl_of_int (fe_rnd fe) (InitialDelay cfg) = Fin (of_int (InitialDelay cfg))"
    "fl_of_int (fe_rnd fe) (MaxDelay cfg) = Fin (of_int (MaxDelay cfg))"
    using assms(2-4) unfolding fl_of_int_def by (intro rounding_exact [OF assms(1)]; simp)+
  obtain q where q: "fe_rnd fe q = Fin y"
    using assms(10) fl_mul_Fin ex(1) unfolding raw_delay_def Let_def backoff_limits_valid [OF assms(2,3)]
    by (metis case_prod_conv)
  have "add_jitter fe (Fin u) cfg (Fin y) \<noteq> NaN"
    using jitter_not_NaN [OF assms(1) q assms(11,6,7,8)] assms(9) by (simp add: add_jitter_def assms(5))
  from clamp_convert [OF this assms(2,3,4)] obtain d where
    "fl_to_int64 (clamp_delay (Fin (of_int (InitialDelay cfg))) (Fin (of_int (MaxDelay cfg)))
       (add_jitter fe (Fin u) cfg (Fin y))) = Some d" "InitialDelay cfg \<le> d" "d \<le> MaxDelay cfg" by blast
  then show ?thesis
    by (simp add: calculateBackoff_def backoff_limits_valid [OF assms(2,3)] ex assms(10))
qed

text \<open>Once the exponential overflows to infinity, a random number below one half makes the sum
  of the delay and the jitter not-a-number, which both clamps let through: the delay is then
  whatever the machine makes of converting it.\<close>

theorem backoff_overflow_unclamped:
  assumes "ieee_rounding (fe_rnd fe)" "JitterFactor cfg = Fin j" "0 < j"
    and "raw_delay fe cfg attempt = PInf"
    and "fe_rnd fe (2 * u) = Fin v" "fe_rnd fe (v - 1) = Fin w" "w < 0"
  shows "calculateBackoff fe (Fin u) cfg attempt = fe_undef fe"
proof -
  have "add_jitter fe (Fin u) cfg PInf = NaN"
    using assms(2,3,5-7) by (simp add: add_jitter_def fl_sub_def Let_def)
  then show ?thesis
    by (simp add: calculateBackoff_def assms(4) clamp_delay_def Let_def not_lt_NaN split: prod.splits)
qed

text \<open>C14: a loop dials at most \<open>MaxRetries\<close> times, in every interleaving with the other loops and
  with scheduling and cancelling.\<close>

theorem reconnect_attempts_bounded:
  assumes "0 < MaxRetries cfg" "MaxRetries cfg < 9223372036854775807"
    and "rm_run fe (NewReconnectManager (Some cfg)) es = Some rm"
  shows "dials r (re_out rm) \<le> MaxRetries cfg"
proof -
  have "budget_inv (MaxRetries cfg) (NewReconnectManager (Some cfg))"
    using assms(1) by (simp add: budget_inv_def budget_ok_def NewReconnectManager_def)
  from budget_run [OF assms(3) this assms(1,2)] show ?thesis by (simp add: budget_inv_def budget_ok_def)
qed

text \<open>C15: without cancellations there is at most one running loop for a peer: two running loops
  belong to different peers, each is the one in the table, and scheduling a peer that has one
  changes nothing.\<close>

theorem reconnect_one_loop_per_peer:
  assumes "rm_run fe (NewReconnectManager cfg) es = Some rm" "list_all no_cancel es"
    and "is_live rm r" "is_live rm q" "re_peerID (re_heap rm r) = re_peerID (re_heap rm q)"
  shows "r = q \<and> gm_get (entries rm) (re_peerID (re_heap rm r)) = Some r \<and>
    ScheduleReconnect now (re_peerID (re_heap rm r)) a rm = rm"
proof -
  note i = table_invD [OF table_inv_run [OF assms(1,2) table_inv_New]]
  have e: "gm_get (entries rm) (re_peerID (re_heap rm r)) = Some r" by (rule i(4) [OF assms(3)])
  moreover have "r = q" using e i(4) [OF assms(4)] unfolding assms(5) by simp
  moreover have "ScheduleReconnect now (re_peerID (re_heap rm r)) a rm = rm"
    using i(7) e
    by (cases rule: ScheduleReconnect_cases [of now "re_peerID (re_heap rm r)" a rm]) auto
  ultimately show ?thesis by blast
qed

text \<open>Cancelling breaks this. A cancelled loop whose timer fires first and finds its peer
  connected removes the table entry by peer ID, even when it already belongs to a newer loop;
  the next schedule then starts a second loop for the same peer beside the newer one, neither
  of them cancelled.\<close>

theorem cancel_race_two_loops:
  "case rm_run fe (NewReconnectManager None)
      [Schedule 1 ''peer'' ''addr'', Loop 0 (LIterate False 1 (Fin 0)), Cancel ''peer'',
       Schedule 2 ''peer'' ''addr'', Loop 0 (LTimer True), Schedule 3 ''peer'' ''addr''] of
     None \<Rightarrow> False
   | Some rm \<Rightarrow> re_peerID (re_heap rm 1) = ''peer'' \<and> re_peerID (re_heap rm 2) = ''peer'' \<and>
       is_live rm 1 \<and> is_live rm 2 \<and> \<not> stopped 1 rm \<and> \<not> stopped 2 rm"
  by (simp add: NewReconnectManager_def DefaultReconnectConfig_def rm_ops is_live_def wrap64_def)


subsection \<open>Witnesses\<close>

definition demo_floats :: float_env where
  "demo_floats = \<lparr>fe_rnd = Fin, fe_pow = (\<lambda>x y. case y of Fin q \<Rightarrow> if q < 3 then Fin 4 else PInf | _ \<Rightarrow> PInf),
     fe_undef = -9223372036854775808\<rparr>"

lemma demo_raw_delay:
  "raw_delay demo_floats DefaultReconnectConfig 2 = Fin 4000000000"
  "raw_delay demo_floats DefaultReconnectConfig 9 = PInf"
  by (simp_all add: raw_delay_def demo_floats_def backoff_limits_def DefaultReconnectConfig_def Let_def fl_of_int_def)

theorem backoff_within_limits_witness:
  "second \<le> calculateBackoff demo_floats (Fin (1/4)) DefaultReconnectConfig 2 \<and>
   calculateBackoff demo_floats (Fin (1/4)) DefaultReconnectConfig 2 \<le> 5 * minute"
  using backoff_within_limits [of demo_floats DefaultReconnectConfig "3602879701896397 / 18014398509481984" "1/4" 2 4000000000]
    demo_raw_delay(1)
  by (simp add: DefaultReconnectConfig_def demo_floats_def ieee_Fin)

theorem backoff_overflow_unclamped_witness:
  "calculateBackoff demo_floats (Fin (1/4)) DefaultReconnectConfig 9 = -9223372036854775808"
  using backoff_overflow_unclamped [of demo_floats DefaultReconnectConfig "3602879701896397 / 18014398509481984" 9 "1/4" "1/2" "-1/2"]
    demo_raw_delay(2)
  by (simp add: DefaultReconnectConfig_def demo_floats_def ieee_Fin)

definition demo_config :: ReconnectConfig where
  "demo_config = DefaultReconnectConfig\<lparr>MaxRetries := 1\<rparr>"

definition demo_scheduled :: ReconnectManager where
  "demo_scheduled = ScheduleReconnect 5 ''peer'' ''addr'' (SetOnGaveUp True (NewReconnectManager (Some demo_config)))"

lemma demo_at_round: "at_round demo_scheduled 0 ''peer'' 1 0" "onGaveUp demo_scheduled" "re_out demo_scheduled = []"
  by (simp_all add: at_round_def demo_scheduled_def demo_config_def DefaultReconnectConfig_def
      NewReconnectManager_def SetOnGaveUp_def rm_ops)

theorem reconnect_attempts_bounded_witness:
  "\<exists>rm. rm_run demo_floats (NewReconnectManager (Some demo_config)) [Schedule 5 ''peer'' ''addr''] = Some rm \<and>
     dials 0 (re_out rm) \<le> 1"
  using reconnect_attempts_bounded [of demo_config demo_floats "[Schedule 5 ''peer'' ''addr'']" _ 0]
  by (simp add: demo_config_def)

theorem reconnect_one_loop_per_peer_witness:
  "\<exists>rm. rm_run demo_floats (NewReconnectManager (Some demo_config)) [Schedule 5 ''peer'' ''addr''] = Some rm \<and>
     ScheduleReconnect 6 ''peer'' ''addr'' rm = rm"
proof -
  obtain rm where rm: "rm_run demo_floats (NewReconnectManager (Some demo_config)) [Schedule 5 ''peer'' ''addr''] = Some rm"
    by simp
  then have "is_live rm 0" "re_peerID (re_heap rm 0) = ''peer''"
    by (auto simp: is_live_def NewReconnectManager_def demo_config_def DefaultReconnectConfig_def rm_ops)
  with reconnect_one_loop_per_peer [OF rm, of 0 0] rm show ?thesis by (auto simp: no_cancel_def)
qed


end
