(* ===== verification/Relay.thy ===== *)
theory Relay
  imports Go_Float Identity
begin

text \<open>
  Relays: \<open>nat/relay.go\<close> (candidate relays, their scores and the choice of the best one, the raw
  relay packet) and \<open>nat/relay_auth.go\<close> (authentication tokens). A \<open>RelayInfo\<close> is shared by
  pointer, so the manager's map holds references into a heap of them; metrics are only ever
  replaced. The clock, the outcome of a probe and the cryptographic functions are arguments.
\<close>

subsection \<open>The relay manager\<close>

record RelayInfo =
  ri_ID :: string
  ri_Addr :: netaddr
  ri_Latency :: duration
  ri_Bandwidth :: int
  ri_LastCheck :: gotime

record RelayMetrics =
  rm_Latency :: duration
  rm_PacketLoss :: gofloat
  rm_Bandwidth :: int
  rm_Reliability :: gofloat

definition Score :: "(rat \<Rightarrow> gofloat) \<Rightarrow> RelayMetrics \<Rightarrow> gofloat" where
  "Score rnd m =
     (let latencyScore = fl_div rnd (Fin 1000)
            (fl_add rnd (fl_of_int rnd (sdiv64 (rm_Latency m) 1000000)) (Fin 1));
          bandwidthScore = fl_div rnd (fl_of_int rnd (rm_Bandwidth m)) (Fin 1000000);
          reliabilityScore = fl_mul rnd (rm_Reliability m) (Fin 100);
          w04 = Fin (3602879701896397 / 9007199254740992);
          w03 = Fin (5404319552844595 / 18014398509481984)
      in fl_add rnd (fl_add rnd (fl_mul rnd latencyScore w04) (fl_mul rnd bandwidthScore w03))
           (fl_mul rnd reliabilityScore w03))"

type_synonym rref = nat

record RelayManager =
  rm_heap :: "rref \<Rightarrow> RelayInfo"
  rm_fresh :: rref
  relays :: "(string, rref) gomap"
  relayMetrics :: "(string, RelayMetrics) gomap"
  activeRelays :: "(string, bool) gomap"
  probeInterval :: duration

definition NewRelayManager :: RelayManager where
  "NewRelayManager = \<lparr>rm_heap = (\<lambda>_. \<lparr>ri_ID = [], ri_Addr = UDPAddr [], ri_Latency = 0,
       ri_Bandwidth = 0, ri_LastCheck = 0\<rparr>),
     rm_fresh = 0, relays = [], relayMetrics = [], activeRelays = [], probeInterval = 30 * second\<rparr>"

definition AddRelay :: "gotime \<Rightarrow> string \<Rightarrow> netaddr \<Rightarrow> RelayManager \<Rightarrow> RelayManager" where
  "AddRelay now rid addr rm =
     (let r = rm_fresh rm
      in rm\<lparr>rm_heap := (rm_heap rm)(r := \<lparr>ri_ID = rid, ri_Addr = addr, ri_Latency = 0,
              ri_Bandwidth = 0, ri_LastCheck = now\<rparr>),
            rm_fresh := Suc r, relays := gm_put rid r (relays rm)\<rparr>)"

definition RemoveRelay :: "string \<Rightarrow> RelayManager \<Rightarrow> RelayManager" where
  "RemoveRelay rid rm = rm\<lparr>relays := gm_del rid (relays rm),
     relayMetrics := gm_del rid (relayMetrics rm), activeRelays := gm_del rid (activeRelays rm)\<rparr>"

definition default_metrics :: RelayMetrics where
  "default_metrics = \<lparr>rm_Latency = 100 * millisecond, rm_PacketLoss = Fin 0,
     rm_Bandwidth = 1000000, rm_Reliability = Fin (1/2)\<rparr>"

definition relay_score :: "(rat \<Rightarrow> gofloat) \<Rightarrow> RelayManager \<Rightarrow> string \<Rightarrow> gofloat" where
  "relay_score rnd rm rid =
     Score rnd (case gm_get (relayMetrics rm) rid of None \<Rightarrow> default_metrics | Some m \<Rightarrow> m)"

datatype relay_error = ErrNoRelays | ErrCannotSelect

definition best_step ::
    "(string \<Rightarrow> gofloat) \<Rightarrow> string \<times> rref \<Rightarrow> rref option \<times> gofloat \<Rightarrow> rref option \<times> gofloat" where
  "best_step score e best =
     (if fl_lt (snd best) (score (fst e)) then (Some (snd e), score (fst e)) else best)"

definition SelectBestRelay :: "(rat \<Rightarrow> gofloat) \<Rightarrow> RelayManager \<Rightarrow> relay_error + rref" where
  "SelectBestRelay rnd rm =
     (if gm_len (relays rm) = 0 then Inl ErrNoRelays
      else case fst (fold (best_step (relay_score rnd rm)) (relays rm) (None, Fin (-1))) of
        None \<Rightarrow> Inl ErrCannotSelect | Some r \<Rightarrow> Inr r)"

text \<open>A probe sends the five bytes PROBE and waits for them to come back; \<open>answer\<close> is the time
  the answer took, or the error of the socket.\<close>

definition probePacket :: bytes where
  "probePacket = string_bytes ''PROBE''"

definition ProbeRelay ::
    "gotime \<Rightarrow> 'e + duration \<Rightarrow> rref \<Rightarrow> RelayManager \<Rightarrow> ('e + RelayMetrics) \<times> RelayManager" where
  "ProbeRelay now answer relay rm =
     (case answer of Inl e \<Rightarrow> (Inl e, rm)
      | Inr d \<Rightarrow>
          let latency = sdiv64 d 2;
              m = \<lparr>rm_Latency = latency, rm_PacketLoss = Fin 0, rm_Bandwidth = 1000000,
                   rm_Reliability = Fin 1\<rparr>;
              info = rm_heap rm relay
          in (Inr m, rm\<lparr>relayMetrics := gm_put (ri_ID info) m (relayMetrics rm),
                rm_heap := (rm_heap rm)(relay := info\<lparr>ri_Latency := latency, ri_LastCheck := now\<rparr>)\<rparr>))"

definition ProbeAllRelays :: "gotime \<Rightarrow> (rref \<Rightarrow> 'e + duration) \<Rightarrow> RelayManager \<Rightarrow> RelayManager" where
  "ProbeAllRelays now answers rm =
     fold (\<lambda>r rm. snd (ProbeRelay now (answers r) r rm)) (map snd (relays rm)) rm"

subsection \<open>The raw relay packet\<close>

record RelayPacket =
  rp_SrcID :: bytes
  rp_DstID :: bytes
  rp_Data :: bytes

definition EncodeRelayPacket :: "bytes \<Rightarrow> bytes \<Rightarrow> bytes \<Rightarrow> bytes" where
  "EncodeRelayPacket srcID dstID data =
     (let packet = replicate (1 + 32 + length data) 0;
          packet = packet[0 := 0x52];
          packet = take 1 packet @ copy_into (subslice 1 17 packet) 0 srcID @ drop 17 packet;
          packet = take 17 packet @ copy_into (subslice 17 33 packet) 0 dstID @ drop 33 packet
      in copy_into packet 33 data)"

datatype relay_packet_error = ErrInvalidRelayPacket

definition DecodeRelayPacket :: "bytes \<Rightarrow> relay_packet_error + RelayPacket" where
  "DecodeRelayPacket packet =
     (if length packet < 33 \<or> packet ! 0 \<noteq> 0x52 then Inl ErrInvalidRelayPacket
      else Inr \<lparr>rp_SrcID = fixed_array 16 (subslice 1 17 packet),
                rp_DstID = fixed_array 16 (subslice 17 33 packet),
                rp_Data = copy_into (replicate (length packet - 33) 0) 0 (drop 33 packet)\<rparr>)"

subsection \<open>Authentication tokens\<close>

record RelayAuthConfig =
  Enabled :: bool
  TokenTTL :: duration
  ra_NetworkPassword :: string

definition DefaultRelayAuthConfig :: RelayAuthConfig where
  "DefaultRelayAuthConfig = \<lparr>Enabled = True, TokenTTL = 5 * minute, ra_NetworkPassword = []\<rparr>"

record RelayAuthToken =
  SrcID :: bytes
  DstID :: bytes
  Timestamp :: int
  Signature :: bytes

record RelayAuthenticator =
  ra_config :: RelayAuthConfig
  sharedKey :: bytes

definition NewRelayAuthenticator :: "crypto_lib \<Rightarrow> RelayAuthConfig option \<Rightarrow> RelayAuthenticator" where
  "NewRelayAuthenticator cl config =
     (let config = (case config of None \<Rightarrow> DefaultRelayAuthConfig | Some c \<Rightarrow> c)
      in \<lparr>ra_config = config,
          sharedKey = (if ra_NetworkPassword config \<noteq> []
             then Sum256 cl (string_bytes (''tenet-relay-auth:'' @ ra_NetworkPassword config)) else [])\<rparr>)"

definition buildMessage :: "bytes \<Rightarrow> bytes \<Rightarrow> int \<Rightarrow> bytes" where
  "buildMessage srcID dstID timestamp =
     (let message = replicate (16 + 16 + 8) 0;
          message = copy_into (take 16 message) 0 srcID @ drop 16 message;
          message = take 16 message @ copy_into (subslice 16 32 message) 0 dstID @ drop 32 message
      in take 32 message @ put_be64 (word_of_int timestamp))"

definition GenerateToken :: "crypto_lib \<Rightarrow> gotime \<Rightarrow> bytes \<Rightarrow> bytes \<Rightarrow> bytes \<Rightarrow> RelayAuthToken" where
  "GenerateToken cl now srcID dstID privateKey =
     (let timestamp = time_Unix now; message = buildMessage srcID dstID timestamp
      in \<lparr>SrcID = srcID, DstID = dstID, Timestamp = timestamp, Signature = ed_Sign cl privateKey message\<rparr>)"

definition GenerateTokenWithHMAC ::
    "crypto_lib \<Rightarrow> gotime \<Rightarrow> RelayAuthenticator \<Rightarrow> bytes \<Rightarrow> bytes \<Rightarrow> RelayAuthToken option" where
  "GenerateTokenWithHMAC cl now a srcID dstID =
     (if length (sharedKey a) = 0 then None
      else let timestamp = time_Unix now; message = buildMessage srcID dstID timestamp
        in Some \<lparr>SrcID = srcID, DstID = dstID, Timestamp = timestamp,
                 Signature = HMAC cl (sharedKey a) message\<rparr>)"

text \<open>\<open>int64(d.Seconds())\<close>: whole seconds plus a rounded fraction, truncated. A duration has
  fewer than ten thousand million seconds, so the conversion is always defined.\<close>

definition seconds_int64 :: "(rat \<Rightarrow> gofloat) \<Rightarrow> duration \<Rightarrow> int" where
  "seconds_int64 rnd d =
     (let sec = sdiv64 d second; nsec = d - sec * second
      in case fl_to_int64 (fl_add rnd (fl_of_int rnd sec) (fl_div rnd (fl_of_int rnd nsec) (Fin 1000000000))) of
           None \<Rightarrow> 0 | Some k \<Rightarrow> k)"

datatype auth_error = ErrTokenExpired | ErrBadEd25519 | ErrBadHMAC | ErrNoMethod

definition VerifyToken ::
    "crypto_lib \<Rightarrow> (rat \<Rightarrow> gofloat) \<Rightarrow> gotime \<Rightarrow> RelayAuthenticator \<Rightarrow> RelayAuthToken \<Rightarrow> bytes option \<Rightarrow>
       auth_error option" where
  "VerifyToken cl rnd nowT a token publicKey =
     (if \<not> Enabled (ra_config a) then None
      else let now = time_Unix nowT;
               tokenAge = wrap64 (now - Timestamp token);
               tokenAge = (if tokenAge < 0 then wrap64 (- tokenAge) else tokenAge)
        in if seconds_int64 rnd (TokenTTL (ra_config a)) < tokenAge then Some ErrTokenExpired
           else let message = buildMessage (SrcID token) (DstID token) (Timestamp token)
             in if publicKey \<noteq> None \<and> length (Signature token) = 64
                then if ed_Verify cl (the publicKey) message (Signature token) then None
                     else Some ErrBadEd25519
                else if 0 < length (sharedKey a) \<and> length (Signature token) = 32
                then if Signature token = HMAC cl (sharedKey a) message then None else Some ErrBadHMAC
                else Some ErrNoMethod)"

definition Token_Encode :: "RelayAuthToken \<Rightarrow> bytes" where
  "Token_Encode t =
     (let sigLen = length (Signature t);
          data = replicate (16 + 16 + 8 + 1 + sigLen) 0;
          data = copy_into (take 16 data) 0 (SrcID t) @ drop 16 data;
          data = take 16 data @ copy_into (subslice 16 32 data) 0 (DstID t) @ drop 32 data;
          data = take 32 data @ put_be64 (word_of_int (Timestamp t)) @ drop 40 data;
          data = data[40 := of_nat sigLen]
      in copy_into data 41 (Signature t))"

datatype token_error = ErrTokenShort | ErrSignatureTruncated

definition DecodeToken :: "bytes \<Rightarrow> token_error + RelayAuthToken" where
  "DecodeToken data =
     (if length data < 41 then Inl ErrTokenShort
      else let sigLen = unat (data ! 40)
        in if length data < 41 + sigLen then Inl ErrSignatureTruncated
           else Inr \<lparr>SrcID = fixed_array 16 (subslice 0 16 data),
                     DstID = fixed_array 16 (subslice 16 32 data),
                     Timestamp = sint (get_be64 (subslice 32 40 data)),
                     Signature = copy_into (replicate sigLen 0) 0 (subslice 41 (41 + sigLen) data)\<rparr>)"

definition IsEnabled :: "RelayAuthenticator \<Rightarrow> bool" where
  "IsEnabled a = Enabled (ra_config a)"

subsection \<open>Facts about the codecs\<close>

lemma sint_word_of_int: "in64 k \<Longrightarrow> sint (word_of_int k :: 64 word) = k"
  by (simp add: in64_def sint_word_ariths signed_take_bit_int_eq_self signed_of_int)

lemma buildMessage_eq:
  "length s = 16 \<Longrightarrow> length d = 16 \<Longrightarrow> buildMessage s d ts = s @ d @ put_be64 (word_of_int ts)"
  by (simp add: buildMessage_def Let_def subslice_def copy_into_def)

lemma EncodeRelayPacket_eq:
  assumes "length s = 16" "length d = 16"
  shows "EncodeRelayPacket s d data = [0x52] @ s @ d @ data"
proof -
  have "1 + 32 + length data = 1 + (16 + (16 + length data))" by simp
  then have "replicate (1 + 32 + length data) (0::byte)
      = replicate 1 0 @ replicate 16 0 @ replicate 16 0 @ replicate (length data) 0"
    by (simp only: replicate_add)
  then show ?thesis unfolding EncodeRelayPacket_def Let_def
    using assms by (simp only:) (simp add: subslice_def copy_into_def)
qed

lemma Token_Encode_eq:
  assumes "length (SrcID t) = 16" "length (DstID t) = 16"
  shows "Token_Encode t = SrcID t @ DstID t @ put_be64 (word_of_int (Timestamp t)) @
    [of_nat (length (Signature t))] @ Signature t"
proof -
  have "16 + 16 + 8 + 1 + length (Signature t) = 16 + (16 + (8 + (1 + length (Signature t))))"
    by simp
  then have "replicate (16 + 16 + 8 + 1 + length (Signature t)) (0::byte)
      = replicate 16 0 @ replicate 16 0 @ replicate 8 0 @ replicate 1 0 @ replicate (length (Signature t)) 0"
    by (simp only: replicate_add)
  then show ?thesis unfolding Token_Encode_def Let_def
    using assms by (simp only:) (simp add: subslice_def copy_into_def list_update_append)
qed

definition token_ok :: "RelayAuthToken \<Rightarrow> bool" where
  "token_ok t \<longleftrightarrow> length (SrcID t) = 16 \<and> length (DstID t) = 16 \<and> in64 (Timestamp t) \<and>
     length (Signature t) \<le> 255"

lemma unat_of_nat_byte: "n \<le> 255 \<Longrightarrow> unat (of_nat n :: byte) = n"
  by (simp add: unat_of_nat take_bit_eq_mod)

lemma DecodeToken_Encode:
  assumes "token_ok t"
  shows "DecodeToken (Token_Encode t) = Inr t"
proof -
  from assms have ok: "length (SrcID t) = 16" "length (DstID t) = 16" "in64 (Timestamp t)"
    "length (Signature t) \<le> 255" by (simp_all add: token_ok_def)
  show ?thesis
    unfolding DecodeToken_def Token_Encode_eq [OF ok(1,2)]
    using ok get_put_be64 [of "word_of_int (Timestamp t)" "[]"]
    by (simp add: Let_def nth_append unat_of_nat_byte fixed_array_exact copy_into_0_exact
        subslice_def sint_word_of_int)
qed

interpretation token: codec Token_Encode DecodeToken token_ok
  by unfold_locales (rule DecodeToken_Encode)

interpretation rawrelay: codec "\<lambda>p. EncodeRelayPacket (rp_SrcID p) (rp_DstID p) (rp_Data p)"
  DecodeRelayPacket "\<lambda>p. length (rp_SrcID p) = 16 \<and> length (rp_DstID p) = 16"
  by unfold_locales
    (simp add: EncodeRelayPacket_eq DecodeRelayPacket_def subslice_def fixed_array_exact copy_into_0_exact)


subsection \<open>Facts about the choice of a relay\<close>

lemma fl_lt_trans: "fl_lt a b \<Longrightarrow> fl_lt b c \<Longrightarrow> fl_lt a c"
  by (cases a; cases b; cases c) auto

lemma fl_lt_weaken: "fl_lt a b \<Longrightarrow> \<not> fl_lt a c \<Longrightarrow> \<not> fl_lt b c"
  using fl_lt_trans by blast

lemma best_step_ge: "\<not> fl_lt (snd b) x \<Longrightarrow> \<not> fl_lt (snd (best_step score e b)) x"
  by (auto simp: best_step_def dest: fl_lt_weaken)

lemma best_fold_ge: "\<not> fl_lt (snd b) x \<Longrightarrow> \<not> fl_lt (snd (fold (best_step score) es b)) x"
proof (induction es arbitrary: b)
  case (Cons e es)
  from Cons.IH [OF best_step_ge [OF Cons.prems]] show ?case by simp
qed simp

lemma best_fold_max: "e \<in> set es \<Longrightarrow> \<not> fl_lt (snd (fold (best_step score) es b)) (score (fst e))"
proof (induction es arbitrary: b)
  case (Cons e' es)
  show ?case
  proof (cases "e = e'")
    case True
    have "\<not> fl_lt (snd (best_step score e b)) (score (fst e))"
      by (cases "score (fst e)") (auto simp: best_step_def)
    then show ?thesis using True by (simp add: best_fold_ge)
  qed (use Cons in auto)
qed simp

lemma best_fold_found:
  "fst (fold (best_step score) es b) = Some r \<Longrightarrow>
     fold (best_step score) es b = b \<or> (\<exists>e \<in> set es. r = snd e \<and> snd (fold (best_step score) es b) = score (fst e))"
proof (induction es arbitrary: b)
  case (Cons e es)
  then have "fold (best_step score) es (best_step score e b) = best_step score e b \<or>
      (\<exists>e' \<in> set es. r = snd e' \<and> snd (fold (best_step score) (e # es) b) = score (fst e'))"
    by simp
  then show ?case
  proof
    assume *: "fold (best_step score) es (best_step score e b) = best_step score e b"
    then have f: "fold (best_step score) (e # es) b = best_step score e b" by simp
    show ?thesis
    proof (cases "fl_lt (snd b) (score (fst e))")
      case True
      then have "best_step score e b = (Some (snd e), score (fst e))" by (simp add: best_step_def)
      with f Cons.prems show ?thesis by auto
    next
      case False
      then have "best_step score e b = b" by (simp add: best_step_def)
      with f show ?thesis by simp
    qed
  qed auto
qed simp

lemma SelectBestRelay_props:
  assumes "SelectBestRelay rnd rm = Inr r"
  shows "\<exists>i. (i, r) \<in> set (relays rm) \<and>
    (\<forall>(j, r') \<in> set (relays rm). \<not> fl_lt (relay_score rnd rm i) (relay_score rnd rm j))"
proof -
  let ?f = "fold (best_step (relay_score rnd rm)) (relays rm) (None, Fin (-1))"
  have r: "fst ?f = Some r"
    using assms by (simp add: SelectBestRelay_def split: if_splits option.splits)
  then have "?f \<noteq> (None, Fin (-1))" by auto
  with best_fold_found [OF r] obtain e where e: "e \<in> set (relays rm)" "r = snd e"
    "snd ?f = relay_score rnd rm (fst e)" by auto
  have "\<not> fl_lt (relay_score rnd rm (fst e)) (relay_score rnd rm j)" if "(j, r') \<in> set (relays rm)" for j r'
    using best_fold_max [OF that, of "relay_score rnd rm" "(None, Fin (-1))"] e(3) by simp
  with e show ?thesis by (intro exI [of _ "fst e"]) auto
qed

lemma best_fold_none:
  "fst (fold (best_step score) es b) = None \<Longrightarrow> fold (best_step score) es b = b"
proof (induction es arbitrary: b)
  case (Cons e es)
  then have *: "fold (best_step score) es (best_step score e b) = best_step score e b" by simp
  with Cons.prems have "fst (best_step score e b) = None" by simp
  then have "best_step score e b = b" by (auto simp: best_step_def split: if_splits)
  with * show ?case by simp
qed simp

lemma fl_nonneg_above: "x \<noteq> NaN \<Longrightarrow> \<not> fl_lt x (Fin 0) \<Longrightarrow> fl_lt (Fin (-1)) x"
  by (cases x) auto

text \<open>Sums, products and quotients of non-negative values, rounded, are non-negative.\<close>

definition fl_ge0 :: "gofloat \<Rightarrow> bool" where
  "fl_ge0 x \<longleftrightarrow> x \<noteq> NaN \<and> \<not> fl_lt x (Fin 0)"

lemma rnd_ge0: "ieee_rounding rnd \<Longrightarrow> 0 \<le> x \<Longrightarrow> fl_ge0 (rnd x)"
proof -
  assume r: "ieee_rounding rnd" and x: "0 \<le> x"
  have "rnd 0 = Fin 0" using rounding_exact [OF r, of 0] by simp
  moreover have "\<not> fl_lt (rnd x) (rnd 0)" using r x unfolding ieee_rounding_def by blast
  ultimately show ?thesis using rounding_not_NaN [OF r] by (simp add: fl_ge0_def)
qed

lemma fl_add_ge0: "ieee_rounding rnd \<Longrightarrow> fl_ge0 a \<Longrightarrow> fl_ge0 b \<Longrightarrow> fl_ge0 (fl_add rnd a b)"
  by (cases a; cases b) (auto simp: fl_ge0_def rnd_ge0 [unfolded fl_ge0_def])

lemma fl_mul_ge0: "ieee_rounding rnd \<Longrightarrow> fl_ge0 a \<Longrightarrow> 0 < y \<Longrightarrow> fl_ge0 (fl_mul rnd a (Fin y))"
  by (cases a) (auto simp: fl_ge0_def rnd_ge0 [unfolded fl_ge0_def])

lemma fl_div_ge0: "ieee_rounding rnd \<Longrightarrow> fl_ge0 a \<Longrightarrow> 0 < y \<Longrightarrow> fl_ge0 (fl_div rnd a (Fin y))"
  by (cases a) (auto simp: fl_ge0_def rnd_ge0 [unfolded fl_ge0_def])

definition sane_metrics :: "RelayMetrics \<Rightarrow> bool" where
  "sane_metrics m \<longleftrightarrow> 0 \<le> rm_Latency m \<and> rm_Latency m < 9223372036854775808 \<and> 0 \<le> rm_Bandwidth m \<and> fl_ge0 (rm_Reliability m)"

lemma Score_ge0:
  assumes r: "ieee_rounding rnd" and m: "sane_metrics m"
  shows "fl_ge0 (Score rnd m)"
proof -
  let ?ms = "sdiv64 (rm_Latency m) 1000000"
  have "?ms = rm_Latency m div 1000000" using m by (simp add: sane_metrics_def sdiv64_nonneg)
  moreover have "rm_Latency m div 1000000 \<le> 9223372036854"
    using m zdiv_mono1 [of "rm_Latency m" 9223372036854775807 1000000] by (simp add: sane_metrics_def)
  ultimately have ms: "0 \<le> ?ms" "?ms \<le> 9223372036854"
    using m by (simp_all add: sane_metrics_def pos_imp_zdiv_nonneg_iff)
  have i1: "fl_of_int rnd ?ms = Fin (of_int ?ms)"
    using rounding_exact [OF r, of ?ms] ms by (simp add: fl_of_int_def)
  have i2: "rnd (of_int (?ms + 1)) = Fin (of_int (?ms + 1))"
    using ms by (intro rounding_exact [OF r]) simp
  have "fl_add rnd (fl_of_int rnd ?ms) (Fin 1) = Fin (of_int (?ms + 1))"
    using i1 i2 by simp
  then have "fl_ge0 (fl_div rnd (Fin 1000) (fl_add rnd (fl_of_int rnd ?ms) (Fin 1)))"
    using ms(1) fl_div_ge0 [OF r, of "Fin 1000" "of_int (?ms + 1)"] by (simp add: fl_ge0_def)
  moreover have "fl_ge0 (fl_div rnd (fl_of_int rnd (rm_Bandwidth m)) (Fin 1000000))"
    using m by (intro fl_div_ge0 [OF r]) (simp_all add: fl_of_int_def rnd_ge0 [OF r] sane_metrics_def)
  moreover have "fl_ge0 (fl_mul rnd (rm_Reliability m) (Fin 100))"
    using m by (intro fl_mul_ge0 [OF r]) (simp_all add: sane_metrics_def)
  ultimately show ?thesis
    unfolding Score_def Let_def using m
    by (intro fl_add_ge0 [OF r] fl_mul_ge0 [OF r]) (simp_all add: sane_metrics_def)
qed

subsection \<open>Facts about tokens\<close>

lemma seconds_int64_whole:
  assumes "ieee_rounding rnd" "0 \<le> n" "n \<le> 9000000000"
  shows "seconds_int64 rnd (n * second) = n"
proof -
  have "sdiv64 (n * second) second = n"
    using assms(2,3) by (auto simp: sdiv64_def sgn_if wrap64_id in64_def)
  moreover have "rnd (of_int n) = Fin (of_int n)" "rnd 0 = Fin 0"
    using rounding_exact [OF assms(1), of n] rounding_exact [OF assms(1), of 0] assms(2,3) by simp_all
  ultimately show ?thesis
    using assms(2,3) by (simp add: seconds_int64_def Let_def fl_of_int_def in64_def)
qed

lemma token_age:
  assumes "in64 a" "in64 b"
  shows "(let x = wrap64 (a - b) in if x < 0 then wrap64 (- x) else x) =
    (if \<bar>a - b\<bar> < 9223372036854775808 then \<bar>a - b\<bar>
     else if \<bar>a - b\<bar> = 9223372036854775808 then - 9223372036854775808
     else 18446744073709551616 - \<bar>a - b\<bar>)"
proof -
  define d where "d = a - b"
  have d: "-18446744073709551616 < d" "d < 18446744073709551616"
    using assms by (auto simp: d_def in64_def)
  have "wrap64 d = (if d < -9223372036854775808 then d + 18446744073709551616
      else if d < 9223372036854775808 then d else d - 18446744073709551616)"
    using d wrap64_low [of d] wrap64_high [of d] wrap64_id [of d] by (simp add: in64_def)
  then show ?thesis using d unfolding d_def [symmetric] Let_def
    by (cases "d = - 9223372036854775808") (auto simp: wrap64_id in64_def abs_if wrap64_high)
qed


text \<open>What verification without a public key comes down to.\<close>

lemma VerifyToken_hmac:
  assumes "Enabled (ra_config a)" "in64 (time_Unix now)" "in64 (Timestamp t)"
    and "\<bar>time_Unix now - Timestamp t\<bar> < 9223372036854775808"
  shows "VerifyToken cl rnd now a t None = None \<longleftrightarrow>
    \<bar>time_Unix now - Timestamp t\<bar> \<le> seconds_int64 rnd (TokenTTL (ra_config a)) \<and>
    0 < length (sharedKey a) \<and> length (Signature t) = 32 \<and>
    Signature t = HMAC cl (sharedKey a) (buildMessage (SrcID t) (DstID t) (Timestamp t))"
  using token_age [OF assms(2,3)] assms(1,4)
  by (auto simp: VerifyToken_def Let_def not_less)

subsection \<open>Properties\<close>

text \<open>C24: the relay that is selected is registered and no registered relay has a better score,
  whatever the order in which the map is walked. Selection fails on an empty table, and on a
  non-empty one it succeeds as soon as one relay has no metrics yet or sensible ones.\<close>

theorem select_best_relay:
  assumes "ieee_rounding rnd"
  shows "(SelectBestRelay rnd rm = Inr r \<longrightarrow>
      (\<exists>i. (i, r) \<in> set (relays rm) \<and>
        (\<forall>(j, r') \<in> set (relays rm). \<not> fl_lt (relay_score rnd rm i) (relay_score rnd rm j)))) \<and>
    (relays rm = [] \<longrightarrow> SelectBestRelay rnd rm = Inl ErrNoRelays) \<and>
    ((i, q) \<in> set (relays rm) \<and> (\<forall>m \<in> set_option (gm_get (relayMetrics rm) i). sane_metrics m) \<longrightarrow>
      (\<exists>r. SelectBestRelay rnd rm = Inr r))"
proof (intro conjI impI)
  show "SelectBestRelay rnd rm = Inr r \<Longrightarrow> \<exists>i. (i, r) \<in> set (relays rm) \<and>
      (\<forall>(j, r') \<in> set (relays rm). \<not> fl_lt (relay_score rnd rm i) (relay_score rnd rm j))"
    by (rule SelectBestRelay_props)
  show "relays rm = [] \<Longrightarrow> SelectBestRelay rnd rm = Inl ErrNoRelays"
    by (simp add: SelectBestRelay_def gm_len_def)
  assume *: "(i, q) \<in> set (relays rm) \<and> (\<forall>m \<in> set_option (gm_get (relayMetrics rm) i). sane_metrics m)"
  let ?f = "fold (best_step (relay_score rnd rm)) (relays rm) (None, Fin (-1))"
  have "sane_metrics default_metrics" by (simp add: sane_metrics_def default_metrics_def fl_ge0_def)
  with * have "fl_ge0 (relay_score rnd rm i)"
    unfolding relay_score_def by (intro Score_ge0 [OF assms]) (auto split: option.splits)
  then have "fl_lt (Fin (-1)) (relay_score rnd rm i)"
    by (simp add: fl_ge0_def fl_nonneg_above)
  then have "fst ?f \<noteq> None"
    using best_fold_none [of "relay_score rnd rm" "relays rm" "(None, Fin (-1))"]
      best_fold_max [of "(i, q)" "relays rm" "relay_score rnd rm" "(None, Fin (-1))"] * by force
  with * show "\<exists>r. SelectBestRelay rnd rm = Inr r"
    by (auto simp: SelectBestRelay_def gm_len_def)
qed

text \<open>C25: the two relay codecs lose nothing: a raw relay packet with 16-byte IDs and a token
  with 16-byte IDs, a 64-bit timestamp and a signature of at most 255 bytes decode to what was
  encoded; anything shorter than the fixed part is an error, never a crash.\<close>

theorem relay_codecs_roundtrip:
  "(length (rp_SrcID p) = 16 \<and> length (rp_DstID p) = 16 \<longrightarrow>
      DecodeRelayPacket (EncodeRelayPacket (rp_SrcID p) (rp_DstID p) (rp_Data p)) = Inr p) \<and>
   (token_ok t \<longrightarrow> DecodeToken (Token_Encode t) = Inr t) \<and>
   (length b < 33 \<longrightarrow> DecodeRelayPacket b = Inl ErrInvalidRelayPacket) \<and>
   (length b < 41 \<longrightarrow> DecodeToken b = Inl ErrTokenShort)"
  by (intro conjI impI)
    (rule rawrelay.dec_enc, simp, rule token.dec_enc, simp, simp_all add: DecodeRelayPacket_def DecodeToken_def)

text \<open>C23: a relay token is accepted by every node with the same network password for exactly its
  lifetime. If the keyed hash has 32 bytes and the lifetime is a whole number of seconds, a
  token generated at one time and sent through the codec verifies at another time if and only
  if the two clocks are at most the lifetime apart.\<close>

theorem relay_token_lifetime:
  assumes "ieee_rounding rnd" and "\<And>k m. length (HMAC cl k m) = 32" and "\<And>b. length (Sum256 cl b) = 32"
    and "a = NewRelayAuthenticator cl (Some \<lparr>Enabled = True, TokenTTL = ttl * second, ra_NetworkPassword = pw\<rparr>)"
    and "pw \<noteq> []" "0 \<le> ttl" "ttl \<le> 9000000000"
    and "length src = 16" "length dst = 16"
    and "\<bar>time_Unix now\<bar> < 4611686018427387904" "\<bar>time_Unix now'\<bar> < 4611686018427387904"
  shows "\<exists>t. GenerateTokenWithHMAC cl now a src dst = Some t \<and> DecodeToken (Token_Encode t) = Inr t \<and>
    (VerifyToken cl rnd now' a t None = None \<longleftrightarrow> \<bar>time_Unix now' - time_Unix now\<bar> \<le> ttl)"
proof -
  define t where "t = \<lparr>SrcID = src, DstID = dst, Timestamp = time_Unix now,
    Signature = HMAC cl (sharedKey a) (buildMessage src dst (time_Unix now))\<rparr>"
  have key: "length (sharedKey a) = 32" "Enabled (ra_config a)" "TokenTTL (ra_config a) = ttl * second"
    using assms(3,5) by (simp_all add: assms(4) NewRelayAuthenticator_def)
  have "GenerateTokenWithHMAC cl now a src dst = Some t"
    using key(1) by (simp add: GenerateTokenWithHMAC_def t_def Let_def)
  moreover have "DecodeToken (Token_Encode t) = Inr t"
    using assms(2,8-10) by (intro token.dec_enc) (auto simp: token_ok_def t_def in64_def)
  moreover have "VerifyToken cl rnd now' a t None = None \<longleftrightarrow> \<bar>time_Unix now' - time_Unix now\<bar> \<le> ttl"
  proof -
    have r: "in64 (time_Unix now')" "in64 (Timestamp t)" "\<bar>time_Unix now' - Timestamp t\<bar> < 9223372036854775808"
      using assms(10,11) by (auto simp: t_def in64_def)
    show ?thesis
      unfolding VerifyToken_hmac [OF key(2) r, of cl rnd] key(3) seconds_int64_whole [OF assms(1,6,7)]
      using key(1) assms(2) by (simp add: t_def)
  qed
  ultimately show ?thesis by (intro exI conjI)
qed


subsection \<open>Witnesses\<close>

theorem select_best_relay_witness:
  "\<exists>r. SelectBestRelay Fin (AddRelay 5 ''r1'' (UDPAddr ''10.0.0.1:1'') NewRelayManager) = Inr r"
  using select_best_relay [OF ieee_Fin, of "AddRelay 5 ''r1'' (UDPAddr ''10.0.0.1:1'') NewRelayManager" 0 "''r1''" 0]
  by (simp add: AddRelay_def NewRelayManager_def Let_def gm_put_def)

theorem relay_codecs_roundtrip_witness:
  "DecodeToken (Token_Encode \<lparr>SrcID = replicate 16 1, DstID = replicate 16 0, Timestamp = -5, Signature = [1, 2]\<rparr>)
     = Inr \<lparr>SrcID = replicate 16 1, DstID = replicate 16 0, Timestamp = -5, Signature = [1, 2]\<rparr> \<and>
   DecodeRelayPacket [] = Inl ErrInvalidRelayPacket"
  using relay_codecs_roundtrip [of "\<lparr>rp_SrcID = [], rp_DstID = [], rp_Data = []\<rparr>"
      "\<lparr>SrcID = replicate 16 1, DstID = replicate 16 0, Timestamp = -5, Signature = [1, 2]\<rparr>" "[]"]
  by (simp add: token_ok_def in64_def)

lemma demo_crypto_sizes: "length (HMAC demo_crypto k m) = 32" "length (Sum256 demo_crypto b) = 32"
  by (simp_all add: demo_crypto_def)

theorem relay_token_lifetime_witness:
  "\<exists>t. GenerateTokenWithHMAC demo_crypto 62135596805000000000
      (NewRelayAuthenticator demo_crypto (Some \<lparr>Enabled = True, TokenTTL = 300 * second, ra_NetworkPassword = ''pw''\<rparr>))
      (replicate 16 1) (replicate 16 0) = Some t"
proof -
  have e: "time_Unix 62135596805000000000 = 5" by (simp add: time_Unix_def)
  show ?thesis
    using relay_token_lifetime [OF ieee_Fin demo_crypto_sizes refl, of "''pw''" 300 "replicate 16 1" "replicate 16 0"
        62135596805000000000 62135596805000000000]
    by (auto simp: e)
qed


end
