(* ===== verification/Protocol.thy ===== *)
theory Protocol
  imports Go_Prelude
begin

text \<open>
  The packet format of \<open>internal/protocol/protocol.go\<close>: the magic number, the packet types,
  the packet builders (each allocates a zeroed buffer and fills it in place, as the code
  does), the two-byte length prefix of the TCP framing and the little-endian timestamps of
  the heartbeat packets. An \<open>int64\<close> timestamp is a 64-bit word; its right shifts are
  arithmetic. A nil slice and an empty one are the same list.
\<close>

subsection \<open>Constants\<close>

definition MagicBytes :: bytes where
  "MagicBytes = string_bytes ''TENT''"

definition PacketTypeHandshake :: byte where "PacketTypeHandshake = 1"
definition PacketTypeData :: byte where "PacketTypeData = 2"
definition PacketTypeRelay :: byte where "PacketTypeRelay = 3"
definition PacketTypeDiscoveryReq :: byte where "PacketTypeDiscoveryReq = 4"
definition PacketTypeDiscoveryResp :: byte where "PacketTypeDiscoveryResp = 5"
definition PacketTypeHeartbeat :: byte where "PacketTypeHeartbeat = 6"
definition PacketTypeHeartbeatAck :: byte where "PacketTypeHeartbeatAck = 7"

definition RelayModeForward :: byte where "RelayModeForward = 1"
definition RelayModeTarget :: byte where "RelayModeTarget = 2"

lemmas packet_types = PacketTypeHandshake_def PacketTypeData_def PacketTypeRelay_def
  PacketTypeDiscoveryReq_def PacketTypeDiscoveryResp_def PacketTypeHeartbeat_def
  PacketTypeHeartbeatAck_def

subsection \<open>Timestamps\<close>

definition PutTimestamp :: "bytes \<Rightarrow> 64 word \<Rightarrow> bytes" where
  "PutTimestamp buf timestamp =
     (if length buf < 8 then buf
      else buf[0 := ucast timestamp,
               1 := ucast (signed_drop_bit 8 timestamp),
               2 := ucast (signed_drop_bit 16 timestamp),
               3 := ucast (signed_drop_bit 24 timestamp),
               4 := ucast (signed_drop_bit 32 timestamp),
               5 := ucast (signed_drop_bit 40 timestamp),
               6 := ucast (signed_drop_bit 48 timestamp),
               7 := ucast (signed_drop_bit 56 timestamp)])"

definition GetTimestamp :: "bytes \<Rightarrow> 64 word" where
  "GetTimestamp buf =
     (if length buf < 8 then 0
      else ucast (buf ! 0) OR push_bit 8 (ucast (buf ! 1)) OR push_bit 16 (ucast (buf ! 2))
        OR push_bit 24 (ucast (buf ! 3)) OR push_bit 32 (ucast (buf ! 4))
        OR push_bit 40 (ucast (buf ! 5)) OR push_bit 48 (ucast (buf ! 6))
        OR push_bit 56 (ucast (buf ! 7)))"

subsection \<open>Packet builders\<close>

definition BuildHandshakePacket :: "bytes \<Rightarrow> bytes" where
  "BuildHandshakePacket msg =
     (let packet = replicate (5 + length msg) 0;
          packet = copy_into packet 0 MagicBytes;
          packet = packet[4 := PacketTypeHandshake]
      in copy_into packet 5 msg)"

definition BuildDataPacket :: "bytes \<Rightarrow> bytes" where
  "BuildDataPacket payload =
     (let packet = replicate (5 + length payload) 0;
          packet = copy_into packet 0 MagicBytes;
          packet = packet[4 := PacketTypeData]
      in copy_into packet 5 payload)"

definition BuildHeartbeatPacket :: "64 word \<Rightarrow> bytes" where
  "BuildHeartbeatPacket timestamp =
     (let packet = replicate 13 0;
          packet = copy_into packet 0 MagicBytes;
          packet = packet[4 := PacketTypeHeartbeat]
      in take 5 packet @ PutTimestamp (drop 5 packet) timestamp)"

definition BuildHeartbeatAckPacket :: "64 word \<Rightarrow> bytes" where
  "BuildHeartbeatAckPacket timestamp =
     (let packet = replicate 13 0;
          packet = copy_into packet 0 MagicBytes;
          packet = packet[4 := PacketTypeHeartbeatAck]
      in take 5 packet @ PutTimestamp (drop 5 packet) timestamp)"

subsection \<open>TCP framing\<close>

definition EncodeTCPFrame :: "bytes \<Rightarrow> bytes" where
  "EncodeTCPFrame packet =
     (let len = (of_nat (length packet) :: 16 word);
          frame = replicate (2 + length packet) 0;
          frame = frame[0 := ucast (drop_bit 8 len), 1 := ucast len]
      in copy_into frame 2 packet)"

definition DecodeTCPFrameLength :: "bytes \<Rightarrow> 16 word" where
  "DecodeTCPFrameLength header =
     (if length header < 2 then 0
      else push_bit 8 (ucast (header ! 0)) OR ucast (header ! 1))"

subsection \<open>Packet inspection\<close>

definition ValidateMagic :: "bytes \<Rightarrow> bool" where
  "ValidateMagic data = (if length data < 4 then False else subslice 0 4 data = MagicBytes)"

definition GetPacketType :: "bytes \<Rightarrow> byte" where
  "GetPacketType data = (if length data < 5 then 0 else data ! 4)"

definition GetPayload :: "bytes \<Rightarrow> bytes" where
  "GetPayload data = (if length data \<le> 5 then [] else drop 5 data)"

subsection \<open>Closed forms\<close>

lemma length_MagicBytes [simp]: "length MagicBytes = 4"
  by (simp add: MagicBytes_def)

text \<open>The fill-in-place idiom of every builder: magic, one type byte, payload.\<close>

lemma fill_packet:
  "copy_into ((copy_into (replicate (5 + length msg) 0) 0 MagicBytes)[4 := t]) 5 msg
     = MagicBytes @ [t] @ msg"
proof -
  have "replicate (5 + length msg) (0::byte) = replicate 4 0 @ [0] @ replicate (length msg) 0"
    by (simp add: replicate_add [symmetric] numeral_eq_Suc flip: replicate_Suc)
  then have "(copy_into (replicate (5 + length msg) 0) 0 MagicBytes)[4 := t]
      = MagicBytes @ [t] @ replicate (length msg) 0"
    by (simp add: copy_into_def list_update_append)
  then show ?thesis by (simp add: copy_into_def)
qed

lemma BuildHandshakePacket_eq [wire_simps]:
  "BuildHandshakePacket msg = MagicBytes @ [PacketTypeHandshake] @ msg"
  unfolding BuildHandshakePacket_def Let_def by (rule fill_packet)

lemma BuildDataPacket_eq [wire_simps]:
  "BuildDataPacket payload = MagicBytes @ [PacketTypeData] @ payload"
  unfolding BuildDataPacket_def Let_def by (rule fill_packet)

lemma heartbeat_header:
  "take 5 ((copy_into (replicate 13 0) 0 MagicBytes)[4 := t]) = MagicBytes @ [t]"
  "drop 5 ((copy_into (replicate 13 0) 0 MagicBytes)[4 := t]) = replicate 8 0"
  by (simp_all add: copy_into_def list_update_append numeral_eq_Suc)

lemma BuildHeartbeatPacket_eq [wire_simps]:
  "BuildHeartbeatPacket ts = MagicBytes @ [PacketTypeHeartbeat] @ PutTimestamp (replicate 8 0) ts"
  unfolding BuildHeartbeatPacket_def Let_def heartbeat_header by simp

lemma BuildHeartbeatAckPacket_eq [wire_simps]:
  "BuildHeartbeatAckPacket ts
     = MagicBytes @ [PacketTypeHeartbeatAck] @ PutTimestamp (replicate 8 0) ts"
  unfolding BuildHeartbeatAckPacket_def Let_def heartbeat_header by simp

lemma EncodeTCPFrame_eq [wire_simps]:
  "EncodeTCPFrame packet = put_be16 (of_nat (length packet)) @ packet"
  unfolding EncodeTCPFrame_def Let_def put_be16_def
  by (simp add: copy_into_def numeral_eq_Suc)

lemma length_PutTimestamp [simp]: "length (PutTimestamp buf ts) = length buf"
  by (simp add: PutTimestamp_def)

lemma ValidateMagic_append [simp]: "ValidateMagic (MagicBytes @ r)"
  by (simp add: ValidateMagic_def)

lemma GetPacketType_append [simp]: "GetPacketType (MagicBytes @ t # r) = t"
  by (simp add: GetPacketType_def nth_append)

lemma GetPayload_append [simp]: "GetPayload (MagicBytes @ t # r) = r"
  by (simp add: GetPayload_def)

lemma DecodeTCPFrameLength_get_be16: "2 \<le> length h \<Longrightarrow> DecodeTCPFrameLength h = get_be16 h"
  by (simp add: DecodeTCPFrameLength_def get_be16_def)

lemma bit_low_byte_of_shift:
  "k \<le> 56 \<Longrightarrow> bit (push_bit k (ucast (ucast (signed_drop_bit k w) :: byte)) :: 64 word) n \<longleftrightarrow>
     k \<le> n \<and> n < k + 8 \<and> bit (w :: 64 word) n"
  by (auto simp: bit_simps dest: bit_imp_le_length)

lemma PutTimestamp_list:
  "8 \<le> length buf \<Longrightarrow> PutTimestamp buf ts =
     map (\<lambda>k. ucast (signed_drop_bit (8 * k) ts)) [0..<8] @ drop 8 buf"
  by (auto simp: PutTimestamp_def numeral_eq_Suc Suc_le_length_iff)

lemma GetTimestamp_PutTimestamp [simp]:
  assumes "8 \<le> length buf"
  shows "GetTimestamp (PutTimestamp buf ts) = ts"
  unfolding GetTimestamp_def PutTimestamp_list [OF assms]
  by (rule bit_word_eqI)
    (use assms in \<open>auto simp: nth_append bit_or_iff bit_low_byte_of_shift bit_low_byte\<close>)

lemma EncodeTCPFrame_length_prefix:
  "DecodeTCPFrameLength (EncodeTCPFrame packet @ r) = of_nat (length packet)"
  by (simp add: DecodeTCPFrameLength_get_be16 EncodeTCPFrame_eq)

subsection \<open>Properties\<close>

text \<open>A timestamp written into a buffer of at least eight bytes is read back unchanged, and
  the bytes behind it are untouched; a shorter buffer is left as it is and reads as 0.\<close>

theorem timestamp_roundtrip:
  "drop 8 (PutTimestamp buf ts) = drop 8 buf \<and>
   (if 8 \<le> length buf then GetTimestamp (PutTimestamp buf ts) = ts
    else PutTimestamp buf ts = buf \<and> GetTimestamp buf = 0)"
proof (cases "8 \<le> length buf")
  case True
  then have "drop 8 (PutTimestamp buf ts) = drop 8 buf"
    by (simp add: PutTimestamp_list)
  with True show ?thesis by simp
qed (simp add: PutTimestamp_def GetTimestamp_def)

text \<open>Every builder produces a packet the inspection functions take apart again: the magic
  number is accepted, the type is the builder's, and the payload is the one that was put in
  (for the two heartbeat packets, the timestamp).\<close>

theorem packet_build_parse:
  "ValidateMagic (BuildHandshakePacket m) \<and> GetPacketType (BuildHandshakePacket m) = PacketTypeHandshake
     \<and> GetPayload (BuildHandshakePacket m) = m
   \<and> ValidateMagic (BuildDataPacket m) \<and> GetPacketType (BuildDataPacket m) = PacketTypeData
     \<and> GetPayload (BuildDataPacket m) = m
   \<and> ValidateMagic (BuildHeartbeatPacket ts) \<and> GetPacketType (BuildHeartbeatPacket ts) = PacketTypeHeartbeat
     \<and> GetTimestamp (GetPayload (BuildHeartbeatPacket ts)) = ts
   \<and> ValidateMagic (BuildHeartbeatAckPacket ts)
     \<and> GetPacketType (BuildHeartbeatAckPacket ts) = PacketTypeHeartbeatAck
     \<and> GetTimestamp (GetPayload (BuildHeartbeatAckPacket ts)) = ts"
  by (simp add: wire_simps)

end
