(* ===== verification/Mux.thy ===== *)
theory Mux
  imports Protocol
begin

text \<open>
  The multiplexer of one UDP socket: \<open>transport/mux.go\<close>. A virtual connection is a bounded queue
  of packets that can be closed; it is shared by pointer between the multiplexer, its table of
  KCP handlers and whoever reads from it, so the connections live in a heap. Sending on a closed
  Go channel panics, also inside a \<open>select\<close> with a default case; a panic is \<open>None\<close>. The read loop
  first looks the target up and then sends, and other goroutines run in between, which the step
  relation at the end makes explicit.
\<close>

subsection \<open>Data\<close>

record Packet =
  pk_Data :: bytes
  pk_Addr :: netaddr

type_synonym vref = nat

record VirtualPacketConn =
  readChan :: "Packet list"
  bufferSize :: nat
  vdeadline :: gotime
  vclosed :: bool

record UDPMux =
  m_heap :: "vref \<Rightarrow> VirtualPacketConn"
  m_fresh :: vref
  kcpConn :: vref
  punchConn :: vref
  tentConn :: vref
  kcpHandlers :: "(string, vref) gomap"
  m_closed :: bool

definition newVirtualPacketConn :: "nat \<Rightarrow> VirtualPacketConn" where
  "newVirtualPacketConn bufSize = \<lparr>readChan = [], bufferSize = bufSize, vdeadline = 0, vclosed = False\<rparr>"

definition NewUDPMux :: UDPMux where
  "NewUDPMux = \<lparr>m_heap = (\<lambda>v. newVirtualPacketConn (if v = 1 then 16 else 128)), m_fresh = 3,
     kcpConn = 0, punchConn = 1, tentConn = 2, kcpHandlers = [], m_closed = False\<rparr>"

subsection \<open>Classification\<close>

definition isPunchPacket :: "bytes \<Rightarrow> bool" where
  "isPunchPacket data \<longleftrightarrow> \<not> length data < 4 \<and>
     data ! 0 = 0x50 \<and> data ! 1 = 0x4E \<and> data ! 2 = 0x43 \<and> data ! 3 = 0x48"

definition isTentPacket :: "bytes \<Rightarrow> bool" where
  "isTentPacket data \<longleftrightarrow> \<not> length data < 4 \<and> take 4 data = MagicBytes"

definition isProbePacket :: "bytes \<Rightarrow> bool" where
  "isProbePacket data \<longleftrightarrow> \<not> length data < 4 \<and>
     data ! 0 = byte_of_char CHR ''N'' \<and> data ! 1 = byte_of_char CHR ''A'' \<and>
     data ! 2 = byte_of_char CHR ''T'' \<and> data ! 3 = byte_of_char CHR ''P''"

definition isRawRelayPacket :: "bytes \<Rightarrow> bool" where
  "isRawRelayPacket data \<longleftrightarrow> 0 < length data \<and> data ! 0 = byte_of_char CHR ''R''"

subsection \<open>Routing\<close>

definition route_target :: "UDPMux \<Rightarrow> Packet \<Rightarrow> vref" where
  "route_target m packet =
     (if isPunchPacket (pk_Data packet) then punchConn m
      else if isProbePacket (pk_Data packet) \<or> isTentPacket (pk_Data packet) \<or>
              isRawRelayPacket (pk_Data packet) then tentConn m
      else case gm_get (kcpHandlers m) (addr_String (pk_Addr packet)) of
             Some v \<Rightarrow> v | None \<Rightarrow> kcpConn m)"

definition enqueuePacket :: "vref \<Rightarrow> Packet \<Rightarrow> UDPMux \<Rightarrow> UDPMux option" where
  "enqueuePacket v packet m =
     (let c = m_heap m v
      in if vclosed c then None
         else if length (readChan c) < bufferSize c
         then Some (m\<lparr>m_heap := (m_heap m)(v := c\<lparr>readChan := readChan c @ [packet]\<rparr>)\<rparr>)
         else Some m)"

definition routePacket :: "Packet \<Rightarrow> UDPMux \<Rightarrow> UDPMux option" where
  "routePacket packet m = enqueuePacket (route_target m packet) packet m"

definition RegisterKCPHandler :: "string \<Rightarrow> UDPMux \<Rightarrow> vref \<times> UDPMux" where
  "RegisterKCPHandler remoteAddr m =
     (let v = m_fresh m
      in (v, m\<lparr>m_heap := (m_heap m)(v := newVirtualPacketConn 128), m_fresh := Suc v,
               kcpHandlers := gm_put remoteAddr v (kcpHandlers m)\<rparr>))"

definition safeClose :: "vref \<Rightarrow> UDPMux \<Rightarrow> UDPMux" where
  "safeClose v m = m\<lparr>m_heap := (m_heap m)(v := (m_heap m v)\<lparr>vclosed := True\<rparr>)\<rparr>"

definition UnregisterKCPHandler :: "string \<Rightarrow> UDPMux \<Rightarrow> UDPMux" where
  "UnregisterKCPHandler remoteAddr m =
     (case gm_get (kcpHandlers m) remoteAddr of
        None \<Rightarrow> m
      | Some v \<Rightarrow> safeClose v (m\<lparr>kcpHandlers := gm_del remoteAddr (kcpHandlers m)\<rparr>))"

text \<open>\<open>Close\<close> first marks the multiplexer closed, waits for the read loop, and then closes every
  virtual connection.\<close>

definition close_conns :: "UDPMux \<Rightarrow> UDPMux" where
  "close_conns m = fold safeClose
     ([kcpConn m, punchConn m, tentConn m] @ map snd (kcpHandlers m)) m"

definition Mux_Close :: "UDPMux \<Rightarrow> UDPMux" where
  "Mux_Close m = (if m_closed m then m else close_conns (m\<lparr>m_closed := True\<rparr>))"

definition GetKCPConn :: "UDPMux \<Rightarrow> vref" where "GetKCPConn m = kcpConn m"
definition GetPunchConn :: "UDPMux \<Rightarrow> vref" where "GetPunchConn m = punchConn m"
definition GetTentConn :: "UDPMux \<Rightarrow> vref" where "GetTentConn m = tentConn m"

subsection \<open>Reading\<close>

datatype read_result = ReadOK bytes netaddr | ReadTimeout | ReadClosed

text \<open>\<open>select\<close> takes any ready case: these are the results \<open>ReadFrom\<close> can return at once with a
  buffer of \<open>n\<close> bytes; an empty list means that the call blocks.\<close>

definition ReadFrom_results ::
    "gotime \<Rightarrow> nat \<Rightarrow> vref \<Rightarrow> UDPMux \<Rightarrow> (read_result \<times> UDPMux) list" where
  "ReadFrom_results now n v m =
     (let c = m_heap m v
      in if \<not> time_IsZero (vdeadline c) \<and> vdeadline c < now then [(ReadTimeout, m)]
         else (case readChan c of
                 p # ps \<Rightarrow> [(ReadOK (take n (pk_Data p)) (pk_Addr p),
                            m\<lparr>m_heap := (m_heap m)(v := c\<lparr>readChan := ps\<rparr>)\<rparr>)]
               | [] \<Rightarrow> if vclosed c then [(ReadClosed, m)] else []) @
              (if \<not> time_IsZero (vdeadline c) \<and> vdeadline c \<le> now then [(ReadTimeout, m)] else []) @
              (if m_closed m then [(ReadClosed, m)] else []))"

definition SetReadDeadline :: "gotime \<Rightarrow> vref \<Rightarrow> UDPMux \<Rightarrow> UDPMux" where
  "SetReadDeadline t v m = m\<lparr>m_heap := (m_heap m)(v := (m_heap m v)\<lparr>vdeadline := t\<rparr>)\<rparr>"

definition SetDeadline :: "gotime \<Rightarrow> vref \<Rightarrow> UDPMux \<Rightarrow> UDPMux" where
  "SetDeadline t v m = m\<lparr>m_heap := (m_heap m)(v := (m_heap m v)\<lparr>vdeadline := t\<rparr>)\<rparr>"

subsection \<open>The read loop beside the other goroutines\<close>

datatype loop_pc = Waiting | Sending vref Packet | Exited | Panicked

text \<open>\<open>recv\<close> reads a datagram and looks the target up; \<open>send\<close> is the channel operation; the rest
  are the calls of other goroutines, \<open>Close\<close> in its two halves around \<open>wg.Wait\<close>.\<close>

datatype mux_event =
  Recv Packet | Send | Register string | Unregister string | CloseBegin | LoopExit | CloseEnd

fun mux_step :: "UDPMux \<times> loop_pc \<Rightarrow> mux_event \<Rightarrow> (UDPMux \<times> loop_pc) option" where
  "mux_step (m, pc) (Recv p) =
     (if pc = Waiting then Some (m, Sending (route_target m p) p) else None)"
| "mux_step (m, pc) Send =
     (case pc of
        Sending v p \<Rightarrow> (case enqueuePacket v p m of
                          None \<Rightarrow> Some (m, Panicked) | Some m' \<Rightarrow> Some (m', Waiting))
      | _ \<Rightarrow> None)"
| "mux_step (m, pc) (Register a) = Some (snd (RegisterKCPHandler a m), pc)"
| "mux_step (m, pc) (Unregister a) = Some (UnregisterKCPHandler a m, pc)"
| "mux_step (m, pc) CloseBegin = (if m_closed m then None else Some (m\<lparr>m_closed := True\<rparr>, pc))"
| "mux_step (m, pc) LoopExit = (if pc = Waiting \<and> m_closed m then Some (m, Exited) else None)"
| "mux_step (m, pc) CloseEnd = (if pc = Exited \<and> m_closed m then Some (close_conns m, pc) else None)"

fun mux_run :: "UDPMux \<times> loop_pc \<Rightarrow> mux_event list \<Rightarrow> (UDPMux \<times> loop_pc) option" where
  "mux_run s [] = Some s"
| "mux_run s (e # es) = (case mux_step s e of None \<Rightarrow> None | Some s' \<Rightarrow> mux_run s' es)"

subsection \<open>Facts\<close>

text \<open>The connections a packet can be sent to.\<close>

definition targets :: "UDPMux \<Rightarrow> vref set" where
  "targets m = {kcpConn m, punchConn m, tentConn m} \<union> set (map snd (kcpHandlers m))"

lemma route_target_in: "route_target m p \<in> targets m"
  by (auto simp: route_target_def targets_def gm_get_def split: option.splits dest: map_of_SomeD)
    (metis image_iff map_of_SomeD snd_conv)

definition mux_open :: "UDPMux \<Rightarrow> bool" where
  "mux_open m \<longleftrightarrow> (\<forall>v \<in> targets m. v < m_fresh m \<and> \<not> vclosed (m_heap m v))"

definition queues_bounded :: "UDPMux \<Rightarrow> bool" where
  "queues_bounded m \<longleftrightarrow> (\<forall>v. length (readChan (m_heap m v)) \<le> bufferSize (m_heap m v))"

lemma mux_open_New: "mux_open NewUDPMux"
  by (simp add: mux_open_def targets_def NewUDPMux_def newVirtualPacketConn_def)

lemma snd_gm_put: "snd ` set (gm_put k v m) \<subseteq> insert v (snd ` set m)"
  unfolding gm_put_def by (induction m) auto

lemma snd_gm_del: "snd ` set (gm_del k m) \<subseteq> snd ` set m"
  by (auto simp: gm_del_def)

lemma targets_enqueue: "enqueuePacket v p m = Some m' \<Longrightarrow>
    targets m' = targets m \<and> m_fresh m' = m_fresh m \<and> m_closed m' = m_closed m \<and>
    (\<forall>u. vclosed (m_heap m' u) = vclosed (m_heap m u))"
  by (auto simp: enqueuePacket_def Let_def targets_def split: if_splits)

lemma mux_open_enqueue: "enqueuePacket v p m = Some m' \<Longrightarrow> mux_open m \<Longrightarrow> mux_open m'"
  by (simp add: mux_open_def targets_enqueue)

lemma enqueue_bounded: "enqueuePacket v p m = Some m' \<Longrightarrow> queues_bounded m \<Longrightarrow> queues_bounded m'"
  by (auto simp: enqueuePacket_def Let_def queues_bounded_def split: if_splits)

lemma mux_open_register: "mux_open m \<Longrightarrow> mux_open (snd (RegisterKCPHandler a m))"
  using snd_gm_put [of a "m_fresh m" "kcpHandlers m"]
  by (fastforce simp: mux_open_def targets_def RegisterKCPHandler_def Let_def newVirtualPacketConn_def)

lemma bounded_register: "queues_bounded m \<Longrightarrow> queues_bounded (snd (RegisterKCPHandler a m))"
  by (simp add: queues_bounded_def RegisterKCPHandler_def Let_def newVirtualPacketConn_def)

lemma safeClose_fields [simp]:
  "kcpConn (safeClose v m) = kcpConn m" "punchConn (safeClose v m) = punchConn m"
  "tentConn (safeClose v m) = tentConn m" "kcpHandlers (safeClose v m) = kcpHandlers m"
  "m_closed (safeClose v m) = m_closed m" "m_fresh (safeClose v m) = m_fresh m"
  "readChan (m_heap (safeClose v m) u) = readChan (m_heap m u)"
  "bufferSize (m_heap (safeClose v m) u) = bufferSize (m_heap m u)"
  "vclosed (m_heap (safeClose v m) u) = (u = v \<or> vclosed (m_heap m u))"
  by (auto simp: safeClose_def)

lemma fold_safeClose:
  "vclosed (m_heap (fold safeClose vs m) u) = (u \<in> set vs \<or> vclosed (m_heap m u))"
  "readChan (m_heap (fold safeClose vs m) u) = readChan (m_heap m u)"
  "bufferSize (m_heap (fold safeClose vs m) u) = bufferSize (m_heap m u)"
  by (induction vs arbitrary: m) auto

lemma bounded_unregister: "queues_bounded m \<Longrightarrow> queues_bounded (UnregisterKCPHandler a m)"
  by (auto simp: queues_bounded_def UnregisterKCPHandler_def split: option.splits)

lemma bounded_close: "queues_bounded m \<Longrightarrow> queues_bounded (close_conns m)"
  by (simp add: queues_bounded_def close_conns_def fold_safeClose)

lemma mux_step_bounded:
  "mux_step (m, pc) e = Some (m', pc') \<Longrightarrow> queues_bounded m \<Longrightarrow> queues_bounded m'"
  by (cases e)
    (auto simp: bounded_unregister bounded_close bounded_register
       split: if_splits loop_pc.splits option.splits dest: enqueue_bounded,
     auto simp: queues_bounded_def)

lemma mux_run_bounded:
  "mux_run (m, pc) es = Some (m', pc') \<Longrightarrow> queues_bounded m \<Longrightarrow> queues_bounded m'"
proof (induction es arbitrary: m pc)
  case (Cons e es)
  then obtain m1 pc1 where "mux_step (m, pc) e = Some (m1, pc1)" "mux_run (m1, pc1) es = Some (m', pc')"
    by (auto split: option.splits)
  with Cons.IH mux_step_bounded Cons.prems(2) show ?case by blast
qed simp

text \<open>As long as nobody unregisters, a target that was looked up stays open.\<close>

definition loop_safe :: "UDPMux \<times> loop_pc \<Rightarrow> bool" where
  "loop_safe s \<longleftrightarrow> snd s \<noteq> Panicked \<and> (snd s \<noteq> Exited \<longrightarrow> mux_open (fst s)) \<and>
     (\<forall>v p. snd s = Sending v p \<longrightarrow> v < m_fresh (fst s) \<and> \<not> vclosed (m_heap (fst s) v))"

lemma loop_safe_step:
  assumes "loop_safe (m, pc)" "mux_step (m, pc) e = Some (m', pc')" "\<And>a. e \<noteq> Unregister a"
  shows "loop_safe (m', pc')"
proof (cases e)
  case (Recv p)
  with assms route_target_in [of m p] show ?thesis
    by (auto simp: loop_safe_def mux_open_def split: if_splits)
next
  case Send
  with assms(2) obtain v p where pc: "pc = Sending v p" by (cases pc) auto
  with assms(1) have "\<not> vclosed (m_heap m v)" "mux_open m" by (auto simp: loop_safe_def)
  with assms(2) Send pc obtain "enqueuePacket v p m = Some m'" "pc' = Waiting"
    by (auto simp: enqueuePacket_def Let_def split: if_splits)
  with \<open>mux_open m\<close> show ?thesis by (simp add: loop_safe_def mux_open_enqueue)
next
  case (Register a)
  with assms mux_open_register [of m a] show ?thesis
    by (auto simp: loop_safe_def RegisterKCPHandler_def Let_def)
next
  case (Unregister a)
  with assms(3) show ?thesis by blast
qed (use assms in \<open>fastforce simp: loop_safe_def mux_open_def targets_def split: if_splits\<close>)+

lemma loop_safe_run:
  "mux_run (m, pc) es = Some (m', pc') \<Longrightarrow> loop_safe (m, pc) \<Longrightarrow>
     \<forall>e \<in> set es. \<forall>a. e \<noteq> Unregister a \<Longrightarrow> loop_safe (m', pc')"
proof (induction es arbitrary: m pc)
  case (Cons e es)
  then obtain m1 pc1 where s: "mux_step (m, pc) e = Some (m1, pc1)" "mux_run (m1, pc1) es = Some (m', pc')"
    by (auto split: option.splits)
  have "loop_safe (m1, pc1)" using loop_safe_step [OF Cons.prems(2) s(1)] Cons.prems(3) by simp
  with Cons.IH [OF s(2)] Cons.prems(3) show ?case by simp
qed simp

subsection \<open>Properties\<close>



text \<open>C20: the read loop never sends on a closed queue in an execution without removals of
  handlers, shutdown included, because the queues are closed only after the loop has ended.\<close>

theorem mux_no_panic_without_unregister:
  assumes "mux_run (NewUDPMux, Waiting) es = Some (m, pc)" and "\<forall>e \<in> set es. \<forall>a. e \<noteq> Unregister a"
  shows "pc \<noteq> Panicked"
  using loop_safe_run [OF assms(1) _ assms(2)] mux_open_New by (simp add: loop_safe_def)

text \<open>Removing a handler while the read loop is between looking it up and sending to it makes
  the loop send on a closed channel: the process panics.\<close>

theorem mux_unregister_race_panics:
  "case mux_run (NewUDPMux, Waiting)
      [Register ''10.0.0.1:9'', Recv \<lparr>pk_Data = [1, 2, 3], pk_Addr = UDPAddr ''10.0.0.1:9''\<rparr>,
       Unregister ''10.0.0.1:9'', Send] of
     Some (m, pc) \<Rightarrow> pc = Panicked | None \<Rightarrow> False"
  by (simp add: RegisterKCPHandler_def UnregisterKCPHandler_def NewUDPMux_def Let_def
      newVirtualPacketConn_def route_target_def isPunchPacket_def isTentPacket_def
      isProbePacket_def isRawRelayPacket_def enqueuePacket_def safeClose_def byte_of_char_def
      gm_put_def gm_get_def)

subsection \<open>Witnesses\<close>



theorem mux_no_panic_without_unregister_witness:
  "\<exists>m pc. mux_run (NewUDPMux, Waiting) [Register ''a'', CloseBegin, LoopExit, CloseEnd] = Some (m, pc) \<and>
     pc \<noteq> Panicked"
proof -
  obtain m pc where r: "mux_run (NewUDPMux, Waiting) [Register ''a'', CloseBegin, LoopExit, CloseEnd] = Some (m, pc)"
    by (simp add: RegisterKCPHandler_def NewUDPMux_def Let_def)
  from mux_no_panic_without_unregister [OF this] r show ?thesis by auto
qed

end
