(* ===== verification/Framing.thy ===== *)
theory Framing
  imports Protocol
begin

text \<open>
  The two receive loops that cut a byte stream into packets: \<open>handleTCP\<close> of
  \<open>node/tcp_io.go\<close> and \<open>handleSession\<close> of \<open>node/kcp_transport.go\<close>, and the sender side of
  the KCP framing. The stream is every byte the connection delivers before it ends (end of
  file, a read error or a timeout), so a short read is the end of the stream. The packet
  handler the loops call (\<open>Node.handlePacket\<close>) is an argument, applied to the state they
  thread through.
\<close>

subsection \<open>The TCP receive loop\<close>

function handleTCP :: "('n \<Rightarrow> byte \<Rightarrow> bytes \<Rightarrow> 'n) \<Rightarrow> 'n \<Rightarrow> bytes \<Rightarrow> 'n" where
  "handleTCP handlePacket n s =
     (if length s < 2 then n
      else let len = unat (push_bit 8 (ucast (s ! 0)) OR ucast (s ! 1) :: 16 word)
        in if len = 0 then n
           else if length s < 2 + len then n
           else let buf = subslice 2 (2 + len) s; rest = drop (2 + len) s
             in if len < 5 \<or> subslice 0 4 buf \<noteq> MagicBytes then handleTCP handlePacket n rest
                else handleTCP handlePacket (handlePacket n (buf ! 4) (drop 5 buf)) rest)"
  by pat_completeness auto
termination
  by (relation "measure (\<lambda>(h, n, s). length s)") (auto simp: Let_def)

declare handleTCP.simps [simp del]

subsection \<open>The KCP receive loop\<close>

text \<open>Here a zero length is skipped instead of ending the loop. A timeout while the two header
  bytes are awaited makes the code try again, which reads on in the same stream.\<close>

function handleSession :: "('n \<Rightarrow> byte \<Rightarrow> bytes \<Rightarrow> 'n) \<Rightarrow> 'n \<Rightarrow> bytes \<Rightarrow> 'n" where
  "handleSession handlePacket n s =
     (if length s < 2 then n
      else let len = unat (get_be16 s)
        in if len = 0 then handleSession handlePacket n (drop 2 s)
           else if length s < 2 + len then n
           else let buf = subslice 2 (2 + len) s; rest = drop (2 + len) s
             in if len < 5 \<or> subslice 0 4 buf \<noteq> MagicBytes then handleSession handlePacket n rest
                else handleSession handlePacket (handlePacket n (buf ! 4) (drop 5 buf)) rest)"
  by pat_completeness auto
termination
  by (relation "measure (\<lambda>(h, n, s). length s)") (auto simp: Let_def)

declare handleSession.simps [simp del]

text \<open>The frame \<open>KCPTransport.Send\<close> writes to the session.\<close>

definition kcp_frame :: "bytes \<Rightarrow> bytes" where
  "kcp_frame data =
     (let frame = replicate (2 + length data) 0;
          frame = copy_into frame 0 (put_be16 (of_nat (length data)))
      in copy_into frame 2 data)"

subsection \<open>Reference behaviour\<close>

text \<open>What a receiver should do with a sequence of packets: hand each well-formed one to the
  packet handler, in order.\<close>

definition is_tent_packet :: "bytes \<Rightarrow> bool" where
  "is_tent_packet p \<longleftrightarrow> 5 \<le> length p \<and> take 4 p = MagicBytes"

definition deliver_packets :: "('n \<Rightarrow> byte \<Rightarrow> bytes \<Rightarrow> 'n) \<Rightarrow> 'n \<Rightarrow> bytes list \<Rightarrow> 'n" where
  "deliver_packets handlePacket n ps =
     foldl (\<lambda>m p. handlePacket m (GetPacketType p) (GetPayload p)) n (filter is_tent_packet ps)"

definition frameable :: "bytes \<Rightarrow> bool" where
  "frameable p \<longleftrightarrow> 0 < length p \<and> length p < 65536"

lemma kcp_frame_eq [wire_simps]: "kcp_frame data = EncodeTCPFrame data"
proof -
  have "replicate (2 + length data) (0::byte) = replicate 2 0 @ replicate (length data) 0"
    by (simp add: replicate_add [symmetric])
  then show ?thesis
    by (simp add: kcp_frame_def EncodeTCPFrame_eq copy_into_def put_be16_def)
qed

lemma unat_length_prefix:
  "frameable p \<Longrightarrow> unat (of_nat (length p) :: 16 word) = length p"
  by (simp add: frameable_def unat_of_nat take_bit_eq_mod)

lemma header_of_frame:
  "push_bit 8 (ucast ((EncodeTCPFrame p @ r) ! 0)) OR ucast ((EncodeTCPFrame p @ r) ! Suc 0)
     = (of_nat (length p) :: 16 word)"
  using EncodeTCPFrame_length_prefix [of p r]
  by (simp add: DecodeTCPFrameLength_def EncodeTCPFrame_eq)

lemma frame_parts:
  "subslice 2 (2 + length p) (EncodeTCPFrame p @ r) = p"
  "drop (2 + length p) (EncodeTCPFrame p @ r) = r"
  by (simp_all add: EncodeTCPFrame_eq subslice_def)

lemma length_frame [simp]: "length (EncodeTCPFrame p) = 2 + length p"
  by (simp add: EncodeTCPFrame_eq)

lemma tent_packet_iff: "5 \<le> length p \<and> subslice 0 4 p = MagicBytes \<longleftrightarrow> is_tent_packet p"
  by (simp add: is_tent_packet_def subslice_def)

lemma tent_packet_parts:
  "is_tent_packet p \<Longrightarrow> p ! 4 = GetPacketType p" "is_tent_packet p \<Longrightarrow> drop 5 p = GetPayload p"
  by (auto simp: is_tent_packet_def GetPacketType_def GetPayload_def)

lemma handleTCP_frame:
  assumes "frameable p"
  shows "handleTCP h n (EncodeTCPFrame p @ r) =
    handleTCP h (if is_tent_packet p then h n (GetPacketType p) (GetPayload p) else n) r"
proof -
  have "0 < length p" using assms by (simp add: frameable_def)
  then show ?thesis
    using tent_packet_iff [of p] tent_packet_parts [of p] frame_parts [of p r]
    by (subst handleTCP.simps)
      (simp add: header_of_frame unat_length_prefix [OF assms] Let_def, metis not_le)
qed

lemma handleSession_frame:
  assumes "frameable p"
  shows "handleSession h n (kcp_frame p @ r) =
    handleSession h (if is_tent_packet p then h n (GetPacketType p) (GetPayload p) else n) r"
proof -
  have "0 < length p" using assms by (simp add: frameable_def)
  then show ?thesis
    using tent_packet_iff [of p] tent_packet_parts [of p] frame_parts [of p r]
    by (subst handleSession.simps)
      (simp add: kcp_frame_eq get_be16_def header_of_frame unat_length_prefix [OF assms] Let_def,
       metis not_le)
qed

text \<open>Both transports satisfy one contract: a frame in front of a stream hands its packet over
  and leaves the loop at the rest; an incomplete tail changes nothing.\<close>

locale framed_transport =
  fixes frame :: "bytes \<Rightarrow> bytes"
    and loop :: "('n \<Rightarrow> byte \<Rightarrow> bytes \<Rightarrow> 'n) \<Rightarrow> 'n \<Rightarrow> bytes \<Rightarrow> 'n"
  assumes loop_frame: "frameable p \<Longrightarrow> loop h n (frame p @ r) =
      loop h (if is_tent_packet p then h n (GetPacketType p) (GetPayload p) else n) r"
    and loop_cut: "frameable p \<Longrightarrow> k < length (frame p) \<Longrightarrow> loop h n (take k (frame p)) = n"
    and length_loop_frame: "length (frame p) = 2 + length p"
begin

lemma loop_frames_then:
  "list_all frameable ps \<Longrightarrow>
     loop h n (concat (map frame ps) @ r) = loop h (deliver_packets h n ps) r"
  by (induction ps arbitrary: n) (simp_all add: loop_frame deliver_packets_def)

lemma loop_frames_cut:
  "list_all frameable ps \<Longrightarrow> frameable p \<Longrightarrow> k < length (frame p) \<Longrightarrow>
     loop h n (concat (map frame ps) @ take k (frame p)) = deliver_packets h n ps"
  by (simp add: loop_frames_then loop_cut)

end

lemma cut_header:
  assumes "2 \<le> k"
  shows "take k (EncodeTCPFrame p) = put_be16 (of_nat (length p)) @ take (k - 2) p"
  using assms by (simp add: EncodeTCPFrame_eq)

lemma handleTCP_cut:
  assumes "frameable p" and "k < length (EncodeTCPFrame p)"
  shows "handleTCP h n (take k (EncodeTCPFrame p)) = n"
proof (cases "k < 2")
  case False
  then have "get_be16 (take k (EncodeTCPFrame p)) = of_nat (length p)"
    by (simp add: cut_header)
  with False assms show ?thesis
    by (subst handleTCP.simps) (simp add: get_be16_def unat_length_prefix [OF assms(1)] Let_def)
qed (use assms in \<open>subst handleTCP.simps, simp\<close>)

lemma handleSession_cut:
  assumes "frameable p" and "k < length (kcp_frame p)"
  shows "handleSession h n (take k (kcp_frame p)) = n"
proof (cases "k < 2")
  case False
  then have "get_be16 (take k (kcp_frame p)) = of_nat (length p)"
    by (simp add: cut_header kcp_frame_eq)
  with False assms show ?thesis
    by (subst handleSession.simps)
      (simp add: kcp_frame_eq unat_length_prefix [OF assms(1)] frameable_def Let_def)
qed (use assms in \<open>subst handleSession.simps, simp add: kcp_frame_eq\<close>)

interpretation tcp: framed_transport EncodeTCPFrame handleTCP
  by unfold_locales (simp_all add: handleTCP_frame handleTCP_cut)

interpretation kcp: framed_transport kcp_frame handleSession
  by unfold_locales (simp_all add: handleSession_frame handleSession_cut, simp add: kcp_frame_eq)

subsection \<open>Properties\<close>

text \<open>C9: a TCP connection that carries the frames of packets of 1 to 65535 bytes, cut off
  anywhere inside a further frame, delivers exactly those packets that are well-formed
  (magic number and at least five bytes), in order and with their type and payload; the
  incomplete frame at the end has no effect.\<close>

theorem tcp_stream_delivery:
  assumes "list_all frameable ps" and "frameable p" and "k < length (EncodeTCPFrame p)"
  shows "handleTCP handlePacket n (concat (map EncodeTCPFrame ps) @ take k (EncodeTCPFrame p))
    = deliver_packets handlePacket n ps"
  using assms by (rule tcp.loop_frames_cut)

theorem tcp_stream_delivery_witness:
  "handleTCP (\<lambda>n t b. n @ [(t, b)]) []
     (concat (map EncodeTCPFrame [BuildDataPacket [7], [1, 2]]) @ take 3 (EncodeTCPFrame [9, 9]))
   = [(PacketTypeData, [7])]"
proof -
  have "list_all frameable [BuildDataPacket [7], [1, 2]]" "frameable [9, 9]"
    "3 < length (EncodeTCPFrame [9, 9])"
    by (simp_all add: frameable_def wire_simps)
  from tcp_stream_delivery [OF this, of "\<lambda>n t b. n @ [(t, b)]" "[]"] show ?thesis
    by (simp add: deliver_packets_def is_tent_packet_def wire_simps)
qed

text \<open>The KCP framing satisfies the same contract: the frames \<open>KCPTransport.Send\<close> writes
  for packets of 1 to 65535 bytes are delivered by the receive loop in order, and an
  incomplete last frame has no effect.\<close>

theorem kcp_stream_delivery:
  assumes "list_all frameable ps" and "frameable p" and "k < length (kcp_frame p)"
  shows "handleSession handlePacket n (concat (map kcp_frame ps) @ take k (kcp_frame p))
    = deliver_packets handlePacket n ps"
  using assms by (rule kcp.loop_frames_cut)

theorem kcp_stream_delivery_witness:
  "handleSession (\<lambda>n t b. n @ [(t, b)]) []
     (concat (map kcp_frame [BuildHandshakePacket [5]]) @ take 1 (kcp_frame [9]))
   = [(PacketTypeHandshake, [5])]"
proof -
  have "list_all frameable [BuildHandshakePacket [5]]" "frameable [9]"
    "1 < length (kcp_frame [9])"
    by (simp_all add: frameable_def wire_simps)
  from kcp_stream_delivery [OF this, of "\<lambda>n t b. n @ [(t, b)]" "[]"] show ?thesis
    by (simp add: deliver_packets_def is_tent_packet_def wire_simps)
qed

text \<open>The length prefix has 16 bits, so it holds the packet's length modulo 65536. A packet
  whose length is a positive multiple of 65536 is announced with length 0, which makes the TCP
  receive loop end: nothing that follows on the connection is delivered.\<close>

theorem tcp_frame_length_truncated:
  "unat (DecodeTCPFrameLength (EncodeTCPFrame p)) = length p mod 65536 \<and>
   (length p mod 65536 = 0 \<longrightarrow> handleTCP handlePacket n (EncodeTCPFrame p @ r) = n)"
proof -
  have len: "unat (of_nat (length p) :: 16 word) = length p mod 65536"
    by (simp add: unat_of_nat take_bit_eq_mod)
  moreover have "DecodeTCPFrameLength (EncodeTCPFrame p) = of_nat (length p)"
    using EncodeTCPFrame_length_prefix [of p "[]"] by simp
  moreover have "handleTCP handlePacket n (EncodeTCPFrame p @ r) = n" if "length p mod 65536 = 0"
    using len that by (subst handleTCP.simps) (simp add: header_of_frame)
  ultimately show ?thesis by simp
qed

theorem tcp_frame_length_truncated_witness:
  "handleTCP (\<lambda>n t b. n @ [(t, b)]) [] (EncodeTCPFrame (replicate 65536 0) @ EncodeTCPFrame (BuildDataPacket [7])) = []"
  using tcp_frame_length_truncated [of "replicate 65536 0" "\<lambda>n t b. n @ [(t, b)]" "[]"
      "EncodeTCPFrame (BuildDataPacket [7])"]
  by (simp only: length_replicate mod_self simp_thms)

end
