(* ===== verification/KCP.thy ===== *)
theory KCP
  imports Node_Config Mux Framing
begin

text \<open>
  The reliable transport: the session table of \<open>node/kcp.go\<close> and the per-peer transport of
  \<open>node/kcp_transport.go\<close>. The KCP protocol itself (\<open>github.com/xtaci/kcp-go\<close>) is not part of the
  repository: whether its calls succeed is an argument. Sessions are shared by pointer between the
  manager's table, the transport's table and the goroutine that reads from them, so they live in
  a heap.
\<close>

subsection \<open>Sessions and their manager\<close>

type_synonym kref = nat

record KCPSession =
  ks_peerAddr :: netaddr
  ks_config :: KCPConfig
  ks_closed :: bool

record KCPManager =
  km_heap :: "kref \<Rightarrow> KCPSession"
  km_fresh :: kref
  km_sessions :: "(string, kref) gomap"
  km_config :: KCPConfig
  km_closing :: bool
  km_listener :: bool

definition NewKCPManager :: "KCPConfig option \<Rightarrow> KCPManager" where
  "NewKCPManager config =
     (let config = (case config of None \<Rightarrow> DefaultKCPConfig | Some c \<Rightarrow> c)
      in \<lparr>km_heap = (\<lambda>_. \<lparr>ks_peerAddr = UDPAddr [], ks_config = config, ks_closed = True\<rparr>), km_fresh = 0,
          km_sessions = [], km_config = config, km_closing = False, km_listener = False\<rparr>)"

definition ListenOnConn :: "bool \<Rightarrow> KCPManager \<Rightarrow> bool \<times> KCPManager" where
  "ListenOnConn served m = (if served then (True, m\<lparr>km_listener := True\<rparr>) else (False, m))"

text \<open>Listening on a port of its own: unlike above, a failure to set a buffer size is an error, with
  the closed listener left in the manager.\<close>

definition KCP_Listen :: "bool \<Rightarrow> bool \<Rightarrow> bool \<Rightarrow> KCPManager \<Rightarrow> bool \<times> KCPManager" where
  "KCP_Listen listens readBuffer_ok writeBuffer_ok m =
     (if \<not> listens then (False, m)
      else let m1 = m\<lparr>km_listener := True\<rparr>
        in if \<not> readBuffer_ok then (False, m1) else if \<not> writeBuffer_ok then (False, m1) else (True, m1))"

text \<open>What a new session of the library is told: the parameters of the configuration, and no
  deadlines.\<close>

datatype kcp_call =
  CallSetNoDelay int int int int | CallSetWindowSize int int | CallSetMtu int | CallSetStreamMode bool
| CallSetReadDeadline gotime | CallSetWriteDeadline gotime

definition configureSession :: "KCPManager \<Rightarrow> kcp_call list" where
  "configureSession m =
     (let cfg = km_config m
      in [CallSetNoDelay (NoDelay cfg) (Interval cfg) (Resend cfg) (NC cfg), CallSetWindowSize (SndWnd cfg) (RcvWnd cfg),
          CallSetMtu (MTU cfg), CallSetStreamMode (StreamMode cfg), CallSetReadDeadline 0, CallSetWriteDeadline 0])"

text \<open>Every way of making a session ends by entering it in the table under its remote address.\<close>

definition add_session :: "netaddr \<Rightarrow> KCPManager \<Rightarrow> kref \<times> KCPManager" where
  "add_session raddr m =
     (let s = km_fresh m
      in (s, m\<lparr>km_heap := (km_heap m)(s := \<lparr>ks_peerAddr = raddr, ks_config = km_config m, ks_closed = False\<rparr>),
               km_fresh := Suc s, km_sessions := gm_put (addr_String raddr) s (km_sessions m)\<rparr>))"

datatype kcp_error = KErrClosed | KErrAccept | KErrResolve | KErrNewConn | KErrNoSession | KErrWrite | KErrRead | KErrDial

text \<open>\<open>accepted\<close> is the remote address of the session \<open>AcceptKCP\<close> returned.\<close>

definition KCP_Accept :: "netaddr option \<Rightarrow> KCPManager \<Rightarrow> (kcp_error + kref) \<times> KCPManager" where
  "KCP_Accept accepted m =
     (if \<not> km_listener m then (Inl KErrClosed, m)
      else case accepted of None \<Rightarrow> (Inl KErrAccept, m)
        | Some raddr \<Rightarrow> (case add_session raddr m of (s, m') \<Rightarrow> (Inr s, m')))"

definition KCP_Dial :: "netaddr option \<Rightarrow> KCPManager \<Rightarrow> (kcp_error + kref) \<times> KCPManager" where
  "KCP_Dial dialled m =
     (case dialled of None \<Rightarrow> (Inl KErrNewConn, m)
      | Some raddr \<Rightarrow> (case add_session raddr m of (s, m') \<Rightarrow> (Inr s, m')))"

definition DialWithConn ::
    "(string \<Rightarrow> netaddr option) \<Rightarrow> bool \<Rightarrow> string \<Rightarrow> KCPManager \<Rightarrow> (kcp_error + kref) \<times> KCPManager" where
  "DialWithConn ResolveUDPAddr newconn_ok remoteAddr m =
     (case ResolveUDPAddr remoteAddr of None \<Rightarrow> (Inl KErrResolve, m)
      | Some raddr \<Rightarrow>
          if \<not> newconn_ok then (Inl KErrNewConn, m)
          else case add_session raddr m of (s, m') \<Rightarrow> (Inr s, m'))"

definition DialWithLocalAddr ::
    "(string \<Rightarrow> netaddr option) \<Rightarrow> bool \<Rightarrow> bool \<Rightarrow> string \<Rightarrow> string \<Rightarrow> KCPManager \<Rightarrow> (kcp_error + kref) \<times> KCPManager" where
  "DialWithLocalAddr ResolveUDPAddr dial_ok newconn_ok localAddr remoteAddr m =
     (case ResolveUDPAddr localAddr of None \<Rightarrow> (Inl KErrResolve, m)
      | Some laddr \<Rightarrow>
          (case ResolveUDPAddr remoteAddr of None \<Rightarrow> (Inl KErrResolve, m)
           | Some raddr \<Rightarrow>
               if \<not> dial_ok then (Inl KErrDial, m)
               else if \<not> newconn_ok then (Inl KErrNewConn, m)
               else case add_session raddr m of (s, m') \<Rightarrow> (Inr s, m')))"

definition KCP_GetSession :: "string \<Rightarrow> KCPManager \<Rightarrow> kref option" where
  "KCP_GetSession addr m = gm_get (km_sessions m) addr"

definition KCPSession_Close :: "kref \<Rightarrow> KCPManager \<Rightarrow> KCPManager" where
  "KCPSession_Close s m = m\<lparr>km_heap := (km_heap m)(s := (km_heap m s)\<lparr>ks_closed := True\<rparr>)\<rparr>"

definition Manager_RemoveSession :: "string \<Rightarrow> KCPManager \<Rightarrow> KCPManager" where
  "Manager_RemoveSession addr m =
     (case gm_get (km_sessions m) addr of None \<Rightarrow> m
      | Some s \<Rightarrow> (KCPSession_Close s m)\<lparr>km_sessions := gm_del addr (km_sessions m)\<rparr>)"

text \<open>Closing the manager a second time closes a closed channel, which panics.\<close>

definition Manager_Close :: "KCPManager \<Rightarrow> KCPManager option" where
  "Manager_Close m =
     (if km_closing m then None
      else Some ((fold KCPSession_Close (map snd (km_sessions m)) m)
             \<lparr>km_sessions := [], km_closing := True, km_listener := False\<rparr>))"

text \<open>A closed session refuses reads and writes before the KCP library is asked.\<close>

definition KCPSession_Write :: "bool \<Rightarrow> kref \<Rightarrow> KCPManager \<Rightarrow> kcp_error option" where
  "KCPSession_Write lib_ok s m =
     (if ks_closed (km_heap m s) then Some KErrClosed else if lib_ok then None else Some KErrWrite)"

text \<open>\<open>lib\<close> is what the library's read returns.\<close>

definition KCPSession_Read :: "bytes option \<Rightarrow> kref \<Rightarrow> KCPManager \<Rightarrow> kcp_error + bytes" where
  "KCPSession_Read lib s m =
     (if ks_closed (km_heap m s) then Inl KErrClosed else case lib of None \<Rightarrow> Inl KErrRead | Some b \<Rightarrow> Inr b)"

definition KCPSession_RemoteAddr :: "kref \<Rightarrow> KCPManager \<Rightarrow> netaddr" where
  "KCPSession_RemoteAddr s m = ks_peerAddr (km_heap m s)"

subsection \<open>The transport\<close>

record KCPTransport =
  kt_manager :: KCPManager
  kt_sessions :: "(string, kref) gomap"
  kt_closing :: bool

definition NewKCPTransport :: "KCPConfig option \<Rightarrow> KCPTransport" where
  "NewKCPTransport config = \<lparr>kt_manager = NewKCPManager (Some (case config of None \<Rightarrow> DefaultKCPConfig | Some c \<Rightarrow> c)),
     kt_sessions = [], kt_closing = False\<rparr>"

definition KCP_Start :: "bool \<Rightarrow> KCPTransport \<Rightarrow> bool \<times> KCPTransport" where
  "KCP_Start served t =
     (case ListenOnConn served (kt_manager t) of (ok, m) \<Rightarrow> (ok, t\<lparr>kt_manager := m\<rparr>))"

text \<open>One iteration of the accept loop: it ends, goes on, or starts the reader of a new session.\<close>

datatype accept_outcome = AcceptReturns | AcceptAgain | AcceptHandles kref

definition acceptLoop :: "netaddr option \<Rightarrow> KCPTransport \<Rightarrow> accept_outcome \<times> KCPTransport" where
  "acceptLoop accepted t =
     (if kt_closing t then (AcceptReturns, t)
      else case KCP_Accept accepted (kt_manager t) of
             (Inl e, m) \<Rightarrow> (AcceptAgain, t\<lparr>kt_manager := m\<rparr>)
           | (Inr s, m) \<Rightarrow> (AcceptHandles s, t\<lparr>kt_manager := m\<rparr>))"

text \<open>The part of \<open>UpgradePeer\<close> on the multiplexer and the tables; on success the caller enters the
  address in \<open>addrToPeer\<close> and starts the read loop.\<close>

definition UpgradePeer ::
    "(string \<Rightarrow> netaddr option) \<Rightarrow> bool \<Rightarrow> string \<Rightarrow> netaddr \<Rightarrow> UDPMux \<Rightarrow> KCPTransport \<Rightarrow>
       (kcp_error + kref) \<times> UDPMux \<times> KCPTransport" where
  "UpgradePeer ResolveUDPAddr newconn_ok peerID remoteAddr mux t =
     (let remoteAddrStr = addr_String remoteAddr;
          mux1 = snd (RegisterKCPHandler remoteAddrStr mux)
      in case DialWithConn ResolveUDPAddr newconn_ok remoteAddrStr (kt_manager t) of
           (Inl e, m) \<Rightarrow> (Inl e, UnregisterKCPHandler remoteAddrStr mux1, t\<lparr>kt_manager := m\<rparr>)
         | (Inr s, m) \<Rightarrow> (Inr s, mux1, t\<lparr>kt_manager := m, kt_sessions := gm_put peerID s (kt_sessions t)\<rparr>))"

definition KCP_HasSession :: "string \<Rightarrow> KCPTransport \<Rightarrow> bool" where
  "KCP_HasSession peerID t = gm_has (kt_sessions t) peerID"

text \<open>\<open>Send\<close>: the session and the frame that is written to it, or the error.\<close>

definition KCP_Send :: "(kref \<Rightarrow> bytes \<Rightarrow> bool) \<Rightarrow> string \<Rightarrow> bytes \<Rightarrow> KCPTransport \<Rightarrow> kcp_error + kref \<times> bytes" where
  "KCP_Send lib_ok peerID data t =
     (case gm_get (kt_sessions t) peerID of
        None \<Rightarrow> Inl KErrNoSession
      | Some s \<Rightarrow>
          let frame = kcp_frame data
          in case KCPSession_Write (lib_ok s frame) s (kt_manager t) of
               Some e \<Rightarrow> Inl e | None \<Rightarrow> Inr (s, frame))"

definition Transport_RemoveSession :: "string \<Rightarrow> UDPMux \<Rightarrow> KCPTransport \<Rightarrow> UDPMux \<times> KCPTransport" where
  "Transport_RemoveSession peerID mux t =
     (case gm_get (kt_sessions t) peerID of
        None \<Rightarrow> (mux, t)
      | Some s \<Rightarrow>
          let raddr = addr_String (KCPSession_RemoteAddr s (kt_manager t))
          in (UnregisterKCPHandler raddr mux,
              t\<lparr>kt_sessions := gm_del peerID (kt_sessions t), kt_manager := KCPSession_Close s (kt_manager t)\<rparr>))"

definition KCP_GetRTT :: "string \<Rightarrow> KCPTransport \<Rightarrow> int" where
  "KCP_GetRTT peerID t = 0"

text \<open>The read loop of a session closes it when it ends; nothing removes it from the table then.\<close>

definition end_session_loop :: "kref \<Rightarrow> KCPTransport \<Rightarrow> KCPTransport" where
  "end_session_loop s t = t\<lparr>kt_manager := KCPSession_Close s (kt_manager t)\<rparr>"

definition Transport_Close :: "UDPMux \<Rightarrow> KCPTransport \<Rightarrow> (UDPMux \<times> KCPTransport) option" where
  "Transport_Close mux t =
     (if kt_closing t then None
      else case Manager_Close (kt_manager t) of
        None \<Rightarrow> None
      | Some m \<Rightarrow>
          let addrs = map (\<lambda>e. addr_String (KCPSession_RemoteAddr (snd e) m)) (kt_sessions t)
          in Some (fold UnregisterKCPHandler addrs mux,
                   t\<lparr>kt_manager := fold KCPSession_Close (map snd (kt_sessions t)) m,
                     kt_sessions := [], kt_closing := True\<rparr>))"

subsection \<open>Facts\<close>

lemma close_fields [simp]:
  "ks_closed (km_heap (KCPSession_Close s m) q) = (q = s \<or> ks_closed (km_heap m q))"
  "ks_peerAddr (km_heap (KCPSession_Close s m) q) = ks_peerAddr (km_heap m q)"
  "km_sessions (KCPSession_Close s m) = km_sessions m"
  by (auto simp: KCPSession_Close_def)

lemma fold_close_sessions:
  "ks_closed (km_heap (fold KCPSession_Close ss m) q) = (q \<in> set ss \<or> ks_closed (km_heap m q))"
  by (induction ss arbitrary: m) auto

lemma Send_closed:
  "gm_get (kt_sessions t) peerID = Some s \<Longrightarrow> ks_closed (km_heap (kt_manager t) s) \<Longrightarrow>
     KCP_HasSession peerID t \<and> KCP_Send ok peerID data t = Inl KErrClosed"
  by (simp add: KCP_HasSession_def gm_has_get KCP_Send_def KCPSession_Write_def Let_def)

subsection \<open>Properties\<close>

text \<open>Upgrading a peer whose address resolves to itself gives it an open session whose writes
  reach the library framed, with a multiplexer handler for the address; removing it afterwards
  closes the session and the handler and leaves no entry for the peer. If dialling fails, neither
  a session nor a handler is left.\<close>

theorem upgrade_then_remove:
  assumes "R (addr_String a) = Some a"
  shows "case UpgradePeer R ok p a mux t of (r, mux', t') \<Rightarrow>
    (if ok then KCP_HasSession p t' \<and> (\<exists>s. r = Inr s \<and> gm_get (kt_sessions t') p = Some s \<and>
          (\<forall>lib data. lib s (kcp_frame data) \<longrightarrow> KCP_Send lib p data t' = Inr (s, kcp_frame data)) \<and>
          gm_has (kcpHandlers mux') (addr_String a) \<and>
          (case Transport_RemoveSession p mux' t' of (mux2, t2) \<Rightarrow>
             \<not> KCP_HasSession p t2 \<and> \<not> gm_has (kcpHandlers mux2) (addr_String a) \<and>
             ks_closed (km_heap (kt_manager t2) s)))
     else r = Inl KErrNewConn \<and> gm_get (kt_sessions t') p = gm_get (kt_sessions t) p \<and>
          \<not> gm_has (kcpHandlers mux') (addr_String a))"
  using assms
  by (simp add: UpgradePeer_def DialWithConn_def add_session_def Let_def KCP_HasSession_def
      gm_has_get KCP_Send_def KCPSession_Write_def Transport_RemoveSession_def
      KCPSession_RemoteAddr_def RegisterKCPHandler_def UnregisterKCPHandler_def)

text \<open>When the read loop of a peer's session ends, for instance because the body of a frame does
  not arrive within five seconds, the session is closed but stays the peer's session: the peer
  still counts as having one, so nothing dials again, and every later send fails.\<close>

theorem dead_session_is_kept:
  assumes "gm_get (kt_sessions t) p = Some s"
  shows "KCP_HasSession p (end_session_loop s t) \<and>
    KCP_Send lib p data (end_session_loop s t) = Inl KErrClosed"
  by (rule Send_closed [where s = s]) (simp_all add: assms end_session_loop_def)

text \<open>Removing the session of a peer leaves it in the table of the manager, closed.\<close>

theorem removed_session_stays_in_manager:
  assumes "gm_get (kt_sessions t) p = Some s" "gm_get (km_sessions (kt_manager t)) a = Some s"
    and "Transport_RemoveSession p mux t = (mux', t')"
  shows "KCP_GetSession a (kt_manager t') = Some s \<and> ks_closed (km_heap (kt_manager t') s)"
  using assms by (auto simp: Transport_RemoveSession_def KCP_GetSession_def Let_def)

text \<open>Closing the transport closes every session of both tables and empties them; closing it
  again would close a closed channel, which panics.\<close>

theorem transport_close_effect:
  "case Transport_Close mux t of
     None \<Rightarrow> kt_closing t \<or> km_closing (kt_manager t)
   | Some (mux', t') \<Rightarrow> \<not> kt_closing t \<and> kt_sessions t' = [] \<and> km_sessions (kt_manager t') = [] \<and>
       (\<forall>e \<in> set (kt_sessions t) \<union> set (km_sessions (kt_manager t)). ks_closed (km_heap (kt_manager t') (snd e))) \<and>
       Transport_Close mux' t' = None"
proof (cases "kt_closing t \<or> km_closing (kt_manager t)")
  case False
  have "km_sessions (fold KCPSession_Close ss m) = km_sessions m" for ss m
    by (induction ss arbitrary: m) auto
  with False show ?thesis
    by (auto simp: Transport_Close_def Manager_Close_def Let_def fold_close_sessions)
qed (auto simp: Transport_Close_def Manager_Close_def split: option.splits)

subsection \<open>Witnesses\<close>

theorem upgrade_then_remove_witness:
  "case UpgradePeer (\<lambda>s. Some (UDPAddr s)) True ''p'' (UDPAddr ''10.0.0.1:9'') NewUDPMux (NewKCPTransport None) of
     (r, mux', t') \<Rightarrow> KCP_HasSession ''p'' t'"
  using upgrade_then_remove [where R = "\<lambda>s. Some (UDPAddr s)" and a = "UDPAddr ''10.0.0.1:9''" and ok = True and p = "''p''"
      and mux = NewUDPMux and t = "NewKCPTransport None"]
  by (auto split: prod.splits)

theorem dead_session_is_kept_witness:
  "KCP_Send (\<lambda>_ _. True) ''p'' [1] (end_session_loop 0 ((NewKCPTransport None)\<lparr>kt_sessions := [(''p'', 0)]\<rparr>)) = Inl KErrClosed"
  using dead_session_is_kept [of "(NewKCPTransport None)\<lparr>kt_sessions := [(''p'', 0)]\<rparr>" "''p''" 0]
  by (simp add: gm_get_def)

theorem transport_close_effect_witness:
  "Transport_Close NewUDPMux (NewKCPTransport None) \<noteq> None"
  using transport_close_effect [where mux = NewUDPMux and t = "NewKCPTransport None"]
  by (auto simp: NewKCPTransport_def NewKCPManager_def Let_def split: option.splits)

end
