(* ===== verification/NAT_Probe.thy ===== *)
theory NAT_Probe
  imports Go_Prelude
begin

text \<open>
  NAT detection with the help of peers (\<open>nat/probe.go\<close>, \<open>nat/nat.go\<close>): the probe packets, the
  prober's tables, the classification of the answers and the choice of a punching strategy.
  \<open>ProbeViaHelper\<close> blocks until the answers are in or its timer fires; it is two steps here, the
  part before the wait and the part after it, with \<open>handleProbeResponse\<close> in between. An address
  is an IP (its bytes) and a port.
\<close>

subsection \<open>Types\<close>

type_synonym NATType = int

definition NATUnknown :: NATType where "NATUnknown = 0"
definition NATNone :: NATType where "NATNone = 1"
definition NATFullCone :: NATType where "NATFullCone = 2"
definition NATRestrictedCone :: NATType where "NATRestrictedCone = 3"
definition NATPortRestricted :: NATType where "NATPortRestricted = 4"
definition NATSymmetric :: NATType where "NATSymmetric = 5"

lemmas nat_types = NATUnknown_def NATNone_def NATFullCone_def NATRestrictedCone_def NATPortRestricted_def NATSymmetric_def

definition NATType_String :: "NATType \<Rightarrow> string" where
  "NATType_String t =
     (if t = NATNone then ''Public'' else if t = NATFullCone then ''Full Cone''
      else if t = NATRestrictedCone then ''Restricted Cone'' else if t = NATPortRestricted then ''Port Restricted Cone''
      else if t = NATSymmetric then ''Symmetric'' else ''Unknown'')"

definition ProbeTypeRequest :: byte where "ProbeTypeRequest = 1"
definition ProbeTypeResponse :: byte where "ProbeTypeResponse = 2"
definition ProbeTypeResult :: byte where "ProbeTypeResult = 3"
definition ProbeMagic :: bytes where "ProbeMagic = string_bytes ''NATP''"

lemmas probe_consts = ProbeTypeRequest_def ProbeTypeResponse_def ProbeTypeResult_def

record ipaddr =
  IP :: bytes
  Port :: int

text \<open>\<open>net.IP\<close>: the two canonical forms and equality.\<close>

definition v4_prefix :: bytes where
  "v4_prefix = replicate 10 0 @ [255, 255]"

definition To4 :: "bytes \<Rightarrow> bytes option" where
  "To4 ip = (if length ip = 4 then Some ip
             else if length ip = 16 \<and> take 12 ip = v4_prefix then Some (drop 12 ip) else None)"

definition To16 :: "bytes \<Rightarrow> bytes option" where
  "To16 ip = (if length ip = 4 then Some (v4_prefix @ ip) else if length ip = 16 then Some ip else None)"

definition IP_Equal :: "bytes \<Rightarrow> bytes \<Rightarrow> bool" where
  "IP_Equal a b =
     (if length a = length b then a = b
      else if length a = 4 \<and> length b = 16 then take 12 b = v4_prefix \<and> a = drop 12 b
      else if length a = 16 \<and> length b = 4 then take 12 a = v4_prefix \<and> b = drop 12 a
      else False)"

text \<open>The bytes both encoders write for an address; a nil slice is written as no bytes.\<close>

definition wire_ip :: "bytes \<Rightarrow> bytes" where
  "wire_ip ip = (case To4 ip of Some b \<Rightarrow> b | None \<Rightarrow> (case To16 ip of Some b \<Rightarrow> b | None \<Rightarrow> []))"

record ProbeResult =
  NATType_of :: NATType
  PublicAddr :: ipaddr
  PortPredictable :: bool
  PortDelta :: int
  ProbeTime :: gotime
  ProberID :: string

record ProbeResponse =
  pr_RequestID :: "32 word"
  ObservedAddr :: ipaddr
  FromPort :: int

record pendingProbe =
  pp_requestID :: "32 word"
  responses :: "ProbeResponse list"
  responseCh :: nat
  createTime :: gotime
  expectedPort :: nat

record probeRequestState =
  prs_requestID :: "32 word"
  fromAddr :: ipaddr
  receivedAt :: gotime
  portCount_of :: nat
  respondedAt :: "gotime list"

record NATProber =
  cachedResult :: "ProbeResult option"
  pendingProbes :: "(32 word, pendingProbe) gomap"
  probeRequests :: "(32 word, probeRequestState) gomap"
  np_timeout :: duration
  nextRequestID :: "32 word"
  np_closed :: bool

definition NewNATProber :: NATProber where
  "NewNATProber = \<lparr>cachedResult = None, pendingProbes = [], probeRequests = [], np_timeout = 5 * second,
     nextRequestID = 1, np_closed = False\<rparr>"

definition Prober_Close :: "NATProber \<Rightarrow> NATProber" where
  "Prober_Close p = (if np_closed p then p else p\<lparr>np_closed := True\<rparr>)"

definition cleanupStaleProbes :: "gotime \<Rightarrow> NATProber \<Rightarrow> NATProber" where
  "cleanupStaleProbes now p =
     p\<lparr>pendingProbes := gm_prune (\<lambda>_ probe. 60 * second < time_Sub now (createTime probe)) (pendingProbes p),
       probeRequests := gm_prune (\<lambda>_ req. 60 * second < time_Sub now (receivedAt req)) (probeRequests p)\<rparr>"

subsection \<open>Packets\<close>

definition buildProbeRequest :: "32 word \<Rightarrow> nat \<Rightarrow> bytes" where
  "buildProbeRequest requestID portCount =
     (let packet = replicate 10 0;
          packet = copy_into packet 0 ProbeMagic;
          packet = packet[4 := ProbeTypeRequest];
          packet = copy_into packet 5 (put_be32 requestID)
      in packet[9 := of_nat portCount])"

definition buildProbeResponse :: "32 word \<Rightarrow> ipaddr \<Rightarrow> int \<Rightarrow> bytes" where
  "buildProbeResponse requestID observedAddr fromPort =
     (let ip = wire_ip (IP observedAddr); ipLen = length ip;
          packet = replicate (14 + ipLen) 0;
          packet = copy_into packet 0 ProbeMagic;
          packet = packet[4 := ProbeTypeResponse];
          packet = copy_into packet 5 (put_be32 requestID);
          packet = copy_into packet 9 (put_be16 (word_of_int (Port observedAddr)));
          packet = packet[11 := of_nat ipLen];
          packet = copy_into packet 12 ip
      in copy_into packet (12 + ipLen) (put_be16 (word_of_int fromPort)))"

definition handleProbeRequest :: "int \<Rightarrow> bytes \<Rightarrow> ipaddr \<Rightarrow> bytes" where
  "handleProbeRequest localPort data from =
     (if length data < 9 then [] else buildProbeResponse (get_be32 (subslice 5 9 data)) from localPort)"

definition handleProbeResponse :: "bytes \<Rightarrow> NATProber \<Rightarrow> NATProber" where
  "handleProbeResponse data p =
     (if length data < 15 then p
      else let requestID = get_be32 (subslice 5 9 data);
               observedPort = uint (get_be16 (subslice 9 11 data));
               ipLen = unat (data ! 11)
        in if length data < 12 + ipLen + 2 then p
           else let observedIP = subslice 12 (12 + ipLen) data;
                    fromPort = uint (get_be16 (subslice (12 + ipLen) (14 + ipLen) data));
                    response = \<lparr>pr_RequestID = requestID, ObservedAddr = \<lparr>IP = observedIP, Port = observedPort\<rparr>,
                                FromPort = fromPort\<rparr>
             in case gm_get (pendingProbes p) requestID of
                  None \<Rightarrow> p
                | Some probe \<Rightarrow>
                    p\<lparr>pendingProbes := gm_put requestID
                        (probe\<lparr>responses := responses probe @ [response],
                           responseCh := (if responseCh probe < expectedPort probe then Suc (responseCh probe)
                                          else responseCh probe)\<rparr>) (pendingProbes p)\<rparr>)"

definition HandleProbePacket :: "int \<Rightarrow> bytes \<Rightarrow> ipaddr \<Rightarrow> NATProber \<Rightarrow> bytes \<times> NATProber" where
  "HandleProbePacket localPort data from p =
     (if length data < 8 \<or> subslice 0 4 data \<noteq> ProbeMagic then ([], p)
      else if data ! 4 = ProbeTypeRequest then (handleProbeRequest localPort data from, p)
      else if data ! 4 = ProbeTypeResponse then ([], handleProbeResponse data p)
      else ([], p))"

subsection \<open>Classification\<close>

fun same_steps :: "int \<Rightarrow> int list \<Rightarrow> bool" where
  "same_steps delta (a # b # ps) = (if b - a \<noteq> delta then False else same_steps delta (b # ps))"
| "same_steps delta ps = True"

datatype probe_error = ErrNoHelpers | ErrNoResponses

definition is_local :: "ipaddr option \<Rightarrow> ipaddr \<Rightarrow> bool" where
  "is_local localAddr publicAddr =
     (case localAddr of None \<Rightarrow> False
      | Some l \<Rightarrow> IP_Equal (IP l) (IP publicAddr) \<and> Port l = Port publicAddr)"

definition analyzeResponses ::
    "gotime \<Rightarrow> ipaddr option \<Rightarrow> ProbeResponse list \<Rightarrow> NATProber \<Rightarrow> (probe_error + ProbeResult) \<times> NATProber" where
  "analyzeResponses now localAddr resps p =
     (case resps of [] \<Rightarrow> (Inl ErrNoResponses, p)
      | r0 # rest \<Rightarrow>
          let result = \<lparr>NATType_of = NATUnknown, PublicAddr = ObservedAddr r0, PortPredictable = False, PortDelta = 0,
                        ProbeTime = now, ProberID = []\<rparr>
          in if is_local localAddr (PublicAddr result)
             then (Inr (result\<lparr>NATType_of := NATNone\<rparr>), p)
             else if length resps = 1 then (Inr (result\<lparr>NATType_of := NATUnknown\<rparr>), p)
             else let ports = map (\<lambda>r. Port (ObservedAddr r)) resps;
                      allSame = list_all (\<lambda>q. q = ports ! 0) (tl ports);
                      result = (if allSame then result\<lparr>NATType_of := NATPortRestricted\<rparr>
                                else let delta = ports ! 1 - ports ! 0; predictable = same_steps delta (tl ports)
                                  in result\<lparr>NATType_of := NATSymmetric, PortPredictable := predictable,
                                            PortDelta := (if predictable then delta else 0)\<rparr>)
                  in (Inr result, p\<lparr>cachedResult := Some result\<rparr>))"

text \<open>\<open>ProbeViaHelper\<close> up to its wait: the request that is sent to every helper; and after it.\<close>

definition probe_begin :: "gotime \<Rightarrow> nat \<Rightarrow> NATProber \<Rightarrow> (probe_error + 32 word \<times> bytes) \<times> NATProber" where
  "probe_begin now helpers p =
     (if helpers < 1 then (Inl ErrNoHelpers, p)
      else let requestID = nextRequestID p;
               probe = \<lparr>pp_requestID = requestID, responses = [], responseCh = 0, createTime = now, expectedPort = helpers\<rparr>
        in (Inr (requestID, buildProbeRequest requestID helpers),
            p\<lparr>nextRequestID := requestID + 1, pendingProbes := gm_put requestID probe (pendingProbes p)\<rparr>))"

definition probe_finish ::
    "gotime \<Rightarrow> ipaddr option \<Rightarrow> pendingProbe \<Rightarrow> NATProber \<Rightarrow> (probe_error + ProbeResult) \<times> NATProber" where
  "probe_finish now localAddr probe p =
     (case analyzeResponses now localAddr (responses probe) p of
        (res, p1) \<Rightarrow> (res, p1\<lparr>pendingProbes := gm_del (pp_requestID probe) (pendingProbes p1)\<rparr>))"

definition GetCachedResult :: "NATProber \<Rightarrow> ProbeResult option" where
  "GetCachedResult p = cachedResult p"

definition ClearCache :: "NATProber \<Rightarrow> NATProber" where
  "ClearCache p = p\<lparr>cachedResult := None\<rparr>"

subsection \<open>Strategies\<close>

datatype PunchStrategy = StrategyDirect | StrategyUDPPunch | StrategyTCPPunch | StrategyPortPredict | StrategyRelay | StrategyAll

fun PunchStrategy_String :: "PunchStrategy \<Rightarrow> string" where
  "PunchStrategy_String StrategyDirect = ''Direct''"
| "PunchStrategy_String StrategyUDPPunch = ''UDP Punch''"
| "PunchStrategy_String StrategyTCPPunch = ''TCP Punch''"
| "PunchStrategy_String StrategyPortPredict = ''Port Predict''"
| "PunchStrategy_String StrategyRelay = ''Relay''"
| "PunchStrategy_String StrategyAll = ''Try All''"

definition SelectPunchStrategy :: "NATType \<Rightarrow> NATType \<Rightarrow> PunchStrategy" where
  "SelectPunchStrategy localNAT remoteNAT =
     (if localNAT = NATNone \<or> remoteNAT = NATNone then StrategyDirect
      else if localNAT \<le> NATPortRestricted \<and> remoteNAT \<le> NATPortRestricted then StrategyUDPPunch
      else if localNAT = NATSymmetric \<and> remoteNAT \<le> NATPortRestricted \<or>
              remoteNAT = NATSymmetric \<and> localNAT \<le> NATPortRestricted then StrategyTCPPunch
      else if localNAT = NATSymmetric \<and> remoteNAT = NATSymmetric then StrategyPortPredict
      else StrategyAll)"

subsection \<open>NAT information on the wire\<close>

record NATInfo =
  ni_Type :: NATType
  ni_PublicAddr :: ipaddr
  ni_PortPredictable :: bool
  ni_PortDelta :: int
  LastProbe :: gotime

definition NATInfo_Encode :: "NATInfo \<Rightarrow> bytes" where
  "NATInfo_Encode n =
     (let ip = wire_ip (IP (ni_PublicAddr n)); ipLen = length ip;
          data = replicate (7 + ipLen) 0;
          data = data[0 := word_of_int (ni_Type n)];
          data = copy_into data 1 (put_be16 (word_of_int (Port (ni_PublicAddr n))));
          data = data[3 := of_nat ipLen];
          data = copy_into data 4 ip;
          data = (if ni_PortPredictable n then data[4 + ipLen := 1] else data)
      in copy_into data (5 + ipLen) (put_be16 (word_of_int (ni_PortDelta n))))"

datatype natinfo_error = ErrDataShort | ErrIPShort

definition DecodeNATInfo :: "gotime \<Rightarrow> bytes \<Rightarrow> natinfo_error + NATInfo" where
  "DecodeNATInfo now data =
     (if length data < 7 then Inl ErrDataShort
      else let port = uint (get_be16 (subslice 1 3 data)); ipLen = unat (data ! 3)
        in if length data < 7 + ipLen then Inl ErrIPShort
           else Inr \<lparr>ni_Type = uint (data ! 0),
                     ni_PublicAddr = \<lparr>IP = subslice 4 (4 + ipLen) data, Port = port\<rparr>,
                     ni_PortPredictable = (data ! (4 + ipLen) = 1),
                     ni_PortDelta = uint (get_be16 (subslice (5 + ipLen) (7 + ipLen) data)),
                     LastProbe = now\<rparr>)"

subsection \<open>Facts\<close>

lemma length_ProbeMagic [simp]: "length ProbeMagic = 4"
  by (simp add: ProbeMagic_def)

lemma length_v4_prefix [simp]: "length v4_prefix = 12"
  by (simp add: v4_prefix_def)

lemma length_wire_ip: "length (wire_ip ip) \<in> {0, 4, 16}"
  by (auto simp: wire_ip_def To4_def To16_def split: option.splits if_splits)

lemma wire_ip_byte: "unat (of_nat (length (wire_ip ip)) :: byte) = length (wire_ip ip)"
  using length_wire_ip [of ip] by auto

lemma buildProbeResponse_eq:
  "buildProbeResponse i a f = ProbeMagic @ [ProbeTypeResponse] @ put_be32 i @ put_be16 (word_of_int (Port a)) @
     [of_nat (length (wire_ip (IP a)))] @ wire_ip (IP a) @ put_be16 (word_of_int f)"
proof -
  have "replicate (14 + k) (0 :: byte) = replicate 4 0 @ [0] @ replicate 4 0 @ replicate 2 0 @ [0] @ replicate k 0 @ replicate 2 0" for k
    by (simp add: replicate_add [symmetric] flip: replicate_Suc)
  then show ?thesis
    unfolding buildProbeResponse_def Let_def by (simp add: copy_into_def list_update_append take_Cons' drop_Cons')
qed

lemma NATInfo_Encode_eq:
  "NATInfo_Encode n = [word_of_int (ni_Type n)] @ put_be16 (word_of_int (Port (ni_PublicAddr n))) @
     [of_nat (length (wire_ip (IP (ni_PublicAddr n))))] @ wire_ip (IP (ni_PublicAddr n)) @
     [if ni_PortPredictable n then 1 else 0] @ put_be16 (word_of_int (ni_PortDelta n))"
proof -
  have "replicate (7 + k) (0 :: byte) = [0] @ replicate 2 0 @ [0] @ replicate k 0 @ [0] @ replicate 2 0" for k
    by (simp add: replicate_add [symmetric] flip: replicate_Suc)
  then show ?thesis
    unfolding NATInfo_Encode_def Let_def by (simp add: copy_into_def list_update_append take_Cons' drop_Cons')
qed

lemma get_put_be [simp]: "get_be16 (put_be16 w) = w" "get_be32 (put_be32 v) = v"
  using get_put_be16 [of w "[]"] get_put_be32 [of v "[]"] by simp_all

lemma uint_word16: "0 \<le> k \<Longrightarrow> k < 65536 \<Longrightarrow> uint (word_of_int k :: 16 word) = k"
  by (simp add: uint_word_of_int take_bit_eq_mod)

lemma buildProbeRequest_eq: "buildProbeRequest i k = ProbeMagic @ [ProbeTypeRequest] @ put_be32 i @ [of_nat k]"
proof -
  have "replicate 10 (0 :: byte) = replicate 4 0 @ [0] @ replicate 4 0 @ [0]"
    by (simp add: numeral_eq_Suc)
  then show ?thesis
    unfolding buildProbeRequest_def Let_def by (simp add: copy_into_def list_update_append take_Cons' drop_Cons')
qed

lemma same_steps_iff: "same_steps d ps \<longleftrightarrow> (\<forall>i. Suc i < length ps \<longrightarrow> ps ! Suc i - ps ! i = d)"
proof (induction d ps rule: same_steps.induct)
  case (1 d a b ps)
  then show ?case by (auto simp: nth_Cons split: nat.splits)
qed auto

lemma wire_ip_Equal: "length ip \<in> {4, 16} \<Longrightarrow> IP_Equal (wire_ip ip) ip \<and> length (wire_ip ip) \<noteq> 0"
  by (auto simp: wire_ip_def To4_def To16_def IP_Equal_def)

lemma ni_bytes:
  "DecodeNATInfo now ([t] @ put_be16 p @ [of_nat k] @ ip @ [q] @ put_be16 d) =
     Inr \<lparr>ni_Type = uint t, ni_PublicAddr = \<lparr>IP = ip, Port = uint p\<rparr>, ni_PortPredictable = (q = 1),
          ni_PortDelta = uint d, LastProbe = now\<rparr>"
  if "length ip = k" "k \<le> 255"
proof -
  have k: "unat (of_nat k :: byte) = k" using that(2) by (simp add: unat_of_nat take_bit_eq_mod)
  show ?thesis using that(1)
    by (simp add: DecodeNATInfo_def Let_def k subslice_def nth_append take_Cons' drop_Cons' nth_Cons')
qed

lemma natinfo_decode_encode:
  assumes "0 \<le> ni_Type n" "ni_Type n < 256" "0 \<le> Port (ni_PublicAddr n)" "Port (ni_PublicAddr n) < 65536"
    and "wire_ip (IP (ni_PublicAddr n)) = IP (ni_PublicAddr n)"
  shows "DecodeNATInfo now (NATInfo_Encode n) = Inr (n\<lparr>ni_PortDelta := ni_PortDelta n mod 65536, LastProbe := now\<rparr>)"
proof -
  have "length (wire_ip (IP (ni_PublicAddr n))) \<le> 255" using length_wire_ip [of "IP (ni_PublicAddr n)"] by auto
  from ni_bytes [OF refl this, of now] assms show ?thesis
    by (simp add: NATInfo_Encode_eq uint_word16 uint_word_of_int take_bit_eq_mod)
qed

definition natinfo_ok :: "gotime \<Rightarrow> NATInfo \<Rightarrow> bool" where
  "natinfo_ok now n \<longleftrightarrow> 0 \<le> ni_Type n \<and> ni_Type n < 256 \<and> 0 \<le> Port (ni_PublicAddr n) \<and> Port (ni_PublicAddr n) < 65536 \<and>
     wire_ip (IP (ni_PublicAddr n)) = IP (ni_PublicAddr n) \<and> 0 \<le> ni_PortDelta n \<and> ni_PortDelta n < 65536 \<and> LastProbe n = now"

interpretation natinfo: codec NATInfo_Encode "DecodeNATInfo now" "natinfo_ok now" for now
  by unfold_locales (simp add: natinfo_ok_def natinfo_decode_encode)

subsection \<open>Properties\<close>


text \<open>C37: with two or more answers, none of which makes the node look public, the mapping is called
  symmetric exactly if some helper saw another port than the first one, and then predictable
  exactly if the ports grow by one constant step, which is the reported delta; otherwise it is
  called port restricted. The result is cached and names the first observed address.\<close>

theorem analyze_classifies:
  assumes "2 \<le> length rs"
    and "\<not> is_local localAddr (ObservedAddr (hd rs))"
  shows "\<exists>res. analyzeResponses now localAddr rs p = (Inr res, p\<lparr>cachedResult := Some res\<rparr>) \<and>
    PublicAddr res = ObservedAddr (hd rs) \<and>
    (case map (\<lambda>r. Port (ObservedAddr r)) rs of ports \<Rightarrow>
       NATType_of res = (if \<exists>q \<in> set ports. q \<noteq> hd ports then NATSymmetric else NATPortRestricted) \<and>
       (PortPredictable res \<longleftrightarrow> (\<exists>q \<in> set ports. q \<noteq> hd ports) \<and>
          (\<exists>d. \<forall>i. Suc i < length ports \<longrightarrow> ports ! Suc i - ports ! i = d)) \<and>
       (PortPredictable res \<longrightarrow> (\<forall>i. Suc i < length ports \<longrightarrow> ports ! Suc i - ports ! i = PortDelta res)))"
proof -
  obtain r0 r1 rest where rs: "rs = r0 # r1 # rest"
    using assms(1) by (cases rs; cases "tl rs") auto
  let ?ports = "map (\<lambda>r. Port (ObservedAddr r)) rs"
  let ?d = "?ports ! 1 - ?ports ! 0"
  have loc: "\<not> is_local localAddr (ObservedAddr r0)" using assms(2) rs by simp
  have all: "list_all (\<lambda>q. q = ?ports ! 0) (tl ?ports) \<longleftrightarrow> \<not> (\<exists>q \<in> set ?ports. q \<noteq> hd ?ports)"
    by (auto simp: rs list_all_iff)
  have "same_steps ?d (tl ?ports) \<longleftrightarrow> same_steps ?d ?ports" by (simp add: rs)
  then have steps: "same_steps ?d (tl ?ports) \<longleftrightarrow> (\<forall>i. Suc i < length ?ports \<longrightarrow> ?ports ! Suc i - ?ports ! i = ?d)"
    by (simp only: same_steps_iff)
  have ex: "(\<exists>d. \<forall>i. Suc i < length ?ports \<longrightarrow> ?ports ! Suc i - ?ports ! i = d) \<longleftrightarrow> same_steps ?d (tl ?ports)"
    unfolding steps using rs by (metis (no_types, lifting) One_nat_def length_Cons length_map zero_less_Suc Suc_less_eq)
  let ?base = "\<lparr>NATType_of = NATUnknown, PublicAddr = ObservedAddr r0, PortPredictable = False, PortDelta = 0,
                        ProbeTime = now, ProberID = []\<rparr>"
  define res where "res = (if list_all (\<lambda>q. q = ?ports ! 0) (tl ?ports) then ?base\<lparr>NATType_of := NATPortRestricted\<rparr>
     else ?base\<lparr>NATType_of := NATSymmetric, PortPredictable := same_steps ?d (tl ?ports),
                PortDelta := (if same_steps ?d (tl ?ports) then ?d else 0)\<rparr>)"
  have an: "analyzeResponses now localAddr rs p = (Inr res, p\<lparr>cachedResult := Some res\<rparr>)"
    using loc by (simp add: analyzeResponses_def rs Let_def res_def)
  have f: "PublicAddr res = ObservedAddr (hd rs)"
    "NATType_of res = (if \<exists>q \<in> set ?ports. q \<noteq> hd ?ports then NATSymmetric else NATPortRestricted)"
    "PortPredictable res \<longleftrightarrow> (\<exists>q \<in> set ?ports. q \<noteq> hd ?ports) \<and> same_steps ?d (tl ?ports)"
    "PortPredictable res \<longrightarrow> PortDelta res = ?d"
    unfolding all res_def by (simp_all add: rs)
  have "PortPredictable res \<longrightarrow> (\<forall>i. Suc i < length ?ports \<longrightarrow> ?ports ! Suc i - ?ports ! i = PortDelta res)"
    using f(3,4) steps by metis
  with an f(1,2) f(3) [folded ex] show ?thesis by (intro exI [of _ res]) blast
qed

text \<open>NAT information survives encoding and decoding, time stamp apart, if the type fits a byte,
  the port 16 bits and the IP is in its shortest form, except for the port delta: it comes back
  modulo 65536, so that a negative delta, which the classification produces when ports
  fall, comes back as a positive one.\<close>

theorem natinfo_roundtrip:
  assumes "0 \<le> ni_Type n" "ni_Type n < 256" "0 \<le> Port (ni_PublicAddr n)" "Port (ni_PublicAddr n) < 65536"
    and "wire_ip (IP (ni_PublicAddr n)) = IP (ni_PublicAddr n)"
  shows "\<exists>m. DecodeNATInfo now (NATInfo_Encode n) = Inr m \<and> ni_Type m = ni_Type n \<and> ni_PublicAddr m = ni_PublicAddr n \<and>
    ni_PortPredictable m = ni_PortPredictable n \<and> ni_PortDelta m = ni_PortDelta n mod 65536 \<and>
    (ni_PortDelta n < 0 \<longrightarrow> ni_PortDelta m \<noteq> ni_PortDelta n)"
proof -
  have "ni_PortDelta n < 0 \<Longrightarrow> ni_PortDelta n mod 65536 \<noteq> ni_PortDelta n" by presburger
  with natinfo_decode_encode [OF assms, of now] show ?thesis by simp
qed

text \<open>The strategy does not depend on who is local and who is remote. For the types the program
  knows it never tries everything and never gives up on punching: a side of unknown type is
  treated like a cone NAT, although the code's comment promises every method for unknown types.\<close>

theorem punch_strategy_total:
  assumes "a \<in> {0..5}" "b \<in> {0..5}"
  shows "SelectPunchStrategy a b = SelectPunchStrategy b a \<and>
    SelectPunchStrategy a b \<in> {StrategyDirect, StrategyUDPPunch, StrategyTCPPunch, StrategyPortPredict} \<and>
    (SelectPunchStrategy a b = StrategyDirect \<longleftrightarrow> a = NATNone \<or> b = NATNone) \<and>
    (SelectPunchStrategy a b = StrategyPortPredict \<longleftrightarrow> a = NATSymmetric \<and> b = NATSymmetric) \<and>
    SelectPunchStrategy NATUnknown NATUnknown = StrategyUDPPunch"
  using assms by (auto simp: SelectPunchStrategy_def nat_types)

subsection \<open>Witnesses\<close>


theorem analyze_classifies_witness:
  "\<exists>res. analyzeResponses 5 None [\<lparr>pr_RequestID = 1, ObservedAddr = \<lparr>IP = [10, 0, 0, 1], Port = 4000\<rparr>, FromPort = 7\<rparr>,
       \<lparr>pr_RequestID = 1, ObservedAddr = \<lparr>IP = [10, 0, 0, 1], Port = 4002\<rparr>, FromPort = 8\<rparr>] NewNATProber =
     (Inr res, NewNATProber\<lparr>cachedResult := Some res\<rparr>) \<and> NATType_of res = NATSymmetric"
  using analyze_classifies [of "[\<lparr>pr_RequestID = 1, ObservedAddr = \<lparr>IP = [10, 0, 0, 1], Port = 4000\<rparr>, FromPort = 7\<rparr>,
       \<lparr>pr_RequestID = 1, ObservedAddr = \<lparr>IP = [10, 0, 0, 1], Port = 4002\<rparr>, FromPort = 8\<rparr>]" None 5 NewNATProber]
  by (auto simp: is_local_def)

theorem natinfo_roundtrip_witness:
  "\<exists>m. DecodeNATInfo 9 (NATInfo_Encode \<lparr>ni_Type = 5, ni_PublicAddr = \<lparr>IP = [10, 0, 0, 1], Port = 4000\<rparr>,
       ni_PortPredictable = True, ni_PortDelta = -2, LastProbe = 5\<rparr>) = Inr m \<and> ni_PortDelta m \<noteq> -2"
  using natinfo_roundtrip [of "\<lparr>ni_Type = 5, ni_PublicAddr = \<lparr>IP = [10, 0, 0, 1], Port = 4000\<rparr>,
       ni_PortPredictable = True, ni_PortDelta = -2, LastProbe = 5\<rparr>" 9]
  by (auto simp: wire_ip_def To4_def)

theorem punch_strategy_total_witness: "SelectPunchStrategy 5 0 = SelectPunchStrategy 0 5"
  using punch_strategy_total [of 5 0] by simp

end
