(* ===== verification/Node_State.thy ===== *)
theory Node_State
  imports Peer Reconnect Relay KCP NAT_Probe
begin

text \<open>
  The state of a node (\<open>Node\<close> of \<open>node/node.go\<close>), the environment it runs in, and the raw send
  path of \<open>node/send_path.go\<close>.

  A handler of the code is a function on this state. Every map of the struct is guarded by one
  mutex that a handler takes around each access; here a handler is one step. What it sends and
  which callbacks it runs is appended to \<open>n_out\<close> in order; a goroutine it starts is appended to
  \<open>n_tasks\<close> and is a step of its own later. Peers and sessions live in the heaps of the peer
  component; a pending handshake is only reachable through its map entry and is kept by value.
  \<open>time.Now()\<close> is an argument and is one instant for a step.
\<close>

subsection \<open>Effects and goroutines\<close>

datatype wr = TCPWrite conn bytes | UDPWrite netaddr bytes | KCPWrite kref bytes

datatype effect =
  Wrote wr bool
| CallReceive string bytes
| CallConnected string duration
| CallDisconnected string

datatype task =
  TSendDiscovery pref
| TSyncChannels string
| TSendAppFrame string byte bytes
| TRehandshake string pref
| TExpireHandshake string duration
| TConnect string
| THandleKCP kref
| THandleTCP conn

subsection \<open>The node\<close>

record ('h, 'c) Node =
  n_Config :: Config
  n_Identity :: Identity
  n_Peers :: PeerStore
  n_pheap :: pheap
  n_pfresh :: pref
  n_world :: "'c world"
  n_sfresh :: sref
  n_started :: bool
  tcpListener :: bool
  tcpLocalPort :: int
  tcpSessionSem :: nat
  localPeerID :: string
  pendingHandshakes :: "(string, 'h HandshakeState) gomap"
  addrToPeer :: "(string, string) gomap"
  onReceive :: bool
  onPeerConnected :: bool
  onPeerDisconnected :: bool
  n_closing :: bool
  relayManager :: "RelayManager option"
  relayAddrSet :: "(string, bool) gomap"
  relayForward :: "(string, netaddr option) gomap"
  relayPendingTarget :: "(string, netaddr option) gomap"
  relayInbound :: "(string, bool) gomap"
  n_metrics :: Collector
  relayAuth :: "RelayAuthenticator option"
  n_mux :: UDPMux
  kcpTransport :: "KCPTransport option"
  reconnectManager :: "ReconnectManager option"
  n_onReconnecting :: bool
  n_onReconnected :: bool
  n_onGaveUp :: bool
  discoveryConnectSem :: nat
  discoveryConnectSeen :: "(string, gotime) gomap"
  localChannelSet :: "(bytes, unit) gomap"
  natProber :: "NATProber option"
  natInfo :: "NATInfo option"
  n_out :: "effect list"
  n_tasks :: "task list"

text \<open>What lies outside the program: the Noise library, the cryptographic functions, rounding,
  address resolution, whether a write succeeds (given everything that happened before),
  whether the KCP library opens a connection, the IP and port of an address, and the socket's own
  address.\<close>

record ('h, 'c) env =
  e_noise :: "('h, 'c) noise_lib"
  e_crypto :: crypto_lib
  e_rnd :: "rat \<Rightarrow> gofloat"
  e_resolveUDP :: "string \<Rightarrow> netaddr option"
  e_write :: "effect list \<Rightarrow> wr \<Rightarrow> bool"
  e_kcp_dial :: "effect list \<Rightarrow> string \<Rightarrow> bool"
  e_ipaddr :: "netaddr \<Rightarrow> ipaddr"
  e_localAddr :: ipaddr

datatype node_error =
  ErrWriteTCP | ErrWriteUDP | ErrBadTransport | ErrSelf | ErrUnknownPeer | ErrNoSessionYet
| ErrBadUDPAddr | ErrNoKCP | ErrKCPUpgrade kcp_error | ErrKCPSend kcp_error | ErrNoSendPath
| ErrEncryptFailed noise_error | ErrNotSubscribed | ErrPeerAddrNil | ErrRehandshakeTransport
| ErrHandshakeInit noise_error | ErrRehandshakeBusy | ErrRelayManagerNil | ErrResolve
| ErrRelay relay_error | ErrTargetNil | ErrAddrTooLong | ErrNotStarted | ErrConfig "config_error list"
| ErrIdentity identity_error

subsection \<open>Making a node\<close>

definition hashChannelName :: "crypto_lib \<Rightarrow> string \<Rightarrow> bytes" where
  "hashChannelName cl name = Sum256 cl (string_bytes name)"

text \<open>The struct \<open>NewNode\<close> returns.\<close>

definition fresh_node :: "crypto_lib \<Rightarrow> gotime \<Rightarrow> Config \<Rightarrow> Identity \<Rightarrow> ('h, 'c) Node" where
  "fresh_node cl now cfg i =
     \<lparr>n_Config = cfg, n_Identity = i, n_Peers = NewPeerStore, n_pheap = (\<lambda>_. new_peer []), n_pfresh = 0,
      n_world = \<lparr>w_sess = (\<lambda>_. \<lparr>sendCipher = None, recvCipher = None, remoteStaticKey = None, handshakeHash = None\<rparr>),
                 w_closed = []\<rparr>,
      n_sfresh = 0, n_started = False, tcpListener = False, tcpLocalPort = 0, tcpSessionSem = 0, localPeerID = [], pendingHandshakes = [], addrToPeer = [],
      onReceive = False, onPeerConnected = False, onPeerDisconnected = False, n_closing = False,
      relayManager = None, relayAddrSet = [], relayForward = [], relayPendingTarget = [], relayInbound = [],
      n_metrics = NewCollector now, relayAuth = None, n_mux = NewUDPMux, kcpTransport = None,
      reconnectManager = None, n_onReconnecting = False, n_onReconnected = False, n_onGaveUp = False,
      discoveryConnectSem = 0, discoveryConnectSeen = [],
      localChannelSet = fold (\<lambda>ch m. gm_put (hashChannelName cl ch) () m) (Channels cfg) [],
      natProber = None, natInfo = None, n_out = [], n_tasks = []\<rparr>"

definition NewNode ::
    "('h, 'c) env \<Rightarrow> gotime \<Rightarrow> (bytes \<times> bytes) option \<Rightarrow> Option list \<Rightarrow> node_error + ('h, 'c) Node" where
  "NewNode env now gen opts =
     (let cfg = fold (\<lambda>opt c. opt c) opts DefaultConfig
      in case Validate (e_resolveUDP env) cfg of
           (Some errs, _) \<Rightarrow> Inl (ErrConfig errs)
         | (None, cfg) \<Rightarrow>
             (case (case cfg_Identity cfg of Some i \<Rightarrow> Inr i | None \<Rightarrow> NewIdentity (e_crypto env) gen) of
                Inl e \<Rightarrow> Inl (ErrIdentity e)
              | Inr i \<Rightarrow> Inr (fresh_node (e_crypto env) now cfg i)))"

subsection \<open>Access to peers and counters\<close>

definition peer_at :: "('h, 'c) Node \<Rightarrow> pref \<Rightarrow> Peer" where
  "peer_at n r = n_pheap n r"

definition upd_peer :: "pref \<Rightarrow> (Peer \<Rightarrow> Peer) \<Rightarrow> ('h, 'c) Node \<Rightarrow> ('h, 'c) Node" where
  "upd_peer r f n = n\<lparr>n_pheap := (n_pheap n)(r := f (n_pheap n r))\<rparr>"

definition upd_metrics :: "(Collector \<Rightarrow> Collector) \<Rightarrow> ('h, 'c) Node \<Rightarrow> ('h, 'c) Node" where
  "upd_metrics f n = n\<lparr>n_metrics := f (n_metrics n)\<rparr>"

definition emit_out :: "effect \<Rightarrow> ('h, 'c) Node \<Rightarrow> ('h, 'c) Node" where
  "emit_out e n = n\<lparr>n_out := n_out n @ [e]\<rparr>"

definition spawn :: "task \<Rightarrow> ('h, 'c) Node \<Rightarrow> ('h, 'c) Node" where
  "spawn t n = n\<lparr>n_tasks := n_tasks n @ [t]\<rparr>"

text \<open>The peer an address belongs to, as every packet handler looks it up.\<close>

definition peer_of_addr :: "('h, 'c) Node \<Rightarrow> netaddr \<Rightarrow> (string \<times> pref) option" where
  "peer_of_addr n a =
     (case gm_get (addrToPeer n) (addr_String a) of None \<Rightarrow> None
      | Some peerID \<Rightarrow> (case ps_Get (n_Peers n) peerID of None \<Rightarrow> None | Some r \<Rightarrow> Some (peerID, r)))"

definition Node_ID :: "('h, 'c) Node \<Rightarrow> string" where
  "Node_ID n = NodeID_String (NodeID (n_Identity n))"

definition shortPeerID :: "string \<Rightarrow> string" where
  "shortPeerID peerID = (if 8 < length peerID then take 8 peerID else peerID)"

subsection \<open>Writing\<close>

definition do_write :: "('h, 'c) env \<Rightarrow> wr \<Rightarrow> ('h, 'c) Node \<Rightarrow> bool \<times> ('h, 'c) Node" where
  "do_write env w n = (let ok = e_write env (n_out n) w in (ok, emit_out (Wrote w ok) n))"

definition writeTCPPacket :: "('h, 'c) env \<Rightarrow> conn \<Rightarrow> bytes \<Rightarrow> ('h, 'c) Node \<Rightarrow> node_error option \<times> ('h, 'c) Node" where
  "writeTCPPacket env c packet n =
     (case do_write env (TCPWrite c (EncodeTCPFrame packet)) n of
        (ok, n') \<Rightarrow> (if ok then None else Some ErrWriteTCP, n'))"

definition sendRaw ::
    "('h, 'c) env \<Rightarrow> conn option \<Rightarrow> netaddr option \<Rightarrow> string \<Rightarrow> bytes \<Rightarrow> ('h, 'c) Node \<Rightarrow>
       node_error option \<times> ('h, 'c) Node" where
  "sendRaw env c addr transport packet n =
     (if transport = ''tcp'' \<and> c \<noteq> None then writeTCPPacket env (the c) packet n
      else case addr of
        Some a \<Rightarrow>
          if is_udp_addr a
          then (case do_write env (UDPWrite a packet) n of
                  (ok, n') \<Rightarrow> (if ok then None else Some ErrWriteUDP, n'))
          else (Some ErrBadTransport, n)
      | None \<Rightarrow> (Some ErrBadTransport, n))"

subsection \<open>Frame facts\<close>

text \<open>What the two state changes of the send path leave alone: everything but the output.\<close>

lemma sendRaw_only_out: "\<exists>o'. snd (sendRaw env c a t p n) = n\<lparr>n_out := o'\<rparr>"
proof -
  have "n = n\<lparr>n_out := n_out n\<rparr>" by simp
  then have "\<exists>o'. n = n\<lparr>n_out := o'\<rparr>" by blast
  then show ?thesis
    by (auto simp: sendRaw_def writeTCPPacket_def do_write_def emit_out_def Let_def split: option.splits)
qed

lemma sendRaw_fields [simp]:
  "n_Config (snd (sendRaw env c a t p n)) = n_Config n"
  "n_Identity (snd (sendRaw env c a t p n)) = n_Identity n"
  "n_Peers (snd (sendRaw env c a t p n)) = n_Peers n"
  "n_pheap (snd (sendRaw env c a t p n)) = n_pheap n"
  "n_pfresh (snd (sendRaw env c a t p n)) = n_pfresh n"
  "n_world (snd (sendRaw env c a t p n)) = n_world n"
  "n_sfresh (snd (sendRaw env c a t p n)) = n_sfresh n"
  "n_started (snd (sendRaw env c a t p n)) = n_started n"
  "localPeerID (snd (sendRaw env c a t p n)) = localPeerID n"
  "pendingHandshakes (snd (sendRaw env c a t p n)) = pendingHandshakes n"
  "addrToPeer (snd (sendRaw env c a t p n)) = addrToPeer n"
  "onReceive (snd (sendRaw env c a t p n)) = onReceive n"
  "onPeerConnected (snd (sendRaw env c a t p n)) = onPeerConnected n"
  "onPeerDisconnected (snd (sendRaw env c a t p n)) = onPeerDisconnected n"
  "n_closing (snd (sendRaw env c a t p n)) = n_closing n"
  "relayManager (snd (sendRaw env c a t p n)) = relayManager n"
  "relayAddrSet (snd (sendRaw env c a t p n)) = relayAddrSet n"
  "relayForward (snd (sendRaw env c a t p n)) = relayForward n"
  "relayPendingTarget (snd (sendRaw env c a t p n)) = relayPendingTarget n"
  "relayInbound (snd (sendRaw env c a t p n)) = relayInbound n"
  "n_metrics (snd (sendRaw env c a t p n)) = n_metrics n"
  "relayAuth (snd (sendRaw env c a t p n)) = relayAuth n"
  "n_mux (snd (sendRaw env c a t p n)) = n_mux n"
  "kcpTransport (snd (sendRaw env c a t p n)) = kcpTransport n"
  "reconnectManager (snd (sendRaw env c a t p n)) = reconnectManager n"
  "discoveryConnectSem (snd (sendRaw env c a t p n)) = discoveryConnectSem n"
  "discoveryConnectSeen (snd (sendRaw env c a t p n)) = discoveryConnectSeen n"
  "localChannelSet (snd (sendRaw env c a t p n)) = localChannelSet n"
  "n_tasks (snd (sendRaw env c a t p n)) = n_tasks n"
  using sendRaw_only_out [of env c a t p n] by auto

lemma upd_peer_at [simp]: "n_pheap (upd_peer r f n) q = (if q = r then f (n_pheap n r) else n_pheap n q)"
  by (simp add: upd_peer_def)

lemma upd_peer_fields [simp]:
  "n_Config (upd_peer r f n) = n_Config n" "n_Identity (upd_peer r f n) = n_Identity n"
  "n_Peers (upd_peer r f n) = n_Peers n" "n_pfresh (upd_peer r f n) = n_pfresh n"
  "n_world (upd_peer r f n) = n_world n" "n_sfresh (upd_peer r f n) = n_sfresh n"
  "n_started (upd_peer r f n) = n_started n" "localPeerID (upd_peer r f n) = localPeerID n"
  "pendingHandshakes (upd_peer r f n) = pendingHandshakes n"
  "addrToPeer (upd_peer r f n) = addrToPeer n" "onReceive (upd_peer r f n) = onReceive n"
  "onPeerConnected (upd_peer r f n) = onPeerConnected n"
  "onPeerDisconnected (upd_peer r f n) = onPeerDisconnected n"
  "n_closing (upd_peer r f n) = n_closing n" "relayManager (upd_peer r f n) = relayManager n"
  "relayAddrSet (upd_peer r f n) = relayAddrSet n" "relayForward (upd_peer r f n) = relayForward n"
  "relayPendingTarget (upd_peer r f n) = relayPendingTarget n"
  "relayInbound (upd_peer r f n) = relayInbound n" "n_metrics (upd_peer r f n) = n_metrics n"
  "relayAuth (upd_peer r f n) = relayAuth n" "n_mux (upd_peer r f n) = n_mux n"
  "kcpTransport (upd_peer r f n) = kcpTransport n"
  "reconnectManager (upd_peer r f n) = reconnectManager n"
  "discoveryConnectSem (upd_peer r f n) = discoveryConnectSem n"
  "discoveryConnectSeen (upd_peer r f n) = discoveryConnectSeen n"
  "localChannelSet (upd_peer r f n) = localChannelSet n" "n_out (upd_peer r f n) = n_out n"
  "n_tasks (upd_peer r f n) = n_tasks n"
  by (simp_all add: upd_peer_def)

lemma upd_metrics_fields [simp]:
  "n_Config (upd_metrics f n) = n_Config n" "n_Identity (upd_metrics f n) = n_Identity n"
  "n_Peers (upd_metrics f n) = n_Peers n" "n_pheap (upd_metrics f n) = n_pheap n"
  "n_pfresh (upd_metrics f n) = n_pfresh n" "n_world (upd_metrics f n) = n_world n"
  "n_sfresh (upd_metrics f n) = n_sfresh n" "n_started (upd_metrics f n) = n_started n"
  "localPeerID (upd_metrics f n) = localPeerID n"
  "pendingHandshakes (upd_metrics f n) = pendingHandshakes n"
  "addrToPeer (upd_metrics f n) = addrToPeer n" "onReceive (upd_metrics f n) = onReceive n"
  "onPeerConnected (upd_metrics f n) = onPeerConnected n"
  "onPeerDisconnected (upd_metrics f n) = onPeerDisconnected n"
  "n_closing (upd_metrics f n) = n_closing n" "relayManager (upd_metrics f n) = relayManager n"
  "relayAddrSet (upd_metrics f n) = relayAddrSet n"
  "relayForward (upd_metrics f n) = relayForward n"
  "relayPendingTarget (upd_metrics f n) = relayPendingTarget n"
  "relayInbound (upd_metrics f n) = relayInbound n" "relayAuth (upd_metrics f n) = relayAuth n"
  "n_mux (upd_metrics f n) = n_mux n" "kcpTransport (upd_metrics f n) = kcpTransport n"
  "reconnectManager (upd_metrics f n) = reconnectManager n"
  "discoveryConnectSem (upd_metrics f n) = discoveryConnectSem n"
  "discoveryConnectSeen (upd_metrics f n) = discoveryConnectSeen n"
  "localChannelSet (upd_metrics f n) = localChannelSet n" "n_out (upd_metrics f n) = n_out n"
  "n_tasks (upd_metrics f n) = n_tasks n"
  by (simp_all add: upd_metrics_def)

lemma n_metrics_upd [simp]: "n_metrics (upd_metrics f n) = f (n_metrics n)"
  by (simp add: upd_metrics_def)

lemma spawn_fields [simp]:
  "n_Config (spawn t n) = n_Config n" "n_Identity (spawn t n) = n_Identity n"
  "n_Peers (spawn t n) = n_Peers n" "n_pheap (spawn t n) = n_pheap n"
  "n_pfresh (spawn t n) = n_pfresh n" "n_world (spawn t n) = n_world n"
  "n_sfresh (spawn t n) = n_sfresh n" "n_started (spawn t n) = n_started n"
  "localPeerID (spawn t n) = localPeerID n" "pendingHandshakes (spawn t n) = pendingHandshakes n"
  "addrToPeer (spawn t n) = addrToPeer n" "onReceive (spawn t n) = onReceive n"
  "onPeerConnected (spawn t n) = onPeerConnected n"
  "onPeerDisconnected (spawn t n) = onPeerDisconnected n" "n_closing (spawn t n) = n_closing n"
  "relayManager (spawn t n) = relayManager n" "relayAddrSet (spawn t n) = relayAddrSet n"
  "relayForward (spawn t n) = relayForward n"
  "relayPendingTarget (spawn t n) = relayPendingTarget n"
  "relayInbound (spawn t n) = relayInbound n" "n_metrics (spawn t n) = n_metrics n"
  "relayAuth (spawn t n) = relayAuth n" "n_mux (spawn t n) = n_mux n"
  "kcpTransport (spawn t n) = kcpTransport n" "reconnectManager (spawn t n) = reconnectManager n"
  "discoveryConnectSem (spawn t n) = discoveryConnectSem n"
  "discoveryConnectSeen (spawn t n) = discoveryConnectSeen n"
  "localChannelSet (spawn t n) = localChannelSet n" "n_out (spawn t n) = n_out n"
  by (simp_all add: spawn_def)

lemma n_tasks_spawn [simp]: "n_tasks (spawn t n) = n_tasks n @ [t]"
  by (simp add: spawn_def)

lemma emit_out_fields [simp]:
  "n_Config (emit_out e n) = n_Config n" "n_Identity (emit_out e n) = n_Identity n"
  "n_Peers (emit_out e n) = n_Peers n" "n_pheap (emit_out e n) = n_pheap n"
  "n_pfresh (emit_out e n) = n_pfresh n" "n_world (emit_out e n) = n_world n"
  "n_sfresh (emit_out e n) = n_sfresh n" "n_started (emit_out e n) = n_started n"
  "localPeerID (emit_out e n) = localPeerID n"
  "pendingHandshakes (emit_out e n) = pendingHandshakes n"
  "addrToPeer (emit_out e n) = addrToPeer n" "onReceive (emit_out e n) = onReceive n"
  "onPeerConnected (emit_out e n) = onPeerConnected n"
  "onPeerDisconnected (emit_out e n) = onPeerDisconnected n"
  "n_closing (emit_out e n) = n_closing n" "relayManager (emit_out e n) = relayManager n"
  "relayAddrSet (emit_out e n) = relayAddrSet n" "relayForward (emit_out e n) = relayForward n"
  "relayPendingTarget (emit_out e n) = relayPendingTarget n"
  "relayInbound (emit_out e n) = relayInbound n" "n_metrics (emit_out e n) = n_metrics n"
  "relayAuth (emit_out e n) = relayAuth n" "n_mux (emit_out e n) = n_mux n"
  "kcpTransport (emit_out e n) = kcpTransport n"
  "reconnectManager (emit_out e n) = reconnectManager n"
  "discoveryConnectSem (emit_out e n) = discoveryConnectSem n"
  "discoveryConnectSeen (emit_out e n) = discoveryConnectSeen n"
  "localChannelSet (emit_out e n) = localChannelSet n" "n_tasks (emit_out e n) = n_tasks n"
  by (simp_all add: emit_out_def)

lemma n_out_emit [simp]: "n_out (emit_out e n) = n_out n @ [e]"
  by (simp add: emit_out_def)

end
