(* ===== verification/Node_Peers.thy ===== *)
theory Node_Peers
  imports Node_State
begin

text \<open>
  Liveness and removal of peers: \<open>node/heartbeat.go\<close>, and the shutdown of \<open>node/node.go\<close>. The two
  tickers of \<open>heartbeatLoop\<close> are the events that run \<open>sendHeartbeats\<close>, \<open>checkHeartbeatTimeouts\<close> and
  \<open>cleanupStaleMappings\<close>. Loops over the IDs of the peer store work on a snapshot of them and look
  each one up again, as the code does.
\<close>

subsection \<open>Heartbeats\<close>

definition send_heartbeat_to :: "('h, 'c) env \<Rightarrow> gotime \<Rightarrow> string \<Rightarrow> ('h, 'c) Node \<Rightarrow> ('h, 'c) Node" where
  "send_heartbeat_to env now peerID n =
     (case ps_Get (n_Peers n) peerID of None \<Rightarrow> n
      | Some r \<Rightarrow>
          (case GetTransportInfo (n_pheap n r) of (transport, addr, c) \<Rightarrow>
             snd (sendRaw env c addr transport
               (BuildHeartbeatPacket (word_of_int (time_UnixNano now))) n)))"

definition sendHeartbeats :: "('h, 'c) env \<Rightarrow> gotime \<Rightarrow> ('h, 'c) Node \<Rightarrow> ('h, 'c) Node" where
  "sendHeartbeats env now n = fold (send_heartbeat_to env now) (ps_IDs (n_Peers n)) n"

definition processHeartbeat ::
    "('h, 'c) env \<Rightarrow> gotime \<Rightarrow> conn option \<Rightarrow> netaddr \<Rightarrow> string \<Rightarrow> ('h, 'c) Node \<Rightarrow> ('h, 'c) Node" where
  "processHeartbeat env now c remoteAddr transport n =
     (let n1 = (case peer_of_addr n remoteAddr of None \<Rightarrow> n
                | Some (peerID, r) \<Rightarrow> upd_peer r (UpdateLastSeen now) n)
      in snd (sendRaw env c (Some remoteAddr) transport
           (BuildHeartbeatAckPacket (word_of_int (time_UnixNano now))) n1))"

definition processHeartbeatAck :: "gotime \<Rightarrow> netaddr \<Rightarrow> ('h, 'c) Node \<Rightarrow> ('h, 'c) Node" where
  "processHeartbeatAck now remoteAddr n =
     (case peer_of_addr n remoteAddr of None \<Rightarrow> n
      | Some (peerID, r) \<Rightarrow> upd_peer r (UpdateLastSeen now) n)"

subsection \<open>Removing a peer\<close>

definition remove_kcp_session :: "string \<Rightarrow> ('h, 'c) Node \<Rightarrow> ('h, 'c) Node" where
  "remove_kcp_session peerID n =
     (case kcpTransport n of None \<Rightarrow> n
      | Some t \<Rightarrow> (case Transport_RemoveSession peerID (n_mux n) t of
                    (mux, t') \<Rightarrow> n\<lparr>n_mux := mux, kcpTransport := Some t'\<rparr>))"

definition close_peer :: "pref \<Rightarrow> ('h, 'c) Node \<Rightarrow> ('h, 'c) Node" where
  "close_peer r n = (case Peer_Close (n_world n) (n_pheap n r) of
      (w, p) \<Rightarrow> n\<lparr>n_world := w, n_pheap := (n_pheap n)(r := p)\<rparr>)"

definition removePeerWithReconnect :: "gotime \<Rightarrow> string \<Rightarrow> bool \<Rightarrow> ('h, 'c) Node \<Rightarrow> ('h, 'c) Node" where
  "removePeerWithReconnect now peerID shouldReconnect n =
     (case ps_Get (n_Peers n) peerID of None \<Rightarrow> n
      | Some r \<Rightarrow>
          let n1 = upd_metrics IncDisconnectsTotal n;
              originalAddr = GetOriginalAddr (n_pheap n1 r);
              n2 = close_peer r (remove_kcp_session peerID n1);
              n3 = n2\<lparr>addrToPeer := gm_prune (\<lambda>addr pid. pid = peerID) (addrToPeer n2)\<rparr>;
              n4 = n3\<lparr>n_Peers := ps_Remove peerID (n_Peers n3)\<rparr>;
              n5 = (if onPeerDisconnected n4 then emit_out (CallDisconnected peerID) n4 else n4)
          in if shouldReconnect \<and> originalAddr \<noteq> []
             then n5\<lparr>reconnectManager := map_option (ScheduleReconnect now peerID originalAddr) (reconnectManager n5)\<rparr>
             else n5)"

definition removePeer :: "gotime \<Rightarrow> string \<Rightarrow> ('h, 'c) Node \<Rightarrow> ('h, 'c) Node" where
  "removePeer now peerID n = removePeerWithReconnect now peerID True n"

definition check_timeout_of :: "gotime \<Rightarrow> string \<Rightarrow> ('h, 'c) Node \<Rightarrow> ('h, 'c) Node" where
  "check_timeout_of now peerID n =
     (case ps_Get (n_Peers n) peerID of None \<Rightarrow> n
      | Some r \<Rightarrow>
          if HeartbeatTimeout (n_Config n) < time_Sub now (GetLastSeen (n_pheap n r))
          then removePeer now peerID n else n)"

definition checkHeartbeatTimeouts :: "gotime \<Rightarrow> ('h, 'c) Node \<Rightarrow> ('h, 'c) Node" where
  "checkHeartbeatTimeouts now n = fold (check_timeout_of now) (ps_IDs (n_Peers n)) n"

subsection \<open>Stale mappings\<close>

definition peer_has_addr :: "('h, 'c) Node \<Rightarrow> string \<Rightarrow> string \<Rightarrow> bool" where
  "peer_has_addr n targetAddr peerID =
     (case ps_Get (n_Peers n) peerID of None \<Rightarrow> False
      | Some r \<Rightarrow> (case GetTransportInfo (n_pheap n r) of (_, addr, _) \<Rightarrow>
                    (case addr of None \<Rightarrow> False | Some a \<Rightarrow> addr_String a = targetAddr)))"

definition cleanupStaleMappings :: "gotime \<Rightarrow> ('h, 'c) Node \<Rightarrow> ('h, 'c) Node" where
  "cleanupStaleMappings nowT n =
     (let now = time_Unix nowT;
          n1 = n\<lparr>addrToPeer := gm_prune (\<lambda>addr pid. ps_Get (n_Peers n) pid = None) (addrToPeer n)\<rparr>;
          n2 = n1\<lparr>pendingHandshakes := gm_prune (\<lambda>key hs. 60 < wrap64 (now - CreatedAt hs)) (pendingHandshakes n1)\<rparr>;
          n3 = n2\<lparr>relayForward := gm_prune (\<lambda>targetAddr origin.
                 \<not> (\<exists>pid \<in> set (ps_IDs (n_Peers n2)). peer_has_addr n2 targetAddr pid)) (relayForward n2)\<rparr>;
          n4 = n3\<lparr>relayInbound := gm_prune (\<lambda>addr b. \<not> gm_has (addrToPeer n3) addr) (relayInbound n3)\<rparr>
      in n4\<lparr>relayPendingTarget := gm_prune (\<lambda>addr tgt. \<not> gm_has (addrToPeer n4) addr) (relayPendingTarget n4)\<rparr>)"

subsection \<open>Shutdown\<close>

definition buildGoodbyePacket :: bytes where
  "buildGoodbyePacket =
     (let packet = replicate 6 0; packet = copy_into packet 0 MagicBytes;
          packet = packet[4 := PacketTypeHeartbeat]
      in packet[5 := 0xFF])"

definition say_goodbye :: "('h, 'c) env \<Rightarrow> gotime \<Rightarrow> string \<Rightarrow> ('h, 'c) Node \<Rightarrow> ('h, 'c) Node" where
  "say_goodbye env now peerID n =
     (case ps_Get (n_Peers n) peerID of None \<Rightarrow> n
      | Some r \<Rightarrow>
          let n1 = upd_peer r (SetState now StateDisconnecting) n
          in case GetTransportInfo (n_pheap n1 r) of (transport, addr, c) \<Rightarrow>
               snd (sendRaw env c addr transport buildGoodbyePacket n1))"

definition close_peer_id :: "string \<Rightarrow> ('h, 'c) Node \<Rightarrow> ('h, 'c) Node" where
  "close_peer_id peerID n = (case ps_Get (n_Peers n) peerID of None \<Rightarrow> n | Some r \<Rightarrow> close_peer r n)"

text \<open>\<open>None\<close> is the panic of closing the KCP transport twice.\<close>

definition GracefulStop :: "('h, 'c) env \<Rightarrow> gotime \<Rightarrow> ('h, 'c) Node \<Rightarrow> ('h, 'c) Node option" where
  "GracefulStop env now n =
     (if n_closing n then Some n
      else let peerIDs = ps_IDs (n_Peers n);
               n1 = fold (say_goodbye env now) peerIDs n;
               n2 = n1\<lparr>n_closing := True, n_mux := (if n_started n1 then Mux_Close (n_mux n1) else n_mux n1),
                       tcpListener := False, natProber := map_option Prober_Close (natProber n1)\<rparr>
        in case (case kcpTransport n2 of None \<Rightarrow> Some n2
                 | Some t \<Rightarrow> (case Transport_Close (n_mux n2) t of None \<Rightarrow> None
                              | Some (mux, t') \<Rightarrow> Some (n2\<lparr>n_mux := mux, kcpTransport := Some t'\<rparr>))) of
             None \<Rightarrow> None
           | Some n3 \<Rightarrow>
               let n4 = n3\<lparr>reconnectManager := map_option Reconnect_Close (reconnectManager n3)\<rparr>
               in Some (fold close_peer_id peerIDs n4))"

subsection \<open>The node invariant\<close>

text \<open>Every map is a map, the peer store agrees with the peer objects, two IDs never share an
  object, and every address in \<open>addrToPeer\<close> belongs to a peer in the store.\<close>

definition node_wf :: "('h, 'c) Node \<Rightarrow> bool" where
  "node_wf n \<longleftrightarrow> gm_wf (n_Peers n) \<and> gm_wf (addrToPeer n) \<and> gm_wf (pendingHandshakes n) \<and>
     (\<forall>pid r. ps_Get (n_Peers n) pid = Some r \<longrightarrow> ID (n_pheap n r) = pid \<and> r < n_pfresh n) \<and>
     (\<forall>a pid. gm_get (addrToPeer n) a = Some pid \<longrightarrow> ps_Get (n_Peers n) pid \<noteq> None)"

lemma node_wfD:
  assumes "node_wf n"
  shows "gm_wf (n_Peers n)" "gm_wf (addrToPeer n)" "gm_wf (pendingHandshakes n)"
    "ps_Get (n_Peers n) pid = Some r \<Longrightarrow> ID (n_pheap n r) = pid"
    "ps_Get (n_Peers n) pid = Some r \<Longrightarrow> r < n_pfresh n"
    "gm_get (addrToPeer n) a = Some pid \<Longrightarrow> ps_Get (n_Peers n) pid \<noteq> None"
  using assms unfolding node_wf_def by blast+

lemma node_wf_inj:
  "node_wf n \<Longrightarrow> ps_Get (n_Peers n) p = Some r \<Longrightarrow> ps_Get (n_Peers n) q = Some r \<Longrightarrow> p = q"
  using node_wfD(4) by metis

lemma node_wf_cong:
  assumes "node_wf n" "n_Peers n' = n_Peers n" "addrToPeer n' = addrToPeer n" "gm_wf (pendingHandshakes n')"
    "\<And>r. ID (n_pheap n' r) = ID (n_pheap n r)" "n_pfresh n' = n_pfresh n"
  shows "node_wf n'"
  using assms unfolding node_wf_def by simp

lemma peer_of_addr_Some:
  "peer_of_addr n a = Some (pid, r) \<longleftrightarrow>
     gm_get (addrToPeer n) (addr_String a) = Some pid \<and> ps_Get (n_Peers n) pid = Some r"
  by (auto simp: peer_of_addr_def split: option.splits)

lemma IDs_iff: "gm_wf (n_Peers n) \<Longrightarrow> pid \<in> set (ps_IDs (n_Peers n)) \<longleftrightarrow> ps_Get (n_Peers n) pid \<noteq> None"
  by (simp add: ps_IDs_def ps_Get_def gm_keys_iff)

subsection \<open>Facts about removal\<close>

lemma remove_kcp_session_fields [simp]:
  "n_Peers (remove_kcp_session p n) = n_Peers n" "n_pheap (remove_kcp_session p n) = n_pheap n"
  "n_world (remove_kcp_session p n) = n_world n" "addrToPeer (remove_kcp_session p n) = addrToPeer n"
  "n_Config (remove_kcp_session p n) = n_Config n" "pendingHandshakes (remove_kcp_session p n) = pendingHandshakes n"
  "n_pfresh (remove_kcp_session p n) = n_pfresh n" "n_out (remove_kcp_session p n) = n_out n"
  "onPeerDisconnected (remove_kcp_session p n) = onPeerDisconnected n"
  "reconnectManager (remove_kcp_session p n) = reconnectManager n"
  "localChannelSet (remove_kcp_session p n) = localChannelSet n" "n_tasks (remove_kcp_session p n) = n_tasks n"
  by (auto simp: remove_kcp_session_def split: option.splits prod.splits)

lemma close_peer_fields [simp]:
  "n_Peers (close_peer r n) = n_Peers n" "addrToPeer (close_peer r n) = addrToPeer n"
  "n_Config (close_peer r n) = n_Config n" "pendingHandshakes (close_peer r n) = pendingHandshakes n"
  "n_pfresh (close_peer r n) = n_pfresh n" "n_out (close_peer r n) = n_out n"
  "onPeerDisconnected (close_peer r n) = onPeerDisconnected n" "reconnectManager (close_peer r n) = reconnectManager n"
  "localChannelSet (close_peer r n) = localChannelSet n" "n_tasks (close_peer r n) = n_tasks n"
  "kcpTransport (close_peer r n) = kcpTransport n" "n_mux (close_peer r n) = n_mux n"
  "q \<noteq> r \<Longrightarrow> n_pheap (close_peer r n) q = n_pheap n q"
  by (simp_all add: close_peer_def split: prod.splits)

lemma Peer_Close_keeps_ID [simp]: "Peer_Close w p = (w', p') \<Longrightarrow> ID p' = ID p"
  by (auto simp: Peer_Close_def Let_def split: if_splits)

lemma ID_close_peer [simp]: "ID (n_pheap (close_peer r n) q) = ID (n_pheap n q)"
  by (auto simp: close_peer_def split: prod.splits)

lemma close_peer_at:
  "PSession (n_pheap (close_peer r n) r) = None \<and> PState (n_pheap (close_peer r n) r) = StateDisconnected \<and>
   (\<forall>s. w_sess (n_world (close_peer r n)) s =
      (if PSession (n_pheap n r) = Some s then Session_Close (w_sess (n_world n) s) else w_sess (n_world n) s))"
  by (auto simp: close_peer_def Peer_Close_def Let_def split: prod.splits if_splits)

text \<open>The fields of the node after the removal of a peer that is there.\<close>

lemma removePeer_fields:
  assumes "ps_Get (n_Peers n) p = Some r" and n': "n' = removePeerWithReconnect now p b n"
  shows "n_Peers n' = ps_Remove p (n_Peers n)"
    and "addrToPeer n' = gm_prune (\<lambda>a pid. pid = p) (addrToPeer n)"
    and "n_pheap n' = n_pheap (close_peer r n)" and "w_sess (n_world n') = w_sess (n_world (close_peer r n))"
    and "n_Config n' = n_Config n" and "pendingHandshakes n' = pendingHandshakes n" and "n_pfresh n' = n_pfresh n"
    and "n_out n' = n_out n @ (if onPeerDisconnected n then [CallDisconnected p] else [])"
    and "reconnectManager n' = (if b \<and> OriginalAddr (n_pheap n r) \<noteq> []
       then map_option (ScheduleReconnect now p (OriginalAddr (n_pheap n r))) (reconnectManager n) else reconnectManager n)"
  using assms(1)
  by (simp_all add: n' removePeerWithReconnect_def Let_def emit_out_def close_peer_def GetOriginalAddr_def split: prod.splits)

lemma removePeer_absent: "ps_Get (n_Peers n) p = None \<Longrightarrow> removePeerWithReconnect now p b n = n"
  by (simp add: removePeerWithReconnect_def)

lemma node_wf_removePeer:
  assumes "node_wf n"
  shows "node_wf (removePeerWithReconnect now p b n)"
proof (cases "ps_Get (n_Peers n) p")
  case (Some r)
  note f = removePeer_fields [OF Some refl, of now b]
  show ?thesis
    unfolding node_wf_def f(1-3) f(6,7)
    using node_wfD [OF assms]
    by (auto simp: ps_Remove_def ps_Get_def gm_get_prune split: if_splits option.splits)
qed (simp add: removePeer_absent assms)

text \<open>A peer is overdue when it has been silent for longer than the timeout.\<close>

definition overdue :: "gotime \<Rightarrow> ('h, 'c) Node \<Rightarrow> pref \<Rightarrow> bool" where
  "overdue now n r \<longleftrightarrow> HeartbeatTimeout (n_Config n) < time_Sub now (LastSeen (n_pheap n r))"

definition surviving :: "gotime \<Rightarrow> ('h, 'c) Node \<Rightarrow> string \<Rightarrow> pref option" where
  "surviving now n pid = (case ps_Get (n_Peers n) pid of None \<Rightarrow> None
     | Some r \<Rightarrow> if overdue now n r then None else Some r)"

lemma check_timeout_wf: "node_wf n \<Longrightarrow> node_wf (check_timeout_of now p n)"
  by (simp add: check_timeout_of_def removePeer_def node_wf_removePeer split: option.splits)

text \<open>Checking one peer settles it and changes nothing about the others.\<close>

lemma check_timeout_get:
  assumes "node_wf n"
  shows "ps_Get (n_Peers (check_timeout_of now p n)) q =
      (if q = p then surviving now n p else ps_Get (n_Peers n) q)"
    and "surviving now (check_timeout_of now p n) q = surviving now n q"
proof -
  show g: "ps_Get (n_Peers (check_timeout_of now p n)) q =
      (if q = p then surviving now n p else ps_Get (n_Peers n) q)"
  proof (cases "ps_Get (n_Peers n) p")
    case (Some r)
    note f = removePeer_fields [OF Some refl, of now True]
    show ?thesis
      using Some by (simp add: check_timeout_of_def removePeer_def surviving_def overdue_def GetLastSeen_def f)
        (simp add: ps_Get_def ps_Remove_def)
  qed (simp add: check_timeout_of_def surviving_def)
  show "surviving now (check_timeout_of now p n) q = surviving now n q"
  proof (cases "ps_Get (n_Peers n) p")
    case (Some r)
    note f = removePeer_fields [OF Some refl, of now True]
    have "n_Config (check_timeout_of now p n) = n_Config n"
      using Some f(5) by (simp add: check_timeout_of_def removePeer_def)
    moreover have "n_pheap (check_timeout_of now p n) q' = n_pheap n q'" if "q' \<noteq> r" for q'
      using Some f(3) that by (simp add: check_timeout_of_def removePeer_def)
    moreover have "overdue now (check_timeout_of now p n) r = overdue now n r" if "\<not> overdue now n r"
      using Some that by (simp add: check_timeout_of_def overdue_def GetLastSeen_def)
    moreover have "x \<noteq> r" if "q \<noteq> p" "ps_Get (n_Peers n) q = Some x" for x
      using that Some node_wf_inj [OF assms] by blast
    ultimately show ?thesis
      using g Some
      by (cases "q = p"; cases "overdue now n r")
        (auto simp: surviving_def overdue_def split: option.splits if_splits)
  qed (simp add: check_timeout_of_def)
qed

lemma fold_check_timeouts:
  "node_wf n \<Longrightarrow> node_wf (fold (check_timeout_of now) xs n) \<and>
    ps_Get (n_Peers (fold (check_timeout_of now) xs n)) q =
      (if q \<in> set xs then surviving now n q else ps_Get (n_Peers n) q)"
proof (induction xs arbitrary: n)
  case (Cons x xs)
  note w = check_timeout_wf [OF Cons.prems, of now x]
  note g = check_timeout_get [OF Cons.prems, of now x q]
  show ?case using Cons.IH [OF w] g by (auto simp: surviving_def split: option.splits)
qed auto

subsection \<open>Facts about shutdown\<close>

lemma say_goodbye_fields [simp]:
  "n_Peers (say_goodbye env now p n) = n_Peers n" "n_world (say_goodbye env now p n) = n_world n"
  "kcpTransport (say_goodbye env now p n) = kcpTransport n" "n_mux (say_goodbye env now p n) = n_mux n"
  "reconnectManager (say_goodbye env now p n) = reconnectManager n"
  "PSession (n_pheap (say_goodbye env now p n) r) = PSession (n_pheap n r)"
  by (auto simp: say_goodbye_def SetState_def Let_def split: option.splits prod.splits)

lemma fold_goodbye_fields [simp]:
  "n_Peers (fold (say_goodbye env now) xs n) = n_Peers n" "n_world (fold (say_goodbye env now) xs n) = n_world n"
  "kcpTransport (fold (say_goodbye env now) xs n) = kcpTransport n"
  "n_mux (fold (say_goodbye env now) xs n) = n_mux n"
  "reconnectManager (fold (say_goodbye env now) xs n) = reconnectManager n"
  "PSession (n_pheap (fold (say_goodbye env now) xs n) r) = PSession (n_pheap n r)"
  by (induction xs arbitrary: n) auto

lemma close_peer_id_Peers [simp]: "n_Peers (close_peer_id p n) = n_Peers n"
  "n_closing (close_peer_id p n) = n_closing n" "kcpTransport (close_peer_id p n) = kcpTransport n"
  by (simp_all add: close_peer_id_def close_peer_def split: option.splits prod.splits)

text \<open>What is closed stays closed while the rest is being closed.\<close>

definition peer_shut :: "('h, 'c) Node \<Rightarrow> pref \<Rightarrow> bool" where
  "peer_shut n r \<longleftrightarrow> PSession (n_pheap n r) = None \<and> PState (n_pheap n r) = StateDisconnected"

definition sess_shut :: "('h, 'c) Node \<Rightarrow> sref \<Rightarrow> bool" where
  "sess_shut n s \<longleftrightarrow> w_sess (n_world n) s = Session_Close (w_sess (n_world n) s)"

lemma sess_shut_cipher: "sess_shut n s \<Longrightarrow> sendCipher (w_sess (n_world n) s) = None"
proof -
  have "sendCipher (Session_Close c) = None" for c :: "'b Session"
    by (simp add: Session_Close_def Session_Close_mem_def)
  then show "sess_shut n s \<Longrightarrow> ?thesis" unfolding sess_shut_def by metis
qed

lemma Transport_Close_ok:
  "\<not> kt_closing t \<Longrightarrow> \<not> km_closing (kt_manager t) \<Longrightarrow>
     \<exists>mux' t'. Transport_Close mux t = Some (mux', t') \<and> kt_sessions t' = []"
  by (simp add: Transport_Close_def Manager_Close_def Let_def)

lemma close_peer_keeps:
  "peer_shut n q \<Longrightarrow> peer_shut (close_peer r n) q" "sess_shut n s \<Longrightarrow> sess_shut (close_peer r n) s"
proof -
  show "peer_shut n q \<Longrightarrow> peer_shut (close_peer r n) q"
    using close_peer_at [of r n] by (cases "q = r") (simp_all add: peer_shut_def)
  show "sess_shut n s \<Longrightarrow> sess_shut (close_peer r n) s"
    unfolding sess_shut_def by (metis close_peer_at Session_Close_idem)
qed

lemma fold_close_keeps:
  "peer_shut n q \<Longrightarrow> peer_shut (fold close_peer_id xs n) q"
  "sess_shut n s \<Longrightarrow> sess_shut (fold close_peer_id xs n) s"
  by (induction xs arbitrary: n) (auto simp: close_peer_id_def close_peer_keeps split: option.splits)

lemma fold_close_peer_id:
  assumes "ps_Get (n_Peers n) p = Some r" "p \<in> set xs"
  shows "peer_shut (fold close_peer_id xs n) r \<and>
    (\<forall>s. PSession (n_pheap n r) = Some s \<longrightarrow> sess_shut (fold close_peer_id xs n) s)"
  using assms
proof (induction xs arbitrary: n)
  case (Cons x xs)
  show ?case
  proof (cases "x = p")
    case True
    have "close_peer_id x n = close_peer r n" using Cons.prems(1) True by (simp add: close_peer_id_def)
    moreover have "peer_shut (close_peer r n) r" "PSession (n_pheap n r) = Some s \<Longrightarrow> sess_shut (close_peer r n) s" for s
      using close_peer_at [of r n] by (simp_all add: peer_shut_def sess_shut_def)
    ultimately show ?thesis by (simp add: fold_close_keeps)
  next
    case False
    have get: "ps_Get (n_Peers (close_peer_id x n)) p = Some r" using Cons.prems(1) by simp
    note ih = Cons.IH [OF get] 
    have keep: "PSession (n_pheap n r) = Some s \<Longrightarrow>
        PSession (n_pheap (close_peer_id x n) r) = Some s \<or> sess_shut (close_peer_id x n) s" for s
    proof (cases "ps_Get (n_Peers n) x = Some r")
      case True
      assume "PSession (n_pheap n r) = Some s"
      then show ?thesis using True close_peer_at [of r n] by (simp add: close_peer_id_def sess_shut_def)
    qed (auto simp: close_peer_id_def split: option.splits)
    show ?thesis using ih keep fold_close_keeps(2) Cons.prems(2) False by auto
  qed
qed simp

subsection \<open>Properties\<close>

text \<open>C26: removing a peer removes all of it and nothing else. The peer is gone from the store and no
  address leads to it any more, its session is closed; every other peer, its object and its
  addresses are as before, and so is every session the peer did not use. The disconnect
  callback runs once, a reconnect to the original address is scheduled when asked for, and the
  node stays well-formed.\<close>

theorem remove_peer_effect:
  assumes "node_wf n" "ps_Get (n_Peers n) p = Some r"
  shows "case removePeerWithReconnect now p b n of n' \<Rightarrow>
    ps_Get (n_Peers n') p = None \<and> (\<forall>a. gm_get (addrToPeer n') a \<noteq> Some p) \<and>
    (\<forall>q. q \<noteq> p \<longrightarrow> ps_Get (n_Peers n') q = ps_Get (n_Peers n) q) \<and>
    (\<forall>q. q \<noteq> r \<longrightarrow> n_pheap n' q = n_pheap n q) \<and>
    (\<forall>a pid. pid \<noteq> p \<longrightarrow> (gm_get (addrToPeer n') a = Some pid \<longleftrightarrow> gm_get (addrToPeer n) a = Some pid)) \<and>
    (\<forall>s. w_sess (n_world n') s = (if PSession (n_pheap n r) = Some s
       then Session_Close (w_sess (n_world n) s) else w_sess (n_world n) s)) \<and>
    n_out n' = n_out n @ (if onPeerDisconnected n then [CallDisconnected p] else []) \<and>
    reconnectManager n' = (if b \<and> OriginalAddr (n_pheap n r) \<noteq> []
       then map_option (ScheduleReconnect now p (OriginalAddr (n_pheap n r))) (reconnectManager n)
       else reconnectManager n) \<and> node_wf n'"
proof -
  note f = removePeer_fields [OF assms(2) refl, of now b]
  have get: "gm_get (addrToPeer (removePeerWithReconnect now p b n)) a =
      (case gm_get (addrToPeer n) a of None \<Rightarrow> None | Some pid \<Rightarrow> if pid = p then None else Some pid)" for a
    by (simp add: f(2) gm_get_prune node_wfD(2) [OF assms(1)])
  have "gm_get (addrToPeer (removePeerWithReconnect now p b n)) a \<noteq> Some p \<and>
      (pid \<noteq> p \<longrightarrow> (gm_get (addrToPeer (removePeerWithReconnect now p b n)) a = Some pid \<longleftrightarrow>
        gm_get (addrToPeer n) a = Some pid))" for a pid
    unfolding get by (auto split: option.splits)
  moreover note node_wf_removePeer [OF assms(1), of now p b] close_peer_at [of r n]
  moreover have "ps_Get (n_Peers (removePeerWithReconnect now p b n)) q =
      (if q = p then None else ps_Get (n_Peers n) q)" for q
    by (simp add: f(1) ps_Get_def ps_Remove_def)
  ultimately show ?thesis unfolding f(3,4,8,9) by simp
qed

text \<open>C27: the timeout check removes exactly the peers that have been silent for longer than the
  heartbeat timeout, whatever the order in which it visits them; every other peer stays.\<close>

theorem heartbeat_timeout_exact:
  assumes "node_wf n"
  shows "node_wf (checkHeartbeatTimeouts now n) \<and>
    ps_Get (n_Peers (checkHeartbeatTimeouts now n)) pid =
      (case ps_Get (n_Peers n) pid of None \<Rightarrow> None
       | Some r \<Rightarrow> if HeartbeatTimeout (n_Config n) < time_Sub now (LastSeen (n_pheap n r)) then None else Some r)"
proof -
  have "pid \<in> set (ps_IDs (n_Peers n)) \<longleftrightarrow> ps_Get (n_Peers n) pid \<noteq> None"
    by (rule IDs_iff [OF node_wfD(1) [OF assms]])
  with fold_check_timeouts [OF assms, of now "ps_IDs (n_Peers n)" pid] show ?thesis
    unfolding checkHeartbeatTimeouts_def
    by (auto simp: surviving_def overdue_def split: option.splits)
qed

text \<open>The clean-up drops exactly the handshakes that are more than a minute old and, of the
  relay mappings, those whose address no connected peer has; the peers and their addresses stay
  as they are in a well-formed node.\<close>

theorem cleanup_effect:
  assumes "node_wf n" "gm_wf (relayForward n)" "gm_wf (relayInbound n)"
  shows "case cleanupStaleMappings now n of n' \<Rightarrow>
    node_wf n' \<and> n_Peers n' = n_Peers n \<and> (\<forall>a. gm_get (addrToPeer n') a = gm_get (addrToPeer n) a) \<and>
    (\<forall>k. gm_get (pendingHandshakes n') k = (case gm_get (pendingHandshakes n) k of None \<Rightarrow> None
       | Some hs \<Rightarrow> if 60 < wrap64 (time_Unix now - hs_createdAt hs) then None else Some hs)) \<and>
    (\<forall>t. gm_get (relayForward n') t \<noteq> None \<longleftrightarrow> gm_get (relayForward n) t \<noteq> None \<and>
       (\<exists>pid. peer_has_addr n t pid)) \<and>
    (\<forall>a. gm_get (relayInbound n') a \<noteq> None \<longleftrightarrow> gm_get (relayInbound n) a \<noteq> None \<and> gm_has (addrToPeer n) a)"
proof -
  note w = node_wfD [OF assms(1)]
  let ?n = "cleanupStaleMappings now n"
  have a: "gm_get (addrToPeer ?n) x = gm_get (addrToPeer n) x" for x
    using w(6) [of x] by (auto simp: cleanupStaleMappings_def Let_def gm_get_prune w(2) split: option.splits)
  have h: "gm_has (addrToPeer ?n) x = gm_has (addrToPeer n) x" for x by (simp add: gm_has_get a)
  have e: "(\<exists>pid \<in> set (ps_IDs (n_Peers n)). peer_has_addr n t pid) \<longleftrightarrow> (\<exists>pid. peer_has_addr n t pid)" for t
  proof -
    have "peer_has_addr n t pid \<Longrightarrow> pid \<in> set (ps_IDs (n_Peers n))" for pid
      by (auto simp: IDs_iff [OF w(1)] peer_has_addr_def split: option.splits)
    then show ?thesis by blast
  qed
  have p: "peer_has_addr (n\<lparr>addrToPeer := x, pendingHandshakes := y\<rparr>) = peer_has_addr n" for x y
    by (intro ext) (simp add: peer_has_addr_def split: option.splits)
  have "node_wf ?n"
    using w a by (auto simp: node_wf_def cleanupStaleMappings_def Let_def)
  moreover have "gm_get (pendingHandshakes ?n) k = (case gm_get (pendingHandshakes n) k of None \<Rightarrow> None
       | Some hs \<Rightarrow> if 60 < wrap64 (time_Unix now - hs_createdAt hs) then None else Some hs)" for k
    by (simp add: cleanupStaleMappings_def Let_def gm_get_prune w(3) CreatedAt_def)
  moreover have "gm_get (relayForward ?n) t \<noteq> None \<longleftrightarrow> gm_get (relayForward n) t \<noteq> None \<and> (\<exists>pid. peer_has_addr n t pid)" for t
    using e [of t] by (auto simp: cleanupStaleMappings_def Let_def gm_get_prune assms(2) p split: option.splits if_splits)
  moreover have "gm_get (relayInbound ?n) x \<noteq> None \<longleftrightarrow> gm_get (relayInbound n) x \<noteq> None \<and> gm_has (addrToPeer n) x" for x
    using h [of x] by (auto simp: cleanupStaleMappings_def Let_def gm_get_prune assms(3) split: option.splits if_splits)
  moreover have "n_Peers ?n = n_Peers n" by (simp add: cleanupStaleMappings_def Let_def)
  ultimately show ?thesis using a by blast
qed


subsection \<open>Witnesses\<close>

text \<open>A node with one peer at a UDP address.\<close>

definition demo_identity :: Identity where
  "demo_identity = \<lparr>PrivateKey = [], PublicKey = [], NoisePrivateKey = replicate 32 1,
     NoisePublicKey = replicate 32 2, NodeID = replicate 16 3\<rparr>"

definition demo_peer_id :: string where
  "demo_peer_id = ''0123456789abcdef0123456789abcdef''"

definition demo_node :: "(nat, nat) Node" where
  "demo_node = (fresh_node demo_crypto 0 (WithNetworkPassword ''pw'' DefaultConfig) demo_identity)
     \<lparr>n_Peers := [(demo_peer_id, 0)], n_pfresh := 1, addrToPeer := [(''10.0.0.1:9'', demo_peer_id)],
      n_pheap := (\<lambda>_. (new_peer demo_peer_id)\<lparr>Addr := Some (UDPAddr ''10.0.0.1:9''), Transport := ''udp'',
        LastSeen := 5, PSession := Some 0, OriginalAddr := ''10.0.0.1:9''\<rparr>)\<rparr>"

definition demo_env :: "(nat, nat) env" where
  "demo_env = \<lparr>e_noise = demo_noise, e_crypto = demo_crypto, e_rnd = Fin,
     e_resolveUDP = (\<lambda>s. Some (UDPAddr s)), e_write = (\<lambda>_ _. True), e_kcp_dial = (\<lambda>_ _. True),
     e_ipaddr = (\<lambda>_. \<lparr>IP = [10, 0, 0, 1], Port = 9\<rparr>), e_localAddr = \<lparr>IP = [10, 0, 0, 9], Port = 9\<rparr>\<rparr>"

lemma demo_node_wf: "node_wf demo_node" "ps_Get (n_Peers demo_node) demo_peer_id = Some 0"
  by (auto simp: node_wf_def demo_node_def fresh_node_def gm_wf_def ps_Get_def gm_get_def new_peer_def split: if_splits)

theorem remove_peer_effect_witness:
  "ps_Get (n_Peers (removePeerWithReconnect 7 demo_peer_id True demo_node)) demo_peer_id = None"
  using remove_peer_effect [OF demo_node_wf, of 7 True] by simp

theorem heartbeat_timeout_exact_witness:
  "ps_Get (n_Peers (checkHeartbeatTimeouts (60 * second) demo_node)) demo_peer_id = None"
  using heartbeat_timeout_exact [OF demo_node_wf(1), of "60 * second" demo_peer_id] demo_node_wf(2)
  by (simp add: demo_node_def fresh_node_def WithNetworkPassword_def DefaultConfig_def time_Sub_def)

theorem cleanup_effect_witness:
  "n_Peers (cleanupStaleMappings 7 demo_node) = n_Peers demo_node"
  using cleanup_effect [OF demo_node_wf(1), of 7] by (simp add: demo_node_def fresh_node_def)


end
