(* ===== verification/Node_Data.thy ===== *)
theory Node_Data
  imports Node_Peers
begin

text \<open>
  The data path: fragmentation, encryption and sending (\<open>sendAppFrame\<close> of \<open>node/node_channel.go\<close>),
  decryption and reassembly (\<open>node/data_flow.go\<close>), channels (\<open>node/node_channel.go\<close>), and the fast
  re-handshake that repeated decryption failures trigger (\<open>node/rehandshake.go\<close>).
\<close>

subsection \<open>Constants\<close>

definition FrameTypeSingle :: byte where "FrameTypeSingle = 1"
definition FrameTypeFirst :: byte where "FrameTypeFirst = 2"
definition FrameTypeMiddle :: byte where "FrameTypeMiddle = 3"
definition FrameTypeLast :: byte where "FrameTypeLast = 4"

definition MaxPayloadSize :: nat where "MaxPayloadSize = 60 * 1024"
definition MaxReassemblySize :: nat where "MaxReassemblySize = 50 * 1024 * 1024"

definition OpCodeJoin :: byte where "OpCodeJoin = 1"
definition OpCodeLeave :: byte where "OpCodeLeave = 2"

definition AppFrameTypeUserWithChannel :: byte where "AppFrameTypeUserWithChannel = 2"
definition AppFrameTypeChannelUpdate :: byte where "AppFrameTypeChannelUpdate = 1"

lemmas frame_types = FrameTypeSingle_def FrameTypeFirst_def FrameTypeMiddle_def FrameTypeLast_def

subsection \<open>Fast re-handshake\<close>

definition stateKey :: "string \<Rightarrow> string \<Rightarrow> string" where
  "stateKey transport addr = transport @ ''://'' @ addr"

definition initiator_handshake ::
    "('h, 'c) env \<Rightarrow> gotime \<Rightarrow> ('h, 'c) Node \<Rightarrow> noise_error + 'h HandshakeState \<times> bytes" where
  "initiator_handshake env now n =
     NewInitiatorHandshake (e_noise env) now (NoisePrivateKey (n_Identity n)) (NoisePublicKey (n_Identity n))
       (string_bytes (NetworkPassword (n_Config n)))"

definition sendFastRehandshake ::
    "('h, 'c) env \<Rightarrow> gotime \<Rightarrow> pref \<Rightarrow> ('h, 'c) Node \<Rightarrow> node_error option \<times> ('h, 'c) Node" where
  "sendFastRehandshake env now r n =
     (case GetTransportInfo (n_pheap n r) of (transport, addr, c) \<Rightarrow>
        (case addr of None \<Rightarrow> (Some ErrPeerAddrNil, n)
         | Some a \<Rightarrow>
             if transport \<noteq> ''tcp'' \<and> transport \<noteq> ''udp'' then (Some ErrRehandshakeTransport, n)
             else case initiator_handshake env now n of
               Inl e \<Rightarrow> (Some (ErrHandshakeInit e), n)
             | Inr (hs, msg) \<Rightarrow>
                 let key = stateKey transport (addr_String a)
                 in if gm_has (pendingHandshakes n) key then (Some ErrRehandshakeBusy, n)
                    else let n1 = n\<lparr>pendingHandshakes := gm_put key hs (pendingHandshakes n)\<rparr>
                      in case sendRaw env c addr transport (BuildHandshakePacket msg) n1 of
                           (Some e, n2) \<Rightarrow> (Some e, n2\<lparr>pendingHandshakes := gm_del key (pendingHandshakes n2)\<rparr>)
                         | (None, n2) \<Rightarrow>
                             (None, spawn (TExpireHandshake key (FastRehandshakePendingTTL (n_Config n2))) n2)))"

definition triggerFastRehandshake :: "gotime \<Rightarrow> string \<Rightarrow> pref \<Rightarrow> ('h, 'c) Node \<Rightarrow> ('h, 'c) Node" where
  "triggerFastRehandshake now peerID r n =
     (case TryBeginRehandshake (n_pheap n r) of
        (False, _) \<Rightarrow> n
      | (True, p1) \<Rightarrow>
          (case ReserveRehandshakeAttempt now (FastRehandshakeWindow (n_Config n))
                  (FastRehandshakeMaxAttemptsWindow (n_Config n)) p1 of
             ((False, _), p2) \<Rightarrow> upd_peer r (\<lambda>_. EndRehandshake p2) n
           | ((True, _), p2) \<Rightarrow>
               let p3 = ResetDecryptFailures p2;
                   targetAddr = (if GetOriginalAddr p3 \<noteq> [] then GetOriginalAddr p3
                                 else case Addr p3 of None \<Rightarrow> [] | Some a \<Rightarrow> addr_String a)
               in if targetAddr = []
                  then removePeerWithReconnect now peerID True (upd_peer r (\<lambda>_. EndRehandshake p3) n)
                  else spawn (TRehandshake peerID r) (upd_peer r (\<lambda>_. p3) n)))"

text \<open>The goroutine it starts; its deferred call ends the re-handshake on every path.\<close>

definition run_rehandshake ::
    "('h, 'c) env \<Rightarrow> gotime \<Rightarrow> string \<Rightarrow> pref \<Rightarrow> ('h, 'c) Node \<Rightarrow> ('h, 'c) Node" where
  "run_rehandshake env now peerID r n =
     upd_peer r EndRehandshake
      (if n_closing n then n
       else let n1 = upd_metrics IncFastRehandshakeAttempts n; cfg = n_Config n
         in case sendFastRehandshake env now r n1 of
              (Some ErrRehandshakeBusy, n2) \<Rightarrow> n2
            | (Some e, n2) \<Rightarrow>
                (case RecordRehandshakeFailure now (FastRehandshakeBaseBackoff cfg)
                        (FastRehandshakeMaxBackoff cfg) (n_pheap n2 r) of
                   ((failures, _), p) \<Rightarrow>
                     let n3 = upd_metrics IncFastRehandshakeFailed (upd_peer r (\<lambda>_. p) n2)
                     in if FastRehandshakeFailThreshold cfg \<le> failures
                        then removePeerWithReconnect now peerID True n3 else n3)
            | (None, n2) \<Rightarrow>
                upd_metrics IncFastRehandshakeSuccess
                  (upd_peer r (RecordRehandshakeSuccess now (FastRehandshakeBaseBackoff cfg)) n2))"

text \<open>The timer \<open>sendFastRehandshake\<close> leaves behind.\<close>

definition expire_handshake :: "string \<Rightarrow> ('h, 'c) Node \<Rightarrow> ('h, 'c) Node" where
  "expire_handshake key n = n\<lparr>pendingHandshakes := gm_del key (pendingHandshakes n)\<rparr>"

subsection \<open>Sending\<close>

datatype send_path = PathTCP conn | PathKCP

definition kcp_upgrade ::
    "('h, 'c) env \<Rightarrow> string \<Rightarrow> netaddr \<Rightarrow> KCPTransport \<Rightarrow> ('h, 'c) Node \<Rightarrow> kcp_error option \<times> ('h, 'c) Node" where
  "kcp_upgrade env peerID a t n =
     (case UpgradePeer (e_resolveUDP env) (e_kcp_dial env (n_out n) (addr_String a)) peerID a (n_mux n) t of
        (Inl e, mux, t') \<Rightarrow> (Some e, n\<lparr>n_mux := mux, kcpTransport := Some t'\<rparr>)
      | (Inr s, mux, t') \<Rightarrow>
          (None, spawn (THandleKCP s) (n\<lparr>n_mux := mux, kcpTransport := Some t',
             addrToPeer := gm_put (addr_String a) peerID (addrToPeer n)\<rparr>)))"

definition choose_path ::
    "('h, 'c) env \<Rightarrow> pref \<Rightarrow> ('h, 'c) Node \<Rightarrow> (node_error + send_path) \<times> ('h, 'c) Node" where
  "choose_path env r n =
     (case GetTransportInfo (n_pheap n r) of (transport, addr, c) \<Rightarrow>
        let pid = ID (n_pheap n r)
        in if transport = ''tcp'' \<and> c \<noteq> None then (Inr (PathTCP (the c)), n)
           else if (case kcpTransport n of None \<Rightarrow> False | Some t \<Rightarrow> KCP_HasSession pid t) then (Inr PathKCP, n)
           else if transport = ''udp''
           then (case addr of
                   Some a \<Rightarrow>
                     if \<not> is_udp_addr a then (Inl ErrBadUDPAddr, n)
                     else (case kcpTransport n of None \<Rightarrow> (Inl ErrNoKCP, n)
                           | Some t \<Rightarrow>
                               (case kcp_upgrade env pid a t n of
                                  (Some e, n1) \<Rightarrow> (Inl (ErrKCPUpgrade e), n1)
                                | (None, n1) \<Rightarrow> (Inr PathKCP, n1)))
                 | None \<Rightarrow> (Inl ErrBadUDPAddr, n))
           else (Inl ErrNoSendPath, n))"

definition send_on ::
    "('h, 'c) env \<Rightarrow> send_path \<Rightarrow> string \<Rightarrow> bytes \<Rightarrow> ('h, 'c) Node \<Rightarrow> node_error option \<times> ('h, 'c) Node" where
  "send_on env path peerID packet n =
     (case path of
        PathTCP c \<Rightarrow> writeTCPPacket env c packet n
      | PathKCP \<Rightarrow>
          (case kcpTransport n of None \<Rightarrow> (Some ErrNoKCP, n)
           | Some t \<Rightarrow>
               (case KCP_Send (\<lambda>s frame. e_write env (n_out n) (KCPWrite s frame)) peerID packet t of
                  Inl e \<Rightarrow> (Some (ErrKCPSend e), n)
                | Inr (s, frame) \<Rightarrow> (None, emit_out (Wrote (KCPWrite s frame) True) n))))"

text \<open>One fragment: prefix its type, encrypt, count, send. The session is the one the call started
  with.\<close>

definition sendFrame ::
    "('h, 'c) env \<Rightarrow> send_path \<Rightarrow> sref \<Rightarrow> pref \<Rightarrow> byte \<Rightarrow> bytes \<Rightarrow> ('h, 'c) Node \<Rightarrow>
       node_error option \<times> ('h, 'c) Node" where
  "sendFrame env path s r frameType fragmentData n =
     (case Session_Encrypt (e_noise env) (w_sess (n_world n) s) (frameType # fragmentData) of
        (Inl e, c') \<Rightarrow> (Some (ErrEncryptFailed e), n\<lparr>n_world := (n_world n)\<lparr>w_sess := (w_sess (n_world n))(s := c')\<rparr>\<rparr>)
      | (Inr encrypted, c') \<Rightarrow>
          let n1 = n\<lparr>n_world := (n_world n)\<lparr>w_sess := (w_sess (n_world n))(s := c')\<rparr>\<rparr>;
              packet = BuildDataPacket encrypted;
              n2 = upd_peer r (AddBytesSent (int (length fragmentData))) n1;
              n3 = upd_metrics (Metrics_AddBytesSent (int (length fragmentData))) n2
          in send_on env path (ID (n_pheap n r)) packet n3)"

function send_fragments ::
    "('h, 'c) env \<Rightarrow> send_path \<Rightarrow> sref \<Rightarrow> pref \<Rightarrow> bytes \<Rightarrow> ('h, 'c) Node \<Rightarrow> node_error option \<times> ('h, 'c) Node" where
  "send_fragments env path s r payload n =
     (if MaxPayloadSize < length payload
      then (case sendFrame env path s r FrameTypeMiddle (take MaxPayloadSize payload) n of
              (Some e, n1) \<Rightarrow> (Some e, n1)
            | (None, n1) \<Rightarrow> send_fragments env path s r (drop MaxPayloadSize payload) n1)
      else sendFrame env path s r FrameTypeLast payload n)"
  by pat_completeness auto
termination
  by (relation "measure (\<lambda>(env, path, s, r, payload, n). length payload)") (auto simp: MaxPayloadSize_def)

declare send_fragments.simps [simp del]

definition sendAppFrame ::
    "('h, 'c) env \<Rightarrow> string \<Rightarrow> byte \<Rightarrow> bytes \<Rightarrow> ('h, 'c) Node \<Rightarrow> node_error option \<times> ('h, 'c) Node" where
  "sendAppFrame env peerID appFrameType data n =
     (if peerID = Node_ID n then (Some ErrSelf, n)
      else case ps_Get (n_Peers n) peerID of None \<Rightarrow> (Some ErrUnknownPeer, n)
      | Some r \<Rightarrow>
          (case GetSession (n_pheap n r) of None \<Rightarrow> (Some ErrNoSessionYet, n)
           | Some s \<Rightarrow>
               (case choose_path env r n of
                  (Inl e, n1) \<Rightarrow> (Some e, n1)
                | (Inr path, n1) \<Rightarrow>
                    let payload = appFrameType # data
                    in if MaxPayloadSize < length payload
                       then (case sendFrame env path s r FrameTypeFirst (take MaxPayloadSize payload) n1 of
                               (Some e, n2) \<Rightarrow> (Some e, n2)
                             | (None, n2) \<Rightarrow> send_fragments env path s r (drop MaxPayloadSize payload) n2)
                       else sendFrame env path s r FrameTypeSingle payload n1)))"

subsection \<open>Channels\<close>

definition isChannelSubscribed :: "('h, 'c) Node \<Rightarrow> bytes \<Rightarrow> bool" where
  "isChannelSubscribed n channelHash =
     (if length channelHash \<noteq> 32 then False else gm_has (localChannelSet n) channelHash)"

definition channel_update_payload :: "byte \<Rightarrow> bytes \<Rightarrow> bytes" where
  "channel_update_payload opcode channelHash =
     (let payload = replicate (1 + 32) 0; payload = payload[0 := opcode] in copy_into payload 1 channelHash)"

definition broadcastChannelUpdate :: "byte \<Rightarrow> bytes \<Rightarrow> ('h, 'c) Node \<Rightarrow> ('h, 'c) Node" where
  "broadcastChannelUpdate opcode channelHash n =
     fold (\<lambda>pid. spawn (TSendAppFrame pid AppFrameTypeChannelUpdate (channel_update_payload opcode channelHash)))
       (ps_IDs (n_Peers n)) n"

definition JoinChannel :: "crypto_lib \<Rightarrow> string \<Rightarrow> ('h, 'c) Node \<Rightarrow> ('h, 'c) Node" where
  "JoinChannel cl name n =
     (if name \<in> set (Channels (n_Config n)) then n
      else let h = hashChannelName cl name;
               n1 = n\<lparr>n_Config := (n_Config n)\<lparr>Channels := Channels (n_Config n) @ [name]\<rparr>,
                      localChannelSet := gm_put h () (localChannelSet n)\<rparr>
        in broadcastChannelUpdate OpCodeJoin h n1)"

definition LeaveChannel :: "crypto_lib \<Rightarrow> string \<Rightarrow> ('h, 'c) Node \<Rightarrow> ('h, 'c) Node" where
  "LeaveChannel cl name n =
     (if name \<in> set (Channels (n_Config n))
      then let h = hashChannelName cl name;
               n1 = n\<lparr>n_Config := (n_Config n)\<lparr>Channels := remove1 name (Channels (n_Config n))\<rparr>,
                      localChannelSet := gm_del h (localChannelSet n)\<rparr>
        in broadcastChannelUpdate OpCodeLeave h n1
      else n)"

definition processChannelUpdate :: "pref \<Rightarrow> bytes \<Rightarrow> ('h, 'c) Node \<Rightarrow> ('h, 'c) Node" where
  "processChannelUpdate r payload n =
     (if length payload < 33 then n
      else let opcode = payload ! 0; h = subslice 1 33 payload
        in if gm_has (localChannelSet n) h
           then if opcode = OpCodeJoin then upd_peer r (AddRemoteChannel h) n
                else if opcode = OpCodeLeave then upd_peer r (RemoveRemoteChannel h) n
                else n
           else n)"

definition GetPeersInChannel :: "crypto_lib \<Rightarrow> string \<Rightarrow> ('h, 'c) Node \<Rightarrow> string list" where
  "GetPeersInChannel cl channelName n =
     (let h = hashChannelName cl channelName
      in filter (\<lambda>i. case ps_Get (n_Peers n) i of None \<Rightarrow> False | Some r \<Rightarrow> HasRemoteChannel (n_pheap n r) h)
           (ps_IDs (n_Peers n)))"

definition Node_Send ::
    "('h, 'c) env \<Rightarrow> string \<Rightarrow> string \<Rightarrow> bytes \<Rightarrow> ('h, 'c) Node \<Rightarrow> node_error option \<times> ('h, 'c) Node" where
  "Node_Send env channelName peerID data n =
     (let channelHash = hashChannelName (e_crypto env) channelName
      in if \<not> isChannelSubscribed n channelHash then (Some ErrNotSubscribed, n)
         else sendAppFrame env peerID AppFrameTypeUserWithChannel (channelHash @ data) n)"

fun send_to_all ::
    "('h, 'c) env \<Rightarrow> string \<Rightarrow> bytes \<Rightarrow> string list \<Rightarrow> nat \<Rightarrow> ('h, 'c) Node \<Rightarrow> nat \<times> ('h, 'c) Node" where
  "send_to_all env channelName data [] successCount n = (successCount, n)"
| "send_to_all env channelName data (peerID # peers) successCount n =
     (case Node_Send env channelName peerID data n of
        (None, n1) \<Rightarrow> send_to_all env channelName data peers (Suc successCount) n1
      | (Some e, n1) \<Rightarrow> send_to_all env channelName data peers successCount n1)"

definition Broadcast :: "('h, 'c) env \<Rightarrow> string \<Rightarrow> bytes \<Rightarrow> ('h, 'c) Node \<Rightarrow> nat \<times> ('h, 'c) Node" where
  "Broadcast env channelName data n =
     send_to_all env channelName data (GetPeersInChannel (e_crypto env) channelName n) 0 n"

definition sync_channel :: "('h, 'c) env \<Rightarrow> string \<Rightarrow> string \<Rightarrow> ('h, 'c) Node \<Rightarrow> ('h, 'c) Node" where
  "sync_channel env peerID ch n =
     snd (sendAppFrame env peerID AppFrameTypeChannelUpdate
       (channel_update_payload OpCodeJoin (hashChannelName (e_crypto env) ch)) n)"

definition syncChannelsWithPeer :: "('h, 'c) env \<Rightarrow> string \<Rightarrow> ('h, 'c) Node \<Rightarrow> ('h, 'c) Node" where
  "syncChannelsWithPeer env peerID n = fold (sync_channel env peerID) (Channels (n_Config n)) n"

subsection \<open>Receiving\<close>

definition handleAppFrame :: "string \<Rightarrow> pref \<Rightarrow> bytes \<Rightarrow> ('h, 'c) Node \<Rightarrow> ('h, 'c) Node" where
  "handleAppFrame peerID r data n =
     (if length data < 1 then n
      else let appFrameType = hd data; payload = tl data
        in if appFrameType = AppFrameTypeUserWithChannel
           then if length payload < 32 then n
                else let channelHash = take 32 payload; userData = drop 32 payload
                  in if \<not> isChannelSubscribed n channelHash then n
                     else if onReceive n then emit_out (CallReceive peerID userData) n else n
           else if appFrameType = AppFrameTypeChannelUpdate then processChannelUpdate r payload n
           else n)"

definition deliver_plain :: "gotime \<Rightarrow> string \<Rightarrow> pref \<Rightarrow> bytes \<Rightarrow> ('h, 'c) Node \<Rightarrow> ('h, 'c) Node" where
  "deliver_plain now peerID r plaintext n =
     (if length plaintext < 1 then n
      else let frameType = hd plaintext; frameData = tl plaintext;
               n1 = upd_peer r (AddBytesReceived (int (length frameData))) n;
               n2 = upd_metrics (Metrics_AddBytesReceived (int (length frameData))) n1
        in if frameType = FrameTypeSingle then handleAppFrame peerID r frameData (upd_peer r ResetReassembly n2)
           else if frameType = FrameTypeFirst then upd_peer r (\<lambda>p. StartReassembly now p frameData) n2
           else if frameType = FrameTypeMiddle
           then upd_peer r (\<lambda>p. snd (AppendReassembly now p frameData MaxReassemblySize)) n2
           else if frameType = FrameTypeLast
           then (case FinishReassembly (n_pheap n2 r) frameData MaxReassemblySize of
                   ((completeData, ok, overflow), p) \<Rightarrow>
                     let n3 = upd_peer r (\<lambda>_. p) n2
                     in if \<not> ok then n3 else handleAppFrame peerID r completeData n3)
           else n2)"

definition processData :: "('h, 'c) env \<Rightarrow> gotime \<Rightarrow> netaddr \<Rightarrow> bytes \<Rightarrow> ('h, 'c) Node \<Rightarrow> ('h, 'c) Node" where
  "processData env now remoteAddr payload n =
     (case peer_of_addr n remoteAddr of None \<Rightarrow> n
      | Some (peerID, r) \<Rightarrow>
          (case Peer_Decrypt (e_noise env) (n_world n) (n_pheap n r) payload of
             (Inl e, w) \<Rightarrow>
               let n1 = n\<lparr>n_world := w\<rparr>; (failures, p) = IncDecryptFailures (n_pheap n1 r);
                   n2 = upd_metrics IncErrorsTotal (upd_peer r (\<lambda>_. p) n1)
               in if MaxConsecutiveDecryptFailures (n_Config n2) \<le> failures
                  then triggerFastRehandshake now peerID r n2 else n2
           | (Inr plaintext, w) \<Rightarrow>
               deliver_plain now peerID r plaintext (upd_peer r ResetDecryptFailures (n\<lparr>n_world := w\<rparr>))))"

subsection \<open>Fragments\<close>

text \<open>The reference: how a payload is cut.\<close>

function rest_frags :: "bytes \<Rightarrow> (byte \<times> bytes) list" where
  "rest_frags payload =
     (if MaxPayloadSize < length payload
      then (FrameTypeMiddle, take MaxPayloadSize payload) # rest_frags (drop MaxPayloadSize payload)
      else [(FrameTypeLast, payload)])"
  by pat_completeness auto
termination
  by (relation "measure length") (auto simp: MaxPayloadSize_def)

declare rest_frags.simps [simp del]

definition fragments :: "bytes \<Rightarrow> (byte \<times> bytes) list" where
  "fragments payload =
     (if MaxPayloadSize < length payload
      then (FrameTypeFirst, take MaxPayloadSize payload) # rest_frags (drop MaxPayloadSize payload)
      else [(FrameTypeSingle, payload)])"

fun send_all ::
    "('h, 'c) env \<Rightarrow> send_path \<Rightarrow> sref \<Rightarrow> pref \<Rightarrow> (byte \<times> bytes) list \<Rightarrow> ('h, 'c) Node \<Rightarrow>
       node_error option \<times> ('h, 'c) Node" where
  "send_all env path s r [] n = (None, n)"
| "send_all env path s r (f # fs) n =
     (case sendFrame env path s r (fst f) (snd f) n of
        (Some e, n1) \<Rightarrow> (Some e, n1) | (None, n1) \<Rightarrow> send_all env path s r fs n1)"

lemma send_fragments_all: "send_fragments env path s r payload n = send_all env path s r (rest_frags payload) n"
proof (induction env path s r payload n rule: send_fragments.induct)
  case (1 env path s r payload n)
  then show ?case
    unfolding send_fragments.simps [of env path s r payload n] rest_frags.simps [of payload]
    by (auto split: prod.splits option.splits)
qed

lemma send_all_one: "send_all env path s r [f] n = sendFrame env path s r (fst f) (snd f) n"
  by (auto split: prod.splits option.splits)

text \<open>\<open>sendAppFrame\<close> on a peer it can send to is the reference on the fragments.\<close>

lemma sendAppFrame_fragments:
  assumes "peerID \<noteq> Node_ID n" "ps_Get (n_Peers n) peerID = Some r" "PSession (n_pheap n r) = Some s"
    and "choose_path env r n = (Inr path, n1)"
  shows "sendAppFrame env peerID t data n = send_all env path s r (fragments (t # data)) n1"
proof -
  have "sendAppFrame env peerID t data n =
      (if MaxPayloadSize < length (t # data)
       then (case sendFrame env path s r FrameTypeFirst (take MaxPayloadSize (t # data)) n1 of
               (Some e, n2) \<Rightarrow> (Some e, n2)
             | (None, n2) \<Rightarrow> send_fragments env path s r (drop MaxPayloadSize (t # data)) n2)
       else sendFrame env path s r FrameTypeSingle (t # data) n1)"
    using assms by (simp add: sendAppFrame_def GetSession_def Let_def)
  then show ?thesis
    by (simp only: fragments_def send_fragments_all send_all.simps if_split fst_conv snd_conv)
      (auto split: prod.splits option.splits)
qed

lemma rest_frags_types: "f \<in> set (rest_frags p) \<Longrightarrow> length (snd f) \<le> MaxPayloadSize"
proof (induction p rule: rest_frags.induct)
  case (1 payload)
  then show ?case unfolding rest_frags.simps [of payload] by (auto split: if_splits)
qed

lemma fragment_size: "f \<in> set (fragments p) \<Longrightarrow> length (snd f) \<le> MaxPayloadSize"
  by (auto simp: fragments_def rest_frags_types split: if_splits)

lemma rest_frags_concat: "concat (map snd (rest_frags p)) = p"
proof (induction p rule: rest_frags.induct)
  case (1 payload)
  then show ?case unfolding rest_frags.simps [of payload] by simp
qed

lemma fragments_concat: "concat (map snd (fragments p)) = p"
  by (simp add: fragments_def rest_frags_concat)

subsection \<open>Receiving fragments\<close>

text \<open>\<open>quiet r n n'\<close>: the nodes differ at most in the cipher states, the counters, and the
  reassembly and failure state of one peer.\<close>

definition quiet :: "pref \<Rightarrow> ('h, 'c) Node \<Rightarrow> ('h, 'c) Node \<Rightarrow> bool" where
  "quiet r n n' \<longleftrightarrow> (\<exists>a b buf t f w m.
     n' = n\<lparr>n_pheap := (n_pheap n)(r := (n_pheap n r)\<lparr>BytesReceived := a, MessagesRecv := b,
              ReassemblyBuffer := buf, LastFrameTime := t, consecutiveDecryptFails := f\<rparr>),
            n_world := w, n_metrics := m\<rparr>)"

lemma quietI:
  "n' = n\<lparr>n_pheap := (n_pheap n)(r := (n_pheap n r)\<lparr>BytesReceived := a, MessagesRecv := b,
     ReassemblyBuffer := buf, LastFrameTime := t, consecutiveDecryptFails := f\<rparr>), n_world := w, n_metrics := m\<rparr>
   \<Longrightarrow> quiet r n n'"
  unfolding quiet_def by (intro exI)

lemma quietE:
  assumes "quiet r n n'"
  obtains a b buf t f w m where
    "n' = n\<lparr>n_pheap := (n_pheap n)(r := (n_pheap n r)\<lparr>BytesReceived := a, MessagesRecv := b,
       ReassemblyBuffer := buf, LastFrameTime := t, consecutiveDecryptFails := f\<rparr>), n_world := w, n_metrics := m\<rparr>"
  using assms by (auto simp: quiet_def)

lemma quiet_trans:
  assumes "quiet r n n1" "quiet r n1 n2"
  shows "quiet r n n2"
proof -
  obtain a b buf t f w m where 1: "n1 = n\<lparr>n_pheap := (n_pheap n)(r := (n_pheap n r)\<lparr>BytesReceived := a, MessagesRecv := b,
       ReassemblyBuffer := buf, LastFrameTime := t, consecutiveDecryptFails := f\<rparr>), n_world := w, n_metrics := m\<rparr>"
    using assms(1) by (rule quietE)
  obtain a' b' buf' t' f' w' m' where 2: "n2 = n1\<lparr>n_pheap := (n_pheap n1)(r := (n_pheap n1 r)\<lparr>BytesReceived := a',
       MessagesRecv := b', ReassemblyBuffer := buf', LastFrameTime := t', consecutiveDecryptFails := f'\<rparr>),
       n_world := w', n_metrics := m'\<rparr>"
    using assms(2) by (rule quietE)
  show ?thesis
    by (rule quietI [where a = a' and b = b' and buf = buf' and t = t' and f = f' and w = w' and m = m'])
      (simp add: 2 1)
qed

lemma quiet_fields:
  assumes "quiet r n n'"
  shows "n_out n' = n_out n" "localChannelSet n' = localChannelSet n" "onReceive n' = onReceive n"
    "n_Peers n' = n_Peers n" "addrToPeer n' = addrToPeer n" "n_tasks n' = n_tasks n"
    "PSession (n_pheap n' q) = PSession (n_pheap n q)" "RemoteChannels (n_pheap n' q) = RemoteChannels (n_pheap n q)"
    "q \<noteq> r \<Longrightarrow> n_pheap n' q = n_pheap n q" "peer_of_addr n' a = peer_of_addr n a" "n_Config n' = n_Config n"
    "ID (n_pheap n' q) = ID (n_pheap n q)"
  using assms by (auto simp: quiet_def peer_of_addr_def cong: option.case_cong)

abbreviation buf_of :: "('h, 'c) Node \<Rightarrow> pref \<Rightarrow> bytes option" where
  "buf_of n r \<equiv> ReassemblyBuffer (n_pheap n r)"

lemma quiet_world: "quiet r n (n\<lparr>n_world := w\<rparr>)"
  by (rule quietI [where a = "BytesReceived (n_pheap n r)" and b = "MessagesRecv (n_pheap n r)" and buf = "buf_of n r"
        and t = "LastFrameTime (n_pheap n r)" and f = "consecutiveDecryptFails (n_pheap n r)" and w = w
        and m = "n_metrics n"]) simp

lemma quiet_metrics: "quiet r n (upd_metrics g n)"
  by (rule quietI [where a = "BytesReceived (n_pheap n r)" and b = "MessagesRecv (n_pheap n r)" and buf = "buf_of n r"
        and t = "LastFrameTime (n_pheap n r)" and f = "consecutiveDecryptFails (n_pheap n r)" and w = "n_world n"
        and m = "g (n_metrics n)"]) (simp add: upd_metrics_def)

lemma quiet_peer:
  assumes "(n_pheap n r)\<lparr>BytesReceived := BytesReceived (g (n_pheap n r)), MessagesRecv := MessagesRecv (g (n_pheap n r)),
     ReassemblyBuffer := ReassemblyBuffer (g (n_pheap n r)), LastFrameTime := LastFrameTime (g (n_pheap n r)),
     consecutiveDecryptFails := consecutiveDecryptFails (g (n_pheap n r))\<rparr> = g (n_pheap n r)"
  shows "quiet r n (upd_peer r g n)"
proof (rule quietI [where w = "n_world n" and m = "n_metrics n"])
  show "upd_peer r g n = n\<lparr>n_pheap := (n_pheap n)(r := (n_pheap n r)\<lparr>BytesReceived := BytesReceived (g (n_pheap n r)),
      MessagesRecv := MessagesRecv (g (n_pheap n r)), ReassemblyBuffer := ReassemblyBuffer (g (n_pheap n r)),
      LastFrameTime := LastFrameTime (g (n_pheap n r)),
      consecutiveDecryptFails := consecutiveDecryptFails (g (n_pheap n r))\<rparr>), n_world := n_world n, n_metrics := n_metrics n\<rparr>"
    unfolding assms upd_peer_def by simp
qed

lemma quiet_refl: "quiet r n n"
  using quiet_world [of r n "n_world n"] by simp

text \<open>The counters \<open>processData\<close> moves for every frame.\<close>

definition counted :: "pref \<Rightarrow> bytes \<Rightarrow> ('h, 'c) Node \<Rightarrow> ('h, 'c) Node" where
  "counted r d n = upd_metrics (Metrics_AddBytesReceived (int (length d))) (upd_peer r (AddBytesReceived (int (length d))) n)"

lemma quiet_counted: "quiet r n (counted r d n)"
  unfolding counted_def
  by (rule quiet_trans [OF quiet_peer quiet_metrics]) (simp add: AddBytesReceived_def)

lemma counted_simps [simp]: "buf_of (counted r d n) q = buf_of n q" "n_world (counted r d n) = n_world n"
  by (simp_all add: counted_def AddBytesReceived_def)

lemma quiet_setbuf: "quiet r n (upd_peer r (\<lambda>p. p\<lparr>ReassemblyBuffer := buf, LastFrameTime := t\<rparr>) n)"
  by (rule quiet_peer) simp

lemma quiet_reset: "quiet r n (upd_peer r resetReassemblyLocked n)"
  by (rule quiet_peer) (simp add: resetReassemblyLocked_def)

text \<open>One decrypted frame, by its type.\<close>

lemma deliver_cases:
  "deliver_plain now pid r [] n = n"
  "deliver_plain now pid r (FrameTypeSingle # d) n = handleAppFrame pid r d (upd_peer r resetReassemblyLocked (counted r d n))"
  "deliver_plain now pid r (FrameTypeFirst # d) n =
     upd_peer r (\<lambda>p. p\<lparr>ReassemblyBuffer := Some d, LastFrameTime := now\<rparr>) (counted r d n)"
  "deliver_plain now pid r (FrameTypeMiddle # d) n =
     (case buf_of n r of None \<Rightarrow> counted r d n
      | Some b \<Rightarrow> if MaxReassemblySize < length b + length d then upd_peer r resetReassemblyLocked (counted r d n)
          else upd_peer r (\<lambda>p. p\<lparr>ReassemblyBuffer := Some (b @ d), LastFrameTime := now\<rparr>) (counted r d n))"
  "deliver_plain now pid r (FrameTypeLast # d) n =
     (case buf_of n r of None \<Rightarrow> counted r d n
      | Some b \<Rightarrow> if MaxReassemblySize < length b + length d then upd_peer r resetReassemblyLocked (counted r d n)
          else handleAppFrame pid r (b @ d) (upd_peer r resetReassemblyLocked (counted r d n)))"
proof -
  have u: "upd_peer r (\<lambda>_. f (n_pheap m r)) m = upd_peer r f m" "upd_peer r (\<lambda>_. n_pheap m r) m = m" for f and m :: "('h, 'c) Node"
    by (simp_all add: upd_peer_def)
  have c: "upd_metrics (Metrics_AddBytesReceived (int (length d))) (upd_peer r (AddBytesReceived (int (length d))) n) = counted r d n"
    by (simp add: counted_def)
  have e: "upd_peer r g m = upd_peer r h m" if "g (n_pheap m r) = h (n_pheap m r)" for g h and m :: "('h, 'c) Node"
    using that by (simp add: upd_peer_def)
  have i: "upd_peer r g m = m" if "g (n_pheap m r) = n_pheap m r" for g and m :: "('h, 'c) Node"
    using that by (simp add: upd_peer_def)
  show "deliver_plain now pid r [] n = n" by (simp add: deliver_plain_def)
  show "deliver_plain now pid r (FrameTypeSingle # d) n = handleAppFrame pid r d (upd_peer r resetReassemblyLocked (counted r d n))"
    by (simp add: deliver_plain_def Let_def c ResetReassembly_def [abs_def])
  show "deliver_plain now pid r (FrameTypeFirst # d) n =
     upd_peer r (\<lambda>p. p\<lparr>ReassemblyBuffer := Some d, LastFrameTime := now\<rparr>) (counted r d n)"
    by (simp add: deliver_plain_def Let_def c frame_types StartReassembly_def)
  show "deliver_plain now pid r (FrameTypeMiddle # d) n =
     (case buf_of n r of None \<Rightarrow> counted r d n
      | Some b \<Rightarrow> if MaxReassemblySize < length b + length d then upd_peer r resetReassemblyLocked (counted r d n)
          else upd_peer r (\<lambda>p. p\<lparr>ReassemblyBuffer := Some (b @ d), LastFrameTime := now\<rparr>) (counted r d n))"
  proof (cases "buf_of n r")
    case None
    then have "upd_peer r (\<lambda>p. snd (AppendReassembly now p d MaxReassemblySize)) (counted r d n) = counted r d n"
      by (intro i) (simp add: AppendReassembly_def)
    with None show ?thesis by (simp add: deliver_plain_def Let_def c frame_types)
  next
    case (Some b)
    then have "upd_peer r (\<lambda>p. snd (AppendReassembly now p d MaxReassemblySize)) (counted r d n) =
        (if MaxReassemblySize < length b + length d then upd_peer r resetReassemblyLocked (counted r d n)
         else upd_peer r (\<lambda>p. p\<lparr>ReassemblyBuffer := Some (b @ d), LastFrameTime := now\<rparr>) (counted r d n))"
      by (auto intro!: e simp: AppendReassembly_def)
    with Some show ?thesis by (simp add: deliver_plain_def Let_def c frame_types)
  qed
  show "deliver_plain now pid r (FrameTypeLast # d) n =
     (case buf_of n r of None \<Rightarrow> counted r d n
      | Some b \<Rightarrow> if MaxReassemblySize < length b + length d then upd_peer r resetReassemblyLocked (counted r d n)
          else handleAppFrame pid r (b @ d) (upd_peer r resetReassemblyLocked (counted r d n)))"
    by (cases "buf_of n r")
      (simp_all add: deliver_plain_def Let_def c frame_types FinishReassembly_def u)
qed

text \<open>A sequence of data packets from one address, each with the instant it is handled at.\<close>

fun recv_all :: "('h, 'c) env \<Rightarrow> netaddr \<Rightarrow> (gotime \<times> bytes) list \<Rightarrow> ('h, 'c) Node \<Rightarrow> ('h, 'c) Node" where
  "recv_all env a [] n = n"
| "recv_all env a (x # xs) n = recv_all env a xs (processData env (fst x) a (snd x) n)"

definition frame_of :: "byte \<times> bytes \<Rightarrow> bytes" where
  "frame_of f = fst f # snd f"

text \<open>\<open>receiving env a pid r s cts pts n\<close>: address \<open>a\<close> belongs to a peer whose session \<open>s\<close> would
  decrypt the packets \<open>cts\<close> to \<open>pts\<close>.\<close>

definition receiving ::
    "('h, 'c) env \<Rightarrow> netaddr \<Rightarrow> string \<Rightarrow> pref \<Rightarrow> sref \<Rightarrow> bytes list \<Rightarrow> bytes list \<Rightarrow> ('h, 'c) Node \<Rightarrow> bool" where
  "receiving env a pid r s cts pts n \<longleftrightarrow> peer_of_addr n a = Some (pid, r) \<and> PSession (n_pheap n r) = Some s \<and>
     decrypt_all (e_noise env) (w_sess (n_world n) s) cts = map Inr pts"

lemma receiving_quiet:
  "receiving env a pid r s cts pts n \<Longrightarrow> quiet r n n' \<Longrightarrow> n_world n' = n_world n \<Longrightarrow> receiving env a pid r s cts pts n'"
  by (simp add: receiving_def quiet_fields)

lemma processData_step:
  assumes "receiving env a pid r s (ct # cts) (pt # pts) n"
  shows "\<exists>n1. processData env now a ct n = deliver_plain now pid r pt n1 \<and> quiet r n n1 \<and>
    buf_of n1 r = buf_of n r \<and> receiving env a pid r s cts pts n1"
proof -
  from assms obtain s' where d: "Session_Decrypt (e_noise env) (w_sess (n_world n) s) ct = (Inr pt, s')"
    and rest: "decrypt_all (e_noise env) s' cts = map Inr pts"
    by (auto simp: receiving_def split: prod.splits)
  let ?w = "(n_world n)\<lparr>w_sess := (w_sess (n_world n))(s := s')\<rparr>"
  let ?n1 = "upd_peer r ResetDecryptFailures (n\<lparr>n_world := ?w\<rparr>)"
  have "quiet r n ?n1"
    by (rule quiet_trans [OF quiet_world quiet_peer]) (simp add: ResetDecryptFailures_def)
  moreover have "processData env now a ct n = deliver_plain now pid r pt ?n1"
    using assms d by (simp add: receiving_def processData_def Peer_Decrypt_def)
  moreover have "buf_of ?n1 r = buf_of n r" by (simp add: ResetDecryptFailures_def)
  ultimately show ?thesis using assms rest
    by (intro exI [of _ ?n1]) (simp add: receiving_def quiet_fields ResetDecryptFailures_def)
qed

lemma recv_step:
  assumes "length ts = length cts" "receiving env a pid r s cts (pt # pts) n"
  obtains t ts' cts' n1 where "length ts' = length cts'"
    "recv_all env a (zip ts cts) n = recv_all env a (zip ts' cts') (deliver_plain t pid r pt n1)"
    "quiet r n n1" "buf_of n1 r = buf_of n r" "receiving env a pid r s cts' pts n1"
proof -
  have "cts \<noteq> []" using assms(2) by (auto simp: receiving_def)
  then obtain t ts' ct cts' where l: "ts = t # ts'" "cts = ct # cts'" "length ts' = length cts'"
    using assms(1) by (cases cts; cases ts) auto
  from processData_step [OF assms(2) [unfolded l(2)], of t] that [of ts' cts' t] l show thesis by auto
qed

lemma receiving_none: "receiving env a pid r s cts [] n \<Longrightarrow> cts = []"
  by (cases cts) (auto simp: receiving_def split: prod.splits)

lemma rest_frags_cases:
  "MaxPayloadSize < length p \<Longrightarrow> map frame_of (rest_frags p) =
     (FrameTypeMiddle # take MaxPayloadSize p) # map frame_of (rest_frags (drop MaxPayloadSize p))"
  "\<not> MaxPayloadSize < length p \<Longrightarrow> map frame_of (rest_frags p) = [FrameTypeLast # p]"
  by (subst rest_frags.simps, simp add: frame_of_def)+

lemma fragments_cases:
  "MaxPayloadSize < length p \<Longrightarrow> map frame_of (fragments p) =
     (FrameTypeFirst # take MaxPayloadSize p) # map frame_of (rest_frags (drop MaxPayloadSize p))"
  "\<not> MaxPayloadSize < length p \<Longrightarrow> map frame_of (fragments p) = [FrameTypeSingle # p]"
  by (simp_all add: fragments_def frame_of_def)

lemmas quiet_after_count = quiet_counted quiet_trans [OF quiet_counted quiet_reset] quiet_trans [OF quiet_counted quiet_setbuf]

text \<open>The fragments after the first one.\<close>

lemma recv_rest:
  assumes "length ts = length cts" "receiving env a pid r s cts (map frame_of (rest_frags p)) n"
    and "buf_of n r = Some b" "length b + length p \<le> MaxReassemblySize"
  shows "\<exists>n'. recv_all env a (zip ts cts) n = handleAppFrame pid r (b @ p) n' \<and> quiet r n n' \<and> buf_of n' r = None"
  using assms
proof (induction p arbitrary: ts cts b n rule: rest_frags.induct)
  case (1 p)
  show ?case
  proof (cases "MaxPayloadSize < length p")
    case True
    let ?d = "take MaxPayloadSize p"
    obtain t ts' cts' n1 where n1: "length ts' = length cts'"
      "recv_all env a (zip ts cts) n = recv_all env a (zip ts' cts') (deliver_plain t pid r (FrameTypeMiddle # ?d) n1)"
      "quiet r n n1" "buf_of n1 r = buf_of n r" "receiving env a pid r s cts' (map frame_of (rest_frags (drop MaxPayloadSize p))) n1"
      using recv_step [OF "1.prems"(1) "1.prems"(2) [unfolded rest_frags_cases(1) [OF True]]] .
    let ?n2 = "upd_peer r (\<lambda>p. p\<lparr>ReassemblyBuffer := Some (b @ ?d), LastFrameTime := t\<rparr>) (counted r ?d n1)"
    have n2: "deliver_plain t pid r (FrameTypeMiddle # ?d) n1 = ?n2" using n1(4) "1.prems"(3,4) by (simp add: deliver_cases)
    have q: "quiet r n1 ?n2" by (rule quiet_after_count)
    have r2: "receiving env a pid r s cts' (map frame_of (rest_frags (drop MaxPayloadSize p))) ?n2"
      using n1(5) q by (rule receiving_quiet) simp
    have "length (b @ ?d) + length (drop MaxPayloadSize p) \<le> MaxReassemblySize" using "1.prems"(4) by simp
    from "1.IH" [OF True n1(1) r2 _ this] obtain n' where "recv_all env a (zip ts' cts') ?n2 = handleAppFrame pid r (b @ p) n'"
      "quiet r ?n2 n'" "buf_of n' r = None" by auto
    with n2 n1(2) quiet_trans [OF n1(3) quiet_trans [OF q]] show ?thesis by auto
  next
    case False
    obtain t ts' cts' n1 where n1: "length ts' = length cts'"
      "recv_all env a (zip ts cts) n = recv_all env a (zip ts' cts') (deliver_plain t pid r (FrameTypeLast # p) n1)"
      "quiet r n n1" "buf_of n1 r = buf_of n r" "receiving env a pid r s cts' [] n1"
      using recv_step [OF "1.prems"(1) "1.prems"(2) [unfolded rest_frags_cases(2) [OF False]]] .
    let ?n2 = "upd_peer r resetReassemblyLocked (counted r p n1)"
    have "deliver_plain t pid r (FrameTypeLast # p) n1 = handleAppFrame pid r (b @ p) ?n2"
      using n1(4) "1.prems"(3,4) by (simp add: deliver_cases)
    moreover have "quiet r n ?n2" by (rule quiet_trans [OF n1(3) quiet_after_count(2)])
    ultimately show ?thesis using n1(2) receiving_none [OF n1(5)] by (auto simp: resetReassemblyLocked_def)
  qed
qed

text \<open>A message that does not fit, or whose first fragment is missing, disappears.\<close>

lemma recv_rest_drop:
  assumes "length ts = length cts" "receiving env a pid r s cts (map frame_of (rest_frags p)) n"
    and "\<forall>b. buf_of n r = Some b \<longrightarrow> MaxReassemblySize < length b + length p"
  shows "quiet r n (recv_all env a (zip ts cts) n) \<and> buf_of (recv_all env a (zip ts cts) n) r = None"
  using assms
proof (induction p arbitrary: ts cts n rule: rest_frags.induct)
  case (1 p)
  show ?case
  proof (cases "MaxPayloadSize < length p")
    case True
    let ?d = "take MaxPayloadSize p"
    obtain t ts' cts' n1 where n1: "length ts' = length cts'"
      "recv_all env a (zip ts cts) n = recv_all env a (zip ts' cts') (deliver_plain t pid r (FrameTypeMiddle # ?d) n1)"
      "quiet r n n1" "buf_of n1 r = buf_of n r" "receiving env a pid r s cts' (map frame_of (rest_frags (drop MaxPayloadSize p))) n1"
      using recv_step [OF "1.prems"(1) "1.prems"(2) [unfolded rest_frags_cases(1) [OF True]]] .
    let ?n2 = "deliver_plain t pid r (FrameTypeMiddle # ?d) n1"
    have q: "quiet r n1 ?n2" "n_world ?n2 = n_world n1"
      "\<forall>b. buf_of ?n2 r = Some b \<longrightarrow> MaxReassemblySize < length b + length (drop MaxPayloadSize p)"
      using "1.prems"(3) True n1(4) unfolding deliver_cases
      by (auto split: option.splits if_splits simp: resetReassemblyLocked_def intro: quiet_after_count)
    from "1.IH" [OF True n1(1) receiving_quiet [OF n1(5) q(1,2)] q(3)] n1(2) quiet_trans [OF n1(3) quiet_trans [OF q(1)]]
    show ?thesis by auto
  next
    case False
    obtain t ts' cts' n1 where n1: "length ts' = length cts'"
      "recv_all env a (zip ts cts) n = recv_all env a (zip ts' cts') (deliver_plain t pid r (FrameTypeLast # p) n1)"
      "quiet r n n1" "buf_of n1 r = buf_of n r" "receiving env a pid r s cts' [] n1"
      using recv_step [OF "1.prems"(1) "1.prems"(2) [unfolded rest_frags_cases(2) [OF False]]] .
    let ?n2 = "deliver_plain t pid r (FrameTypeLast # p) n1"
    have "quiet r n1 ?n2 \<and> buf_of ?n2 r = None"
      using "1.prems"(3) n1(4) unfolding deliver_cases
      by (auto split: option.splits simp: resetReassemblyLocked_def intro: quiet_after_count)
    then show ?thesis using n1(2) receiving_none [OF n1(5)] quiet_trans [OF n1(3)] by auto
  qed
qed

text \<open>The first fragment of a message cut into several.\<close>

lemma recv_first:
  assumes "length ts = length cts" "receiving env a pid r s cts (map frame_of (fragments p)) n"
    and "MaxPayloadSize < length p"
  obtains ts' cts' n2 where "length ts' = length cts'" "recv_all env a (zip ts cts) n = recv_all env a (zip ts' cts') n2"
    "quiet r n n2" "buf_of n2 r = Some (take MaxPayloadSize p)"
    "receiving env a pid r s cts' (map frame_of (rest_frags (drop MaxPayloadSize p))) n2"
proof -
  let ?d = "take MaxPayloadSize p"
  obtain t ts' cts' n1 where n1: "length ts' = length cts'"
    "recv_all env a (zip ts cts) n = recv_all env a (zip ts' cts') (deliver_plain t pid r (FrameTypeFirst # ?d) n1)"
    "quiet r n n1" "buf_of n1 r = buf_of n r" "receiving env a pid r s cts' (map frame_of (rest_frags (drop MaxPayloadSize p))) n1"
    using recv_step [OF assms(1) assms(2) [unfolded fragments_cases(1) [OF assms(3)]]] .
  let ?n2 = "upd_peer r (\<lambda>p. p\<lparr>ReassemblyBuffer := Some ?d, LastFrameTime := t\<rparr>) (counted r ?d n1)"
  have q: "quiet r n1 ?n2" by (rule quiet_after_count)
  have "receiving env a pid r s cts' (map frame_of (rest_frags (drop MaxPayloadSize p))) ?n2"
    using n1(5) q by (rule receiving_quiet) simp
  with that [OF n1(1), of ?n2] n1(2) quiet_trans [OF n1(3) q] show thesis by (simp add: deliver_cases)
qed

lemma recv_fragments:
  assumes "length ts = length cts" "receiving env a pid r s cts (map frame_of (fragments p)) n"
    and "length p \<le> MaxReassemblySize"
  shows "\<exists>n'. recv_all env a (zip ts cts) n = handleAppFrame pid r p n' \<and> quiet r n n' \<and> buf_of n' r = None"
proof (cases "MaxPayloadSize < length p")
  case True
  obtain ts' cts' n2 where n2: "length ts' = length cts'" "recv_all env a (zip ts cts) n = recv_all env a (zip ts' cts') n2"
    "quiet r n n2" "buf_of n2 r = Some (take MaxPayloadSize p)"
    "receiving env a pid r s cts' (map frame_of (rest_frags (drop MaxPayloadSize p))) n2"
    using recv_first [OF assms(1,2) True] .
  have "length (take MaxPayloadSize p) + length (drop MaxPayloadSize p) \<le> MaxReassemblySize" using assms(3) by simp
  from recv_rest [OF n2(1,5,4) this] n2(2) quiet_trans [OF n2(3)] show ?thesis by auto
next
  case False
  obtain t ts' cts' n1 where n1: "length ts' = length cts'"
    "recv_all env a (zip ts cts) n = recv_all env a (zip ts' cts') (deliver_plain t pid r (FrameTypeSingle # p) n1)"
    "quiet r n n1" "buf_of n1 r = buf_of n r" "receiving env a pid r s cts' [] n1"
    using recv_step [OF assms(1) assms(2) [unfolded fragments_cases(2) [OF False]]] .
  have "quiet r n (upd_peer r resetReassemblyLocked (counted r p n1))"
    by (rule quiet_trans [OF n1(3) quiet_after_count(2)])
  then show ?thesis using n1(2) receiving_none [OF n1(5)] by (auto simp: resetReassemblyLocked_def deliver_cases)
qed

lemma recv_fragments_drop:
  assumes "length ts = length cts" "receiving env a pid r s cts (map frame_of (fragments p)) n"
    and "MaxReassemblySize < length p"
  shows "quiet r n (recv_all env a (zip ts cts) n)"
proof -
  have long: "MaxPayloadSize < length p" using assms(3) by (simp add: MaxReassemblySize_def MaxPayloadSize_def)
  obtain ts' cts' n2 where n2: "length ts' = length cts'" "recv_all env a (zip ts cts) n = recv_all env a (zip ts' cts') n2"
    "quiet r n n2" "buf_of n2 r = Some (take MaxPayloadSize p)"
    "receiving env a pid r s cts' (map frame_of (rest_frags (drop MaxPayloadSize p))) n2"
    using recv_first [OF assms(1,2) long] .
  from recv_rest_drop [OF n2(1,5)] n2(2,4) quiet_trans [OF n2(3)] assms(3) show ?thesis by auto
qed

lemma handleAppFrame_user:
  assumes "length h = 32" "isChannelSubscribed n h" "onReceive n"
  shows "handleAppFrame pid r (AppFrameTypeUserWithChannel # h @ d) n = emit_out (CallReceive pid d) n"
  using assms by (simp add: handleAppFrame_def Let_def)

subsection \<open>What a send writes\<close>

text \<open>The write that carries a packet on a path; \<open>k\<close> is the peer's KCP session.\<close>

definition path_write :: "send_path \<Rightarrow> kref \<Rightarrow> bytes \<Rightarrow> wr" where
  "path_write path k packet =
     (case path of PathTCP c \<Rightarrow> TCPWrite c (EncodeTCPFrame packet) | PathKCP \<Rightarrow> KCPWrite k (kcp_frame packet))"

definition path_session :: "send_path \<Rightarrow> string \<Rightarrow> kref \<Rightarrow> ('h, 'c) Node \<Rightarrow> bool" where
  "path_session path pid k n \<longleftrightarrow> (path = PathKCP \<longrightarrow>
     (\<exists>t. kcpTransport n = Some t \<and> gm_get (kt_sessions t) pid = Some k))"

lemma send_on_ok:
  assumes "send_on env path pid packet n = (None, n')" "path_session path pid k n"
  shows "n' = emit_out (Wrote (path_write path k packet) True) n"
  using assms
  by (auto simp: send_on_def path_write_def path_session_def writeTCPPacket_def do_write_def Let_def KCP_Send_def
      split: send_path.splits prod.splits option.splits sum.splits if_splits)

lemma sendFrame_ok:
  assumes "sendFrame env path s r ty d n = (None, n')" "path_session path (ID (n_pheap n r)) k n"
  shows "\<exists>ct a'. Session_Encrypt (e_noise env) (w_sess (n_world n) s) (ty # d) = (Inr ct, a') \<and>
    n_out n' = n_out n @ [Wrote (path_write path k (BuildDataPacket ct)) True] \<and>
    w_sess (n_world n') s = a' \<and> ID (n_pheap n' r) = ID (n_pheap n r) \<and> kcpTransport n' = kcpTransport n"
proof -
  obtain ct a' where e: "Session_Encrypt (e_noise env) (w_sess (n_world n) s) (ty # d) = (Inr ct, a')"
    using assms(1) by (auto simp: sendFrame_def split: prod.splits sum.splits)
  let ?n1 = "n\<lparr>n_world := (n_world n)\<lparr>w_sess := (w_sess (n_world n))(s := a')\<rparr>\<rparr>"
  let ?n3 = "upd_metrics (Metrics_AddBytesSent (int (length d))) (upd_peer r (AddBytesSent (int (length d))) ?n1)"
  have "send_on env path (ID (n_pheap n r)) (BuildDataPacket ct) ?n3 = (None, n')"
    using assms(1) e by (simp add: sendFrame_def Let_def)
  from send_on_ok [OF this, of k] assms(2) have "n' = emit_out (Wrote (path_write path k (BuildDataPacket ct)) True) ?n3"
    by (simp add: path_session_def)
  then show ?thesis using e by (simp add: emit_out_def AddBytesSent_def)
qed

lemma send_all_trace:
  assumes "send_all env path s r fs n = (None, n')" "path_session path (ID (n_pheap n r)) k n"
  shows "\<exists>cts. encrypt_all (e_noise env) (w_sess (n_world n) s) (map frame_of fs) = map Inr cts \<and>
    n_out n' = n_out n @ map (\<lambda>ct. Wrote (path_write path k (BuildDataPacket ct)) True) cts"
  using assms
proof (induction fs arbitrary: n)
  case (Cons f fs)
  obtain n1 where n1: "sendFrame env path s r (fst f) (snd f) n = (None, n1)" "send_all env path s r fs n1 = (None, n')"
    using Cons.prems(1) by (auto split: prod.splits option.splits)
  from sendFrame_ok [OF n1(1) Cons.prems(2)] obtain ct a' where
    c: "Session_Encrypt (e_noise env) (w_sess (n_world n) s) (frame_of f) = (Inr ct, a')"
      "n_out n1 = n_out n @ [Wrote (path_write path k (BuildDataPacket ct)) True]"
      "w_sess (n_world n1) s = a'" "ID (n_pheap n1 r) = ID (n_pheap n r)" "kcpTransport n1 = kcpTransport n"
    by (auto simp: frame_of_def)
  have "path_session path (ID (n_pheap n1 r)) k n1" using Cons.prems(2) c by (simp add: path_session_def)
  from Cons.IH [OF n1(2) this] obtain cts where "encrypt_all (e_noise env) a' (map frame_of fs) = map Inr cts"
    "n_out n' = n_out n1 @ map (\<lambda>ct. Wrote (path_write path k (BuildDataPacket ct)) True) cts"
    using c by auto
  then show ?case using c by (intro exI [of _ "ct # cts"]) simp
qed simp

lemma choose_path_ok:
  assumes "choose_path env r n = (Inr path, n1)"
  shows "n_out n1 = n_out n" "n_world n1 = n_world n" "n_pheap n1 = n_pheap n" "n_Peers n1 = n_Peers n"
    "\<exists>k. path_session path (ID (n_pheap n r)) k n1"
proof -
  have "n_out n1 = n_out n \<and> n_world n1 = n_world n \<and> n_pheap n1 = n_pheap n \<and> n_Peers n1 = n_Peers n \<and>
      (\<exists>k. path_session path (ID (n_pheap n r)) k n1)"
    using assms
    by (auto simp: choose_path_def kcp_upgrade_def UpgradePeer_def Let_def GetTransportInfo_def path_session_def
        KCP_HasSession_def gm_has_get
        split: if_splits option.splits prod.splits sum.splits)
  then show "n_out n1 = n_out n" "n_world n1 = n_world n" "n_pheap n1 = n_pheap n" "n_Peers n1 = n_Peers n"
    "\<exists>k. path_session path (ID (n_pheap n r)) k n1" by auto
qed

text \<open>What the ciphers of the Noise library add to a message: an authentication tag of 16 bytes.\<close>

definition aead_overhead :: "('h, 'c) noise_lib \<Rightarrow> bool" where
  "aead_overhead lib \<longleftrightarrow> (\<forall>c p ct c'. nl_encrypt lib c p = (Some ct, c') \<longrightarrow> length ct \<le> length p + 16)"

lemma encrypt_all_size:
  assumes "aead_overhead lib"
  shows "encrypt_all lib a ps = map Inr cts \<Longrightarrow> \<forall>p \<in> set ps. length p \<le> m \<Longrightarrow> \<forall>ct \<in> set cts. length ct \<le> m + 16"
proof (induction ps arbitrary: a cts)
  case (Cons p ps)
  then obtain ct cts' a' where enc: "Session_Encrypt lib a p = (Inr ct, a')"
    and rest: "encrypt_all lib a' ps = map Inr cts'" and cts: "cts = ct # cts'"
    by (auto split: prod.splits simp: Cons_eq_map_conv)
  from enc have "length ct \<le> length p + 16"
    using assms by (auto simp: Session_Encrypt_def aead_overhead_def split: option.splits prod.splits)
  with Cons.IH [OF rest] Cons.prems(2) cts show ?case by auto
qed simp

lemma sendAppFrame_ok:
  assumes "sendAppFrame env peerID t data n = (None, n')"
  obtains r s path n1 where "peerID \<noteq> Node_ID n" "ps_Get (n_Peers n) peerID = Some r" "PSession (n_pheap n r) = Some s"
    "choose_path env r n = (Inr path, n1)" "send_all env path s r (fragments (t # data)) n1 = (None, n')"
proof -
  obtain r s path n1 where *: "peerID \<noteq> Node_ID n" "ps_Get (n_Peers n) peerID = Some r" "PSession (n_pheap n r) = Some s"
    "choose_path env r n = (Inr path, n1)"
    using assms by (auto simp: sendAppFrame_def GetSession_def split: if_splits option.splits prod.splits sum.splits)
  with sendAppFrame_fragments [OF *, of t data] assms that show thesis by simp
qed

subsection \<open>Properties of sending and receiving\<close>

text \<open>A call of \<open>sendAppFrame\<close> that reports success has written the whole message: the type
  byte and the data are cut into fragments of at most 60 KiB that put together again give the
  message, and what was written is exactly one framed data packet per fragment, encrypted in
  order under the session the call found, to the TCP connection or KCP session of the peer.
  With the 16 bytes the AEAD of the Noise library adds, every packet fits the 16-bit length
  prefix.\<close>

theorem send_app_frame_writes:
  assumes "sendAppFrame env peerID t data n = (None, n')"
    and "aead_overhead (e_noise env)"
  shows "\<exists>r s path k cts. peerID \<noteq> Node_ID n \<and> ps_Get (n_Peers n) peerID = Some r \<and> PSession (n_pheap n r) = Some s \<and>
    concat (map snd (fragments (t # data))) = t # data \<and>
    encrypt_all (e_noise env) (w_sess (n_world n) s) (map frame_of (fragments (t # data))) = map Inr cts \<and>
    n_out n' = n_out n @ map (\<lambda>ct. Wrote (path_write path k (BuildDataPacket ct)) True) cts \<and>
    (\<forall>ct \<in> set cts. length (BuildDataPacket ct) \<le> 65535)"
proof -
  obtain r s path n1 where *: "peerID \<noteq> Node_ID n" "ps_Get (n_Peers n) peerID = Some r" "PSession (n_pheap n r) = Some s"
    and c: "choose_path env r n = (Inr path, n1)" and a: "send_all env path s r (fragments (t # data)) n1 = (None, n')"
    using sendAppFrame_ok [OF assms(1)] .
  obtain k where k: "path_session path (ID (n_pheap n1 r)) k n1" using choose_path_ok(3,5) [OF c] by auto
  obtain cts where cts: "encrypt_all (e_noise env) (w_sess (n_world n) s) (map frame_of (fragments (t # data))) = map Inr cts"
    "n_out n' = n_out n @ map (\<lambda>ct. Wrote (path_write path k (BuildDataPacket ct)) True) cts"
    using send_all_trace [OF a k] choose_path_ok [OF c] by auto
  have "\<forall>p \<in> set (map frame_of (fragments (t # data))). length p \<le> Suc MaxPayloadSize"
    using fragment_size [of _ "t # data"] by (auto simp: frame_of_def)
  from encrypt_all_size [OF assms(2) cts(1) this]
  have "\<forall>ct \<in> set cts. length (BuildDataPacket ct) \<le> 65535" by (auto simp: MaxPayloadSize_def wire_simps)
  with * cts fragments_concat show ?thesis by blast
qed

lemma user_message_received:
  assumes "length ts = length cts"
    and "receiving env a pid r s cts (map frame_of (fragments (AppFrameTypeUserWithChannel # h @ d))) n"
    and "length h = 32" "isChannelSubscribed n h" "onReceive n" "33 + length d \<le> MaxReassemblySize"
  shows "n_out (recv_all env a (zip ts cts) n) = n_out n @ [CallReceive pid d]"
    "n_Peers (recv_all env a (zip ts cts) n) = n_Peers n" "addrToPeer (recv_all env a (zip ts cts) n) = addrToPeer n"
    "n_tasks (recv_all env a (zip ts cts) n) = n_tasks n" "buf_of (recv_all env a (zip ts cts) n) r = None"
proof -
  from recv_fragments [OF assms(1,2)] assms(3,6) obtain n' where n':
    "recv_all env a (zip ts cts) n = handleAppFrame pid r (AppFrameTypeUserWithChannel # h @ d) n'"
    "quiet r n n'" "buf_of n' r = None" by auto
  note q = quiet_fields [OF n'(2)]
  have "isChannelSubscribed n' h" "onReceive n'" using assms(3,4,5) q by (simp_all add: isChannelSubscribed_def)
  then have "handleAppFrame pid r (AppFrameTypeUserWithChannel # h @ d) n' = emit_out (CallReceive pid d) n'"
    using handleAppFrame_user [OF assms(3), of n' pid r d] by simp
  with n' q show "n_out (recv_all env a (zip ts cts) n) = n_out n @ [CallReceive pid d]"
    "n_Peers (recv_all env a (zip ts cts) n) = n_Peers n" "addrToPeer (recv_all env a (zip ts cts) n) = addrToPeer n"
    "n_tasks (recv_all env a (zip ts cts) n) = n_tasks n" "buf_of (recv_all env a (zip ts cts) n) r = None"
    by simp_all
qed

text \<open>C7: whatever instants the packets arrive at, a node that receives the encrypted fragments of
  a user message of at most 50 MiB on a subscribed channel hands it to the receive callback
  exactly once, complete and with the sender's ID; peers, address map and goroutines stay as
  they are and the reassembly buffer is free again. This holds whatever the buffer held before.\<close>

theorem fragments_reassembled:
  assumes "length ts = length cts"
    and "receiving env a pid r s cts (map frame_of (fragments (AppFrameTypeUserWithChannel # h @ d))) n"
    and "length h = 32" "isChannelSubscribed n h" "onReceive n" "33 + length d \<le> MaxReassemblySize"
  shows "case recv_all env a (zip ts cts) n of n' \<Rightarrow>
    n_out n' = n_out n @ [CallReceive pid d] \<and> n_Peers n' = n_Peers n \<and> addrToPeer n' = addrToPeer n \<and>
    n_tasks n' = n_tasks n \<and> buf_of n' r = None"
  using user_message_received [OF assms] by simp

text \<open>A message of more than 50 MiB can be sent but is never delivered: all its fragments are
  accepted and the receiver ends as if they had never been meant for it, with no callback, no
  other effect than counters and the reassembly state.\<close>

theorem oversize_message_lost:
  assumes "length ts = length cts" "receiving env a pid r s cts (map frame_of (fragments p)) n"
    and "MaxReassemblySize < length p"
  shows "case recv_all env a (zip ts cts) n of n' \<Rightarrow>
    n_out n' = n_out n \<and> n_Peers n' = n_Peers n \<and> n_tasks n' = n_tasks n \<and>
    (\<forall>q. RemoteChannels (n_pheap n' q) = RemoteChannels (n_pheap n q))"
  using quiet_fields [OF recv_fragments_drop [OF assms]] by simp

text \<open>Which effects a decrypted frame can have.\<close>

lemma handleAppFrame_keeps [simp]:
  "n_tasks (handleAppFrame pid r d n) = n_tasks n" "addrToPeer (handleAppFrame pid r d n) = addrToPeer n"
  "n_Peers (handleAppFrame pid r d n) = n_Peers n"
  "rehandshakeInFlight (n_pheap (handleAppFrame pid r d n) q) = rehandshakeInFlight (n_pheap n q)"
  by (simp_all add: handleAppFrame_def processChannelUpdate_def Let_def emit_out_def AddRemoteChannel_def
      RemoveRemoteChannel_def split: option.splits)

lemma handleAppFrame_out:
  "n_out (handleAppFrame pid r d n) = n_out n \<or>
   (\<exists>h u. d = AppFrameTypeUserWithChannel # h @ u \<and> isChannelSubscribed n h \<and> onReceive n \<and>
      n_out (handleAppFrame pid r d n) = n_out n @ [CallReceive pid u])"
proof (cases "1 \<le> length d \<and> hd d = AppFrameTypeUserWithChannel \<and> 32 \<le> length (tl d) \<and>
    isChannelSubscribed n (take 32 (tl d)) \<and> onReceive n")
  case True
  then have "d = AppFrameTypeUserWithChannel # take 32 (tl d) @ drop 32 (tl d)" by (cases d) auto
  moreover have "n_out (handleAppFrame pid r d n) = n_out n @ [CallReceive pid (drop 32 (tl d))]"
    using True by (auto simp: handleAppFrame_def Let_def emit_out_def)
  ultimately show ?thesis using True by blast
next
  case False
  then have "n_out (handleAppFrame pid r d n) = n_out n"
    by (auto simp: handleAppFrame_def processChannelUpdate_def Let_def)
  then show ?thesis ..
qed

lemma deliver_plain_keeps [simp]:
  "n_tasks (deliver_plain now pid r pt n) = n_tasks n" "addrToPeer (deliver_plain now pid r pt n) = addrToPeer n"
  "n_Peers (deliver_plain now pid r pt n) = n_Peers n"
  "rehandshakeInFlight (n_pheap (deliver_plain now pid r pt n) q) = rehandshakeInFlight (n_pheap n q)"
  by (auto simp: deliver_plain_def Let_def AddBytesReceived_def ResetReassembly_def resetReassemblyLocked_def StartReassembly_def
      AppendReassembly_def FinishReassembly_def split: option.splits)

definition heard :: "string \<Rightarrow> ('h, 'c) Node \<Rightarrow> ('h, 'c) Node \<Rightarrow> bool" where
  "heard pid n n' \<longleftrightarrow> n_out n' = n_out n \<or>
     (\<exists>h u. isChannelSubscribed n h \<and> onReceive n \<and> n_out n' = n_out n @ [CallReceive pid u])"

lemma heard_same: "n_out n' = n_out n \<Longrightarrow> heard pid n n'"
  by (simp add: heard_def)

lemma heard_handle:
  "n_out m = n_out n \<Longrightarrow> localChannelSet m = localChannelSet n \<Longrightarrow> onReceive m = onReceive n \<Longrightarrow>
     heard pid n (handleAppFrame pid r d m)"
  using handleAppFrame_out [of pid r d m] by (auto simp: heard_def isChannelSubscribed_def split: if_splits)

lemma heard_deliver: "heard pid n (deliver_plain now pid r pt n)"
  by (simp add: deliver_plain_def Let_def heard_same heard_handle split: prod.splits)

text \<open>Potential: the re-handshake goroutines of a peer plus the one that may still start.\<close>

definition rehandshakes :: "string \<Rightarrow> pref \<Rightarrow> ('h, 'c) Node \<Rightarrow> nat" where
  "rehandshakes pid r n = length (filter ((=) (TRehandshake pid r)) (n_tasks n))"

definition budget :: "netaddr \<Rightarrow> string \<Rightarrow> pref \<Rightarrow> ('h, 'c) Node \<Rightarrow> nat" where
  "budget a pid r n =
     rehandshakes pid r n + (if peer_of_addr n a = Some (pid, r) \<and> \<not> rehandshakeInFlight (n_pheap n r) then 1 else 0)"

lemma reserve_keeps [simp]:
  "rehandshakeInFlight (snd (ReserveRehandshakeAttempt now w m p)) = rehandshakeInFlight p"
  by (simp add: ReserveRehandshakeAttempt_def Let_def)

definition only_peer :: "netaddr \<Rightarrow> string \<Rightarrow> pref \<Rightarrow> ('h, 'c) Node \<Rightarrow> bool" where
  "only_peer a pid r n \<longleftrightarrow> gm_wf (addrToPeer n) \<and> (peer_of_addr n a = None \<or> peer_of_addr n a = Some (pid, r))"

lemma budget_cong:
  assumes "n_tasks m' = n_tasks m" "addrToPeer m' = addrToPeer m" "n_Peers m' = n_Peers m"
    "\<And>q. rehandshakeInFlight (n_pheap m' q) = rehandshakeInFlight (n_pheap m q)"
  shows "budget a pid r m' = budget a pid r m" "only_peer a pid r m' = only_peer a pid r m"
  using assms by (simp_all add: budget_def only_peer_def rehandshakes_def peer_of_addr_def cong: option.case_cong)

lemma removePeer_budget:
  assumes "gm_wf (addrToPeer n)" "peer_of_addr n a = Some (pid, r)"
  shows "budget a pid r (removePeerWithReconnect now pid True n) \<le> rehandshakes pid r n"
    "only_peer a pid r (removePeerWithReconnect now pid True n)"
proof -
  have r: "ps_Get (n_Peers n) pid = Some r" using assms(2) by (auto simp: peer_of_addr_def split: option.splits)
  let ?n = "removePeerWithReconnect now pid True n"
  have "n_tasks ?n = n_tasks n" "gm_get (addrToPeer ?n) (addr_String a) = None" "gm_wf (addrToPeer ?n)"
    using r assms by (auto simp: removePeerWithReconnect_def Let_def emit_out_def gm_get_prune peer_of_addr_def
        split: option.splits)
  then show "budget a pid r ?n \<le> rehandshakes pid r n" "only_peer a pid r ?n"
    by (auto simp: budget_def only_peer_def rehandshakes_def peer_of_addr_def split: option.splits)
qed

lemma trigger_cases:
  obtains "triggerFastRehandshake now pid r n = n"
  | p where "\<not> rehandshakeInFlight (n_pheap n r)" "triggerFastRehandshake now pid r n = upd_peer r (\<lambda>_. EndRehandshake p) n"
  | p where "\<not> rehandshakeInFlight (n_pheap n r)"
      "triggerFastRehandshake now pid r n = removePeerWithReconnect now pid True (upd_peer r (\<lambda>_. EndRehandshake p) n)"
  | p where "\<not> rehandshakeInFlight (n_pheap n r)" "rehandshakeInFlight p"
      "triggerFastRehandshake now pid r n = spawn (TRehandshake pid r) (upd_peer r (\<lambda>_. p) n)"
proof (cases "rehandshakeInFlight (n_pheap n r)")
  case True
  then show ?thesis using that(1) by (simp add: triggerFastRehandshake_def TryBeginRehandshake_def)
next
  case False
  let ?p1 = "(n_pheap n r)\<lparr>rehandshakeInFlight := True\<rparr>"
  obtain ok d p2 where res: "ReserveRehandshakeAttempt now (FastRehandshakeWindow (n_Config n))
      (FastRehandshakeMaxAttemptsWindow (n_Config n)) ?p1 = ((ok, d), p2)"
    by (metis surj_pair)
  then have i2: "rehandshakeInFlight (ResetDecryptFailures p2)"
    using reserve_keeps [of now "FastRehandshakeWindow (n_Config n)" "FastRehandshakeMaxAttemptsWindow (n_Config n)" ?p1]
    by (simp add: ResetDecryptFailures_def)
  show ?thesis
  proof (cases ok)
    case False
    with res \<open>\<not> rehandshakeInFlight (n_pheap n r)\<close> that(2) show ?thesis
      by (simp add: triggerFastRehandshake_def TryBeginRehandshake_def)
  next
    case True
    with res \<open>\<not> rehandshakeInFlight (n_pheap n r)\<close> have
      "triggerFastRehandshake now pid r n = removePeerWithReconnect now pid True (upd_peer r (\<lambda>_. EndRehandshake (ResetDecryptFailures p2)) n) \<or>
       triggerFastRehandshake now pid r n = spawn (TRehandshake pid r) (upd_peer r (\<lambda>_. ResetDecryptFailures p2) n)"
      by (simp add: triggerFastRehandshake_def TryBeginRehandshake_def Let_def)
    with that(3,4) i2 False show ?thesis by blast
  qed
qed

lemma trigger_budget:
  assumes "gm_wf (addrToPeer n)" "peer_of_addr n a = Some (pid, r)"
  shows "budget a pid r (triggerFastRehandshake now pid r n) \<le> budget a pid r n \<and>
    only_peer a pid r (triggerFastRehandshake now pid r n)"
proof -
  have rp: "peer_of_addr (upd_peer r f n) a = peer_of_addr n a" "rehandshakes pid r (upd_peer r f n) = rehandshakes pid r n"
    "peer_of_addr (spawn t m) a = peer_of_addr m a" for f t and m :: "('a, 'b) Node"
    by (simp_all add: peer_of_addr_def rehandshakes_def cong: option.case_cong)
  show ?thesis
  proof (cases rule: trigger_cases [of now pid r n])
    case 1
    with assms show ?thesis by (simp add: only_peer_def)
  next
    case (2 p)
    with assms show ?thesis by (simp add: budget_def rp only_peer_def)
  next
    case (3 p)
    let ?m = "upd_peer r (\<lambda>_. EndRehandshake p) n"
    have "gm_wf (addrToPeer ?m)" "peer_of_addr ?m a = Some (pid, r)" using assms rp by simp_all
    from removePeer_budget [OF this, of now] 3 show ?thesis by (simp add: budget_def rp)
  next
    case (4 p)
    then have "rehandshakes pid r (triggerFastRehandshake now pid r n) = Suc (rehandshakes pid r n)"
      by (simp add: rehandshakes_def spawn_def)
    with 4 assms show ?thesis by (simp add: budget_def only_peer_def rp)
  qed
qed

lemma processData_budget:
  assumes "only_peer a pid r n"
  shows "budget a pid r (processData env now a ct n) \<le> budget a pid r n \<and> only_peer a pid r (processData env now a ct n)"
proof (cases "peer_of_addr n a")
  case None
  then show ?thesis using assms by (simp add: processData_def)
next
  case (Some pr)
  then have pr: "peer_of_addr n a = Some (pid, r)" using assms by (auto simp: only_peer_def)
  obtain res w where dec: "Peer_Decrypt (e_noise env) (n_world n) (n_pheap n r) ct = (res, w)" by (metis surj_pair)
  show ?thesis
  proof (cases res)
    case (Inr plaintext)
    let ?n = "processData env now a ct n"
    have "?n = deliver_plain now pid r plaintext (upd_peer r ResetDecryptFailures (n\<lparr>n_world := w\<rparr>))"
      using pr dec Inr by (simp add: processData_def)
    then have "budget a pid r ?n = budget a pid r n" "only_peer a pid r ?n = only_peer a pid r n"
      by (intro budget_cong; simp add: ResetDecryptFailures_def)+
    then show ?thesis using assms by simp
  next
    case (Inl e)
    let ?p = "snd (IncDecryptFailures (n_pheap n r))"
    let ?n2 = "upd_metrics IncErrorsTotal (upd_peer r (\<lambda>_. ?p) (n\<lparr>n_world := w\<rparr>))"
    have p: "processData env now a ct n =
      (if MaxConsecutiveDecryptFailures (n_Config n) \<le> fst (IncDecryptFailures (n_pheap n r))
       then triggerFastRehandshake now pid r ?n2 else ?n2)"
      using pr dec Inl by (simp add: processData_def Let_def split: prod.splits)
    have b: "budget a pid r ?n2 = budget a pid r n" "only_peer a pid r ?n2 = only_peer a pid r n"
      by (intro budget_cong; simp add: IncDecryptFailures_def Let_def)+
    have "gm_wf (addrToPeer ?n2)" "peer_of_addr ?n2 a = Some (pid, r)"
      using assms pr by (simp_all add: only_peer_def peer_of_addr_def cong: option.case_cong)
    from trigger_budget [OF this, of now] b p assms show ?thesis by auto
  qed
qed

lemma recv_all_budget:
  "only_peer a pid r n \<Longrightarrow> budget a pid r (recv_all env a xs n) \<le> budget a pid r n"
  by (induction xs arbitrary: n) (auto intro: order_trans dest: processData_budget)

lemma trigger_out:
  "\<exists>xs. n_out (triggerFastRehandshake now pid r n) = n_out n @ xs \<and> set xs \<subseteq> {CallDisconnected pid}"
  by (cases rule: trigger_cases [of now pid r n])
    (auto simp: removePeerWithReconnect_def Let_def emit_out_def split: option.splits)

subsection \<open>Properties of failures and channels\<close>


text \<open>However many undecryptable or valid packets arrive from an address, at most one goroutine
  for a fast re-handshake with its peer is started, and none while one is in flight.\<close>

theorem one_rehandshake_in_flight:
  assumes "gm_wf (addrToPeer n)" "peer_of_addr n a = Some (pid, r)"
  shows "rehandshakes pid r (recv_all env a xs n) \<le>
    rehandshakes pid r n + (if rehandshakeInFlight (n_pheap n r) then 0 else 1)"
proof -
  have "only_peer a pid r n" using assms by (simp add: only_peer_def)
  from recv_all_budget [OF this, of env xs] assms(2) show ?thesis by (auto simp: budget_def split: if_splits)
qed

text \<open>Channels: the set of hashes is the image of the list of names.\<close>

definition chan_ok :: "crypto_lib \<Rightarrow> ('h, 'c) Node \<Rightarrow> bool" where
  "chan_ok cl n \<longleftrightarrow> distinct (Channels (n_Config n)) \<and> gm_wf (localChannelSet n) \<and>
     (\<forall>h. gm_has (localChannelSet n) h \<longleftrightarrow> h \<in> hashChannelName cl ` set (Channels (n_Config n)))"

datatype chan_event = EvJoin string | EvLeave string

fun chan_name :: "chan_event \<Rightarrow> string" where
  "chan_name (EvJoin x) = x" | "chan_name (EvLeave x) = x"

fun chan_step :: "crypto_lib \<Rightarrow> chan_event \<Rightarrow> ('h, 'c) Node \<Rightarrow> ('h, 'c) Node" where
  "chan_step cl (EvJoin x) n = JoinChannel cl x n"
| "chan_step cl (EvLeave x) n = LeaveChannel cl x n"

lemma fold_spawn_fields [simp]:
  "n_Config (fold (\<lambda>p. spawn (f p)) ps n) = n_Config n" "localChannelSet (fold (\<lambda>p. spawn (f p)) ps n) = localChannelSet n"
  "n_pheap (fold (\<lambda>p. spawn (f p)) ps n) = n_pheap n" "n_Peers (fold (\<lambda>p. spawn (f p)) ps n) = n_Peers n"
  "n_tasks (fold (\<lambda>p. spawn (f p)) ps n) = n_tasks n @ map f ps"
  by (induction ps arbitrary: n) (simp_all add: spawn_def)

lemma broadcastChannelUpdate_fields [simp]:
  "n_Config (broadcastChannelUpdate opc h n) = n_Config n"
  "localChannelSet (broadcastChannelUpdate opc h n) = localChannelSet n"
  "n_pheap (broadcastChannelUpdate opc h n) = n_pheap n" "n_Peers (broadcastChannelUpdate opc h n) = n_Peers n"
  "n_tasks (broadcastChannelUpdate opc h n) = n_tasks n @
     map (\<lambda>pid. TSendAppFrame pid AppFrameTypeChannelUpdate (channel_update_payload opc h)) (ps_IDs (n_Peers n))"
  by (simp_all add: broadcastChannelUpdate_def)

lemma chan_ok_join: "chan_ok cl n \<Longrightarrow> chan_ok cl (JoinChannel cl x n)"
  by (auto simp: chan_ok_def JoinChannel_def Let_def gm_has_get)

lemma chan_ok_leave:
  assumes "chan_ok cl n" "inj_on (hashChannelName cl) U" "set (Channels (n_Config n)) \<subseteq> U" "x \<in> U"
  shows "chan_ok cl (LeaveChannel cl x n)"
proof -
  have "hashChannelName cl ` (set (Channels (n_Config n)) - {x}) =
      hashChannelName cl ` set (Channels (n_Config n)) - {hashChannelName cl x}"
    using inj_on_image_set_diff [OF assms(2), of "set (Channels (n_Config n))" "{x}"] assms(3,4) by auto
  then show ?thesis using assms(1)
    by (simp add: chan_ok_def LeaveChannel_def Let_def gm_has_get)
qed

definition chan_inv :: "crypto_lib \<Rightarrow> string set \<Rightarrow> ('h, 'c) Node \<Rightarrow> bool" where
  "chan_inv cl U n \<longleftrightarrow> (inj_on (hashChannelName cl) U \<longrightarrow> chan_ok cl n) \<and> set (Channels (n_Config n)) \<subseteq> U"

lemma chan_inv_step: "chan_inv cl U n \<Longrightarrow> chan_name e \<in> U \<Longrightarrow> chan_inv cl U (chan_step cl e n)"
proof (cases e)
  case (EvJoin x)
  assume "chan_inv cl U n" "chan_name e \<in> U"
  with EvJoin have "set (Channels (n_Config (JoinChannel cl x n))) \<subseteq> U"
    by (auto simp: chan_inv_def JoinChannel_def Let_def)
  with EvJoin \<open>chan_inv cl U n\<close> show ?thesis by (simp add: chan_inv_def chan_ok_join)
next
  case (EvLeave x)
  assume "chan_inv cl U n" "chan_name e \<in> U"
  with EvLeave have "set (Channels (n_Config (LeaveChannel cl x n))) \<subseteq> U"
    using set_remove1_subset [of x "Channels (n_Config n)"] by (auto simp: chan_inv_def LeaveChannel_def Let_def)
  with EvLeave \<open>chan_inv cl U n\<close> \<open>chan_name e \<in> U\<close> show ?thesis by (simp add: chan_inv_def chan_ok_leave)
qed

interpretation chan: invariant_relation "chan_inv cl U"
    "\<lambda>n n'. \<exists>e. chan_name e \<in> U \<and> n' = chan_step cl e n" "chan_inv cl U" for cl U
  by unfold_locales (auto intro: chan_inv_step)

lemma chan_inv_fresh:
  assumes "distinct (Channels cfg)" "set (Channels cfg) \<subseteq> U"
  shows "chan_inv cl U (fresh_node cl now cfg i)"
proof -
  have "(gm_wf m \<longrightarrow> gm_wf (fold (\<lambda>ch. gm_put (hashChannelName cl ch) ()) chs m)) \<and>
     (gm_has (fold (\<lambda>ch. gm_put (hashChannelName cl ch) ()) chs m) h \<longleftrightarrow>
        h \<in> hashChannelName cl ` set chs \<or> gm_has m h)" for chs m h
    by (induction chs arbitrary: m) (auto simp: gm_has_get)
  then show ?thesis using assms by (simp add: chan_inv_def chan_ok_def fresh_node_def gm_has_get)
qed

lemma fold_chan_steps:
  "list_all (\<lambda>e. chan_name e \<in> U) es \<Longrightarrow>
     (\<lambda>n n'. \<exists>e. chan_name e \<in> U \<and> n' = chan_step cl e n)\<^sup>*\<^sup>* n (fold (chan_step cl) es n)"
proof (induction es arbitrary: n)
  case (Cons e es)
  then have "\<exists>e'. chan_name e' \<in> U \<and> chan_step cl e n = chan_step cl e' n" by auto
  with Cons show ?case by (auto intro: converse_rtranclp_into_rtranclp)
qed simp


text \<open>Membership depends on the order of the joins. A join announcement for a channel the
  receiver has not joined yet is dropped, and joining it later asks nobody: the node then does
  not count the peer among the members of the channel, although both have joined it, and
  announces only its own membership.\<close>

theorem announcement_before_join_is_lost:
  assumes "length (hashChannelName cl x) = 32" "\<not> isChannelSubscribed n (hashChannelName cl x)"
    and "n' = JoinChannel cl x (processChannelUpdate r (channel_update_payload OpCodeJoin (hashChannelName cl x)) n)"
  shows "GetPeersInChannel cl x n' = GetPeersInChannel cl x n \<and>
    (x \<notin> set (Channels (n_Config n)) \<longrightarrow> n_tasks n' = n_tasks n @
       map (\<lambda>pid. TSendAppFrame pid AppFrameTypeChannelUpdate
              (channel_update_payload OpCodeJoin (hashChannelName cl x))) (ps_IDs (n_Peers n)))"
proof -
  let ?h = "hashChannelName cl x"
  have p: "channel_update_payload OpCodeJoin ?h = OpCodeJoin # ?h"
    using assms(1) replicate_Suc [of 32 "0 :: byte"] by (simp add: channel_update_payload_def Let_def copy_into_def)
  have "processChannelUpdate r (channel_update_payload OpCodeJoin ?h) n = n"
    using assms(1,2) by (simp add: p processChannelUpdate_def isChannelSubscribed_def subslice_def Let_def)
  with assms(3) show ?thesis by (simp add: JoinChannel_def Let_def GetPeersInChannel_def cong: option.case_cong)
qed

subsection \<open>Witnesses\<close>

text \<open>The demo node with a TCP peer, a session, a receive callback and one channel.\<close>

definition demo_chan :: bytes where
  "demo_chan = replicate 32 7"

definition demo_tcp_node :: "(nat, nat) Node" where
  "demo_tcp_node = demo_node\<lparr>onReceive := True, localChannelSet := [(demo_chan, ())],
     n_world := \<lparr>w_sess = (\<lambda>_. demo_session), w_closed = []\<rparr>,
     n_pheap := (\<lambda>r. (n_pheap demo_node r)\<lparr>Transport := ''tcp'', Conn := Some 4\<rparr>)\<rparr>"

lemmas demo_tcp_defs = demo_tcp_node_def demo_node_def fresh_node_def new_peer_def demo_env_def demo_session_def

lemma demo_tcp_peer:
  "peer_of_addr demo_tcp_node (UDPAddr ''10.0.0.1:9'') = Some (demo_peer_id, 0)"
  "PSession (n_pheap demo_tcp_node 0) = Some 0" "w_sess (n_world demo_tcp_node) 0 = demo_session"
  "isChannelSubscribed demo_tcp_node demo_chan" "onReceive demo_tcp_node" "e_noise demo_env = demo_noise"
  "length demo_chan = 32" "gm_wf (addrToPeer demo_tcp_node)" "n_out demo_tcp_node = []"
  by (simp_all add: demo_tcp_defs peer_of_addr_def gm_get_def ps_Get_def isChannelSubscribed_def gm_has_def demo_chan_def gm_wf_def)

lemma demo_aead: "aead_overhead demo_noise"
  by (simp add: aead_overhead_def demo_noise_def)

theorem send_app_frame_writes_witness:
  "\<exists>n' r s path k cts. sendAppFrame demo_env demo_peer_id 2 [5] demo_tcp_node = (None, n') \<and>
     ps_Get (n_Peers demo_tcp_node) demo_peer_id = Some r \<and>
     encrypt_all demo_noise (w_sess (n_world demo_tcp_node) s) (map frame_of (fragments [2, 5])) = map Inr cts \<and>
     n_out n' = map (\<lambda>ct. Wrote (path_write path k (BuildDataPacket ct)) True) cts"
proof -
  have "demo_peer_id \<noteq> Node_ID demo_tcp_node"
    by (simp add: demo_tcp_defs demo_peer_id_def Node_ID_def NodeID_String_def demo_identity_def hex_EncodeToString_def)
      code_simp
  moreover have "choose_path demo_env 0 demo_tcp_node = (Inr (PathTCP 4), demo_tcp_node)" "ps_Get (n_Peers demo_tcp_node) demo_peer_id = Some 0"
    by (simp_all add: choose_path_def GetTransportInfo_def demo_tcp_defs ps_Get_def gm_get_def)
  ultimately have "\<exists>n'. sendAppFrame demo_env demo_peer_id 2 [5] demo_tcp_node = (None, n')"
    using demo_tcp_peer(2,3,6)
    by (simp add: sendAppFrame_def GetSession_def Let_def MaxPayloadSize_def sendFrame_def Session_Encrypt_def demo_session_def
        demo_noise_def send_on_def writeTCPPacket_def do_write_def)
      (simp add: demo_env_def)
  then obtain n' where n': "sendAppFrame demo_env demo_peer_id 2 [5] demo_tcp_node = (None, n')" ..
  have "aead_overhead (e_noise demo_env)" by (simp add: demo_tcp_peer demo_aead)
  from send_app_frame_writes [OF n' this] n' show ?thesis by (auto simp: demo_tcp_peer)
qed

lemma demo_receiving:
  assumes "encrypt_all demo_noise demo_session ps = map Inr cts"
  shows "receiving demo_env (UDPAddr ''10.0.0.1:9'') demo_peer_id 0 0 cts ps demo_tcp_node"
  using decrypt_encrypt_all [OF demo_cipher_pair _ _ refl assms, of 0 demo_session]
  by (simp add: receiving_def demo_tcp_peer demo_session_def)

lemma demo_encrypts: "\<exists>cts. encrypt_all demo_noise \<lparr>sendCipher = Some c, recvCipher = x, remoteStaticKey = y, handshakeHash = z\<rparr> ps = map Inr cts"
proof (induction ps arbitrary: c)
  case (Cons p ps)
  from Cons [of "Suc c"] obtain cts where
    "encrypt_all demo_noise \<lparr>sendCipher = Some (Suc c), recvCipher = x, remoteStaticKey = y, handshakeHash = z\<rparr> ps = map Inr cts" ..
  then show ?case by (intro exI [of _ "(of_nat c # p) # cts"]) (simp add: Session_Encrypt_def demo_noise_def)
qed simp

lemma demo_single:
  "receiving demo_env (UDPAddr ''10.0.0.1:9'') demo_peer_id 0 0 [0 # FrameTypeSingle # 2 # demo_chan @ [9]]
     (map frame_of (fragments (AppFrameTypeUserWithChannel # demo_chan @ [9]))) demo_tcp_node"
  by (rule demo_receiving)
    (simp add: fragments_cases demo_tcp_peer MaxPayloadSize_def Session_Encrypt_def demo_session_def demo_noise_def
      AppFrameTypeUserWithChannel_def)

theorem fragments_reassembled_witness:
  "n_out (recv_all demo_env (UDPAddr ''10.0.0.1:9'') [(5, 0 # FrameTypeSingle # 2 # demo_chan @ [9])] demo_tcp_node) =
     [CallReceive demo_peer_id [9]]"
  using fragments_reassembled [OF _ demo_single, of "[5]"] by (simp add: demo_tcp_peer MaxReassemblySize_def)

theorem oversize_message_lost_witness:
  "\<exists>cts. encrypt_all demo_noise demo_session (map frame_of (fragments (replicate (Suc MaxReassemblySize) 2))) = map Inr cts \<and>
     n_out (recv_all demo_env (UDPAddr ''10.0.0.1:9'') (zip (map (\<lambda>_. 5) cts) cts) demo_tcp_node) = []"
proof -
  obtain cts where e: "encrypt_all demo_noise demo_session (map frame_of (fragments (replicate (Suc MaxReassemblySize) 2))) = map Inr cts"
    using demo_encrypts unfolding demo_session_def by blast
  have "MaxReassemblySize < length (replicate (Suc MaxReassemblySize) (2 :: byte))" unfolding length_replicate by simp
  from oversize_message_lost [OF _ demo_receiving [OF e] this, of "map (\<lambda>_. 5) cts"] e show ?thesis
    unfolding demo_tcp_peer by auto
qed


theorem one_rehandshake_in_flight_witness:
  "rehandshakes demo_peer_id 0 (recv_all demo_env (UDPAddr ''10.0.0.1:9'') (replicate 50 (5, [])) demo_tcp_node) \<le> 1"
  using one_rehandshake_in_flight [OF demo_tcp_peer(8,1), of demo_env "replicate 50 (5, [])"]
  by (simp add: rehandshakes_def demo_tcp_defs)


theorem announcement_before_join_is_lost_witness:
  "GetPeersInChannel demo_crypto ''a'' (JoinChannel demo_crypto ''a'' (processChannelUpdate 0
     (channel_update_payload OpCodeJoin (hashChannelName demo_crypto ''a'')) demo_node)) = []"
proof -
  have "length (hashChannelName demo_crypto ''a'') = 32" "\<not> isChannelSubscribed demo_node (hashChannelName demo_crypto ''a'')"
    by (simp_all add: hashChannelName_def demo_crypto_def isChannelSubscribed_def demo_node_def fresh_node_def
        WithNetworkPassword_def DefaultConfig_def gm_has_def)
  from announcement_before_join_is_lost [OF this refl, of 0] show ?thesis
    by (simp add: GetPeersInChannel_def demo_node_def fresh_node_def HasRemoteChannel_def new_peer_def gm_has_def
        split: option.splits)
qed

end
