(* ===== verification/Node_Handshake.thy ===== *)
theory Node_Handshake
  imports Node_Data
begin

text \<open>
  The handshake handler of a node (\<open>node/handshake.go\<close>) with \<open>registerRelayCandidate\<close> of
  \<open>node/relay_handler.go\<close>: it answers handshake messages, and once the Noise library has produced
  a session it adds the peer under the hash of its static key, or gives an existing peer the new
  session and transport.

  A pending handshake is shared by pointer between its map entry and the handler, so the state
  \<open>ProcessMessage\<close> leaves behind is stored back under its key. The session that is created gets
  the next free reference. The goroutines for discovery, channel synchronisation and the
  connected callback are recorded in the order they are started.
\<close>

subsection \<open>Operations\<close>

definition registerRelayCandidate :: "gotime \<Rightarrow> string \<Rightarrow> netaddr \<Rightarrow> ('h, 'c) Node \<Rightarrow> ('h, 'c) Node" where
  "registerRelayCandidate now peerID remoteAddr n =
     (case relayManager n of None \<Rightarrow> n
      | Some rm \<Rightarrow>
          if \<not> is_udp_addr remoteAddr then n
          else let addrStr = addr_String remoteAddr
            in if gm_get (relayAddrSet n) addrStr = Some True then n
               else n\<lparr>relayAddrSet := gm_put addrStr True (relayAddrSet n),
                      relayManager := Some (AddRelay now peerID remoteAddr rm)\<rparr>)"

definition upgrade_peer ::
    "gotime \<Rightarrow> pref \<Rightarrow> netaddr \<Rightarrow> conn option \<Rightarrow> string \<Rightarrow> sref \<Rightarrow> ('h, 'c) Node \<Rightarrow> ('h, 'c) Node" where
  "upgrade_peer now r remoteAddr c transport s n =
     (case UpgradeTransport now (n_world n) (n_pheap n r) (Some remoteAddr) c transport (Some s) of
        (w, p) \<Rightarrow> n\<lparr>n_world := w, n_pheap := (n_pheap n)(r := p)\<rparr>)"

definition handleExistingPeer ::
    "gotime \<Rightarrow> pref \<Rightarrow> conn option \<Rightarrow> netaddr \<Rightarrow> string \<Rightarrow> sref \<Rightarrow> string \<Rightarrow> string \<Rightarrow> string \<Rightarrow>
       ('h, 'c) Node \<Rightarrow> ('h, 'c) Node" where
  "handleExistingPeer now r c remoteAddr transport s addrStr peerID key n =
     (if transport = ''tcp'' \<and> Transport (n_pheap n r) \<noteq> ''tcp''
      then let n1 = upgrade_peer now r remoteAddr c transport s n;
               n2 = n1\<lparr>addrToPeer := gm_put addrStr peerID (addrToPeer n1),
                       pendingHandshakes := gm_del key (pendingHandshakes n1)\<rparr>;
               n3 = registerRelayCandidate now peerID remoteAddr n2
           in spawn (TSyncChannels peerID) n3
      else let n1 = (case gm_get (relayPendingTarget n) addrStr of
                       Some target \<Rightarrow>
                         (upd_peer r (SetLinkMode ''relay'' target) n)
                           \<lparr>relayPendingTarget := gm_del addrStr (relayPendingTarget n)\<rparr>
                     | None \<Rightarrow>
                         if gm_get (relayInbound n) addrStr = Some True
                         then (upd_peer r (SetLinkMode ''relay'' None) n)
                                \<lparr>relayInbound := gm_del addrStr (relayInbound n)\<rparr>
                         else n);
               n2 = n1\<lparr>pendingHandshakes := gm_del key (pendingHandshakes n1)\<rparr>;
               n3 = upgrade_peer now r remoteAddr c transport s n2;
               n4 = upd_peer r (UpdateLastSeen now) n3
           in registerRelayCandidate now peerID remoteAddr n4)"

definition peer_id_of_key :: "crypto_lib \<Rightarrow> bytes option \<Rightarrow> string" where
  "peer_id_of_key cl remotePub =
     hex_EncodeToString (take 16 (Sum256 cl (case remotePub of None \<Rightarrow> [] | Some k \<Rightarrow> k)))"

definition add_new_peer ::
    "gotime \<Rightarrow> conn option \<Rightarrow> netaddr \<Rightarrow> string \<Rightarrow> bytes option \<Rightarrow> sref \<Rightarrow> string \<Rightarrow> string \<Rightarrow> string \<Rightarrow>
       ('h, 'c) Node \<Rightarrow> ('h, 'c) Node" where
  "add_new_peer now c remoteAddr transport response s addrStr peerID key n =
     (let n1 = n\<lparr>pendingHandshakes := gm_del key (pendingHandshakes n)\<rparr>;
          pend = gm_get (relayPendingTarget n1) addrStr;
          inbound = (gm_get (relayInbound n1) addrStr = Some True);
          linkMode = (if pend \<noteq> None \<or> inbound then ''relay'' else ''p2p'');
          relayTarget = (case pend of None \<Rightarrow> None | Some target \<Rightarrow> target);
          n2 = (if pend \<noteq> None then n1\<lparr>relayPendingTarget := gm_del addrStr (relayPendingTarget n1)\<rparr> else n1);
          n3 = (if inbound then n2\<lparr>relayInbound := gm_del addrStr (relayInbound n2)\<rparr> else n2);
          onConnected = onPeerConnected n3
      in if 0 < MaxPeers (n_Config n3) \<and> MaxPeers (n_Config n3) \<le> int (ps_Count (n_Peers n3)) then n3
         else
           let r = n_pfresh n3;
               p = (new_peer peerID)\<lparr>Addr := Some remoteAddr, OriginalAddr := addrStr, Conn := c, Transport := transport,
                      LinkMode := linkMode, RelayTarget := relayTarget, PSession := Some s, LastSeen := now\<rparr>;
               n4 = n3\<lparr>n_pheap := (n_pheap n3)(r := p), n_pfresh := Suc r\<rparr>;
               n5 = n4\<lparr>n_Peers := ps_Add (n_pheap n4) r (n_Peers n4)\<rparr>;
               n6 = upd_metrics IncConnectionsTotal (upd_metrics IncHandshakesTotal n5);
               n7 = n6\<lparr>addrToPeer := gm_put addrStr peerID (addrToPeer n6)\<rparr>;
               n8 = registerRelayCandidate now peerID remoteAddr n7;
               n9 = spawn (TSyncChannels peerID) (spawn (TSendDiscovery r) n8);
               notifyDelay = (if transport = ''udp'' \<and> response \<noteq> None then 200 * millisecond else 0)
           in if onConnected then emit_out (CallConnected peerID notifyDelay) n9 else n9)"

definition session_made ::
    "gotime \<Rightarrow> crypto_lib \<Rightarrow> conn option \<Rightarrow> netaddr \<Rightarrow> string \<Rightarrow> bytes option \<Rightarrow> 'c Session \<Rightarrow>
       ('h, 'c) Node \<Rightarrow> ('h, 'c) Node" where
  "session_made now cl c remoteAddr transport response session n =
     (let addrStr = addr_String remoteAddr; key = stateKey transport addrStr; s = n_sfresh n;
          n1 = n\<lparr>n_world := (n_world n)\<lparr>w_sess := (w_sess (n_world n))(s := session)\<rparr>, n_sfresh := Suc s\<rparr>;
          peerID = peer_id_of_key cl (RemotePublicKey session)
      in case ps_Get (n_Peers n1) peerID of
           Some r \<Rightarrow> handleExistingPeer now r c remoteAddr transport s addrStr peerID key n1
         | None \<Rightarrow> add_new_peer now c remoteAddr transport response s addrStr peerID key n1)"

text \<open>The handshake a message belongs to: the pending one, or a new one as responder.\<close>

definition find_handshake ::
    "('h, 'c) env \<Rightarrow> gotime \<Rightarrow> string \<Rightarrow> ('h, 'c) Node \<Rightarrow> noise_error + 'h HandshakeState \<times> ('h, 'c) Node" where
  "find_handshake env now key n =
     (case gm_get (pendingHandshakes n) key of
        Some hs \<Rightarrow> Inr (hs, n)
      | None \<Rightarrow>
          (case NewResponderHandshake (e_noise env) now (NoisePrivateKey (n_Identity n))
                  (NoisePublicKey (n_Identity n)) (string_bytes (NetworkPassword (n_Config n))) of
             Inl e \<Rightarrow> Inl e
           | Inr hs \<Rightarrow> Inr (hs, n\<lparr>pendingHandshakes := gm_put key hs (pendingHandshakes n)\<rparr>)))"

definition send_reply ::
    "('h, 'c) env \<Rightarrow> conn option \<Rightarrow> netaddr \<Rightarrow> string \<Rightarrow> bytes option \<Rightarrow> ('h, 'c) Node \<Rightarrow> ('h, 'c) Node" where
  "send_reply env c remoteAddr transport response n =
     (case response of None \<Rightarrow> n
      | Some msg \<Rightarrow> snd (sendRaw env c (Some remoteAddr) transport (BuildHandshakePacket msg) n))"

definition processHandshake ::
    "('h, 'c) env \<Rightarrow> gotime \<Rightarrow> conn option \<Rightarrow> netaddr \<Rightarrow> string \<Rightarrow> bytes \<Rightarrow> ('h, 'c) Node \<Rightarrow> ('h, 'c) Node" where
  "processHandshake env now c remoteAddr transport payload n =
     (let addrStr = addr_String remoteAddr; key = stateKey transport addrStr
      in case find_handshake env now key n of
           Inl e \<Rightarrow> n
         | Inr (hs, n1) \<Rightarrow>
             (case ProcessMessage (e_noise env) hs payload of
                (Inl e, hs') \<Rightarrow>
                  let n2 = n1\<lparr>pendingHandshakes := gm_put key hs' (pendingHandshakes n1)\<rparr>
                  in if gm_has (addrToPeer n2) addrStr then n2
                     else (upd_metrics IncHandshakesFailed n2)\<lparr>pendingHandshakes := gm_del key (pendingHandshakes n2)\<rparr>
              | (Inr (response, session), hs') \<Rightarrow>
                  let n2 = n1\<lparr>pendingHandshakes := gm_put key hs' (pendingHandshakes n1)\<rparr>;
                      n3 = send_reply env c remoteAddr transport response n2
                  in case session of None \<Rightarrow> n3
                     | Some sess \<Rightarrow> session_made now (e_crypto env) c remoteAddr transport response sess n3))"

subsection \<open>Facts\<close>

lemma registerRelayCandidate_fields [simp]:
  "n_Config (registerRelayCandidate now p a n) = n_Config n" "n_Peers (registerRelayCandidate now p a n) = n_Peers n"
  "n_pheap (registerRelayCandidate now p a n) = n_pheap n" "n_pfresh (registerRelayCandidate now p a n) = n_pfresh n"
  "n_world (registerRelayCandidate now p a n) = n_world n" "n_sfresh (registerRelayCandidate now p a n) = n_sfresh n"
  "addrToPeer (registerRelayCandidate now p a n) = addrToPeer n"
  "pendingHandshakes (registerRelayCandidate now p a n) = pendingHandshakes n"
  "n_out (registerRelayCandidate now p a n) = n_out n" "n_tasks (registerRelayCandidate now p a n) = n_tasks n"
  "onReceive (registerRelayCandidate now p a n) = onReceive n" "localChannelSet (registerRelayCandidate now p a n) = localChannelSet n"
  "n_Identity (registerRelayCandidate now p a n) = n_Identity n"
  by (simp_all add: registerRelayCandidate_def Let_def split: option.splits)

lemma upgrade_peer_fields [simp]:
  "n_Config (upgrade_peer now r a c t s n) = n_Config n" "n_Peers (upgrade_peer now r a c t s n) = n_Peers n"
  "n_pfresh (upgrade_peer now r a c t s n) = n_pfresh n" "n_sfresh (upgrade_peer now r a c t s n) = n_sfresh n"
  "addrToPeer (upgrade_peer now r a c t s n) = addrToPeer n"
  "pendingHandshakes (upgrade_peer now r a c t s n) = pendingHandshakes n"
  "n_out (upgrade_peer now r a c t s n) = n_out n" "n_tasks (upgrade_peer now r a c t s n) = n_tasks n"
  "ID (n_pheap (upgrade_peer now r a c t s n) q) = ID (n_pheap n q)"
  by (simp_all add: upgrade_peer_def case_prod_beta)

text \<open>A handshake message has one of three outcomes.\<close>

definition handshake_for :: "('h, 'c) env \<Rightarrow> gotime \<Rightarrow> string \<Rightarrow> ('h, 'c) Node \<Rightarrow> 'h HandshakeState \<Rightarrow> bool" where
  "handshake_for env now key n hs \<longleftrightarrow> gm_get (pendingHandshakes n) key = Some hs \<or>
     gm_get (pendingHandshakes n) key = None \<and>
     NewResponderHandshake (e_noise env) now (NoisePrivateKey (n_Identity n)) (NoisePublicKey (n_Identity n))
       (string_bytes (NetworkPassword (n_Config n))) = Inr hs"

lemma find_handshake_Inr:
  assumes "find_handshake env now key n = Inr (hs, n1)"
  obtains y where "n1 = n\<lparr>pendingHandshakes := y\<rparr>" "gm_wf (pendingHandshakes n) \<longrightarrow> gm_wf y" "handshake_for env now key n hs"
proof (cases "gm_get (pendingHandshakes n) key")
  case None
  with assms that [of "gm_put key hs (pendingHandshakes n)"] show thesis
    by (auto simp: find_handshake_def handshake_for_def split: sum.splits)
next
  case (Some h)
  with assms that [of "pendingHandshakes n"] show thesis by (auto simp: find_handshake_def handshake_for_def)
qed

lemma send_reply_only_out: "\<exists>out. send_reply env c a t response n = n\<lparr>n_out := out\<rparr>"
proof (cases response)
  case None
  then show ?thesis by (intro exI [of _ "n_out n"]) (simp add: send_reply_def)
qed (simp add: send_reply_def sendRaw_only_out)

text \<open>A message the handshake accepts.\<close>

lemma processHandshake_accept:
  assumes "handshake_for env now (stateKey t (addr_String a)) n hs"
    and "ProcessMessage (e_noise env) hs payload = (Inr (response, session), hs')"
  obtains y where "gm_wf (pendingHandshakes n) \<longrightarrow> gm_wf y" "gm_get y (stateKey t (addr_String a)) = Some hs'"
    "processHandshake env now c a t payload n =
       (case session of None \<Rightarrow> send_reply env c a t response (n\<lparr>pendingHandshakes := y\<rparr>)
        | Some sess \<Rightarrow> session_made now (e_crypto env) c a t response sess
            (send_reply env c a t response (n\<lparr>pendingHandshakes := y\<rparr>)))"
proof -
  let ?key = "stateKey t (addr_String a)"
  obtain n1 where find: "find_handshake env now ?key n = Inr (hs, n1)"
    using assms(1) by (auto simp: handshake_for_def find_handshake_def)
  obtain y where n1: "n1 = n\<lparr>pendingHandshakes := y\<rparr>" "gm_wf (pendingHandshakes n) \<longrightarrow> gm_wf y"
    by (rule find_handshake_Inr [OF find])
  show thesis
    by (rule that [of "gm_put ?key hs' y"]) (use n1 find assms(2) in \<open>simp_all add: processHandshake_def Let_def split: option.splits\<close>)
qed

lemma processHandshake_cases:
  fixes env now c a t payload n
  obtains "processHandshake env now c a t payload n = n"
  | x out m where "processHandshake env now c a t payload n = n\<lparr>pendingHandshakes := x, n_out := out, n_metrics := m\<rparr>"
      "gm_wf (pendingHandshakes n) \<longrightarrow> gm_wf x"
  | hs hs' response sess x out where "handshake_for env now (stateKey t (addr_String a)) n hs"
      "ProcessMessage (e_noise env) hs payload = (Inr (response, Some sess), hs')"
      "processHandshake env now c a t payload n =
         session_made now (e_crypto env) c a t response sess (n\<lparr>pendingHandshakes := x, n_out := out\<rparr>)"
      "gm_wf (pendingHandshakes n) \<longrightarrow> gm_wf x"
proof (cases "find_handshake env now (stateKey t (addr_String a)) n")
  case (Inl e)
  then have "processHandshake env now c a t payload n = n" by (simp add: processHandshake_def Let_def)
  then show thesis by (rule that(1))
next
  case (Inr hn)
  let ?key = "stateKey t (addr_String a)" and ?n' = "processHandshake env now c a t payload n"
  obtain hs n1 where hn: "hn = (hs, n1)" by (cases hn)
  obtain y where n1: "n1 = n\<lparr>pendingHandshakes := y\<rparr>" "gm_wf (pendingHandshakes n) \<longrightarrow> gm_wf y"
    and hs: "handshake_for env now ?key n hs"
    by (rule find_handshake_Inr [OF Inr [unfolded hn]])
  obtain res hs' where pm: "ProcessMessage (e_noise env) hs payload = (res, hs')" by (metis surj_pair)
  show thesis
  proof (cases res)
    case (Inl e)
    have "?n' = n\<lparr>pendingHandshakes := gm_put ?key hs' y, n_out := n_out n, n_metrics := n_metrics n\<rparr> \<or>
        ?n' = n\<lparr>pendingHandshakes := gm_del ?key (gm_put ?key hs' y), n_out := n_out n, n_metrics := IncHandshakesFailed (n_metrics n)\<rparr>"
      using Inr hn pm Inl n1(1) by (simp add: processHandshake_def Let_def upd_metrics_def)
    then show thesis using that(2) n1(2) by (metis gm_wf_put gm_wf_del)
  next
    case (Inr rs)
    obtain response session where rs: "rs = (response, session)" by (cases rs)
    obtain y where w: "gm_wf (pendingHandshakes n) \<longrightarrow> gm_wf y" and n': "?n' =
       (case session of None \<Rightarrow> send_reply env c a t response (n\<lparr>pendingHandshakes := y\<rparr>)
        | Some sess \<Rightarrow> session_made now (e_crypto env) c a t response sess
            (send_reply env c a t response (n\<lparr>pendingHandshakes := y\<rparr>)))"
      by (rule processHandshake_accept [OF hs pm [unfolded Inr rs]])
    obtain out where "send_reply env c a t response (n\<lparr>pendingHandshakes := y\<rparr>) = n\<lparr>pendingHandshakes := y, n_out := out\<rparr>"
      using send_reply_only_out by blast
    then have "?n' = n\<lparr>pendingHandshakes := y, n_out := out, n_metrics := n_metrics n\<rparr> \<or>
        (\<exists>sess. session = Some sess \<and>
           ?n' = session_made now (e_crypto env) c a t response sess (n\<lparr>pendingHandshakes := y, n_out := out\<rparr>))"
      using n' by (cases session) simp_all
    then show thesis using that(2,3) hs pm Inr rs w by blast
  qed
qed

definition full :: "('h, 'c) Node \<Rightarrow> bool" where
  "full n \<longleftrightarrow> 0 < MaxPeers (n_Config n) \<and> MaxPeers (n_Config n) \<le> int (ps_Count (n_Peers n))"

lemma add_new_peer_full:
  assumes "full n" and n': "n' = add_new_peer now c a t response s addrStr pid key n"
  shows "n_Peers n' = n_Peers n" "n_pheap n' = n_pheap n" "n_pfresh n' = n_pfresh n" "n_world n' = n_world n"
    "addrToPeer n' = addrToPeer n" "pendingHandshakes n' = gm_del key (pendingHandshakes n)" "n_out n' = n_out n"
    "n_tasks n' = n_tasks n" "n_Config n' = n_Config n"
  using assms(1) by (simp_all add: n' full_def add_new_peer_def Let_def)

text \<open>The peer object a handshake creates.\<close>

definition handshake_peer ::
    "gotime \<Rightarrow> conn option \<Rightarrow> netaddr \<Rightarrow> string \<Rightarrow> sref \<Rightarrow> string \<Rightarrow> string \<Rightarrow> netaddr option \<Rightarrow> Peer" where
  "handshake_peer now c a t s pid linkMode target = (new_peer pid)\<lparr>Addr := Some a, OriginalAddr := addr_String a, Conn := c,
     Transport := t, LinkMode := linkMode, RelayTarget := target, PSession := Some s, LastSeen := now\<rparr>"

lemma ID_new_peer: "ID (new_peer pid) = pid"
  by (simp add: new_peer_def)

definition link_mode :: "('h, 'c) Node \<Rightarrow> string \<Rightarrow> string" where
  "link_mode n addrStr =
     (if gm_has (relayPendingTarget n) addrStr \<or> gm_get (relayInbound n) addrStr = Some True then ''relay'' else ''p2p'')"

definition link_target :: "('h, 'c) Node \<Rightarrow> string \<Rightarrow> netaddr option" where
  "link_target n addrStr = (case gm_get (relayPendingTarget n) addrStr of None \<Rightarrow> None | Some target \<Rightarrow> target)"

lemma add_new_peer_ok:
  assumes "\<not> full n" and n': "n' = add_new_peer now c a t response s (addr_String a) pid key n"
  shows "n_Peers n' = gm_put pid (n_pfresh n) (n_Peers n)" "n_pfresh n' = Suc (n_pfresh n)" "n_world n' = n_world n"
    "addrToPeer n' = gm_put (addr_String a) pid (addrToPeer n)" "pendingHandshakes n' = gm_del key (pendingHandshakes n)"
    "n_out n' = n_out n @ (if onPeerConnected n
       then [CallConnected pid (if t = ''udp'' \<and> response \<noteq> None then 200 * millisecond else 0)] else [])"
    "n_tasks n' = n_tasks n @ [TSendDiscovery (n_pfresh n), TSyncChannels pid]" "n_Config n' = n_Config n"
    "n_pheap n' = (n_pheap n)(n_pfresh n := handshake_peer now c a t s pid (link_mode n (addr_String a)) (link_target n (addr_String a)))"
    "onReceive n' = onReceive n" "localChannelSet n' = localChannelSet n"
  using assms(1)
  by (auto simp: n' full_def add_new_peer_def Let_def ps_Add_def emit_out_def handshake_peer_def spawn_def
      link_mode_def link_target_def gm_has_get ID_new_peer)

lemma handleExistingPeer_fields:
  assumes n': "n' = handleExistingPeer now r c a t s addrStr pid key n"
  shows "n_Peers n' = n_Peers n" "n_pfresh n' = n_pfresh n" "pendingHandshakes n' = gm_del key (pendingHandshakes n)"
    "n_out n' = n_out n" "ID (n_pheap n' q) = ID (n_pheap n q)" "n_Config n' = n_Config n"
    "addrToPeer n' = (if t = ''tcp'' \<and> Transport (n_pheap n r) \<noteq> ''tcp'' then gm_put addrStr pid (addrToPeer n) else addrToPeer n)"
  by (simp_all add: n' handleExistingPeer_def Let_def SetLinkMode_def UpdateLastSeen_def split: option.splits)

lemma node_wf_session_made:
  assumes "node_wf n" and n': "n' = session_made now cl c a t response sess n"
  shows "node_wf n'"
proof -
  let ?s = "n_sfresh n" and ?pid = "peer_id_of_key cl (RemotePublicKey sess)" and ?key = "stateKey t (addr_String a)"
  let ?n1 = "n\<lparr>n_world := (n_world n)\<lparr>w_sess := (w_sess (n_world n))(?s := sess)\<rparr>, n_sfresh := Suc ?s\<rparr>"
  note w = node_wfD [OF assms(1)]
  show ?thesis
  proof (cases "ps_Get (n_Peers n) ?pid")
    case (Some r)
    then have "n' = handleExistingPeer now r c a t ?s (addr_String a) ?pid ?key ?n1"
      by (simp add: n' session_made_def Let_def)
    note f = handleExistingPeer_fields [OF this]
    show ?thesis unfolding node_wf_def f using w Some by (auto simp: gomap_simps)
  next
    case None
    then have e: "n' = add_new_peer now c a t response ?s (addr_String a) ?pid ?key ?n1"
      by (simp add: n' session_made_def Let_def)
    show ?thesis
    proof (cases "full ?n1")
      case True
      note f = add_new_peer_full [OF True e]
      show ?thesis unfolding node_wf_def f using w by simp
    next
      case False
      note f = add_new_peer_ok [OF False e]
      show ?thesis unfolding node_wf_def f(1-5) f(9) using w None
        by (auto simp: ps_Get_def handshake_peer_def new_peer_def less_Suc_eq split: if_splits)
    qed
  qed
qed

lemma node_wf_pending: "node_wf n \<Longrightarrow> gm_wf (pendingHandshakes n) \<longrightarrow> gm_wf x \<Longrightarrow> node_wf (n\<lparr>pendingHandshakes := x, n_out := out\<rparr>)"
  by (simp add: node_wf_def)

lemma node_wf_processHandshake:
  assumes "node_wf n"
  shows "node_wf (processHandshake env now c a t payload n)"
proof (cases rule: processHandshake_cases [of env now c a t payload n])
  case (2 x out m)
  then show ?thesis using assms by (simp add: node_wf_def)
next
  case (3 hs hs' response sess x out)
  show ?thesis unfolding 3(3) by (rule node_wf_session_made [OF node_wf_pending [OF assms 3(4)] refl])
qed (use assms in simp)

text \<open>Which peers a handshake message can add: \<open>n'\<close> is \<open>n\<close> with a peer for the session \<open>sess\<close>.\<close>

definition peer_added ::
    "crypto_lib \<Rightarrow> gotime \<Rightarrow> conn option \<Rightarrow> netaddr \<Rightarrow> string \<Rightarrow> 'c Session \<Rightarrow> ('h, 'c) Node \<Rightarrow> ('h, 'c) Node \<Rightarrow> bool" where
  "peer_added cl now c a t sess n n' \<longleftrightarrow> \<not> full n \<and>
     (let pid = peer_id_of_key cl (remoteStaticKey sess); r = n_pfresh n; s = n_sfresh n in
        ps_Get (n_Peers n) pid = None \<and> n_Peers n' = gm_put pid r (n_Peers n) \<and>
        n_pheap n' r = handshake_peer now c a t s pid (link_mode n (addr_String a)) (link_target n (addr_String a)) \<and>
        w_sess (n_world n') s = sess \<and> gm_get (addrToPeer n') (addr_String a) = Some pid \<and>
        gm_get (pendingHandshakes n') (stateKey t (addr_String a)) = None \<and>
        n_tasks n' = n_tasks n @ [TSendDiscovery r, TSyncChannels pid])"

lemma processHandshake_Peers:
  fixes env now c a t payload n
  defines "n' \<equiv> processHandshake env now c a t payload n"
  shows "n_Config n' = n_Config n \<and> (n_Peers n' = n_Peers n \<or>
    (\<exists>hs hs' response sess. handshake_for env now (stateKey t (addr_String a)) n hs \<and>
       ProcessMessage (e_noise env) hs payload = (Inr (response, Some sess), hs') \<and>
       peer_added (e_crypto env) now c a t sess n n'))"
proof (cases rule: processHandshake_cases [of env now c a t payload n])
  case (3 hs hs' response sess x out)
  let ?s = "n_sfresh n" and ?pid = "peer_id_of_key (e_crypto env) (remoteStaticKey sess)" and ?key = "stateKey t (addr_String a)"
  let ?n1 = "n\<lparr>pendingHandshakes := x, n_out := out,
     n_world := (n_world n)\<lparr>w_sess := (w_sess (n_world n))(?s := sess)\<rparr>, n_sfresh := Suc ?s\<rparr>"
  show ?thesis
  proof (cases "ps_Get (n_Peers n) ?pid")
    case (Some r)
    then have "n' = handleExistingPeer now r c a t ?s (addr_String a) ?pid ?key ?n1"
      using 3(3) by (simp add: n'_def session_made_def Let_def RemotePublicKey_def)
    from handleExistingPeer_fields(1,6) [OF this] show ?thesis by simp
  next
    case None
    then have e: "n' = add_new_peer now c a t response ?s (addr_String a) ?pid ?key ?n1"
      using 3(3) by (simp add: n'_def session_made_def Let_def RemotePublicKey_def)
    show ?thesis
    proof (cases "full n")
      case True
      then have "full ?n1" by (simp add: full_def)
      from add_new_peer_full(1,9) [OF this e] show ?thesis by simp
    next
      case False
      then have "\<not> full ?n1" by (simp add: full_def)
      note f = add_new_peer_ok [OF this e]
      have l: "link_mode ?n1 = link_mode n" "link_target ?n1 = link_target n"
        by (intro ext, simp add: link_mode_def link_target_def)+
      have "peer_added (e_crypto env) now c a t sess n n'"
        using f None False l by (simp add: peer_added_def Let_def)
      then show ?thesis using f(8) 3(1,2) by auto
    qed
  qed
qed (simp_all add: n'_def)

subsection \<open>Properties\<close>

text \<open>C6: a handshake message keeps the node's tables consistent, never removes a peer and adds at
  most one. A peer appears only if the library completed the handshake pending for that
  transport and address (or a new one as responder) with this message. Its ID is then the hash
  of the static key the library authenticated, as 32 hex digits; its session is the one just
  made, the address leads to it, the handshake is no longer pending, and the goroutines that
  ask for discovery and announce the channels are started.\<close>

theorem handshake_peer_authentic:
  assumes "node_wf n" "\<And>b. length (Sum256 (e_crypto env) b) = 32"
    and "n' = processHandshake env now c a t payload n" "ps_Get (n_Peers n') pid \<noteq> ps_Get (n_Peers n) pid"
  shows "node_wf n' \<and> ps_Get (n_Peers n) pid = None \<and> length pid = 32 \<and>
    (\<exists>hs hs' response sess. handshake_for env now (stateKey t (addr_String a)) n hs \<and>
       ProcessMessage (e_noise env) hs payload = (Inr (response, Some sess), hs') \<and>
       pid = peer_id_of_key (e_crypto env) (remoteStaticKey sess) \<and>
       (\<exists>r s. peer_of_addr n' a = Some (pid, r) \<and> PSession (n_pheap n' r) = Some s \<and> w_sess (n_world n') s = sess \<and>
          Addr (n_pheap n' r) = Some a \<and> Transport (n_pheap n' r) = t \<and>
          gm_get (pendingHandshakes n') (stateKey t (addr_String a)) = None \<and>
          n_tasks n' = n_tasks n @ [TSendDiscovery r, TSyncChannels pid]))"
proof -
  have "node_wf n'" using node_wf_processHandshake [OF assms(1)] assms(3) by simp
  moreover from processHandshake_Peers [of env now c a t payload n] assms(3,4) obtain hs hs' response sess where
    h: "handshake_for env now (stateKey t (addr_String a)) n hs"
      "ProcessMessage (e_noise env) hs payload = (Inr (response, Some sess), hs')"
    and r: "peer_added (e_crypto env) now c a t sess n n'"
    by auto
  moreover have q: "pid = peer_id_of_key (e_crypto env) (remoteStaticKey sess)"
    using r assms(4) by (auto simp: peer_added_def Let_def ps_Get_def split: if_splits)
  moreover have "length pid = 32" by (simp add: q peer_id_of_key_def assms(2))
  ultimately show ?thesis
    by (auto simp: peer_added_def Let_def peer_of_addr_Some ps_Get_def handshake_peer_def)
qed

text \<open>With a positive \<open>MaxPeers\<close> no handshake brings the number of peers above it.\<close>

theorem max_peers_respected:
  assumes "node_wf n" "0 < MaxPeers (n_Config n)" "int (ps_Count (n_Peers n)) \<le> MaxPeers (n_Config n)"
  shows "int (ps_Count (n_Peers (processHandshake env now c a t payload n))) \<le> MaxPeers (n_Config n)"
proof -
  have s: "ps_Count (gm_put pid r (n_Peers n)) \<le> Suc (ps_Count (n_Peers n))" for pid r
    using ps.size_put [OF node_wfD(1) [OF assms(1)], of pid r] by simp
  from processHandshake_Peers [of env now c a t payload n] show ?thesis
  proof (elim conjE disjE exE)
    assume "n_Peers (processHandshake env now c a t payload n) = n_Peers n"
    then show ?thesis using assms(3) by simp
  next
    fix hs hs' response sess
    assume "peer_added (e_crypto env) now c a t sess n (processHandshake env now c a t payload n)"
    then show ?thesis using assms(2) s [of "peer_id_of_key (e_crypto env) (remoteStaticKey sess)" "n_pfresh n"]
      by (simp add: peer_added_def full_def Let_def)
  qed
qed

text \<open>The ID a peer gets here is the ID the remote node gives itself, when the static key the
  library authenticated is that node's public key.\<close>

theorem peer_id_is_node_id:
  assumes "NewIdentity cl gen = Inr i" "n_Identity m = i" "remoteStaticKey sess = Some (NoisePublicKey i)"
    and "\<And>b. length (Sum256 cl b) = 32"
  shows "peer_id_of_key cl (RemotePublicKey sess) = Node_ID m"
proof -
  have "NodeID i = take 16 (Sum256 cl (NoisePublicKey i))"
    using assms(1,4) by (auto simp: NewIdentity_def Let_def fixed_array_def copy_into_0_exact split: option.splits)
  then show ?thesis using assms(2,3) by (simp add: peer_id_of_key_def RemotePublicKey_def Node_ID_def NodeID_String_def)
qed

text \<open>A known UDP peer that completes a handshake from a new UDP address gets the new session and
  the new address in its record, but the address is not entered into the address map: the
  packets it sends from there are then dropped as coming from nobody.\<close>

theorem rehandshake_from_new_address_unmapped:
  assumes "handshake_for env now (stateKey ''udp'' (addr_String a)) n hs"
    and "ProcessMessage (e_noise env) hs payload = (Inr (response, Some sess), hs')"
    and "ps_Get (n_Peers n) (peer_id_of_key (e_crypto env) (remoteStaticKey sess)) = Some r"
    and "Transport (n_pheap n r) = ''udp''" "gm_get (addrToPeer n) (addr_String a) = None"
    and "n' = processHandshake env now None a ''udp'' payload n"
  shows "Addr (n_pheap n' r) = Some a \<and> PSession (n_pheap n' r) = Some (n_sfresh n) \<and>
    peer_of_addr n' a = None \<and> processData env later a ct n' = n'"
proof -
  let ?key = "stateKey ''udp'' (addr_String a)" and ?pid = "peer_id_of_key (e_crypto env) (remoteStaticKey sess)"
  let ?s = "n_sfresh n"
  obtain y where p: "processHandshake env now None a ''udp'' payload n = session_made now (e_crypto env) None a ''udp'' response sess
      (send_reply env None a ''udp'' response (n\<lparr>pendingHandshakes := y\<rparr>))"
    by (rule processHandshake_accept [OF assms(1,2), of None]) simp
  obtain out where out: "send_reply env None a ''udp'' response (n\<lparr>pendingHandshakes := y\<rparr>) = n\<lparr>pendingHandshakes := y, n_out := out\<rparr>"
    using send_reply_only_out by blast
  let ?n4 = "n\<lparr>pendingHandshakes := y, n_out := out,
     n_world := (n_world n)\<lparr>w_sess := (w_sess (n_world n))(?s := sess)\<rparr>, n_sfresh := Suc ?s\<rparr>"
  have n': "n' = handleExistingPeer now r None a ''udp'' ?s (addr_String a) ?pid ?key ?n4"
    using assms(3,6) p out by (simp add: Let_def session_made_def RemotePublicKey_def)
  note f = handleExistingPeer_fields [OF n']
  have "addrToPeer n' = addrToPeer n" using f(7) by simp
  then have none: "peer_of_addr n' a = None" using assms(5) by (simp add: peer_of_addr_def)
  have "Addr (n_pheap n' r) = Some a" "PSession (n_pheap n' r) = Some ?s"
    using assms(4) by (simp_all add: n' handleExistingPeer_def Let_def upgrade_peer_def UpgradeTransport_def
        UpdateLastSeen_def SetLinkMode_def split: option.splits)
  with none show ?thesis by (simp add: processData_def)
qed

lemma sendRaw_out_cong:
  "n_out n = n_out m \<Longrightarrow> n_out (snd (sendRaw env c a t p n)) = n_out (snd (sendRaw env c a t p m))"
  by (simp add: sendRaw_def writeTCPPacket_def do_write_def Let_def emit_out_def split: option.splits)

lemma processHandshake_reply:
  assumes "handshake_for env now (stateKey t (addr_String a)) n hs"
    and "ProcessMessage (e_noise env) hs payload = (Inr (Some msg, None), hs')"
    and n': "n' = processHandshake env now c a t payload n"
  shows "gm_get (pendingHandshakes n') (stateKey t (addr_String a)) = Some hs'" "n_Peers n' = n_Peers n"
    "n_Config n' = n_Config n" "n_Identity n' = n_Identity n"
    "n_out n' = n_out (snd (sendRaw env c (Some a) t (BuildHandshakePacket msg) n))"
proof -
  obtain y where y: "gm_get y (stateKey t (addr_String a)) = Some hs'"
    and e: "n' = snd (sendRaw env c (Some a) t (BuildHandshakePacket msg) (n\<lparr>pendingHandshakes := y\<rparr>))"
    by (rule processHandshake_accept [OF assms(1,2), of c]) (simp add: n' send_reply_def)
  from y show "gm_get (pendingHandshakes n') (stateKey t (addr_String a)) = Some hs'" "n_Peers n' = n_Peers n"
    "n_Config n' = n_Config n" "n_Identity n' = n_Identity n" by (simp_all add: e)
  show "n_out n' = n_out (snd (sendRaw env c (Some a) t (BuildHandshakePacket msg) n))"
    unfolding e by (rule sendRaw_out_cong) simp
qed

lemma processHandshake_adds:
  assumes "handshake_for env now (stateKey t (addr_String a)) n hs"
    and "ProcessMessage (e_noise env) hs payload = (Inr (response, Some sess), hs')"
    and "ps_Get (n_Peers n) (peer_id_of_key (e_crypto env) (remoteStaticKey sess)) = None" "\<not> full n"
    and n': "n' = processHandshake env now c a t payload n"
  shows "peer_added (e_crypto env) now c a t sess n n'"
    "n_out n' = n_out (send_reply env c a t response n) @ (if onPeerConnected n
       then [CallConnected (peer_id_of_key (e_crypto env) (remoteStaticKey sess))
               (if t = ''udp'' \<and> response \<noteq> None then 200 * millisecond else 0)] else [])"
    "onReceive n' = onReceive n" "localChannelSet n' = localChannelSet n"
proof -
  let ?s = "n_sfresh n" and ?pid = "peer_id_of_key (e_crypto env) (remoteStaticKey sess)" and ?key = "stateKey t (addr_String a)"
  obtain y where p: "n' = session_made now (e_crypto env) c a t response sess
      (send_reply env c a t response (n\<lparr>pendingHandshakes := y\<rparr>))"
    by (rule processHandshake_accept [OF assms(1,2), of c]) (simp add: n')
  obtain out where out: "send_reply env c a t response (n\<lparr>pendingHandshakes := y\<rparr>) = n\<lparr>pendingHandshakes := y, n_out := out\<rparr>"
    using send_reply_only_out by blast
  then have o2: "out = n_out (send_reply env c a t response n)"
    by (cases response) (auto simp: send_reply_def dest!: arg_cong [where f = n_out] intro!: sendRaw_out_cong)
  let ?n1 = "n\<lparr>pendingHandshakes := y, n_out := out,
     n_world := (n_world n)\<lparr>w_sess := (w_sess (n_world n))(?s := sess)\<rparr>, n_sfresh := Suc ?s\<rparr>"
  have e: "n' = add_new_peer now c a t response ?s (addr_String a) ?pid ?key ?n1"
    using p out assms(3) by (simp add: session_made_def Let_def RemotePublicKey_def)
  have "\<not> full ?n1" using assms(4) by (simp add: full_def)
  note f = add_new_peer_ok [OF this e]
  have l: "link_mode ?n1 = link_mode n" "link_target ?n1 = link_target n"
    by (intro ext, simp add: link_mode_def link_target_def)+
  show "peer_added (e_crypto env) now c a t sess n n'"
    using f assms(3,4) l by (simp add: peer_added_def Let_def)
  show "n_out n' = n_out (send_reply env c a t response n) @ (if onPeerConnected n
       then [CallConnected (peer_id_of_key (e_crypto env) (remoteStaticKey sess))
               (if t = ''udp'' \<and> response \<noteq> None then 200 * millisecond else 0)] else [])"
    using f(6) o2 by simp
  show "onReceive n' = onReceive n" "localChannelSet n' = localChannelSet n" using f(10,11) by simp_all
qed

text \<open>The session a peer has after a handshake.\<close>

definition linked :: "('h, 'c) Node \<Rightarrow> netaddr \<Rightarrow> string \<Rightarrow> pref \<Rightarrow> 'c Session \<Rightarrow> bool" where
  "linked n a pid r sess \<longleftrightarrow> peer_of_addr n a = Some (pid, r) \<and>
     (\<exists>s. PSession (n_pheap n r) = Some s \<and> w_sess (n_world n) s = sess)"

lemma linked_added:
  "peer_added cl now c a t sess n n' \<Longrightarrow> linked n' a (peer_id_of_key cl (remoteStaticKey sess)) (n_pfresh n) sess"
  by (auto simp: peer_added_def linked_def Let_def peer_of_addr_Some ps_Get_def handshake_peer_def)

text \<open>Two nodes with the same network password that exchange the three messages of the Noise XX
  pattern end as peers of each other. The responder answers the first message and adds
  nobody; the initiator answers the second one and adds the responder; the third makes the
  responder add the initiator. Each is stored under the ID of the static key the library
  authenticated, reachable by the address the messages came from, and what one node's session
  encrypts with is what the other's decrypts with.\<close>

theorem nodes_connect:
  fixes A B :: "('h, 'c) Node"
  assumes "nl_new (e_noise env) True (handshake_prologue (string_bytes (NetworkPassword (n_Config A))))
       (take 32 (NoisePrivateKey (n_Identity A))) (take 32 (NoisePublicKey (n_Identity A))) = Some i0"
    and "nl_new (e_noise env) False (handshake_prologue (string_bytes (NetworkPassword (n_Config B))))
       (take 32 (NoisePrivateKey (n_Identity B))) (take 32 (NoisePublicKey (n_Identity B))) = Some r0"
    and "length (NoisePrivateKey (n_Identity A)) = 32" "length (NoisePublicKey (n_Identity A)) = 32"
      "length (NoisePrivateKey (n_Identity B)) = 32" "length (NoisePublicKey (n_Identity B)) = 32"
    and "NetworkPassword (n_Config B) = NetworkPassword (n_Config A)"
    and "noise_xx_run (e_noise env) i0 r0 m1 m2 m3 c1 c2 i3 r3"
    and "pidB = peer_id_of_key (e_crypto env) (Some (nl_peer_static (e_noise env) i3))"
      "pidA = peer_id_of_key (e_crypto env) (Some (nl_peer_static (e_noise env) r3))"
    and "ps_Get (n_Peers A) pidB = None" "\<not> full A" "ps_Get (n_Peers B) pidA = None" "\<not> full B"
    and "initiator_handshake env t0 A = Inr (hI, m)" "gm_get (pendingHandshakes A) (stateKey t (addr_String b)) = Some hI"
      "gm_get (pendingHandshakes B) (stateKey t (addr_String a)) = None"
    and "B1 = processHandshake env t1 cB a t m1 B" "A2 = processHandshake env t2 cA b t m2 A"
      "B2 = processHandshake env t3 cB a t m3 B1"
  shows "m = m1 \<and> n_Peers B1 = n_Peers B \<and>
    n_out B1 = n_out (snd (sendRaw env cB (Some a) t (BuildHandshakePacket m2) B)) \<and>
    take (length (n_out (snd (sendRaw env cA (Some b) t (BuildHandshakePacket m3) A)))) (n_out A2) =
      n_out (snd (sendRaw env cA (Some b) t (BuildHandshakePacket m3) A)) \<and>
    (\<exists>rA rB sA sB. linked A2 b pidB rA sA \<and> linked B2 a pidA rB sB \<and>
       sendCipher sA = Some c1 \<and> recvCipher sA = Some c2 \<and> sendCipher sB = Some c2 \<and> recvCipher sB = Some c1)"
proof -
  have k: "32 \<le> length (NoisePrivateKey (n_Identity A))" "32 \<le> length (NoisePublicKey (n_Identity A))"
    "32 \<le> length (NoisePrivateKey (n_Identity B))" "32 \<le> length (NoisePublicKey (n_Identity B))"
    using assms(3-6) by simp_all
  from handshake_mirrored_sessions [OF assms(1) assms(2) [unfolded assms(7)] k assms(8), of t0 t1]
  obtain hI' hR hI'' hR' hR'' sI sR where
    i: "NewInitiatorHandshake (e_noise env) t0 (NoisePrivateKey (n_Identity A)) (NoisePublicKey (n_Identity A))
       (string_bytes (NetworkPassword (n_Config A))) = Inr (hI', m1)"
    and r: "NewResponderHandshake (e_noise env) t1 (NoisePrivateKey (n_Identity B)) (NoisePublicKey (n_Identity B))
       (string_bytes (NetworkPassword (n_Config A))) = Inr hR"
    and p: "ProcessMessage (e_noise env) hR m1 = (Inr (Some m2, None), hR')"
      "ProcessMessage (e_noise env) hI' m2 = (Inr (Some m3, Some sI), hI'')"
      "ProcessMessage (e_noise env) hR' m3 = (Inr (None, Some sR), hR'')"
    and s: "sendCipher sI = Some c1" "recvCipher sI = Some c2" "sendCipher sR = Some c2" "recvCipher sR = Some c1"
      "remoteStaticKey sI = Some (nl_peer_static (e_noise env) i3)" "remoteStaticKey sR = Some (nl_peer_static (e_noise env) r3)"
    by (auto simp: RemotePublicKey_def)
  have hm: "hI = hI'" "m = m1" using i assms(15) by (simp_all add: initiator_handshake_def)
  have "handshake_for env t1 (stateKey t (addr_String a)) B hR"
    using assms(7,17) r by (simp add: handshake_for_def)
  note B1 = processHandshake_reply [OF this p(1) assms(18)]
  have hA: "handshake_for env t2 (stateKey t (addr_String b)) A hI'" using assms(16) hm by (simp add: handshake_for_def)
  note A2 = processHandshake_adds [OF hA p(2) _ assms(12) assms(19)]
  have hB: "handshake_for env t3 (stateKey t (addr_String a)) B1 hR'" using B1(1) by (simp add: handshake_for_def)
  have "\<not> full B1" using assms(14) B1(2,3) by (simp add: full_def)
  note B2 = processHandshake_adds [OF hB p(3) _ this assms(20)]
  have n: "ps_Get (n_Peers A) (peer_id_of_key (e_crypto env) (remoteStaticKey sI)) = None"
    "ps_Get (n_Peers B1) (peer_id_of_key (e_crypto env) (remoteStaticKey sR)) = None"
    using assms(9-11,13) B1(2) s by simp_all
  have "linked A2 b pidB (n_pfresh A) sI" using linked_added [OF A2(1) [OF n(1)]] assms(9) s by simp
  moreover have "linked B2 a pidA (n_pfresh B1) sR" using linked_added [OF B2(1) [OF n(2)]] assms(10) s by simp
  ultimately show ?thesis using hm(2) B1(2,5) s A2(2) [OF n(1)] by (auto simp: send_reply_def)
qed

subsection \<open>Witnesses\<close>

text \<open>An initiator waiting for the second message, and a fresh responder.\<close>

definition demo_hs :: "nat HandshakeState" where
  "demo_hs = \<lparr>hs_noise = 1, hs_isInitiator = True, hs_completed = False, hs_createdAt = time_Unix 0\<rparr>"

definition demo_B :: "(nat, nat) Node" where
  "demo_B = fresh_node demo_crypto 0 (WithNetworkPassword ''pw'' DefaultConfig) demo_identity"

definition demo_A :: "(nat, nat) Node" where
  "demo_A = demo_B\<lparr>pendingHandshakes := [(stateKey ''udp'' ''b'', demo_hs)]\<rparr>"

definition demo_pid :: string where
  "demo_pid = peer_id_of_key demo_crypto (Some (replicate 32 3))"

lemmas demo_ab = demo_A_def demo_B_def fresh_node_def WithNetworkPassword_def DefaultConfig_def demo_identity_def

lemma demo_env_sel [simp]: "e_noise demo_env = demo_noise" "e_crypto demo_env = demo_crypto"
  by (simp_all add: demo_env_def)

lemma demo_process2: "\<exists>sess hs'. ProcessMessage demo_noise demo_hs [2] = (Inr (Some [3], Some sess), hs') \<and>
    remoteStaticKey sess = Some (replicate 32 3)"
  by (simp add: ProcessMessage_def demo_hs_def demo_noise_def make_session_def)

lemma demo_A_facts: "node_wf demo_A" "handshake_for demo_env 5 (stateKey ''udp'' ''b'') demo_A demo_hs"
  "ps_Get (n_Peers demo_A) pid = None" "\<not> full demo_A" "node_wf demo_B" "\<not> full demo_B" "ps_Get (n_Peers demo_B) pid = None"
  by (simp_all add: demo_ab node_wf_def gm_wf_def ps_Get_def NewPeerStore_def handshake_for_def gm_get_def full_def ps_Count_def gm_len_def)

lemma demo_Sum256: "length (Sum256 demo_crypto b) = 32"
  by (simp add: demo_crypto_def)

theorem handshake_peer_authentic_witness:
  "node_wf (processHandshake demo_env 5 None (UDPAddr ''b'') ''udp'' [2] demo_A) \<and> length demo_pid = 32"
proof -
  let ?n' = "processHandshake demo_env 5 None (UDPAddr ''b'') ''udp'' [2] demo_A"
  obtain sess hs' where p: "ProcessMessage (e_noise demo_env) demo_hs [2] = (Inr (Some [3], Some sess), hs')"
    and k: "remoteStaticKey sess = Some (replicate 32 3)" using demo_process2 by auto
  have h: "handshake_for demo_env 5 (stateKey ''udp'' (addr_String (UDPAddr ''b''))) demo_A demo_hs" using demo_A_facts(2) by simp
  have "peer_added (e_crypto demo_env) 5 None (UDPAddr ''b'') ''udp'' sess demo_A ?n'"
    by (rule processHandshake_adds(1) [OF h p _ demo_A_facts(4) refl]) (rule demo_A_facts(3))
  then have "ps_Get (n_Peers ?n') demo_pid \<noteq> ps_Get (n_Peers demo_A) demo_pid"
    using k by (simp add: peer_added_def Let_def demo_pid_def ps_Get_def)
  from handshake_peer_authentic [OF demo_A_facts(1) _ refl this] show ?thesis by (simp add: demo_Sum256)
qed

theorem max_peers_respected_witness:
  "int (ps_Count (n_Peers (processHandshake demo_env 5 None (UDPAddr ''b'') ''udp'' [2] demo_A))) \<le> MaxPeers (n_Config demo_A)"
  by (rule max_peers_respected [OF demo_A_facts(1)]) (simp_all add: demo_ab ps_Count_def gm_len_def NewPeerStore_def)

theorem peer_id_is_node_id_witness:
  "\<exists>i. NewIdentity demo_crypto (Some (replicate 32 2, replicate 32 1 @ replicate 32 2)) = Inr i \<and>
     peer_id_of_key demo_crypto (RemotePublicKey (demo_session\<lparr>remoteStaticKey := Some (NoisePublicKey i)\<rparr>)) =
       Node_ID (demo_B\<lparr>n_Identity := i\<rparr>)"
proof -
  obtain i where i: "NewIdentity demo_crypto (Some (replicate 32 2, replicate 32 1 @ replicate 32 2)) = Inr i"
    by (simp add: NewIdentity_def Let_def)
  have "peer_id_of_key demo_crypto (RemotePublicKey (demo_session\<lparr>remoteStaticKey := Some (NoisePublicKey i)\<rparr>)) =
      Node_ID (demo_B\<lparr>n_Identity := i\<rparr>)"
    by (rule peer_id_is_node_id [OF i]) (simp_all add: demo_Sum256)
  with i show ?thesis by blast
qed

theorem rehandshake_from_new_address_unmapped_witness:
  "case processHandshake demo_env 5 None (UDPAddr ''b'') ''udp'' [2]
     (demo_A\<lparr>n_Peers := [(demo_pid, 0)], n_pheap := (\<lambda>_. (new_peer demo_pid)\<lparr>Transport := ''udp''\<rparr>)\<rparr>) of n' \<Rightarrow>
   Addr (n_pheap n' 0) = Some (UDPAddr ''b'') \<and> peer_of_addr n' (UDPAddr ''b'') = None"
proof -
  let ?n = "demo_A\<lparr>n_Peers := [(demo_pid, 0)], n_pheap := (\<lambda>_. (new_peer demo_pid)\<lparr>Transport := ''udp''\<rparr>)\<rparr>"
  obtain sess hs' where p: "ProcessMessage (e_noise demo_env) demo_hs [2] = (Inr (Some [3], Some sess), hs')"
    and k: "remoteStaticKey sess = Some (replicate 32 3)" using demo_process2 by auto
  have h: "handshake_for demo_env 5 (stateKey ''udp'' (addr_String (UDPAddr ''b''))) ?n demo_hs"
    using demo_A_facts(2) by (simp add: handshake_for_def)
  have "ps_Get (n_Peers ?n) (peer_id_of_key (e_crypto demo_env) (remoteStaticKey sess)) = Some 0"
    "Transport (n_pheap ?n 0) = ''udp''" "gm_get (addrToPeer ?n) (addr_String (UDPAddr ''b'')) = None"
    using k by (simp_all add: ps_Get_def gm_get_def demo_pid_def demo_ab)
  from rehandshake_from_new_address_unmapped [OF h p this refl] show ?thesis by simp
qed

theorem nodes_connect_witness:
  "\<exists>A2 (B2 :: (nat, nat) Node) rA rB sA sB. linked A2 (UDPAddr ''b'') demo_pid rA sA \<and>
     linked B2 (UDPAddr ''a'') (peer_id_of_key demo_crypto (Some (replicate 32 13))) rB sB \<and>
     A2 = processHandshake demo_env 5 None (UDPAddr ''b'') ''udp'' [2] demo_A \<and>
     sendCipher sA = recvCipher sB \<and> recvCipher sA = sendCipher sB"
proof -
  have n: "nl_new (e_noise demo_env) True (handshake_prologue (string_bytes (NetworkPassword (n_Config demo_A))))
       (take 32 (NoisePrivateKey (n_Identity demo_A))) (take 32 (NoisePublicKey (n_Identity demo_A))) = Some 0"
    "nl_new (e_noise demo_env) False (handshake_prologue (string_bytes (NetworkPassword (n_Config demo_B))))
       (take 32 (NoisePrivateKey (n_Identity demo_B))) (take 32 (NoisePublicKey (n_Identity demo_B))) = Some 10"
    by (simp_all add: demo_noise_def)
  have k: "length (NoisePrivateKey (n_Identity demo_A)) = 32" "length (NoisePublicKey (n_Identity demo_A)) = 32"
    "length (NoisePrivateKey (n_Identity demo_B)) = 32" "length (NoisePublicKey (n_Identity demo_B)) = 32"
    "NetworkPassword (n_Config demo_B) = NetworkPassword (n_Config demo_A)"
    by (simp_all add: demo_ab)
  have run: "noise_xx_run (e_noise demo_env) 0 10 [1] [2] [3] 100 200 3 13" by (simp add: demo_xx_run)
  have st: "demo_pid = peer_id_of_key (e_crypto demo_env) (Some (nl_peer_static (e_noise demo_env) 3))"
    "peer_id_of_key demo_crypto (Some (replicate 32 13)) = peer_id_of_key (e_crypto demo_env) (Some (nl_peer_static (e_noise demo_env) 13))"
    by (simp_all add: demo_pid_def demo_noise_def)
  have i: "initiator_handshake demo_env 0 demo_A = Inr (demo_hs, [1])"
    by (simp add: initiator_handshake_def NewInitiatorHandshake_def k demo_hs_def) (simp add: demo_noise_def)
  have g: "gm_get (pendingHandshakes demo_A) (stateKey ''udp'' (addr_String (UDPAddr ''b''))) = Some demo_hs"
    "gm_get (pendingHandshakes demo_B) (stateKey ''udp'' (addr_String (UDPAddr ''a''))) = None"
    by (simp_all add: demo_ab gm_get_def)
  from nodes_connect [OF n k run st demo_A_facts(3,4,7,6) i g refl refl refl, where ?t1.0 = 1 and cB = None and ?t2.0 = 5 and cA = None and ?t3.0 = 7]
  obtain rA rB sA sB where "linked (processHandshake demo_env 5 None (UDPAddr ''b'') ''udp'' [2] demo_A) (UDPAddr ''b'') demo_pid rA sA"
    "linked (processHandshake demo_env 7 None (UDPAddr ''a'') ''udp'' [3] (processHandshake demo_env 1 None (UDPAddr ''a'') ''udp'' [1] demo_B))
       (UDPAddr ''a'') (peer_id_of_key demo_crypto (Some (replicate 32 13))) rB sB"
    "sendCipher sA = recvCipher sB" "recvCipher sA = sendCipher sB"
    by (elim conjE exE) simp
  then show ?thesis by blast
qed

end
