(* ===== verification/Node_Discovery.thy ===== *)
theory Node_Discovery
  imports Node_Handshake
begin

text \<open>
  Peer discovery (\<open>node/discovery.go\<close>): a node asks a peer for the peers it knows, answers such
  requests, and connects to peers it learns of, with a limit on concurrent attempts and a
  cool-down per target. The limiting channel \<open>discoveryConnectSem\<close> is the number of tokens in it.
  A goroutine that connects is recorded as a task. \<open>sort.Slice\<close> is not stable: entries with equal
  deadlines may be dropped in any order; the model keeps their order in the map.
\<close>

subsection \<open>Limits\<close>

definition discoveryConnectConcurrencyLimit :: nat where "discoveryConnectConcurrencyLimit = 8"
definition discoveryConnectCooldown :: duration where "discoveryConnectCooldown = 10 * second"
definition discoveryConnectPruneThreshold :: nat where "discoveryConnectPruneThreshold = 256"
definition discoveryConnectSeenHardLimit :: nat where "discoveryConnectSeenHardLimit = 1024"

lemmas discovery_limits = discoveryConnectConcurrencyLimit_def discoveryConnectCooldown_def
  discoveryConnectPruneThreshold_def discoveryConnectSeenHardLimit_def

subsection \<open>Requests and answers\<close>

definition sendDiscoveryRequest :: "('h, 'c) env \<Rightarrow> pref \<Rightarrow> ('h, 'c) Node \<Rightarrow> ('h, 'c) Node" where
  "sendDiscoveryRequest env r n =
     (let packet = replicate 5 0;
          packet = copy_into packet 0 (string_bytes ''TENT'');
          packet = packet[4 := PacketTypeDiscoveryReq]
      in case GetTransportInfo (n_pheap n r) of (transport, addr, c) \<Rightarrow> snd (sendRaw env c addr transport packet n))"

definition isDiscoverySourceAuthenticated :: "('h, 'c) Node \<Rightarrow> netaddr option \<Rightarrow> bool" where
  "isDiscoverySourceAuthenticated n remoteAddr =
     (case remoteAddr of None \<Rightarrow> False
      | Some a \<Rightarrow> (case gm_get (addrToPeer n) (addr_String a) of None \<Rightarrow> False
                   | Some peerID \<Rightarrow> ps_Get (n_Peers n) peerID \<noteq> None))"

definition discovery_entry :: "string \<times> string \<Rightarrow> bytes" where
  "discovery_entry e =
     (let pidBytes = string_bytes (fst e); addrBytes = string_bytes (snd e);
          entry = replicate (1 + length pidBytes + 1 + length addrBytes) 0;
          entry = entry[0 := of_nat (length pidBytes)];
          entry = copy_into entry 1 pidBytes;
          entry = entry[1 + length pidBytes := of_nat (length addrBytes)]
      in copy_into entry (2 + length pidBytes) addrBytes)"

text \<open>The peers an answer lists: those with an address, if ID and address have at most 255 bytes.\<close>

definition known_peer :: "('h, 'c) Node \<Rightarrow> string \<Rightarrow> (string \<times> string) option" where
  "known_peer n pid =
     (case ps_Get (n_Peers n) pid of None \<Rightarrow> None
      | Some r \<Rightarrow>
          (case GetTransportInfo (n_pheap n r) of (_, addr, _) \<Rightarrow>
             (case addr of None \<Rightarrow> None
              | Some a \<Rightarrow> if 255 < length (string_bytes pid) \<or> 255 < length (string_bytes (addr_String a)) then None
                          else Some (pid, addr_String a))))"

definition discovery_payload :: "('h, 'c) Node \<Rightarrow> bytes" where
  "discovery_payload n =
     (let known = List.map_filter (known_peer n) (ps_IDs (n_Peers n));
          entries = concat (map discovery_entry known); count = length known;
          payload = replicate (2 + length entries) 0;
          payload = payload[0 := of_nat (count div 256)];
          payload = payload[1 := of_nat (count mod 256)]
      in copy_into payload 2 entries)"

definition processDiscoveryRequest ::
    "('h, 'c) env \<Rightarrow> conn option \<Rightarrow> netaddr option \<Rightarrow> string \<Rightarrow> bytes \<Rightarrow> ('h, 'c) Node \<Rightarrow> ('h, 'c) Node" where
  "processDiscoveryRequest env c remoteAddr transport reqPayload n =
     (if \<not> isDiscoverySourceAuthenticated n remoteAddr then n
      else let payload = discovery_payload n;
               packet = replicate (5 + length payload) 0;
               packet = copy_into packet 0 (string_bytes ''TENT'');
               packet = packet[4 := PacketTypeDiscoveryResp];
               packet = copy_into packet 5 payload
           in snd (sendRaw env c remoteAddr transport packet n))"

subsection \<open>The connection gate\<close>

definition pruneDiscoveryConnectSeenLocked :: "gotime \<Rightarrow> (string, gotime) gomap \<Rightarrow> (string, gotime) gomap" where
  "pruneDiscoveryConnectSeenLocked now seen = gm_prune (\<lambda>k until. \<not> time_Before now until) seen"

definition trimDiscoveryConnectSeenLocked :: "int \<Rightarrow> (string, gotime) gomap \<Rightarrow> (string, gotime) gomap" where
  "trimDiscoveryConnectSeenLocked targetSize seen =
     (let targetSize = (if targetSize < 0 then 0 else targetSize)
      in if int (gm_len seen) \<le> targetSize then seen
         else let entries = sort_key snd seen;
                  removeCount = gm_len seen - nat targetSize;
                  removeCount = (if length entries < removeCount then length entries else removeCount)
              in fold (\<lambda>e. gm_del (fst e)) (take removeCount entries) seen)"

definition discovery_key :: "string \<Rightarrow> string \<Rightarrow> string" where
  "discovery_key peerID addr = peerID @ ''|'' @ addr"

text \<open>The two clean-ups of the table before an entry is added.\<close>

definition prune_if_large :: "gotime \<Rightarrow> (string, gotime) gomap \<Rightarrow> (string, gotime) gomap" where
  "prune_if_large now seen =
     (if discoveryConnectPruneThreshold < gm_len seen then pruneDiscoveryConnectSeenLocked now seen else seen)"

definition make_room :: "gotime \<Rightarrow> (string, gotime) gomap \<Rightarrow> (string, gotime) gomap" where
  "make_room now seen =
     (if discoveryConnectSeenHardLimit \<le> gm_len seen
      then let s = pruneDiscoveryConnectSeenLocked now seen
           in if discoveryConnectSeenHardLimit \<le> gm_len s
              then trimDiscoveryConnectSeenLocked (int discoveryConnectSeenHardLimit - 1) s else s
      else seen)"

definition tryBeginDiscoveryConnect ::
    "gotime \<Rightarrow> string \<Rightarrow> string \<Rightarrow> ('h, 'c) Node \<Rightarrow> bool \<times> ('h, 'c) Node" where
  "tryBeginDiscoveryConnect now peerID addr n =
     (let key = discovery_key peerID addr;
          seen1 = prune_if_large now (discoveryConnectSeen n)
      in if (case gm_get seen1 key of None \<Rightarrow> False | Some until \<Rightarrow> time_Before now until)
         then (False, n\<lparr>discoveryConnectSeen := seen1\<rparr>)
         else let seen2 = make_room now seen1;
                  seen3 = gm_put key (time_Add now discoveryConnectCooldown) seen2
              in if discoveryConnectSem n < discoveryConnectConcurrencyLimit
                 then (True, n\<lparr>discoveryConnectSeen := seen3, discoveryConnectSem := Suc (discoveryConnectSem n)\<rparr>)
                 else (False, n\<lparr>discoveryConnectSeen := gm_del key seen3\<rparr>))"

definition endDiscoveryConnect :: "('h, 'c) Node \<Rightarrow> ('h, 'c) Node" where
  "endDiscoveryConnect n =
     (if 0 < discoveryConnectSem n then n\<lparr>discoveryConnectSem := discoveryConnectSem n - 1\<rparr> else n)"

subsection \<open>Reading an answer\<close>

definition next_entry :: "bytes \<Rightarrow> ((string \<times> string) \<times> bytes) option" where
  "next_entry b =
     (if length b = 0 then None
      else let pidLen = unat (b ! 0); b1 = drop 1 b
        in if length b1 < pidLen then None
           else let peerID = bytes_string (take pidLen b1); b2 = drop pidLen b1
             in if length b2 = 0 then None
                else let addrLen = unat (b2 ! 0); b3 = drop 1 b2
                  in if length b3 < addrLen then None
                     else Some ((peerID, bytes_string (take addrLen b3)), drop addrLen b3))"

definition consider_peer :: "gotime \<Rightarrow> string \<times> string \<Rightarrow> ('h, 'c) Node \<Rightarrow> ('h, 'c) Node" where
  "consider_peer now e n =
     (if fst e = localPeerID n then n
      else if ps_Get (n_Peers n) (fst e) \<noteq> None then n
      else case tryBeginDiscoveryConnect now (fst e) (snd e) n of
        (False, n1) \<Rightarrow> n1
      | (True, n1) \<Rightarrow> spawn (TConnect (snd e)) n1)"

definition processDiscoveryResponse ::
    "gotime \<Rightarrow> netaddr option \<Rightarrow> bytes \<Rightarrow> ('h, 'c) Node \<Rightarrow> ('h, 'c) Node" where
  "processDiscoveryResponse now remoteAddr payload n =
     (if \<not> isDiscoverySourceAuthenticated n remoteAddr then n
      else if length payload < 2 then n
      else let count = unat (payload ! 0) * 256 + unat (payload ! 1)
        in fold (consider_peer now) (take_items next_entry count (drop 2 payload)) n)"

subsection \<open>The wire format\<close>

lemma discovery_entry_eq:
  "discovery_entry (p, a) = of_nat (length p) # string_bytes p @ of_nat (length a) # string_bytes a"
proof -
  have r: "replicate (1 + length (string_bytes p) + 1 + length (string_bytes a)) (0 :: byte) =
      0 # replicate (length p) 0 @ 0 # replicate (length a) 0"
    by (simp add: replicate_add [symmetric] flip: replicate_Suc)
  show ?thesis
    unfolding discovery_entry_def Let_def fst_conv snd_conv r by (simp add: copy_into_def list_update_append)
qed

definition entry_ok :: "string \<times> string \<Rightarrow> bool" where
  "entry_ok e \<longleftrightarrow> length (fst e) \<le> 255 \<and> length (snd e) \<le> 255"

lemma unat_small_byte: "k \<le> 255 \<Longrightarrow> unat (of_nat k :: byte) = k"
  by (simp add: unat_of_nat take_bit_eq_mod)

lemma next_entry_enc: "entry_ok e \<Longrightarrow> next_entry (discovery_entry e @ r) = Some (e, r)"
  by (cases e) (simp add: discovery_entry_eq next_entry_def Let_def entry_ok_def unat_small_byte)

interpretation disc: stream_codec discovery_entry next_entry entry_ok
  by unfold_locales (rule next_entry_enc)

definition known_peers :: "('h, 'c) Node \<Rightarrow> (string \<times> string) list" where
  "known_peers n = List.map_filter (known_peer n) (ps_IDs (n_Peers n))"

lemma known_peers_ok: "list_all entry_ok (known_peers n)"
  by (auto simp: known_peers_def list_all_iff entry_ok_def map_filter_def known_peer_def GetTransportInfo_def
      split: option.splits if_splits)

lemma length_known_peers: "length (known_peers n) \<le> ps_Count (n_Peers n)"
proof -
  have "length (known_peers n) \<le> length (ps_IDs (n_Peers n))"
    by (simp add: known_peers_def map_filter_def)
  then show ?thesis by (simp add: ps_IDs_def ps_Count_def gm_keys_def gm_len_def)
qed

lemma discovery_payload_eq:
  "discovery_payload n = of_nat (length (known_peers n) div 256) # of_nat (length (known_peers n) mod 256) #
     concat (map discovery_entry (known_peers n))"
proof -
  have "replicate (2 + k) (0 :: byte) = 0 # 0 # replicate k 0" for k by simp
  then show ?thesis by (simp add: discovery_payload_def Let_def known_peers_def copy_into_def)
qed

lemma count_bytes:
  assumes "k < 65536"
  shows "unat (of_nat (k div 256) :: byte) * 256 + unat (of_nat (k mod 256) :: byte) = k"
proof -
  have "k div 256 < 256" using assms by simp
  then show ?thesis by (simp add: unat_of_nat take_bit_eq_mod)
qed

subsection \<open>The gate\<close>

definition gate_ok :: "('h, 'c) Node \<Rightarrow> bool" where
  "gate_ok n \<longleftrightarrow> gm_wf (discoveryConnectSeen n) \<and> gm_len (discoveryConnectSeen n) \<le> 1024 \<and> discoveryConnectSem n \<le> 8"

lemma prune_len: "gm_len (pruneDiscoveryConnectSeenLocked now s) \<le> gm_len s" "gm_wf s \<Longrightarrow> gm_wf (pruneDiscoveryConnectSeenLocked now s)"
  by (simp_all add: pruneDiscoveryConnectSeenLocked_def gm_prune_def gm_len_def)

lemma fold_del:
  assumes "gm_wf m" "set ks \<subseteq> set m" "distinct ks"
  shows "gm_wf (fold (\<lambda>e. gm_del (fst e)) ks m) \<and> gm_len (fold (\<lambda>e. gm_del (fst e)) ks m) + length ks = gm_len m"
  using assms
proof (induction ks arbitrary: m)
  case (Cons e ks)
  have e: "e \<in> set m" and fe: "\<And>x. x \<in> set m \<Longrightarrow> fst x = fst e \<Longrightarrow> x = e"
    using Cons.prems by (auto simp: gm_wf_def eq_key_imp_eq_value prod_eq_iff)
  have "set (gm_del (fst e) m) = set m - {e}" using fe by (auto simp: gm_del_def)
  with Cons.prems have "set ks \<subseteq> set (gm_del (fst e) m)" by auto
  with Cons.IH [of "gm_del (fst e) m"] Cons.prems have
    IH: "gm_wf (fold (\<lambda>e. gm_del (fst e)) ks (gm_del (fst e) m))"
      "gm_len (fold (\<lambda>e. gm_del (fst e)) ks (gm_del (fst e) m)) + length ks = gm_len (gm_del (fst e) m)" by auto
  have "distinct m" using Cons.prems(1) by (simp add: gm_wf_def distinct_map)
  moreover have "distinct (gm_del (fst e) m)" using \<open>distinct m\<close> by (simp add: gm_del_def)
  ultimately have "gm_len (gm_del (fst e) m) = card (set m - {e})" "gm_len m = card (set m)"
    using \<open>set (gm_del (fst e) m) = set m - {e}\<close> distinct_card [of m] distinct_card [of "gm_del (fst e) m"]
    by (simp_all add: gm_len_def)
  moreover have "Suc (card (set m - {e})) = card (set m)" by (rule card_Suc_Diff1) (use e in simp_all)
  ultimately show ?case using IH by simp
qed simp

lemma trim_len:
  assumes "gm_wf s" "0 \<le> k"
  shows "gm_wf (trimDiscoveryConnectSeenLocked k s)" "int (gm_len (trimDiscoveryConnectSeenLocked k s)) \<le> k"
proof -
  let ?rc = "gm_len s - nat k"
  have d: "distinct (take ?rc (sort_key snd s))" using assms(1) by (simp add: gm_wf_def distinct_map)
  have "set (take ?rc (sort_key snd s)) \<subseteq> set s" using set_take_subset [of ?rc "sort_key snd s"] by simp
  note f = fold_del [OF assms(1) this d]
  show "gm_wf (trimDiscoveryConnectSeenLocked k s)" "int (gm_len (trimDiscoveryConnectSeenLocked k s)) \<le> k"
    using assms f by (auto simp: trimDiscoveryConnectSeenLocked_def Let_def gm_len_def)
qed

lemma put_len: "gm_wf m \<Longrightarrow> gm_len (gm_put k v m) \<le> Suc (gm_len m)"
  using gm.size_put [of m k v] by simp

lemma del_put_len: "gm_wf m \<Longrightarrow> gm_len (gm_del k (gm_put k v m)) \<le> Suc (gm_len m)"
  using gm.size_del_le [of "gm_put k v m" k] put_len [of m k v] by simp

lemma prune_if_large_len:
  "gm_wf s \<Longrightarrow> gm_wf (prune_if_large now s)" "gm_len (prune_if_large now s) \<le> gm_len s"
  by (simp_all add: prune_if_large_def prune_len)

lemma make_room_len:
  assumes "gm_wf s"
  shows "gm_wf (make_room now s)" "gm_len (make_room now s) \<le> 1023"
proof -
  let ?p = "pruneDiscoveryConnectSeenLocked now s"
  have p: "gm_wf ?p" using prune_len(2) [OF assms] .
  have t: "gm_wf (trimDiscoveryConnectSeenLocked 1023 ?p)" "gm_len (trimDiscoveryConnectSeenLocked 1023 ?p) \<le> 1023"
    using trim_len [OF p, of 1023] by simp_all
  show "gm_wf (make_room now s)" "gm_len (make_room now s) \<le> 1023"
    using assms p t by (simp_all add: make_room_def Let_def discoveryConnectSeenHardLimit_def)
qed

lemma tryBegin_gate:
  assumes "gate_ok n"
  shows "gate_ok (snd (tryBeginDiscoveryConnect now p a n))"
proof -
  let ?key = "discovery_key p a" and ?s1 = "prune_if_large now (discoveryConnectSeen n)"
  let ?s3 = "gm_put ?key (time_Add now discoveryConnectCooldown) (make_room now ?s1)"
  have s1: "gm_wf ?s1" "gm_len ?s1 \<le> 1024"
    using assms prune_if_large_len [where now = now and s = "discoveryConnectSeen n"] by (auto simp: gate_ok_def)
  note s2 = make_room_len [OF s1(1), of now]
  have "gm_len ?s3 \<le> 1024" "gm_len (gm_del ?key ?s3) \<le> 1024"
    using put_len [OF s2(1), of ?key "time_Add now discoveryConnectCooldown"]
      del_put_len [OF s2(1), of ?key "time_Add now discoveryConnectCooldown"] s2(2) by linarith+
  then show ?thesis using assms s1 s2
    by (simp add: tryBeginDiscoveryConnect_def Let_def gate_ok_def discoveryConnectConcurrencyLimit_def)
qed

text \<open>The attempts started so far.\<close>

definition attempts_started :: "('h, 'c) Node \<Rightarrow> nat" where
  "attempts_started n = length (filter (\<lambda>t. \<exists>a. t = TConnect a) (n_tasks n))"

lemma consider_peer_gate:
  assumes "gate_ok n"
  shows "gate_ok (consider_peer now e n) \<and>
    attempts_started (consider_peer now e n) + discoveryConnectSem n = attempts_started n + discoveryConnectSem (consider_peer now e n)"
proof -
  obtain ok n1 where t: "tryBeginDiscoveryConnect now (fst e) (snd e) n = (ok, n1)" by (metis surj_pair)
  have g: "gate_ok n1" using tryBegin_gate [OF assms, of now "fst e" "snd e"] t by simp
  have "n_tasks n1 = n_tasks n" "discoveryConnectSem n1 = discoveryConnectSem n + (if ok then 1 else 0)"
    using t by (auto simp: tryBeginDiscoveryConnect_def Let_def split: if_splits)
  then show ?thesis using t g assms
    by (auto simp: consider_peer_def attempts_started_def gate_ok_def spawn_def split: bool.splits)
qed

datatype disc_event = DResponse gotime netaddr bytes | DEnd

fun disc_step :: "('h, 'c) Node \<Rightarrow> disc_event \<Rightarrow> ('h, 'c) Node" where
  "disc_step n (DResponse now a payload) = processDiscoveryResponse now (Some a) payload n"
| "disc_step n DEnd = endDiscoveryConnect n"

lemma fold_consider:
  "gate_ok n \<Longrightarrow> gate_ok (fold (consider_peer now) es n) \<and>
     attempts_started (fold (consider_peer now) es n) + discoveryConnectSem n =
       attempts_started n + discoveryConnectSem (fold (consider_peer now) es n)"
proof (induction es arbitrary: n)
  case (Cons e es)
  from consider_peer_gate [OF Cons.prems, of now e] Cons.IH [of "consider_peer now e n"] show ?case by simp
qed simp

lemma disc_step_gate: "gate_ok n \<Longrightarrow> gate_ok (disc_step n e)"
proof (cases e)
  case DEnd
  assume "gate_ok n"
  with DEnd show ?thesis by (auto simp: endDiscoveryConnect_def gate_ok_def)
qed (simp add: processDiscoveryResponse_def Let_def fold_consider)

interpretation gate: invariant_machine disc_step gate_ok
  by unfold_locales (rule disc_step_gate)

definition ends :: "disc_event list \<Rightarrow> nat" where
  "ends es = length (filter ((=) DEnd) es)"

lemma disc_run_attempts:
  "gate_ok n \<Longrightarrow> attempts_started (foldl disc_step n es) + discoveryConnectSem n \<le>
     attempts_started n + discoveryConnectSem (foldl disc_step n es) + ends es"
proof (induction es arbitrary: n)
  case (Cons e es)
  have "attempts_started (disc_step n e) + discoveryConnectSem n \<le>
      attempts_started n + discoveryConnectSem (disc_step n e) + ends [e]"
    using fold_consider [OF Cons.prems]
    by (cases e) (auto simp: processDiscoveryResponse_def Let_def endDiscoveryConnect_def ends_def attempts_started_def)
  with Cons.IH [OF disc_step_gate [OF Cons.prems], of e] show ?case by (simp add: ends_def split: if_splits)
qed (simp add: ends_def)

lemma gate_ok_fresh: "gate_ok (fresh_node cl now cfg i)"
  by (simp add: gate_ok_def fresh_node_def gm_len_def)

subsection \<open>Properties\<close>

text \<open>C29: what a node answers to a discovery request is what the requester reads: a node that
  accepts the answer considers exactly the listed peers (those with an address), in order, each
  once, with the ID and address the sender has for it. An answer or request from an address
  that belongs to no peer changes nothing.\<close>

theorem discovery_roundtrip:
  assumes "ps_Count (n_Peers A) < 65536"
  shows "processDiscoveryResponse now a (discovery_payload A) B =
      (if isDiscoverySourceAuthenticated B a then fold (consider_peer now) (known_peers A) B else B) \<and>
    (\<not> isDiscoverySourceAuthenticated B a \<longrightarrow> processDiscoveryRequest env c a t req B = B)"
proof -
  have "length (known_peers A) < 65536" using assms length_known_peers [of A] by simp
  then have "unat (discovery_payload A ! 0) * 256 + unat (discovery_payload A ! 1) = length (known_peers A)"
    by (simp add: discovery_payload_eq count_bytes)
  moreover have "take_items next_entry (length (known_peers A)) (drop 2 (discovery_payload A)) = known_peers A"
    using disc.take_items_concat [OF known_peers_ok, of A "[]"] by (simp add: discovery_payload_eq)
  moreover have "2 \<le> length (discovery_payload A)" by (simp add: discovery_payload_eq)
  ultimately show ?thesis by (simp add: processDiscoveryResponse_def processDiscoveryRequest_def Let_def)
qed


text \<open>After an attempt is granted, the same target is refused during the cool-down of ten
  seconds, whatever tokens are free by then.\<close>

theorem discovery_cooldown:
  assumes "tryBeginDiscoveryConnect now p a n = (True, n1)" "discoveryConnectSeen n2 = discoveryConnectSeen n1"
    and "now < later" "later < now + 10000000000" "gm_wf (discoveryConnectSeen n)"
  shows "fst (tryBeginDiscoveryConnect later p a n2) = False"
proof -
  let ?s2 = "make_room now (prune_if_large now (discoveryConnectSeen n))"
  have w: "gm_wf ?s2" by (intro make_room_len(1) prune_if_large_len(1) assms(5))
  have s: "discoveryConnectSeen n2 = gm_put (discovery_key p a) (time_Add now discoveryConnectCooldown) ?s2"
    using assms(1,2) by (auto simp: tryBeginDiscoveryConnect_def Let_def split: if_splits)
  have b: "time_Before later (time_Add now discoveryConnectCooldown)"
    using assms(4) by (simp add: time_Before_def time_Add_def discoveryConnectCooldown_def)
  have "gm_get (prune_if_large later (discoveryConnectSeen n2)) (discovery_key p a) = Some (time_Add now discoveryConnectCooldown)"
    using w b by (simp add: s prune_if_large_def pruneDiscoveryConnectSeenLocked_def gm_get_prune)
  then show ?thesis using b by (simp add: tryBeginDiscoveryConnect_def Let_def)
qed

subsection \<open>Witnesses\<close>

theorem discovery_roundtrip_witness:
  "processDiscoveryResponse 5 (Some (UDPAddr ''10.0.0.1:9'')) (discovery_payload demo_tcp_node) demo_node =
     fold (consider_peer 5) (known_peers demo_tcp_node) demo_node"
proof -
  have "isDiscoverySourceAuthenticated demo_node (Some (UDPAddr ''10.0.0.1:9''))" "ps_Count (n_Peers demo_tcp_node) < 65536"
    by (simp_all add: isDiscoverySourceAuthenticated_def demo_tcp_defs gm_get_def ps_Get_def ps_Count_def gm_len_def)
  with discovery_roundtrip [of demo_tcp_node 5 "Some (UDPAddr ''10.0.0.1:9'')" demo_node] show ?thesis by simp
qed

theorem discovery_cooldown_witness:
  "fst (tryBeginDiscoveryConnect 7 ''p'' ''a:1'' (snd (tryBeginDiscoveryConnect 5 ''p'' ''a:1'' demo_B))) = False"
proof -
  have "tryBeginDiscoveryConnect 5 ''p'' ''a:1'' demo_B = (True, snd (tryBeginDiscoveryConnect 5 ''p'' ''a:1'' demo_B))"
    "gm_wf (discoveryConnectSeen demo_B)"
    by (simp_all add: tryBeginDiscoveryConnect_def Let_def demo_ab prune_if_large_def gm_len_def discovery_limits make_room_def gm_wf_def)
  from discovery_cooldown [OF this(1) refl _ _ this(2), of 7] show ?thesis by simp
qed

end
