(* ===== verification/Node_Dispatch.thy ===== *)
theory Node_Dispatch
  imports Node_Discovery
begin

text \<open>
  Where packets enter a node: the dispatch on the packet type (\<open>handlePacket\<close> of \<open>node/node.go\<close>),
  the datagram handler (\<open>handleRead\<close> of \<open>node/udp_io.go\<close>), relaying (\<open>node/relay_handler.go\<close>),
  and the accessors and callback setters of \<open>node/node.go\<close>.

  \<open>handle_datagram\<close> is the body of the read loop on one datagram; the waits and retries around
  it read the next one.
\<close>

subsection \<open>Dispatch\<close>

definition handlePacket ::
    "('h, 'c) env \<Rightarrow> gotime \<Rightarrow> conn option \<Rightarrow> netaddr \<Rightarrow> string \<Rightarrow> byte \<Rightarrow> bytes \<Rightarrow> ('h, 'c) Node \<Rightarrow> ('h, 'c) Node" where
  "handlePacket env now c remoteAddr transport packetType payload n =
     (if packetType = PacketTypeHandshake then processHandshake env now c remoteAddr transport payload n
      else if packetType = PacketTypeData then processData env now remoteAddr payload n
      else if packetType = PacketTypeDiscoveryReq then processDiscoveryRequest env c (Some remoteAddr) transport payload n
      else if packetType = PacketTypeDiscoveryResp then processDiscoveryResponse now (Some remoteAddr) payload n
      else if packetType = PacketTypeHeartbeat then processHeartbeat env now c remoteAddr transport n
      else if packetType = PacketTypeHeartbeatAck then processHeartbeatAck now remoteAddr n
      else n)"

subsection \<open>Relaying\<close>

definition getRelayAuthenticator :: "crypto_lib \<Rightarrow> ('h, 'c) Node \<Rightarrow> RelayAuthenticator \<times> ('h, 'c) Node" where
  "getRelayAuthenticator cl n =
     (case relayAuth n of
        Some auth \<Rightarrow> (auth, n)
      | None \<Rightarrow>
          let auth = NewRelayAuthenticator cl (Some \<lparr>Enabled = EnableRelayAuth (n_Config n),
                TokenTTL = RelayAuthTTL (n_Config n), ra_NetworkPassword = NetworkPassword (n_Config n)\<rparr>)
          in (auth, n\<lparr>relayAuth := Some auth\<rparr>))"

text \<open>The bytes of a relay packet around an address, a token and the inner packet.\<close>

definition relay_packet :: "byte \<Rightarrow> string \<Rightarrow> bytes \<Rightarrow> bytes \<Rightarrow> bytes" where
  "relay_packet mode addrStr authTokenData inner =
     (let payload = replicate (2 + length addrStr + 1 + length authTokenData + length inner) 0;
          payload = payload[0 := mode];
          payload = payload[1 := of_nat (length addrStr)];
          offset = 2;
          payload = copy_into payload offset (string_bytes addrStr);
          offset = offset + length addrStr;
          payload = payload[offset := of_nat (length authTokenData)];
          offset = offset + 1;
          payload = copy_into payload offset authTokenData;
          offset = offset + length authTokenData;
          payload = copy_into payload offset inner;
          packet = replicate (5 + length payload) 0;
          packet = copy_into packet 0 (string_bytes ''TENT'');
          packet = packet[4 := PacketTypeRelay]
      in copy_into packet 5 payload)"

definition relay_token :: "('h, 'c) env \<Rightarrow> gotime \<Rightarrow> ('h, 'c) Node \<Rightarrow> bytes \<times> ('h, 'c) Node" where
  "relay_token env now n =
     (if EnableRelayAuth (n_Config n)
      then case getRelayAuthenticator (e_crypto env) n of (auth, n1) \<Rightarrow>
        (case GenerateTokenWithHMAC (e_crypto env) now auth (NodeID (n_Identity n)) (replicate 16 0) of
           None \<Rightarrow> ([], n1) | Some token \<Rightarrow> (Token_Encode token, n1))
      else ([], n))"

definition buildRelayPacket ::
    "('h, 'c) env \<Rightarrow> gotime \<Rightarrow> byte \<Rightarrow> netaddr option \<Rightarrow> bytes \<Rightarrow> ('h, 'c) Node \<Rightarrow> (node_error + bytes) \<times> ('h, 'c) Node" where
  "buildRelayPacket env now mode targetAddr inner n =
     (case targetAddr of None \<Rightarrow> (Inl ErrTargetNil, n)
      | Some t \<Rightarrow>
          let addrStr = addr_String t
          in if 255 < length addrStr then (Inl ErrAddrTooLong, n)
             else case relay_token env now n of (authTokenData, n1) \<Rightarrow>
               let authTokenData = (if 255 < length authTokenData then take 255 authTokenData else authTokenData)
               in (Inr (relay_packet mode addrStr authTokenData inner), n1))"

definition connectViaRelay ::
    "('h, 'c) env \<Rightarrow> gotime \<Rightarrow> string \<Rightarrow> ('h, 'c) Node \<Rightarrow> node_error option \<times> ('h, 'c) Node" where
  "connectViaRelay env now targetAddrStr n =
     (case relayManager n of None \<Rightarrow> (Some ErrRelayManagerNil, n)
      | Some rm \<Rightarrow>
          (case e_resolveUDP env targetAddrStr of None \<Rightarrow> (Some ErrResolve, n)
           | Some targetAddr \<Rightarrow>
               (case SelectBestRelay (e_rnd env) rm of Inl e \<Rightarrow> (Some (ErrRelay e), n)
                | Inr relay \<Rightarrow>
                    let relayAddr = ri_Addr (rm_heap rm relay)
                    in case initiator_handshake env now n of Inl e \<Rightarrow> (Some (ErrHandshakeInit e), n)
                       | Inr (hs, msg) \<Rightarrow>
                           let packet = BuildHandshakePacket msg
                           in case buildRelayPacket env now RelayModeForward (Some targetAddr) packet n of
                                (Inl e, n1) \<Rightarrow> (Some e, n1)
                              | (Inr relayPacket, n1) \<Rightarrow>
                                  let n2 = n1\<lparr>pendingHandshakes :=
                                                gm_put (stateKey ''udp'' (addr_String relayAddr)) hs (pendingHandshakes n1),
                                              relayPendingTarget :=
                                                gm_put (addr_String relayAddr) (Some targetAddr) (relayPendingTarget n1)\<rparr>
                                  in case do_write env (UDPWrite relayAddr relayPacket) n2 of
                                       (ok, n3) \<Rightarrow> (if ok then None else Some ErrWriteUDP, n3))))"

text \<open>The fields of a relay payload: mode, target, token, inner packet.\<close>

definition parse_relay :: "bytes \<Rightarrow> (byte \<times> string \<times> bytes \<times> bytes) option" where
  "parse_relay payload =
     (if length payload < 3 then None
      else let mode = payload ! 0; addrLen = unat (payload ! 1)
        in if length payload < 2 + addrLen + 1 then None
           else let addrStr = bytes_string (subslice 2 (2 + addrLen) payload); offset = 2 + addrLen;
                    authTokenLen = unat (payload ! offset); offset = offset + 1
             in if length payload < offset + authTokenLen then None
                else let authTokenData = subslice offset (offset + authTokenLen) payload; offset = offset + authTokenLen;
                         inner = drop offset payload
                  in if length inner = 0 then None else Some (mode, addrStr, authTokenData, inner))"

definition relay_token_ok :: "('h, 'c) env \<Rightarrow> gotime \<Rightarrow> bytes \<Rightarrow> ('h, 'c) Node \<Rightarrow> bool \<times> ('h, 'c) Node" where
  "relay_token_ok env now authTokenData n =
     (if EnableRelayAuth (n_Config n) \<and> 0 < length authTokenData
      then case getRelayAuthenticator (e_crypto env) n of (auth, n1) \<Rightarrow>
        (case DecodeToken authTokenData of
           Inl e \<Rightarrow> (False, upd_metrics IncRelayAuthFailed n1)
         | Inr token \<Rightarrow>
             (case VerifyToken (e_crypto env) (e_rnd env) now auth token None of
                Some e \<Rightarrow> (False, upd_metrics IncRelayAuthFailed n1)
              | None \<Rightarrow> (True, n1)))
      else (True, n))"

definition handleRelayPacket ::
    "('h, 'c) env \<Rightarrow> gotime \<Rightarrow> netaddr option \<Rightarrow> bytes \<Rightarrow> ('h, 'c) Node \<Rightarrow> ('h, 'c) Node" where
  "handleRelayPacket env now origin payload n =
     (if \<not> EnableRelay (n_Config n) then n
      else case origin of None \<Rightarrow> n
      | Some orig \<Rightarrow>
          (case parse_relay payload of None \<Rightarrow> n
           | Some (mode, addrStr, authTokenData, inner) \<Rightarrow>
               (case relay_token_ok env now authTokenData n of
                  (False, n1) \<Rightarrow> n1
                | (True, n1) \<Rightarrow>
                    (case e_resolveUDP env addrStr of None \<Rightarrow> n1
                     | Some targetAddr \<Rightarrow>
                         if mode = RelayModeForward
                         then let n2 = n1\<lparr>relayForward := gm_put (addr_String targetAddr) (Some orig) (relayForward n1)\<rparr>
                           in case buildRelayPacket env now RelayModeTarget (Some targetAddr) inner n2 of
                                (Inl e, n3) \<Rightarrow> n3
                              | (Inr forwardPacket, n3) \<Rightarrow> snd (do_write env (UDPWrite targetAddr forwardPacket) n3)
                         else if mode = RelayModeTarget
                         then if length inner < 5 \<or> subslice 0 4 inner \<noteq> string_bytes ''TENT'' then n1
                              else let packetType = inner ! 4; innerPayload = drop 5 inner;
                                       n2 = n1\<lparr>relayInbound := gm_put (addr_String orig) True (relayInbound n1)\<rparr>
                                in handlePacket env now None orig ''udp'' packetType innerPayload n2
                         else n1))))"

subsection \<open>Datagrams\<close>

definition handle_datagram :: "('h, 'c) env \<Rightarrow> gotime \<Rightarrow> netaddr \<Rightarrow> bytes \<Rightarrow> ('h, 'c) Node \<Rightarrow> ('h, 'c) Node" where
  "handle_datagram env now addr data n =
     (if \<not> is_udp_addr addr then n
      else if length data < 4 then n
      else if subslice 0 4 data = string_bytes ''NATP'' \<and> natProber n \<noteq> None
      then (case HandleProbePacket (Port (e_localAddr env)) data (e_ipaddr env addr) (the (natProber n)) of
              (resp, p) \<Rightarrow>
                let n1 = n\<lparr>natProber := Some p\<rparr>
                in if 0 < length resp then snd (do_write env (UDPWrite addr resp) n1) else n1)
      else if length data < 5 then n
      else if subslice 0 4 data \<noteq> string_bytes ''TENT'' then n
      else let packetType = data ! 4; payload = drop 5 data
        in if packetType = PacketTypeRelay then handleRelayPacket env now (Some addr) payload n
           else case (if EnableRelay (n_Config n) then gm_get (relayForward n) (addr_String addr) else None) of
             Some (Some originAddr) \<Rightarrow> snd (do_write env (UDPWrite originAddr data) n)
           | _ \<Rightarrow> handlePacket env now None addr ''udp'' packetType payload n)"

text \<open>One iteration of the read loop on the socket: whether it goes on, and the node. An error that is
  neither a timeout nor the end of the multiplexer is waited out.\<close>

datatype read_result = ReadDatagram netaddr bytes | ReadTimeout | ReadEOF | ReadError

definition handleRead :: "('h, 'c) env \<Rightarrow> gotime \<Rightarrow> read_result \<Rightarrow> ('h, 'c) Node \<Rightarrow> bool \<times> ('h, 'c) Node" where
  "handleRead env now res n =
     (if n_closing n then (False, n)
      else case res of
             ReadTimeout \<Rightarrow> (True, n)
           | ReadEOF \<Rightarrow> (False, n)
           | ReadError \<Rightarrow> (\<not> n_closing n, n)
           | ReadDatagram addr data \<Rightarrow> (True, handle_datagram env now addr data n))"

subsection \<open>Accessors and callbacks\<close>

definition GetPeerTransport :: "string \<Rightarrow> ('h, 'c) Node \<Rightarrow> string" where
  "GetPeerTransport peerID n =
     (case ps_Get (n_Peers n) peerID of None \<Rightarrow> []
      | Some r \<Rightarrow> (case GetTransportInfo (n_pheap n r) of (transport, _, _) \<Rightarrow>
                     if transport = [] then ''udp'' else transport))"

definition GetPeerLinkMode :: "string \<Rightarrow> ('h, 'c) Node \<Rightarrow> string" where
  "GetPeerLinkMode peerID n =
     (case ps_Get (n_Peers n) peerID of None \<Rightarrow> []
      | Some r \<Rightarrow> (let linkMode = GetLinkMode (n_pheap n r) in if linkMode = [] then ''p2p'' else linkMode))"

definition GetMetrics :: "gotime \<Rightarrow> ('h, 'c) Node \<Rightarrow> Snapshot \<times> ('h, 'c) Node" where
  "GetMetrics now n =
     (let n1 = upd_metrics (SetConnectionsActive (int (ps_Count (n_Peers n)))) n in (GetSnapshot now (n_metrics n1), n1))"

definition GetPeerStats :: "string \<Rightarrow> ('h, 'c) Node \<Rightarrow> PeerStats option" where
  "GetPeerStats peerID n = map_option (\<lambda>r. GetStats (n_pheap n r)) (ps_Get (n_Peers n) peerID)"

definition GetNATInfo :: "('h, 'c) Node \<Rightarrow> NATInfo option" where
  "GetNATInfo n = natInfo n"

definition OnReceive :: "bool \<Rightarrow> ('h, 'c) Node \<Rightarrow> ('h, 'c) Node" where
  "OnReceive f n = n\<lparr>onReceive := f\<rparr>"

definition OnPeerConnected :: "bool \<Rightarrow> ('h, 'c) Node \<Rightarrow> ('h, 'c) Node" where
  "OnPeerConnected f n = n\<lparr>onPeerConnected := f\<rparr>"

definition OnPeerDisconnected :: "bool \<Rightarrow> ('h, 'c) Node \<Rightarrow> ('h, 'c) Node" where
  "OnPeerDisconnected f n = n\<lparr>onPeerDisconnected := f\<rparr>"

definition Node_GetReconnectInfo :: "string \<Rightarrow> ('h, 'c) Node \<Rightarrow> ReconnectInfo option" where
  "Node_GetReconnectInfo peerID n =
     (case reconnectManager n of None \<Rightarrow> None | Some rm \<Rightarrow> GetReconnectInfo peerID rm)"

definition Node_GetAllReconnectInfo :: "('h, 'c) Node \<Rightarrow> ReconnectInfo list" where
  "Node_GetAllReconnectInfo n = (case reconnectManager n of None \<Rightarrow> [] | Some rm \<Rightarrow> GetAllReconnectInfo rm)"

definition Node_CancelReconnect :: "string \<Rightarrow> ('h, 'c) Node \<Rightarrow> ('h, 'c) Node" where
  "Node_CancelReconnect peerID n = n\<lparr>reconnectManager := map_option (CancelReconnect peerID) (reconnectManager n)\<rparr>"

definition Node_CancelAllReconnects :: "('h, 'c) Node \<Rightarrow> ('h, 'c) Node" where
  "Node_CancelAllReconnects n = n\<lparr>reconnectManager := map_option CancelAll (reconnectManager n)\<rparr>"

text \<open>A handler is kept for a manager that is started later and passed on to one that exists.\<close>

definition OnReconnecting :: "bool \<Rightarrow> ('h, 'c) Node \<Rightarrow> ('h, 'c) Node" where
  "OnReconnecting handler n =
     n\<lparr>n_onReconnecting := handler, reconnectManager := map_option (SetOnReconnecting handler) (reconnectManager n)\<rparr>"

definition OnReconnected :: "bool \<Rightarrow> ('h, 'c) Node \<Rightarrow> ('h, 'c) Node" where
  "OnReconnected handler n =
     n\<lparr>n_onReconnected := handler, reconnectManager := map_option (SetOnReconnected handler) (reconnectManager n)\<rparr>"

definition OnGaveUp :: "bool \<Rightarrow> ('h, 'c) Node \<Rightarrow> ('h, 'c) Node" where
  "OnGaveUp handler n =
     n\<lparr>n_onGaveUp := handler, reconnectManager := map_option (SetOnGaveUp handler) (reconnectManager n)\<rparr>"

text \<open>\<open>ProbeNAT\<close> up to the prober's wait for answers, and from there: the helpers it asks, and what it
  does with the prober's result.\<close>

datatype probe_nat_error = ErrNoProber | ErrNoConnectedPeers | ErrNoUDPHelpers | ErrProbe probe_error

definition probe_helpers :: "('h, 'c) Node \<Rightarrow> netaddr list" where
  "probe_helpers n = List.map_filter
     (\<lambda>pid. case ps_Get (n_Peers n) pid of None \<Rightarrow> None
            | Some r \<Rightarrow> (case Addr (n_pheap n r) of None \<Rightarrow> None | Some a \<Rightarrow> if is_udp_addr a then Some a else None))
     (ps_IDs (n_Peers n))"

definition record_nat_info :: "ProbeResult \<Rightarrow> ('h, 'c) Node \<Rightarrow> ('h, 'c) Node" where
  "record_nat_info result n =
     n\<lparr>natInfo := Some \<lparr>ni_Type = NATType_of result, ni_PublicAddr = PublicAddr result,
        ni_PortPredictable = PortPredictable result, ni_PortDelta = PortDelta result, LastProbe = ProbeTime result\<rparr>\<rparr>"

definition ProbeNAT_begin ::
    "('h, 'c) env \<Rightarrow> gotime \<Rightarrow> ('h, 'c) Node \<Rightarrow> (probe_nat_error + 32 word) \<times> ('h, 'c) Node" where
  "ProbeNAT_begin env now n =
     (case natProber n of None \<Rightarrow> (Inl ErrNoProber, n)
      | Some p \<Rightarrow>
          if length (ps_IDs (n_Peers n)) = 0 then (Inl ErrNoConnectedPeers, n)
          else let helperAddrs = probe_helpers n
            in if length helperAddrs = 0 then (Inl ErrNoUDPHelpers, n)
               else case probe_begin now (length helperAddrs) p of
                      (Inl e, p1) \<Rightarrow> (Inl (ErrProbe e), n\<lparr>natProber := Some p1\<rparr>)
                    | (Inr (requestID, packet), p1) \<Rightarrow>
                        (Inr requestID, fold (\<lambda>addr m. snd (do_write env (UDPWrite addr packet) m)) helperAddrs
                                          (n\<lparr>natProber := Some p1\<rparr>)))"

definition ProbeNAT_finish ::
    "('h, 'c) env \<Rightarrow> gotime \<Rightarrow> pendingProbe \<Rightarrow> ('h, 'c) Node \<Rightarrow> (probe_nat_error + ProbeResult) \<times> ('h, 'c) Node" where
  "ProbeNAT_finish env now probe n =
     (case natProber n of None \<Rightarrow> (Inl ErrNoProber, n)
      | Some p \<Rightarrow>
          (case probe_finish now (Some (e_localAddr env)) probe p of
             (Inl e, p1) \<Rightarrow> (Inl (ErrProbe e), n\<lparr>natProber := Some p1\<rparr>)
           | (Inr result, p1) \<Rightarrow> (Inr result, record_nat_info result (n\<lparr>natProber := Some p1\<rparr>))))"

subsection \<open>The relay format\<close>

lemma tent_packet_eq:
  "copy_into ((copy_into (replicate (5 + length p) 0) 0 (string_bytes ''TENT''))[4 := ty]) 5 p =
     string_bytes ''TENT'' @ [ty] @ p"
proof -
  have "replicate (5 + length p) (0 :: byte) = replicate 4 0 @ [0] @ replicate (length p) 0"
    by (simp add: replicate_add [symmetric] flip: replicate_Suc)
  then show ?thesis by (simp add: copy_into_def list_update_append)
qed

lemma relay_packet_eq:
  "relay_packet m a tok inner = string_bytes ''TENT'' @ [PacketTypeRelay] @ [m, of_nat (length a)] @ string_bytes a @
     [of_nat (length tok)] @ tok @ inner"
proof -
  have r: "replicate (2 + length a + 1 + length tok + length inner) (0 :: byte) =
      [0, 0] @ replicate (length a) 0 @ [0] @ replicate (length tok) 0 @ replicate (length inner) 0"
    by (simp add: replicate_add [symmetric] flip: replicate_Suc)
  show ?thesis
    unfolding relay_packet_def Let_def r tent_packet_eq by (simp add: copy_into_def list_update_append take_Cons' drop_Cons')
qed

definition relay_ok :: "byte \<times> string \<times> bytes \<times> bytes \<Rightarrow> bool" where
  "relay_ok x \<longleftrightarrow> (case x of (m, a, tok, inner) \<Rightarrow> length a \<le> 255 \<and> length tok \<le> 255 \<and> inner \<noteq> [])"

definition relay_enc :: "byte \<times> string \<times> bytes \<times> bytes \<Rightarrow> bytes" where
  "relay_enc x = (case x of (m, a, tok, inner) \<Rightarrow> drop 5 (relay_packet m a tok inner))"

definition relay_dec :: "bytes \<Rightarrow> unit + byte \<times> string \<times> bytes \<times> bytes" where
  "relay_dec b = (case parse_relay b of None \<Rightarrow> Inl () | Some x \<Rightarrow> Inr x)"

lemma parse_relay_packet:
  assumes "length a \<le> 255" "length tok \<le> 255" "inner \<noteq> []"
  shows "parse_relay (drop 5 (relay_packet m a tok inner)) = Some (m, a, tok, inner)"
  using assms
  by (simp add: relay_packet_eq parse_relay_def Let_def unat_small_byte nth_append subslice_def take_Cons' drop_Cons' nth_Cons')

interpretation relayfmt: codec relay_enc relay_dec relay_ok
  by unfold_locales (auto simp: relay_ok_def relay_enc_def relay_dec_def parse_relay_packet)

lemma relay_packet_head:
  "5 \<le> length (relay_packet m a tok inner)" "subslice 0 4 (relay_packet m a tok inner) = string_bytes ''TENT''"
  "relay_packet m a tok inner ! 4 = PacketTypeRelay"
  by (simp_all add: relay_packet_eq nth_append subslice_def)

lemma tent_not_natp: "string_bytes ''TENT'' \<noteq> string_bytes ''NATP''"
  by (simp add: string_bytes_def byte_of_char_def)

lemma handle_relay_datagram:
  "is_udp_addr a \<Longrightarrow> handle_datagram env now a (relay_packet m s tok inner) n =
     handleRelayPacket env now (Some a) (drop 5 (relay_packet m s tok inner)) n"
  using relay_packet_head [of m s tok inner] tent_not_natp by (simp add: handle_datagram_def Let_def)

lemma handle_forwarded_datagram:
  assumes "is_udp_addr a" "5 \<le> length d" "subslice 0 4 d = string_bytes ''TENT''" "d ! 4 \<noteq> PacketTypeRelay"
    and "EnableRelay (n_Config n)" "gm_get (relayForward n) (addr_String a) = Some (Some orig)"
  shows "handle_datagram env now a d n = emit_out (Wrote (UDPWrite orig d) (e_write env (n_out n) (UDPWrite orig d))) n"
proof -
  have "handle_datagram env now a d n = snd (do_write env (UDPWrite orig d) n)"
    unfolding handle_datagram_def using assms by (simp add: Let_def)
  then show ?thesis by (simp add: do_write_def Let_def)
qed

lemma relay_token_fields:
  "relay_token env now n = (tok, n') \<Longrightarrow>
     n_out n' = n_out n \<and> n_Peers n' = n_Peers n \<and> relayForward n' = relayForward n \<and> n_Config n' = n_Config n \<and>
     addrToPeer n' = addrToPeer n \<and> n_tasks n' = n_tasks n \<and> n_pheap n' = n_pheap n \<and>
     pendingHandshakes n' = pendingHandshakes n \<and> n_pfresh n' = n_pfresh n"
  by (auto simp: relay_token_def getRelayAuthenticator_def Let_def split: if_splits option.splits prod.splits)

subsection \<open>Properties of relaying\<close>


text \<open>Authentication of relay requests can be skipped by leaving the token out: with
  authentication switched on, a forward request with an empty token is passed on.\<close>

theorem relay_auth_skipped_without_token:
  assumes "EnableRelay (n_Config n)" "EnableRelayAuth (n_Config n)" "is_udp_addr orig"
    and "e_resolveUDP env (addr_String target) = Some target" "length (addr_String target) \<le> 255" "inner \<noteq> []"
  shows "\<exists>tok' ok. n_out (handle_datagram env now orig (relay_packet RelayModeForward (addr_String target) [] inner) n) =
    n_out n @ [Wrote (UDPWrite target (relay_packet RelayModeTarget (addr_String target) tok' inner)) ok]"
proof -
  let ?n2 = "n\<lparr>relayForward := gm_put (addr_String target) (Some orig) (relayForward n)\<rparr>"
  obtain tk n3 where tk: "relay_token env now ?n2 = (tk, n3)" by (metis surj_pair)
  have "parse_relay (drop 5 (relay_packet RelayModeForward (addr_String target) [] inner)) =
      Some (RelayModeForward, addr_String target, [], inner)"
    using assms(5,6) by (intro parse_relay_packet) simp_all
  then show ?thesis
    using assms tk relay_token_fields [OF tk]
    by (simp add: handle_relay_datagram handleRelayPacket_def relay_token_ok_def buildRelayPacket_def Let_def do_write_def
        emit_out_def) blast
qed

text \<open>A goodbye is not told from a heartbeat. The packet a stopping node sends to its peers makes
  the receiver refresh the time it last heard of the sender and answer with an acknowledgement;
  the peer stays in the store, with all its addresses, until the heartbeat timeout.\<close>

theorem goodbye_is_heartbeat:
  assumes "peer_of_addr n a = Some (pid, r)" "is_udp_addr a" "\<not> EnableRelay (n_Config n)"
    and "n' = handle_datagram env now a buildGoodbyePacket n"
  shows "n_Peers n' = n_Peers n \<and> addrToPeer n' = addrToPeer n \<and> LastSeen (n_pheap n' r) = now \<and>
    (\<exists>ok. n_out n' = n_out n @
       [Wrote (UDPWrite a (BuildHeartbeatAckPacket (word_of_int (time_UnixNano now)))) ok]) \<and>
    n_tasks n' = n_tasks n"
proof -
  have p: "subslice 0 4 buildGoodbyePacket = string_bytes ''TENT''" "length buildGoodbyePacket = 6"
    "buildGoodbyePacket ! 4 = PacketTypeHeartbeat" "drop 5 buildGoodbyePacket = [0xFF]"
    by (simp_all add: buildGoodbyePacket_def MagicBytes_def copy_into_def subslice_def string_bytes_def Let_def eval_nat_numeral)
  have "n' = processHeartbeat env now None a ''udp'' n"
    using p assms(2-4) tent_not_natp by (simp add: handle_datagram_def handlePacket_def Let_def packet_types)
  with assms(1,2) show ?thesis
    by (auto simp: processHeartbeat_def Let_def sendRaw_def do_write_def UpdateLastSeen_def)
qed

subsection \<open>Witnesses\<close>

text \<open>A relay with authentication switched on.\<close>

definition demo_relay :: "(nat, nat) Node" where
  "demo_relay = demo_node\<lparr>n_Config := WithEnableRelayAuth True (WithEnableRelay True (n_Config demo_node))\<rparr>"

lemma demo_relay_config:
  "EnableRelay (n_Config demo_relay)" "EnableRelayAuth (n_Config demo_relay)"
  by (simp_all add: demo_relay_def WithEnableRelayAuth_def WithEnableRelay_def)

lemma demo_resolve: "e_resolveUDP demo_env (addr_String (UDPAddr ''b'')) = Some (UDPAddr ''b'')"
  by (simp add: demo_env_def)


theorem relay_auth_skipped_without_token_witness:
  "\<exists>tok' ok. n_out (handle_datagram demo_env 7 (UDPAddr ''a'') (relay_packet RelayModeForward ''b'' [] [1, 2]) demo_relay) =
     n_out demo_relay @ [Wrote (UDPWrite (UDPAddr ''b'') (relay_packet RelayModeTarget ''b'' tok' [1, 2])) ok]"
  using relay_auth_skipped_without_token [OF demo_relay_config _ demo_resolve, of "UDPAddr ''a''" "[1, 2]" 7] by simp

theorem goodbye_is_heartbeat_witness:
  "LastSeen (n_pheap (handle_datagram demo_env 7 (UDPAddr ''10.0.0.1:9'') buildGoodbyePacket
     (demo_node\<lparr>n_Config := WithEnableRelay False (n_Config demo_node)\<rparr>)) 0) = 7"
proof -
  let ?n = "demo_node\<lparr>n_Config := WithEnableRelay False (n_Config demo_node)\<rparr>"
  have "peer_of_addr ?n (UDPAddr ''10.0.0.1:9'') = Some (demo_peer_id, 0)" "\<not> EnableRelay (n_Config ?n)"
    by (simp_all add: peer_of_addr_def demo_node_def fresh_node_def gm_get_def ps_Get_def WithEnableRelay_def)
  from goodbye_is_heartbeat [OF this(1) _ this(2) refl, of demo_env 7] show ?thesis by simp
qed

end
