(* ===== verification/Node_Connect.thy ===== *)
theory Node_Connect
  imports Node_Dispatch
begin

text \<open>
  Starting a node (\<open>node/startup.go\<close>, \<open>Start\<close> of \<open>node/node.go\<close>), accepting TCP connections
  (\<open>acceptTCP\<close> of \<open>node/tcp_io.go\<close>) and connecting to an address (\<open>node/connect_flow.go\<close>).

  A call of \<open>Connect\<close> runs beside the goroutines it starts: a worker that punches a TCP hole, a
  worker that repeats the UDP handshake packet, the wait for the first result, and after it the
  relay fallback and the wait for a late TCP connection. The state of the call is a record, what
  can happen next is an event, and \<open>connect_step\<close> is the step each event makes; a run is any
  interleaving. Timers fire when their event comes; an event that is not possible in a state has
  no step. \<open>net.ResolveTCPAddr\<close> is a parameter, and so is a second environment for the second
  handshake, since the Noise library draws new keys for it.
\<close>

subsection \<open>Starting\<close>

text \<open>What the operating system answers to a start: whether the UDP socket and the TCP listener
  could be opened and whether KCP can be served on the socket.\<close>

record start_outcome =
  so_listenUDP :: bool
  so_listenTCP :: bool
  so_serveKCP :: bool

datatype start_error = ErrListenUDP | ErrListenTCP

definition startUDP :: "start_outcome \<Rightarrow> ('h, 'c) Node \<Rightarrow> start_error option \<times> ('h, 'c) Node" where
  "startUDP so n =
     (if \<not> so_listenUDP so then (Some ErrListenUDP, n)
      else (None, n\<lparr>n_started := True, n_mux := NewUDPMux, localPeerID := NodeID_String (NodeID (n_Identity n))\<rparr>))"

definition startTCP :: "('h, 'c) env \<Rightarrow> start_outcome \<Rightarrow> ('h, 'c) Node \<Rightarrow> start_error option \<times> ('h, 'c) Node" where
  "startTCP env so n =
     (let tcpPort = Port (e_localAddr env)
      in if \<not> so_listenTCP so then (Some ErrListenTCP, n)
         else (None, n\<lparr>tcpListener := True, tcpLocalPort := tcpPort\<rparr>))"

definition add_static_relay :: "('h, 'c) env \<Rightarrow> gotime \<Rightarrow> string \<Rightarrow> ('h, 'c) Node \<Rightarrow> ('h, 'c) Node" where
  "add_static_relay env now addrStr n =
     (case e_resolveUDP env addrStr of None \<Rightarrow> n
      | Some relayAddr \<Rightarrow>
          n\<lparr>relayManager := map_option (AddRelay now addrStr relayAddr) (relayManager n),
            relayAddrSet := gm_put (addr_String relayAddr) True (relayAddrSet n)\<rparr>)"

definition startRelay :: "('h, 'c) env \<Rightarrow> gotime \<Rightarrow> ('h, 'c) Node \<Rightarrow> ('h, 'c) Node" where
  "startRelay env now n =
     fold (add_static_relay env now) (RelayNodes (n_Config n)) (n\<lparr>relayManager := Some NewRelayManager\<rparr>)"

definition startNATAndKCP :: "start_outcome \<Rightarrow> ('h, 'c) Node \<Rightarrow> ('h, 'c) Node" where
  "startNATAndKCP so n =
     (let n1 = n\<lparr>natProber := Some NewNATProber\<rparr>
      in case KCP_Start (so_serveKCP so) (NewKCPTransport (cfg_KCPConfig (n_Config n1))) of
           (True, t) \<Rightarrow> n1\<lparr>kcpTransport := Some t\<rparr>
         | (False, _) \<Rightarrow> n1\<lparr>kcpTransport := None\<rparr>)"

definition startReconnectManager :: "('h, 'c) Node \<Rightarrow> ('h, 'c) Node" where
  "startReconnectManager n =
     (if \<not> EnableReconnect (n_Config n) then n
      else let reconnectCfg = (case cfg_ReconnectConfig (n_Config n) of
                 None \<Rightarrow> DefaultReconnectConfig | Some c \<Rightarrow> c);
               rm = NewReconnectManager (Some reconnectCfg);
               rm = (if n_onReconnecting n then SetOnReconnecting True rm else rm);
               rm = (if n_onReconnected n then SetOnReconnected True rm else rm);
               rm = (if n_onGaveUp n then SetOnGaveUp True rm else rm)
        in n\<lparr>reconnectManager := Some rm\<rparr>)"

definition closeOnStartFailure :: "('h, 'c) Node \<Rightarrow> ('h, 'c) Node" where
  "closeOnStartFailure n =
     (let n1 = n\<lparr>tcpListener := False\<rparr>
      in if n_started n1 then n1\<lparr>n_mux := Mux_Close (n_mux n1), n_started := False\<rparr> else n1)"

definition Start ::
    "('h, 'c) env \<Rightarrow> gotime \<Rightarrow> start_outcome \<Rightarrow> ('h, 'c) Node \<Rightarrow> start_error option \<times> ('h, 'c) Node" where
  "Start env now so n =
     (case startUDP so n of
        (Some e, n1) \<Rightarrow> (Some e, n1)
      | (None, n1) \<Rightarrow>
          (case startTCP env so n1 of
             (Some e, n2) \<Rightarrow> (Some e, closeOnStartFailure n2)
           | (None, n2) \<Rightarrow>
               (None, startReconnectManager (startNATAndKCP so (startRelay env now n2)))))"

subsection \<open>Accepting TCP connections\<close>

definition maxConcurrentTCPHandlers :: nat where "maxConcurrentTCPHandlers = 512"

text \<open>One accepted connection, and the end of its handler.\<close>

definition acceptTCP :: "conn \<Rightarrow> ('h, 'c) Node \<Rightarrow> ('h, 'c) Node" where
  "acceptTCP c n =
     (if \<not> tcpListener n then n
      else if tcpSessionSem n < maxConcurrentTCPHandlers
      then spawn (THandleTCP c) (n\<lparr>tcpSessionSem := Suc (tcpSessionSem n)\<rparr>)
      else n\<lparr>n_world := close_conn (Some c) (n_world n)\<rparr>)"

definition end_accepted :: "conn \<Rightarrow> ('h, 'c) Node \<Rightarrow> ('h, 'c) Node" where
  "end_accepted c n = n\<lparr>tcpSessionSem := tcpSessionSem n - 1, n_world := close_conn (Some c) (n_world n)\<rparr>"

subsection \<open>Connecting\<close>

record connectResult =
  cr_Conn :: "conn option"
  cr_Transport :: string
  cr_Err :: "goerror option"

datatype connect_error =
  ErrNode node_error | ErrContext goerror | ErrNodeClosing | ErrPunch goerror | ErrConnectTimeout

text \<open>A call in progress: the addresses and packets it was started with, the channel the workers
  write to, the workers that still run, whether the punch context is cancelled, the TCP error
  seen so far, what the call has returned, and the two goroutines it may leave behind.\<close>

record connectCall =
  cc_remoteAddr :: string
  cc_remoteUDPAddr :: netaddr
  cc_udpPacket :: bytes
  cc_tcpPacket :: bytes
  resultCh :: "connectResult list"
  cc_tcpWorker :: bool
  cc_udpWorker :: bool
  punchCancelled :: bool
  tcpPunchErr :: "goerror option"
  cc_return :: "connect_error option option"
  cc_fallback :: bool
  cc_lateTCP :: bool

definition resolveConnectAddrs ::
    "('h, 'c) env \<Rightarrow> (string \<Rightarrow> netaddr option) \<Rightarrow> string \<Rightarrow> ('h, 'c) Node \<Rightarrow> node_error + netaddr \<times> netaddr" where
  "resolveConnectAddrs env ResolveTCPAddr remoteAddr n =
     (if \<not> n_started n then Inl ErrNotStarted
      else case e_resolveUDP env remoteAddr of None \<Rightarrow> Inl ErrResolve
      | Some remoteUDPAddr \<Rightarrow>
          (case ResolveTCPAddr remoteAddr of None \<Rightarrow> Inl ErrResolve
           | Some remoteTCPAddr \<Rightarrow> Inr (remoteUDPAddr, remoteTCPAddr)))"

definition handshake_packet :: "bytes \<Rightarrow> bytes" where
  "handshake_packet msg =
     (let packet = replicate (5 + length msg) 0; packet = copy_into packet 0 (string_bytes ''TENT'');
          packet = packet[4 := PacketTypeHandshake]
      in copy_into packet 5 msg)"

definition buildInitiatorHandshakePackets ::
    "('h, 'c) env \<Rightarrow> ('h, 'c) env \<Rightarrow> gotime \<Rightarrow> ('h, 'c) Node \<Rightarrow>
       node_error + 'h HandshakeState \<times> 'h HandshakeState \<times> bytes \<times> bytes" where
  "buildInitiatorHandshakePackets env env2 now n =
     (case initiator_handshake env now n of Inl e \<Rightarrow> Inl (ErrHandshakeInit e)
      | Inr (udpHandshakeState, udpHandshakeMessage) \<Rightarrow>
          (case initiator_handshake env2 now n of Inl e \<Rightarrow> Inl (ErrHandshakeInit e)
           | Inr (tcpHandshakeState, tcpHandshakeMessage) \<Rightarrow>
               Inr (udpHandshakeState, tcpHandshakeState,
                    handshake_packet udpHandshakeMessage, handshake_packet tcpHandshakeMessage)))"

definition registerPendingHandshakes ::
    "netaddr \<Rightarrow> netaddr \<Rightarrow> 'h HandshakeState \<Rightarrow> 'h HandshakeState \<Rightarrow> ('h, 'c) Node \<Rightarrow> ('h, 'c) Node" where
  "registerPendingHandshakes remoteUDPAddr remoteTCPAddr udpHandshakeState tcpHandshakeState n =
     (let udpStateKey = ''udp://'' @ addr_String remoteUDPAddr; tcpStateKey = ''tcp://'' @ addr_String remoteTCPAddr
      in n\<lparr>pendingHandshakes := gm_put tcpStateKey tcpHandshakeState
             (gm_put udpStateKey udpHandshakeState (pendingHandshakes n))\<rparr>)"

definition startPunchWorkers :: "string \<Rightarrow> netaddr \<Rightarrow> bytes \<Rightarrow> bytes \<Rightarrow> connectCall" where
  "startPunchWorkers remoteAddr remoteUDPAddr udpHandshakePacket tcpHandshakePacket =
     \<lparr>cc_remoteAddr = remoteAddr, cc_remoteUDPAddr = remoteUDPAddr, cc_udpPacket = udpHandshakePacket,
      cc_tcpPacket = tcpHandshakePacket, resultCh = [], cc_tcpWorker = True, cc_udpWorker = True,
      punchCancelled = False, tcpPunchErr = None, cc_return = None, cc_fallback = False, cc_lateTCP = False\<rparr>"

definition connectContext ::
    "('h, 'c) env \<Rightarrow> ('h, 'c) env \<Rightarrow> (string \<Rightarrow> netaddr option) \<Rightarrow> gotime \<Rightarrow> string \<Rightarrow> ('h, 'c) Node \<Rightarrow>
       (node_error + connectCall) \<times> ('h, 'c) Node" where
  "connectContext env env2 ResolveTCPAddr now remoteAddr n =
     (case resolveConnectAddrs env ResolveTCPAddr remoteAddr n of
        Inl e \<Rightarrow> (Inl e, n)
      | Inr (remoteUDPAddr, remoteTCPAddr) \<Rightarrow>
          (case buildInitiatorHandshakePackets env env2 now n of
             Inl e \<Rightarrow> (Inl e, n)
           | Inr (udpHandshakeState, tcpHandshakeState, udpHandshakePacket, tcpHandshakePacket) \<Rightarrow>
               (Inr (startPunchWorkers remoteAddr remoteUDPAddr udpHandshakePacket tcpHandshakePacket),
                registerPendingHandshakes remoteUDPAddr remoteTCPAddr udpHandshakeState tcpHandshakeState n)))"

text \<open>Returning cancels the punch context.\<close>

definition return_call :: "connect_error option \<Rightarrow> connectCall \<Rightarrow> connectCall" where
  "return_call res c = c\<lparr>cc_return := Some res, punchCancelled := True\<rparr>"

definition scheduleRelayFallback :: "('h, 'c) Node \<Rightarrow> connectCall \<Rightarrow> connectCall" where
  "scheduleRelayFallback n c = (if \<not> EnableRelay (n_Config n) then c else c\<lparr>cc_fallback := True\<rparr>)"

text \<open>A punched connection is used: the handshake is sent over it and its reader started.\<close>

definition use_tcp ::
    "('h, 'c) env \<Rightarrow> conn \<Rightarrow> bytes \<Rightarrow> ('h, 'c) Node \<Rightarrow> node_error option \<times> ('h, 'c) Node" where
  "use_tcp env cn packet n =
     (case writeTCPPacket env cn packet n of
        (Some e, n1) \<Rightarrow> (Some e, n1\<lparr>n_world := close_conn (Some cn) (n_world n1)\<rparr>)
      | (None, n1) \<Rightarrow> (None, spawn (THandleTCP cn) n1))"

definition take_result ::
    "('h, 'c) env \<Rightarrow> connectResult \<Rightarrow> connectCall \<times> ('h, 'c) Node \<Rightarrow> connectCall \<times> ('h, 'c) Node" where
  "take_result env result cn =
     (case cn of (c, n) \<Rightarrow>
        if cr_Transport result = ''tcp''
        then (case cr_Conn result of
                Some tc \<Rightarrow> (case use_tcp env tc (cc_tcpPacket c) n of
                              (Some e, n1) \<Rightarrow> (return_call (Some (ErrNode e)) c, n1)
                            | (None, n1) \<Rightarrow> (return_call None c, n1))
              | None \<Rightarrow> (if cr_Err result \<noteq> None then c\<lparr>tcpPunchErr := cr_Err result\<rparr> else c, n))
        else if cr_Transport result = ''udp''
        then (return_call None ((scheduleRelayFallback n c)\<lparr>cc_lateTCP := True\<rparr>), n)
        else (if cr_Err result \<noteq> None then c\<lparr>tcpPunchErr := cr_Err result\<rparr> else c,
              case cr_Conn result of None \<Rightarrow> n | Some tc \<Rightarrow> n\<lparr>n_world := close_conn (Some tc) (n_world n)\<rparr>))"

definition dial_timeout ::
    "('h, 'c) env \<Rightarrow> gotime \<Rightarrow> connectCall \<times> ('h, 'c) Node \<Rightarrow> connectCall \<times> ('h, 'c) Node" where
  "dial_timeout env now cn =
     (case cn of (c, n) \<Rightarrow>
        let give_up = (case tcpPunchErr c of Some e \<Rightarrow> ErrPunch e | None \<Rightarrow> ErrConnectTimeout)
        in if relayManager n \<noteq> None
           then (case connectViaRelay env now (cc_remoteAddr c) n of
                   (None, n1) \<Rightarrow> (return_call None c, n1)
                 | (Some e, n1) \<Rightarrow> (return_call (Some give_up) c, n1))
           else (return_call (Some give_up) c, n))"

definition awaitLateTCPUpgrade ::
    "('h, 'c) env \<Rightarrow> connectResult \<Rightarrow> connectCall \<times> ('h, 'c) Node \<Rightarrow> connectCall \<times> ('h, 'c) Node" where
  "awaitLateTCPUpgrade env result cn =
     (case cn of (c, n) \<Rightarrow>
        (case cr_Conn result of
           None \<Rightarrow> (c, n)
         | Some tc \<Rightarrow>
             if cr_Transport result = ''tcp''
             then (c\<lparr>cc_lateTCP := False\<rparr>, snd (use_tcp env tc (cc_tcpPacket c) n))
             else (c, n\<lparr>n_world := close_conn (Some tc) (n_world n)\<rparr>)))"

datatype connect_event =
  TCPPunched conn | TCPPunchFailed goerror | UDPWorkerSends | UDPWorkerTimeout | UDPWorkerCancelled
| ClosingCancelsPunch | ContextDone goerror | SeesClosing | TakesResult | DialTimeoutFires
| FallbackFires | FallbackStops | LateTakesResult | LateStops

fun connect_step ::
    "('h, 'c) env \<Rightarrow> gotime \<Rightarrow> connect_event \<Rightarrow> connectCall \<times> ('h, 'c) Node \<Rightarrow> (connectCall \<times> ('h, 'c) Node) option" where
  "connect_step env now (TCPPunched tc) (c, n) =
     (if cc_tcpWorker c
      then Some (c\<lparr>cc_tcpWorker := False,
                   resultCh := resultCh c @ [\<lparr>cr_Conn = Some tc, cr_Transport = ''tcp'', cr_Err = None\<rparr>]\<rparr>, n)
      else None)"
| "connect_step env now (TCPPunchFailed e) (c, n) =
     (if cc_tcpWorker c
      then Some (c\<lparr>cc_tcpWorker := False,
                   resultCh := resultCh c @ [\<lparr>cr_Conn = None, cr_Transport = ''tcp'', cr_Err = Some e\<rparr>]\<rparr>, n)
      else None)"
| "connect_step env now UDPWorkerSends (c, n) =
     (if cc_udpWorker c \<and> \<not> punchCancelled c
      then Some (c, snd (do_write env (UDPWrite (cc_remoteUDPAddr c) (cc_udpPacket c)) n)) else None)"
| "connect_step env now UDPWorkerTimeout (c, n) =
     (if cc_udpWorker c
      then Some (c\<lparr>cc_udpWorker := False,
                   resultCh := resultCh c @ [\<lparr>cr_Conn = None, cr_Transport = ''udp'', cr_Err = None\<rparr>]\<rparr>, n)
      else None)"
| "connect_step env now UDPWorkerCancelled (c, n) =
     (if cc_udpWorker c \<and> punchCancelled c then Some (c\<lparr>cc_udpWorker := False\<rparr>, n) else None)"
| "connect_step env now ClosingCancelsPunch (c, n) =
     (if n_closing n then Some (c\<lparr>punchCancelled := True\<rparr>, n) else None)"
| "connect_step env now (ContextDone e) (c, n) =
     (if cc_return c = None then Some (return_call (Some (ErrContext e)) c, n) else None)"
| "connect_step env now SeesClosing (c, n) =
     (if cc_return c = None \<and> n_closing n then Some (return_call (Some ErrNodeClosing) c, n) else None)"
| "connect_step env now TakesResult (c, n) =
     (if cc_return c = None
      then (case resultCh c of [] \<Rightarrow> None
            | result # rest \<Rightarrow> Some (take_result env result (c\<lparr>resultCh := rest\<rparr>, n)))
      else None)"
| "connect_step env now DialTimeoutFires (c, n) =
     (if cc_return c = None then Some (dial_timeout env now (c, n)) else None)"
| "connect_step env now FallbackFires (c, n) =
     (if cc_fallback c
      then Some (c\<lparr>cc_fallback := False\<rparr>,
                 if gm_has (addrToPeer n) (addr_String (cc_remoteUDPAddr c)) then n
                 else snd (connectViaRelay env now (cc_remoteAddr c) n))
      else None)"
| "connect_step env now FallbackStops (c, n) =
     (if cc_fallback c then Some (c\<lparr>cc_fallback := False\<rparr>, n) else None)"
| "connect_step env now LateTakesResult (c, n) =
     (if cc_lateTCP c
      then (case resultCh c of [] \<Rightarrow> None
            | result # rest \<Rightarrow> Some (awaitLateTCPUpgrade env result (c\<lparr>resultCh := rest\<rparr>, n)))
      else None)"
| "connect_step env now LateStops (c, n) =
     (if cc_lateTCP c then Some (c\<lparr>cc_lateTCP := False\<rparr>, n) else None)"

fun connect_run ::
    "('h, 'c) env \<Rightarrow> (gotime \<times> connect_event) list \<Rightarrow> connectCall \<times> ('h, 'c) Node \<Rightarrow> (connectCall \<times> ('h, 'c) Node) option" where
  "connect_run env [] cn = Some cn"
| "connect_run env ((now, e) # es) cn =
     (case connect_step env now e cn of None \<Rightarrow> None | Some cn' \<Rightarrow> connect_run env es cn')"

subsection \<open>Facts about a call\<close>

definition is_udp_result :: "connectResult \<Rightarrow> bool" where
  "is_udp_result r \<longleftrightarrow> cr_Transport r = ''udp''"

text \<open>The channel has room for what the workers will still write, holds only their results, and as
  long as the call waits and the punch is not cancelled, the result of the UDP worker is in the
  channel or still to come.\<close>

definition call_inv :: "connectCall \<Rightarrow> bool" where
  "call_inv c \<longleftrightarrow> length (resultCh c) + (if cc_tcpWorker c then 1 else 0) + (if cc_udpWorker c then 1 else 0) \<le> 2 \<and>
     (\<forall>r \<in> set (resultCh c). cr_Transport r = ''tcp'' \<or> is_udp_result r) \<and> (cc_lateTCP c \<longrightarrow> cc_return c \<noteq> None) \<and>
     (cc_return c = None \<longrightarrow> punchCancelled c \<or> cc_udpWorker c \<or> (\<exists>r \<in> set (resultCh c). is_udp_result r))"

lemma take_result_call:
  assumes "take_result env r (c, n) = (c', n')"
  shows "resultCh c' = resultCh c" "cc_tcpWorker c' = cc_tcpWorker c" "cc_udpWorker c' = cc_udpWorker c"
    "cc_return c' = None \<Longrightarrow> punchCancelled c' = punchCancelled c \<and> cc_lateTCP c' = cc_lateTCP c \<and> \<not> is_udp_result r"
  using assms
  by (auto simp: take_result_def return_call_def scheduleRelayFallback_def is_udp_result_def
      split: if_splits option.splits prod.splits)

text \<open>Workers that stop, a call that returns and a punch that is cancelled keep it.\<close>

lemma call_inv_weaken:
  assumes "call_inv c" "resultCh c' = resultCh c" "cc_tcpWorker c' = cc_tcpWorker c" "cc_udpWorker c' \<longrightarrow> cc_udpWorker c"
    and "cc_lateTCP c' \<longrightarrow> cc_lateTCP c" "cc_return c \<noteq> None \<longrightarrow> cc_return c' \<noteq> None"
    and "cc_return c' \<noteq> None \<or> punchCancelled c' \<or> punchCancelled c' = punchCancelled c \<and> cc_udpWorker c' = cc_udpWorker c"
  shows "call_inv c'"
  unfolding call_inv_def assms(2,3)
proof (intro conjI)
  show "length (resultCh c) + (if cc_tcpWorker c then 1 else 0) + (if cc_udpWorker c' then 1 else 0) \<le> 2"
    using assms(1,4) by (simp add: call_inv_def split: if_splits)
qed (use assms in \<open>unfold call_inv_def, blast\<close>)+

lemma call_inv_step:
  assumes "call_inv c" "connect_step env now e (c, n) = Some (c', n')"
  shows "call_inv c'"
proof (cases e)
  case TakesResult
  with assms(2) obtain r rest where r: "cc_return c = None" "resultCh c = r # rest"
    "take_result env r (c\<lparr>resultCh := rest\<rparr>, n) = (c', n')"
    by (auto split: if_splits list.splits)
  from take_result_call [OF r(3)] assms(1) r(1,2) show ?thesis
    by (cases "cc_return c'") (auto simp: call_inv_def)
next
  case LateTakesResult
  with assms(2) obtain r rest where r: "cc_lateTCP c" "resultCh c = r # rest"
    "awaitLateTCPUpgrade env r (c\<lparr>resultCh := rest\<rparr>, n) = (c', n')"
    by (auto split: if_splits list.splits)
  from r(3) have "c' = c\<lparr>resultCh := rest\<rparr> \<or> c' = c\<lparr>resultCh := rest, cc_lateTCP := False\<rparr>"
    by (auto simp: awaitLateTCPUpgrade_def split: if_splits option.splits)
  moreover obtain res where "cc_return c = Some res" using assms(1) r(1) by (auto simp: call_inv_def)
  ultimately show ?thesis using assms(1) r(2) by (elim disjE) (simp_all add: call_inv_def)
next
  case DialTimeoutFires
  with assms(2) have "dial_timeout env now (c, n) = (c', n')" by (simp split: if_splits)
  then have "\<exists>res. c' = return_call res c" by (auto simp: dial_timeout_def Let_def split: if_splits option.splits prod.splits)
  then show ?thesis using assms(1) by (auto simp: return_call_def intro: call_inv_weaken)
next
  case (TCPPunched tc)
  with assms show ?thesis by (auto simp: call_inv_def split: if_splits)
next
  case (TCPPunchFailed er)
  with assms show ?thesis by (auto simp: call_inv_def split: if_splits)
next
  case UDPWorkerTimeout
  with assms show ?thesis by (simp add: call_inv_def is_udp_result_def split: if_splits) force+
qed (insert assms(2), (rule call_inv_weaken [OF assms(1)]; simp add: return_call_def split: if_splits; force)+)

lemma call_inv_start: "call_inv (startPunchWorkers a u p q)"
  by (simp add: call_inv_def startPunchWorkers_def)

interpretation call: invariant_relation "\<lambda>cn. \<exists>a u p q. fst cn = startPunchWorkers a u p q"
    "\<lambda>cn cn'. \<exists>env now e. connect_step env now e cn = Some cn'" "\<lambda>cn. call_inv (fst cn)"
proof
  fix s t :: "connectCall \<times> ('h, 'c) Node"
  show "\<exists>a u p q. fst s = startPunchWorkers a u p q \<Longrightarrow> call_inv (fst s)" using call_inv_start by auto
  show "call_inv (fst s) \<Longrightarrow> \<exists>env now e. connect_step env now e s = Some t \<Longrightarrow> call_inv (fst t)"
    using call_inv_step by (cases s; cases t) auto
qed

lemma connect_run_inv:
  "connect_run env es (c, n) = Some (c', n') \<Longrightarrow> call_inv c \<Longrightarrow> call_inv c'"
proof (induction es arbitrary: c n)
  case (Cons x es)
  obtain now e where x: "x = (now, e)" by (cases x)
  with Cons.prems(1) obtain c1 n1 where 1: "connect_step env now e (c, n) = Some (c1, n1)"
    "connect_run env es (c1, n1) = Some (c', n')"
    by (auto split: option.splits)
  from Cons.IH [OF 1(2) call_inv_step [OF Cons.prems(2) 1(1)]] show ?case .
qed simp

text \<open>Taking the results one after the other ends the call if one of them is the UDP worker's.\<close>

lemma takes_until_return:
  assumes "\<exists>r \<in> set (resultCh c). is_udp_result r" "cc_return c = None"
  shows "\<exists>k c' n'. k \<le> length (resultCh c) \<and> connect_run env (replicate k (now, TakesResult)) (c, n) = Some (c', n') \<and>
    cc_return c' \<noteq> None"
  using assms
proof (induction "resultCh c" arbitrary: c n)
  case (Cons r rest)
  obtain c1 n1 where t: "take_result env r (c\<lparr>resultCh := rest\<rparr>, n) = (c1, n1)" by (metis surj_pair)
  have step: "connect_step env now TakesResult (c, n) = Some (c1, n1)"
    using Cons.prems(2) Cons.hyps(2) t by (simp flip: Cons.hyps(2))
  note f = take_result_call [OF t]
  show ?case
  proof (cases "cc_return c1")
    case None
    with f(4) have "\<not> is_udp_result r" by simp
    then have "\<exists>r \<in> set (resultCh c1). is_udp_result r" using Cons.prems(1) f(1) by (simp flip: Cons.hyps(2))
    from Cons.hyps(1) [OF _ this None, of n1] f(1) obtain k c' n' where k: "k \<le> length rest"
      "connect_run env (replicate k (now, TakesResult)) (c1, n1) = Some (c', n')" "cc_return c' \<noteq> None"
      by auto
    then have "connect_run env (replicate (Suc k) (now, TakesResult)) (c, n) = Some (c', n')" by (simp del: connect_step.simps add: step)
    then show ?thesis using k Cons.hyps(2) by (intro exI [of _ "Suc k"]) (auto simp flip: Cons.hyps(2))
  next
    case (Some res)
    then show ?thesis using step Cons.hyps(2)
      by (intro exI [of _ "Suc 0"] exI [of _ c1] exI [of _ n1]) (simp del: connect_step.simps flip: Cons.hyps(2))
  qed
qed simp

lemma handshake_packet_eq: "handshake_packet msg = BuildHandshakePacket msg"
  by (simp only: handshake_packet_def Let_def tent_packet_eq BuildHandshakePacket_eq) (simp add: MagicBytes_def)

lemma connectContext_ok:
  assumes "connectContext env env2 R now a n = (Inr c, n1)"
  obtains u t hu mu ht mt where "e_resolveUDP env a = Some u" "R a = Some t" "n_started n"
    "initiator_handshake env now n = Inr (hu, mu)" "initiator_handshake env2 now n = Inr (ht, mt)"
    "c = startPunchWorkers a u (BuildHandshakePacket mu) (BuildHandshakePacket mt)"
    "n1 = registerPendingHandshakes u t hu ht n"
  using assms
  by (auto simp: connectContext_def resolveConnectAddrs_def buildInitiatorHandshakePackets_def handshake_packet_eq
      split: sum.splits prod.splits if_splits option.splits)

lemma udp_sends_run:
  assumes "cc_udpWorker c" "\<not> punchCancelled c"
  shows "\<exists>oks. length oks = k \<and> connect_run env (replicate k (now, UDPWorkerSends)) (c, n) =
    Some (c, n\<lparr>n_out := n_out n @ map (Wrote (UDPWrite (cc_remoteUDPAddr c) (cc_udpPacket c))) oks\<rparr>)"
proof (induction k arbitrary: n)
  case (Suc k)
  let ?w = "UDPWrite (cc_remoteUDPAddr c) (cc_udpPacket c)"
  let ?ok = "e_write env (n_out n) ?w"
  obtain oks where "length oks = k" "connect_run env (replicate k (now, UDPWorkerSends)) (c, n\<lparr>n_out := n_out n @ [Wrote ?w ?ok]\<rparr>) =
      Some (c, n\<lparr>n_out := (n_out n @ [Wrote ?w ?ok]) @ map (Wrote ?w) oks\<rparr>)"
    using Suc.IH [of "n\<lparr>n_out := n_out n @ [Wrote ?w ?ok]\<rparr>"] by auto
  then show ?case
    using assms by (intro exI [of _ "?ok # oks"]) (simp add: do_write_def emit_out_def Let_def)
qed simp

lemma connect_run_append:
  "connect_run env (xs @ ys) cn = (case connect_run env xs cn of None \<Rightarrow> None | Some cn' \<Rightarrow> connect_run env ys cn')"
  by (induction env xs cn rule: connect_run.induct) (auto split: option.splits)

subsection \<open>Properties\<close>


text \<open>A nil result of \<open>Connect\<close> does not mean that there is a connection: after the two seconds of
  the UDP worker, in which it only sends, the call returns nil although nothing was received and
  no peer was added.\<close>

theorem connect_nil_without_answer:
  assumes "connectContext env env2 R t0 a n = (Inr c, n1)"
  shows "\<exists>c' n' u m oks. connect_run env (replicate k (t, UDPWorkerSends) @ [(t, UDPWorkerTimeout), (t, TakesResult)]) (c, n1) = Some (c', n') \<and>
    cc_return c' = Some None \<and> n_Peers n' = n_Peers n \<and> addrToPeer n' = addrToPeer n \<and> length oks = k \<and>
    n_out n' = n_out n @ map (Wrote (UDPWrite u (BuildHandshakePacket m))) oks"
proof -
  obtain u tc hu mu ht mt where c: "c = startPunchWorkers a u (BuildHandshakePacket mu) (BuildHandshakePacket mt)"
    and n1: "n1 = registerPendingHandshakes u tc hu ht n"
    using assms by (rule connectContext_ok)
  have f: "n_Peers n1 = n_Peers n" "addrToPeer n1 = addrToPeer n" "n_out n1 = n_out n" "n_Config n1 = n_Config n"
    by (simp_all add: n1 registerPendingHandshakes_def Let_def)
  have "cc_udpWorker c" "\<not> punchCancelled c" "resultCh c = []" "cc_return c = None" by (simp_all add: c startPunchWorkers_def)
  from udp_sends_run [OF this(1,2), of k env t n1] this(1,3,4) show ?thesis
    by (elim exE conjE) (force simp: connect_run_append take_result_def return_call_def scheduleRelayFallback_def f c startPunchWorkers_def)
qed


subsection \<open>Witnesses\<close>

definition demo_dialler :: "(nat, nat) Node" where
  "demo_dialler = demo_B\<lparr>n_started := True\<rparr>"

lemma demo_call:
  "\<exists>c n. connectContext demo_env demo_env (\<lambda>s. Some (TCPAddr s)) 0 ''b'' demo_dialler = (Inr c, n) \<and>
     cc_return c = None \<and> \<not> punchCancelled c"
proof -
  have k: "length (NoisePrivateKey (n_Identity demo_dialler)) = 32" "length (NoisePublicKey (n_Identity demo_dialler)) = 32"
    by (simp_all add: demo_dialler_def demo_ab)
  have "\<exists>hs m. initiator_handshake demo_env 0 demo_dialler = Inr (hs, m)"
    by (simp add: initiator_handshake_def NewInitiatorHandshake_def k) (simp add: demo_noise_def)
  then show ?thesis
    by (auto simp: connectContext_def resolveConnectAddrs_def buildInitiatorHandshakePackets_def demo_dialler_def demo_env_def
        startPunchWorkers_def)
qed


theorem connect_nil_without_answer_witness:
  "\<exists>c n c' n'. connectContext demo_env demo_env (\<lambda>s. Some (TCPAddr s)) 0 ''b'' demo_dialler = (Inr c, n) \<and>
     connect_run demo_env (replicate 10 (1, UDPWorkerSends) @ [(1, UDPWorkerTimeout), (1, TakesResult)]) (c, n) = Some (c', n') \<and>
     cc_return c' = Some None"
proof -
  obtain c n where c: "connectContext demo_env demo_env (\<lambda>s. Some (TCPAddr s)) 0 ''b'' demo_dialler = (Inr c, n)"
    using demo_call by blast
  from connect_nil_without_answer [OF c, of 10 1] c show ?thesis by blast
qed


end
