(* ===== verification/Node_System.thy ===== *)
theory Node_System
  imports Node_Connect
begin

text \<open>
  The node as a whole: every entry point of the previous theories is an event, and an invariant
  holds after every sequence of events. It says that the tables agree with each other, that no two
  peers share a session, that the limits on peers, discovery attempts and TCP handlers hold, and
  that the next shutdown cannot panic.

  Most operations leave everything the invariant speaks of as it is (\<open>calm\<close>); the few that change
  the tables have a lemma of their own.
\<close>

subsection \<open>The invariant\<close>

definition maps_wf :: "('h, 'c) Node \<Rightarrow> bool" where
  "maps_wf n \<longleftrightarrow> gm_wf (pendingHandshakes n) \<and> gm_wf (relayForward n) \<and> gm_wf (relayInbound n) \<and>
     gm_wf (relayPendingTarget n) \<and> gm_wf (relayAddrSet n) \<and> gm_wf (localChannelSet n)"

definition stop_safe :: "('h, 'c) Node \<Rightarrow> bool" where
  "stop_safe n \<longleftrightarrow> (\<not> n_closing n \<longrightarrow> (\<forall>t \<in> set_option (kcpTransport n). \<not> kt_closing t \<and> \<not> km_closing (kt_manager t)))"

definition sessions_ok :: "('h, 'c) Node \<Rightarrow> bool" where
  "sessions_ok n \<longleftrightarrow>
     (\<forall>p r s. ps_Get (n_Peers n) p = Some r \<longrightarrow> PSession (n_pheap n r) = Some s \<longrightarrow> s < n_sfresh n \<and>
        (\<forall>p' r'. ps_Get (n_Peers n) p' = Some r' \<longrightarrow> PSession (n_pheap n r') = Some s \<longrightarrow> p' = p))"

definition peers_within :: "('h, 'c) Node \<Rightarrow> bool" where
  "peers_within n \<longleftrightarrow> 0 < MaxPeers (n_Config n) \<and> int (ps_Count (n_Peers n)) \<le> MaxPeers (n_Config n)"

definition node_inv :: "('h, 'c) Node \<Rightarrow> bool" where
  "node_inv n \<longleftrightarrow> node_wf n \<and> maps_wf n \<and> sessions_ok n \<and> peers_within n \<and> gate_ok n \<and> stop_safe n \<and>
     tcpSessionSem n \<le> maxConcurrentTCPHandlers"

lemmas node_inv_defs = node_inv_def maps_wf_def stop_safe_def sessions_ok_def peers_within_def gate_ok_def

subsection \<open>Calm steps\<close>

definition calm :: "('h, 'c) Node \<Rightarrow> ('h, 'c) Node \<Rightarrow> bool" where
  "calm n n' \<longleftrightarrow> n_Peers n' = n_Peers n \<and> addrToPeer n' = addrToPeer n \<and> n_pfresh n' = n_pfresh n \<and>
     n_sfresh n' = n_sfresh n \<and> n_Config n' = n_Config n \<and> tcpSessionSem n' = tcpSessionSem n \<and>
     (\<forall>r. ID (n_pheap n' r) = ID (n_pheap n r) \<and>
        (PSession (n_pheap n' r) = PSession (n_pheap n r) \<or> PSession (n_pheap n' r) = None)) \<and>
     (maps_wf n \<longrightarrow> maps_wf n') \<and> (gate_ok n \<longrightarrow> gate_ok n') \<and> (stop_safe n \<longrightarrow> stop_safe n')"

lemma calm_refl [simp, intro]: "calm n n"
  by (simp add: calm_def)

lemma calm_trans: "calm n m \<Longrightarrow> calm m k \<Longrightarrow> calm n k"
  unfolding calm_def by metis

lemma calm_inv:
  assumes "node_inv n" "calm n n'"
  shows "node_inv n'"
proof -
  have s: "PSession (n_pheap n' r) = Some s \<Longrightarrow> PSession (n_pheap n r) = Some s" for r s
    using assms(2) unfolding calm_def by (metis option.distinct(1))
  have "node_wf n'"
    using assms node_wf_cong [of n n'] by (simp add: node_inv_def calm_def maps_wf_def)
  moreover have "sessions_ok n'"
    using assms s unfolding node_inv_def sessions_ok_def calm_def by metis
  ultimately show ?thesis using assms by (simp add: node_inv_def calm_def peers_within_def)
qed

text \<open>Updates the invariant does not see.\<close>

lemma calm_upd [simp, intro]:
  "calm n (n\<lparr>n_out := out\<rparr>)" "calm n (n\<lparr>n_world := w\<rparr>)" "calm n (n\<lparr>natProber := np\<rparr>)" "calm n (n\<lparr>natInfo := ni\<rparr>)"
  "calm n (n\<lparr>relayAuth := ra\<rparr>)" "calm n (n\<lparr>relayManager := rm\<rparr>)" "calm n (n\<lparr>reconnectManager := rc\<rparr>)"
  "calm n (n\<lparr>n_mux := mx\<rparr>)" "calm n (n\<lparr>onReceive := b\<rparr>)" "calm n (n\<lparr>onPeerConnected := b\<rparr>)"
  "calm n (n\<lparr>onPeerDisconnected := b\<rparr>)" "calm n (n\<lparr>n_onReconnecting := b\<rparr>)" "calm n (n\<lparr>n_onReconnected := b\<rparr>)"
  "calm n (n\<lparr>n_onGaveUp := b\<rparr>)" "calm n (n\<lparr>n_started := b\<rparr>)" "calm n (n\<lparr>localPeerID := l\<rparr>)" "calm n (n\<lparr>tcpListener := b\<rparr>)"
  "calm n (n\<lparr>tcpLocalPort := i\<rparr>)"
  "calm n (emit_out e n)" "calm n (spawn t n)" "calm n (upd_metrics f n)"
  by (simp_all add: calm_def maps_wf_def gate_ok_def stop_safe_def emit_out_def spawn_def upd_metrics_def)

lemma calm_closing [simp, intro]: "calm n (n\<lparr>n_closing := True\<rparr>)"
  by (simp add: calm_def maps_wf_def gate_ok_def stop_safe_def)

lemma calm_maps [simp]:
  "gm_wf (pendingHandshakes n) \<longrightarrow> gm_wf m \<Longrightarrow> calm n (n\<lparr>pendingHandshakes := m\<rparr>)"
  "gm_wf (relayForward n) \<longrightarrow> gm_wf f \<Longrightarrow> calm n (n\<lparr>relayForward := f\<rparr>)"
  "gm_wf (relayInbound n) \<longrightarrow> gm_wf b \<Longrightarrow> calm n (n\<lparr>relayInbound := b\<rparr>)"
  "gm_wf (relayPendingTarget n) \<longrightarrow> gm_wf f \<Longrightarrow> calm n (n\<lparr>relayPendingTarget := f\<rparr>)"
  "gm_wf (relayAddrSet n) \<longrightarrow> gm_wf b \<Longrightarrow> calm n (n\<lparr>relayAddrSet := b\<rparr>)"
  "gm_wf (localChannelSet n) \<longrightarrow> gm_wf l \<Longrightarrow> calm n (n\<lparr>localChannelSet := l\<rparr>)"
  by (simp_all add: calm_def maps_wf_def gate_ok_def stop_safe_def)

lemma calm_peer:
  "ID (f (n_pheap n r)) = ID (n_pheap n r) \<Longrightarrow> PSession (f (n_pheap n r)) = PSession (n_pheap n r) \<Longrightarrow> calm n (upd_peer r f n)"
  by (simp add: calm_def maps_wf_def gate_ok_def stop_safe_def upd_peer_def)

text \<open>Sequences of calm steps.\<close>

lemma calm_after [intro]: "calm n m \<Longrightarrow> calm m k \<Longrightarrow> calm n k"
  by (rule calm_trans)

lemma calm_fold: "(\<And>x m. calm m (f x m)) \<Longrightarrow> calm n (fold f xs n)"
  by (induction xs arbitrary: n) (auto intro: calm_trans)

lemma calm_sendRaw [simp, intro]: "calm n (snd (sendRaw env c a t p n))"
  using sendRaw_only_out [of env c a t p n] by auto

lemma calm_do_write [simp, intro]: "calm n (snd (do_write env w n))"
  by (simp add: do_write_def Let_def)

lemma calm_writeTCP [simp, intro]: "calm n (snd (writeTCPPacket env c p n))"
  by (simp add: writeTCPPacket_def do_write_def Let_def)

text \<open>A calm change of a calm state.\<close>

lemma calm_step: "calm n m \<Longrightarrow> calm n (snd (sendRaw env c a t p m))" "calm n m \<Longrightarrow> calm n (snd (do_write env w m))"
  "calm n m \<Longrightarrow> calm n (m\<lparr>n_world := w'\<rparr>)" "calm n m \<Longrightarrow> calm n (spawn tk m)" "calm n m \<Longrightarrow> calm n (emit_out e m)"
  "calm n m \<Longrightarrow> calm n (upd_metrics f m)"
  by (auto intro: calm_trans)

subsection \<open>Heartbeats, data and discovery\<close>

lemma calm_heartbeats: "calm n (sendHeartbeats env now n)"
  unfolding sendHeartbeats_def
  by (rule calm_fold) (simp add: send_heartbeat_to_def split: option.splits prod.splits)

lemma calm_LastSeen: "calm n (upd_peer r (UpdateLastSeen now) n)"
  by (rule calm_peer) (simp_all add: UpdateLastSeen_def)

lemma calm_processHeartbeat: "calm n (processHeartbeat env now c a t n)"
  by (auto simp: processHeartbeat_def Let_def split: option.splits intro!: calm_step(1) calm_LastSeen)

lemma calm_processHeartbeatAck: "calm n (processHeartbeatAck now a n)"
  by (auto simp: processHeartbeatAck_def calm_LastSeen split: option.splits)

lemma calm_say_goodbye: "calm n (say_goodbye env now p n)"
proof -
  have "calm n (upd_peer r (SetState now StateDisconnecting) n)" for r
    by (rule calm_peer) (simp_all add: SetState_def)
  then show ?thesis
    by (auto simp: say_goodbye_def Let_def split: option.splits prod.splits intro!: calm_step(1))
qed

lemma calm_close_peer: "calm n (close_peer r n)"
proof -
  have "PSession (n_pheap (close_peer r n) q) = PSession (n_pheap n q) \<or> PSession (n_pheap (close_peer r n) q) = None" for q
    using close_peer_at [of r n] by (cases "q = r") auto
  moreover have "n_sfresh (close_peer r n) = n_sfresh n \<and> tcpSessionSem (close_peer r n) = tcpSessionSem n \<and>
      (maps_wf n \<longrightarrow> maps_wf (close_peer r n)) \<and> (gate_ok n \<longrightarrow> gate_ok (close_peer r n)) \<and>
      (stop_safe n \<longrightarrow> stop_safe (close_peer r n))"
    by (simp add: close_peer_def maps_wf_def gate_ok_def stop_safe_def split: prod.splits)
  ultimately show ?thesis by (simp add: calm_def)
qed

lemma calm_close_peer_id: "calm n (close_peer_id p n)"
  by (simp add: close_peer_id_def calm_close_peer split: option.splits)

lemma calm_handleAppFrame: "calm n (handleAppFrame pid r d n)"
proof -
  have "calm n (upd_peer r (AddRemoteChannel h) n)" "calm n (upd_peer r (RemoveRemoteChannel h) n)" for h
    by (rule calm_peer; simp add: AddRemoteChannel_def RemoveRemoteChannel_def Let_def split: option.splits)+
  then show ?thesis by (simp add: handleAppFrame_def processChannelUpdate_def Let_def)
qed

lemma calm_quiet:
  assumes "quiet r n n'"
  shows "calm n n'"
proof -
  obtain a b buf t f w m where n': "n' = n\<lparr>n_pheap := (n_pheap n)(r := (n_pheap n r)\<lparr>BytesReceived := a, MessagesRecv := b,
       ReassemblyBuffer := buf, LastFrameTime := t, consecutiveDecryptFails := f\<rparr>), n_world := w, n_metrics := m\<rparr>"
    using assms by (rule quietE)
  show ?thesis unfolding n' by (simp add: calm_def maps_wf_def gate_ok_def stop_safe_def)
qed

lemma calm_deliver_plain: "calm n (deliver_plain now pid r pt n)"
proof (cases pt)
  case (Cons ft fd)
  have c: "calm n (counted r fd n)"
    unfolding counted_def by (intro calm_step(6) calm_peer) (simp_all add: AddBytesReceived_def)
  have u: "calm (counted r fd n) (upd_peer r f (counted r fd n))"
    if "\<And>p. ID (f p) = ID p \<and> PSession (f p) = PSession p" for f
    using that by (intro calm_peer) simp_all
  have k: "ID (ResetReassembly p) = ID p \<and> PSession (ResetReassembly p) = PSession p"
    "ID (StartReassembly now p fd) = ID p \<and> PSession (StartReassembly now p fd) = PSession p"
    "ID (snd (AppendReassembly now p fd k)) = ID p \<and> PSession (snd (AppendReassembly now p fd k)) = PSession p"
    "ID (snd (FinishReassembly p fd k)) = ID p \<and> PSession (snd (FinishReassembly p fd k)) = PSession p" for p k
    by (simp_all add: ResetReassembly_def resetReassemblyLocked_def StartReassembly_def AppendReassembly_def
        FinishReassembly_def split: option.splits)
  have e: "upd_peer r (\<lambda>_. f (n_pheap m r)) m = upd_peer r f m" for f and m :: "('a, 'b) Node"
    by (simp add: upd_peer_def)
  note d = calm_trans [OF c] calm_trans [OF c calm_trans [OF u calm_handleAppFrame]]
  obtain completeData ok ovf p where fin: "FinishReassembly (n_pheap (counted r fd n) r) fd MaxReassemblySize = ((completeData, ok, ovf), p)"
    by (metis surj_pair)
  have up: "calm (counted r fd n) (upd_peer r (\<lambda>_. p) (counted r fd n))"
    using k(4) [of "n_pheap (counted r fd n) r" MaxReassemblySize] fin by (intro calm_peer) simp_all
  show ?thesis
    using fin k Cons
    by (auto simp: deliver_plain_def Let_def counted_def [symmetric] intro!: d u calm_trans [OF c up]
        calm_trans [OF calm_trans [OF c up] calm_handleAppFrame])
qed (simp add: deliver_plain_def)

text \<open>Removing a peer.\<close>

lemma inv_removePeer:
  assumes "node_inv n"
  shows "node_inv (removePeerWithReconnect now p b n)"
proof (cases "ps_Get (n_Peers n) p")
  case (Some r)
  let ?n' = "removePeerWithReconnect now p b n"
  note f = removePeer_fields [OF Some refl, of now b]
  have get: "ps_Get (n_Peers ?n') q = (if q = p then None else ps_Get (n_Peers n) q)" for q
    by (simp add: f(1) ps_Get_def ps_Remove_def)
  have ses: "PSession (n_pheap ?n' q) = Some s \<Longrightarrow> PSession (n_pheap n q) = Some s" for q s
    using close_peer_at [of r n] by (cases "q = r") (auto simp: f(3))
  have rest: "n_sfresh ?n' = n_sfresh n \<and> tcpSessionSem ?n' = tcpSessionSem n \<and> (maps_wf n \<longrightarrow> maps_wf ?n') \<and>
      (gate_ok n \<longrightarrow> gate_ok ?n') \<and> (stop_safe n \<longrightarrow> stop_safe ?n')"
    using Some
    by (auto simp: removePeerWithReconnect_def Let_def close_peer_def remove_kcp_session_def Transport_RemoveSession_def
        KCPSession_Close_def emit_out_def upd_metrics_def maps_wf_def gate_ok_def stop_safe_def split: option.splits prod.splits)
  have "sessions_ok ?n'"
    using assms rest get ses unfolding node_inv_def sessions_ok_def by (auto split: if_splits)
  moreover have "peers_within ?n'"
    using assms ps.size_del_le [of "n_Peers n" p] node_wfD(1) [of n] by (auto simp: peers_within_def node_inv_def f(1,5))
  ultimately show ?thesis using assms rest node_wf_removePeer [of n now p b] by (simp add: node_inv_def)
qed (simp add: removePeer_absent assms)

lemma inv_timeouts: "node_inv n \<Longrightarrow> node_inv (checkHeartbeatTimeouts now n)"
proof -
  have s: "node_inv m \<Longrightarrow> node_inv (check_timeout_of now p m)" for p and m :: "('a, 'b) Node"
    by (simp add: check_timeout_of_def removePeer_def inv_removePeer split: option.splits)
  have "node_inv m \<Longrightarrow> node_inv (fold (check_timeout_of now) xs m)" for xs and m :: "('a, 'b) Node"
    by (induction xs arbitrary: m) (auto intro: s)
  then show "node_inv n \<Longrightarrow> ?thesis" by (simp add: checkHeartbeatTimeouts_def)
qed

lemma inv_cleanup:
  assumes "node_inv n"
  shows "node_inv (cleanupStaleMappings now n)"
proof -
  let ?n' = "cleanupStaleMappings now n"
  have w: "node_wf n" "gm_wf (relayForward n)" "gm_wf (relayInbound n)" using assms by (simp_all add: node_inv_def maps_wf_def)
  have "\<forall>a. gm_get (addrToPeer ?n') a = gm_get (addrToPeer n) a"
    using node_wfD(2) [OF w(1)] node_wfD(6) [OF w(1)]
    by (fastforce simp: cleanupStaleMappings_def Let_def gm_get_prune split: option.splits)
  moreover have "gm_wf (addrToPeer ?n')" "maps_wf ?n'" "n_Peers ?n' = n_Peers n" "n_pheap ?n' = n_pheap n" "n_pfresh ?n' = n_pfresh n"
    using assms node_wfD(2) [OF w(1)] by (simp_all add: node_inv_def maps_wf_def cleanupStaleMappings_def Let_def)
  ultimately have "node_wf ?n'" using w(1) by (simp add: node_wf_def maps_wf_def)
  then show ?thesis using assms \<open>maps_wf ?n'\<close>
    by (simp add: node_inv_def sessions_ok_def peers_within_def gate_ok_def stop_safe_def cleanupStaleMappings_def Let_def)
qed

text \<open>The fast re-handshake and received data.\<close>

lemma reserve_session [simp]:
  "ID (snd (ReserveRehandshakeAttempt now w m p)) = ID p" "PSession (snd (ReserveRehandshakeAttempt now w m p)) = PSession p"
  by (simp_all add: ReserveRehandshakeAttempt_def Let_def)

lemma inv_trigger:
  assumes "node_inv n"
  shows "node_inv (triggerFastRehandshake now pid r n)"
proof (cases "rehandshakeInFlight (n_pheap n r)")
  case False
  let ?p1 = "(n_pheap n r)\<lparr>rehandshakeInFlight := True\<rparr>"
  obtain ok d p2 where res: "ReserveRehandshakeAttempt now (FastRehandshakeWindow (n_Config n))
      (FastRehandshakeMaxAttemptsWindow (n_Config n)) ?p1 = ((ok, d), p2)"
    by (metis surj_pair)
  have p2: "ID p2 = ID (n_pheap n r)" "PSession p2 = PSession (n_pheap n r)"
    using reserve_session [of now "FastRehandshakeWindow (n_Config n)" "FastRehandshakeMaxAttemptsWindow (n_Config n)" ?p1]
    by (simp_all add: res)
  have c: "calm n (upd_peer r (\<lambda>_. EndRehandshake p2) n)" "calm n (upd_peer r (\<lambda>_. EndRehandshake (ResetDecryptFailures p2)) n)"
    "calm n (upd_peer r (\<lambda>_. ResetDecryptFailures p2) n)"
    by (intro calm_peer; simp add: p2 EndRehandshake_def ResetDecryptFailures_def)+
  show ?thesis
    using False res c assms
    by (auto simp: triggerFastRehandshake_def TryBeginRehandshake_def Let_def
        intro!: inv_removePeer intro: calm_inv calm_step(4) split: bool.splits)
qed (use assms in \<open>simp add: triggerFastRehandshake_def TryBeginRehandshake_def\<close>)

lemma inv_processData:
  assumes "node_inv n"
  shows "node_inv (processData env now a ct n)"
proof (cases "peer_of_addr n a")
  case (Some pr)
  obtain pid r where pr: "pr = (pid, r)" by (cases pr)
  obtain res w where dec: "Peer_Decrypt (e_noise env) (n_world n) (n_pheap n r) ct = (res, w)" by (metis surj_pair)
  show ?thesis
  proof (cases res)
    case (Inl e)
    obtain k p where inc: "IncDecryptFailures (n_pheap n r) = (k, p)" by (metis surj_pair)
    then have p: "ID p = ID (n_pheap n r)" "PSession p = PSession (n_pheap n r)"
      by (auto simp: IncDecryptFailures_def Let_def)
    have "calm n (upd_metrics IncErrorsTotal (upd_peer r (\<lambda>_. p) (n\<lparr>n_world := w\<rparr>)))"
      by (rule calm_step(6), rule calm_trans [OF calm_upd(2) calm_peer]) (simp_all add: p)
    from calm_inv [OF assms this] show ?thesis
      using Some pr dec Inl inc by (simp add: processData_def Let_def inv_trigger)
  next
    case (Inr pt)
    have "calm n (upd_peer r ResetDecryptFailures (n\<lparr>n_world := w\<rparr>))"
      by (rule calm_trans [OF calm_upd(2) calm_peer]) (simp_all add: ResetDecryptFailures_def)
    from calm_inv [OF assms calm_trans [OF this calm_deliver_plain]] show ?thesis
      using Some pr dec Inr by (simp add: processData_def)
  qed
qed (use assms in \<open>simp add: processData_def\<close>)

lemma calm_sendFastRehandshake: "calm n (snd (sendFastRehandshake env now r n))"
proof -
  obtain t a c where g: "GetTransportInfo (n_pheap n r) = (t, a, c)" by (metis surj_pair)
  have k: "calm m (m\<lparr>pendingHandshakes := gm_del key (pendingHandshakes m)\<rparr>)" for key and m :: "('a, 'b) Node"
    by (rule calm_maps) simp
  have s: "calm n (snd (case sendRaw env c a t pkt (n\<lparr>pendingHandshakes := gm_put key hs (pendingHandshakes n)\<rparr>) of
      (Some e, n2) \<Rightarrow> (Some e, n2\<lparr>pendingHandshakes := gm_del key (pendingHandshakes n2)\<rparr>)
    | (None, n2) \<Rightarrow> (None, spawn (TExpireHandshake key (FastRehandshakePendingTTL (n_Config n2))) n2)))" for pkt key hs
  proof -
    let ?n1 = "n\<lparr>pendingHandshakes := gm_put key hs (pendingHandshakes n)\<rparr>"
    have "calm n ?n1" by (rule calm_maps) simp
    then have "calm n (snd (sendRaw env c a t pkt ?n1))" by (rule calm_step(1))
    then show ?thesis by (cases "sendRaw env c a t pkt ?n1") (auto intro: calm_trans [OF _ k] calm_step(4) split: option.splits)
  qed
  show ?thesis
  proof (cases a)
    case (Some ad)
    show ?thesis
    proof (cases "initiator_handshake env now n")
      case (Inr x)
      obtain hs msg where "x = (hs, msg)" by (cases x)
      with Inr Some s [where pkt = "BuildHandshakePacket msg" and key = "stateKey t (addr_String ad)" and hs = hs] show ?thesis
        by (cases "t = ''tcp''"; cases "t = ''udp''") (clarify, simp add: sendFastRehandshake_def g Let_def)+
    qed (simp add: sendFastRehandshake_def g Some)
  qed (simp add: sendFastRehandshake_def g)
qed

lemma inv_run_rehandshake:
  assumes "node_inv n"
  shows "node_inv (run_rehandshake env now pid r n)"
proof -
  have e: "node_inv m \<Longrightarrow> node_inv (upd_peer r EndRehandshake m)" for m :: "('a, 'b) Node"
    by (erule calm_inv, rule calm_peer) (simp_all add: EndRehandshake_def)
  let ?n1 = "upd_metrics IncFastRehandshakeAttempts n" and ?cfg = "n_Config n"
  obtain res n2 where s: "sendFastRehandshake env now r ?n1 = (res, n2)" by (metis surj_pair)
  have c2: "node_inv n2"
    using calm_inv [OF assms calm_trans [OF calm_upd(21) calm_sendFastRehandshake]] s by (metis snd_conv)
  obtain k d p where f: "RecordRehandshakeFailure now (FastRehandshakeBaseBackoff ?cfg) (FastRehandshakeMaxBackoff ?cfg)
      (n_pheap n2 r) = ((k, d), p)" by (metis surj_pair)
  then have "ID p = ID (n_pheap n2 r)" "PSession p = PSession (n_pheap n2 r)"
    by (auto simp: RecordRehandshakeFailure_def Let_def)
  then have c3: "node_inv (upd_metrics IncFastRehandshakeFailed (upd_peer r (\<lambda>_. p) n2))"
    by (intro calm_inv [OF c2] calm_step(6) calm_peer) simp_all
  have c4: "node_inv (upd_metrics IncFastRehandshakeSuccess (upd_peer r (RecordRehandshakeSuccess now (FastRehandshakeBaseBackoff ?cfg)) n2))"
    by (intro calm_inv [OF c2] calm_step(6) calm_peer) (simp_all add: RecordRehandshakeSuccess_def Let_def)
  show ?thesis
    unfolding run_rehandshake_def using assms c2 c3 c4
    by (intro e) (simp add: Let_def s f inv_removePeer split: option.splits node_error.splits)
qed

subsection \<open>Sending and channels\<close>

lemma UpgradePeer_flags:
  assumes "UpgradePeer R ok pid a mux t = (res, mux', t')"
  shows "kt_closing t' = kt_closing t" "km_closing (kt_manager t') = km_closing (kt_manager t)"
  using assms by (auto simp: UpgradePeer_def DialWithConn_def add_session_def Let_def split: option.splits if_splits)

lemma inv_addr:
  assumes "node_inv n" "ps_Get (n_Peers n) pid \<noteq> None"
  shows "node_inv (n\<lparr>addrToPeer := gm_put a pid (addrToPeer n)\<rparr>)"
  using assms by (auto simp: node_inv_defs node_wf_def)

lemma inv_kcp:
  "node_inv n \<Longrightarrow> stop_safe (n\<lparr>kcpTransport := t\<rparr>) \<Longrightarrow> node_inv (n\<lparr>kcpTransport := t\<rparr>)"
  by (simp add: node_inv_defs node_wf_def)

lemma inv_kcp_upgrade:
  assumes "node_inv n" "kcpTransport n = Some t" "ps_Get (n_Peers n) pid \<noteq> None"
  shows "node_inv (snd (kcp_upgrade env pid a t n))"
proof -
  obtain res mux t' where u: "UpgradePeer (e_resolveUDP env) (e_kcp_dial env (n_out n) (addr_String a)) pid a (n_mux n) t =
      (res, mux, t')" by (metis surj_pair)
  let ?n1 = "n\<lparr>n_mux := mux, kcpTransport := Some t'\<rparr>"
  have "stop_safe ?n1" using assms(1,2) UpgradePeer_flags [OF u] by (simp add: node_inv_def stop_safe_def)
  with inv_kcp [of "n\<lparr>n_mux := mux\<rparr>"] calm_inv [OF assms(1) calm_upd(8)] have i: "node_inv ?n1" by simp
  have "node_inv (?n1\<lparr>addrToPeer := gm_put (addr_String a) pid (addrToPeer n)\<rparr>)"
    using inv_addr [OF i, of pid "addr_String a"] assms(3) by simp
  then have "node_inv (spawn (THandleKCP s) (?n1\<lparr>addrToPeer := gm_put (addr_String a) pid (addrToPeer n)\<rparr>))" for s
    by (rule calm_inv) simp
  with i u show ?thesis by (simp add: kcp_upgrade_def split: sum.splits)
qed

lemma calm_send_on: "calm n (snd (send_on env path pid p n))"
  by (auto simp: send_on_def split: send_path.splits option.splits sum.splits prod.splits)

lemma calm_sendFrame: "calm n (snd (sendFrame env path s r ft fd n))"
proof -
  have "calm n (upd_metrics f (upd_peer r (AddBytesSent k) (n\<lparr>n_world := w\<rparr>)))" for f k w
    by (rule calm_step(6), rule calm_trans [OF calm_upd(2) calm_peer]) (simp_all add: AddBytesSent_def)
  then show ?thesis
    by (auto simp: sendFrame_def Let_def intro: calm_trans [OF _ calm_send_on] split: prod.splits sum.splits)
qed

lemma calm_send_all: "calm n (snd (send_all env path s r fs n))"
proof (induction fs arbitrary: n)
  case (Cons f fs)
  obtain res n1 where f: "sendFrame env path s r (fst f) (snd f) n = (res, n1)" by (metis surj_pair)
  then have "calm n n1" using calm_sendFrame [of n env path s r "fst f" "snd f"] by simp
  with f Cons show ?case by (auto intro: calm_trans split: option.splits)
qed simp

lemma inv_choose_path:
  assumes "node_inv n" "ps_Get (n_Peers n) pid = Some r"
  shows "node_inv (snd (choose_path env r n))"
proof -
  have "ps_Get (n_Peers n) (ID (n_pheap n r)) \<noteq> None"
    using assms node_wfD(4) [of n pid r] by (simp add: node_inv_def)
  with assms(1) inv_kcp_upgrade [OF assms(1)] show ?thesis
    by (auto simp: choose_path_def Let_def split: prod.splits option.splits) (metis snd_conv)+
qed

lemma inv_sendAppFrame:
  assumes "node_inv n"
  shows "node_inv (snd (sendAppFrame env pid t d n))"
proof (cases "pid \<noteq> Node_ID n \<and> (\<exists>r s. ps_Get (n_Peers n) pid = Some r \<and> PSession (n_pheap n r) = Some s)")
  case True
  then obtain r s where r: "pid \<noteq> Node_ID n" "ps_Get (n_Peers n) pid = Some r" "PSession (n_pheap n r) = Some s" by blast
  obtain res n1 where c: "choose_path env r n = (res, n1)" by (metis surj_pair)
  then have i: "node_inv n1" using inv_choose_path [OF assms r(2), of env] by simp
  show ?thesis
  proof (cases res)
    case (Inl e)
    with r c i show ?thesis by (simp add: sendAppFrame_def GetSession_def)
  next
    case (Inr path)
    with sendAppFrame_fragments [OF r] c calm_inv [OF i calm_send_all] show ?thesis by simp
  qed
qed (use assms in \<open>auto simp: sendAppFrame_def GetSession_def split: option.splits\<close>)

lemma inv_fold: "(\<And>x m. node_inv m \<Longrightarrow> node_inv (f x m)) \<Longrightarrow> node_inv n \<Longrightarrow> node_inv (fold f xs n)"
  by (induction xs arbitrary: n) auto

lemma inv_sync: "node_inv n \<Longrightarrow> node_inv (syncChannelsWithPeer env pid n)"
  unfolding syncChannelsWithPeer_def sync_channel_def by (intro inv_fold inv_sendAppFrame)

lemma inv_Send: "node_inv n \<Longrightarrow> node_inv (snd (Node_Send env ch pid d n))"
  by (simp add: Node_Send_def Let_def inv_sendAppFrame)

lemma inv_send_to_all: "node_inv n \<Longrightarrow> node_inv (snd (send_to_all env ch d ps k n))"
proof (induction ps arbitrary: k n)
  case (Cons p ps)
  obtain res n1 where s: "Node_Send env ch p d n = (res, n1)" by (metis surj_pair)
  then have "node_inv n1" using inv_Send [OF Cons.prems, of env ch p d] by simp
  with Cons.IH s show ?case by (simp split: option.splits)
qed simp

lemma inv_channels:
  assumes "node_inv n"
  shows "node_inv (JoinChannel cl name n)" "node_inv (LeaveChannel cl name n)"
proof -
  have c: "node_inv (n\<lparr>n_Config := (n_Config n)\<lparr>Channels := chs\<rparr>, localChannelSet := m\<rparr>)"
    if "gm_wf (localChannelSet n) \<longrightarrow> gm_wf m" for chs m
    using assms that by (simp add: node_inv_defs node_wf_def)
  have b: "node_inv m \<Longrightarrow> node_inv (broadcastChannelUpdate oc h m)" for oc h and m :: "('a, 'b) Node"
    unfolding broadcastChannelUpdate_def by (erule calm_inv) (rule calm_fold, simp)
  show "node_inv (JoinChannel cl name n)" "node_inv (LeaveChannel cl name n)"
    using assms by (auto simp: JoinChannel_def LeaveChannel_def Let_def intro!: b c)
qed

subsection \<open>Handshakes\<close>

text \<open>What a handshake leaves alone: the parts of the invariant that are about neither peers nor
  sessions.\<close>

definition side_ok :: "('h, 'c) Node \<Rightarrow> ('h, 'c) Node \<Rightarrow> bool" where
  "side_ok n n' \<longleftrightarrow> tcpSessionSem n' = tcpSessionSem n \<and> n_sfresh n' = n_sfresh n \<and>
     (maps_wf n \<longrightarrow> maps_wf n') \<and> (gate_ok n \<longrightarrow> gate_ok n') \<and> (stop_safe n \<longrightarrow> stop_safe n')"

lemma side_refl [simp]: "side_ok n n"
  by (simp add: side_ok_def)

lemma side_trans: "side_ok n m \<Longrightarrow> side_ok m k \<Longrightarrow> side_ok n k"
  by (simp add: side_ok_def)

lemma side_calm: "calm n m \<Longrightarrow> side_ok n m"
  by (simp add: side_ok_def calm_def)

lemma side_upd [simp]:
  "side_ok n (n\<lparr>addrToPeer := x\<rparr>)" "side_ok n (n\<lparr>n_pheap := h\<rparr>)" "side_ok n (n\<lparr>n_pfresh := f\<rparr>)" "side_ok n (n\<lparr>n_Peers := p\<rparr>)"
  by (simp_all add: side_ok_def maps_wf_def gate_ok_def stop_safe_def)

lemma calm_registerRelay: "calm n (registerRelayCandidate now pid a n)"
proof -
  have "calm n (n\<lparr>relayAddrSet := gm_put k True (relayAddrSet n), relayManager := rm\<rparr>)" for k rm
    by (rule calm_trans [OF calm_maps(5) calm_upd(6)]) simp
  then show ?thesis by (simp add: registerRelayCandidate_def Let_def split: option.splits)
qed

lemma side_upgrade: "side_ok n (upgrade_peer now r a c t s n)"
proof -
  have "side_ok n (n\<lparr>n_world := w, n_pheap := h\<rparr>)" for w h
    by (rule side_trans [OF side_calm [OF calm_upd(2)] side_upd(2)])
  then show ?thesis by (simp add: upgrade_peer_def split: prod.splits)
qed

lemma upgrade_session:
  "PSession (n_pheap (upgrade_peer now r a c t s n) q) = PSession (n_pheap n q) \<or>
   q = r \<and> PSession (n_pheap (upgrade_peer now r a c t s n) q) = Some s"
  by (auto simp: upgrade_peer_def UpgradeTransport_def Let_def split: prod.splits)

lemma handleExistingPeer_keeps:
  assumes n': "n' = handleExistingPeer now r c a t s addrStr pid key n"
  shows "side_ok n n'"
    "PSession (n_pheap n' q) = PSession (n_pheap n q) \<or> q = r \<and> PSession (n_pheap n' q) = Some s"
proof -
  have l: "calm m (upd_peer r (SetLinkMode md tg) m)" for md tg and m :: "('a, 'b) Node"
    by (rule calm_peer) (simp_all add: SetLinkMode_def)
  have pend: "calm m (m\<lparr>pendingHandshakes := gm_del key (pendingHandshakes m)\<rparr>)" for m :: "('a, 'b) Node"
    by (rule calm_maps) simp
  define n1 where "n1 = (case gm_get (relayPendingTarget n) addrStr of
       Some target \<Rightarrow> (upd_peer r (SetLinkMode ''relay'' target) n)\<lparr>relayPendingTarget := gm_del addrStr (relayPendingTarget n)\<rparr>
     | None \<Rightarrow> if gm_get (relayInbound n) addrStr = Some True
         then (upd_peer r (SetLinkMode ''relay'' None) n)\<lparr>relayInbound := gm_del addrStr (relayInbound n)\<rparr> else n)"
  have "calm n ((upd_peer r (SetLinkMode md tg) n)\<lparr>relayPendingTarget := gm_del addrStr (relayPendingTarget n)\<rparr>)"
    "calm n ((upd_peer r (SetLinkMode md tg) n)\<lparr>relayInbound := gm_del addrStr (relayInbound n)\<rparr>)" for md tg
    by (rule calm_trans [OF l calm_maps(4)] calm_trans [OF l calm_maps(3)]; simp)+
  then have c1: "calm n n1" by (simp add: n1_def split: option.splits)
  have p1: "PSession (n_pheap n1 q) = PSession (n_pheap n q)" for q
    by (simp add: n1_def SetLinkMode_def split: option.splits)
  let ?n2 = "n1\<lparr>pendingHandshakes := gm_del key (pendingHandshakes n1)\<rparr>"
  let ?m1 = "upgrade_peer now r a c t s n"
  let ?m2 = "?m1\<lparr>addrToPeer := gm_put addrStr pid (addrToPeer ?m1)\<rparr>"
  have n'_eq: "n' = (if t = ''tcp'' \<and> Transport (n_pheap n r) \<noteq> ''tcp''
      then spawn (TSyncChannels pid) (registerRelayCandidate now pid a
        (?m2\<lparr>pendingHandshakes := gm_del key (pendingHandshakes ?m2)\<rparr>))
      else registerRelayCandidate now pid a (upd_peer r (UpdateLastSeen now) (upgrade_peer now r a c t s ?n2)))"
    by (simp add: n' handleExistingPeer_def Let_def n1_def)
  have "side_ok n (spawn (TSyncChannels pid) (registerRelayCandidate now pid a
      (?m2\<lparr>pendingHandshakes := gm_del key (pendingHandshakes ?m2)\<rparr>)))"
    by (rule side_trans [OF side_trans [OF side_upgrade side_upd(1)] side_calm])
      (rule calm_step(4) [OF calm_trans [OF pend calm_registerRelay]])
  moreover have "side_ok n (registerRelayCandidate now pid a (upd_peer r (UpdateLastSeen now) (upgrade_peer now r a c t s ?n2)))"
    by (rule side_trans [OF side_calm [OF calm_trans [OF c1 pend]] side_trans [OF side_upgrade side_calm]])
      (rule calm_trans [OF calm_LastSeen calm_registerRelay])
  ultimately show "side_ok n n'" unfolding n'_eq by presburger
  show "PSession (n_pheap n' q) = PSession (n_pheap n q) \<or> q = r \<and> PSession (n_pheap n' q) = Some s"
    unfolding n'_eq using upgrade_session [of now r a c t s n q] upgrade_session [of now r a c t s ?n2 q] p1
    by (auto simp: UpdateLastSeen_def)
qed

lemma registerRelay_more [simp]:
  "tcpSessionSem (registerRelayCandidate now p a n) = tcpSessionSem n"
  "discoveryConnectSeen (registerRelayCandidate now p a n) = discoveryConnectSeen n"
  "discoveryConnectSem (registerRelayCandidate now p a n) = discoveryConnectSem n"
  "n_closing (registerRelayCandidate now p a n) = n_closing n"
  "kcpTransport (registerRelayCandidate now p a n) = kcpTransport n"
  "relayForward (registerRelayCandidate now p a n) = relayForward n"
  "relayInbound (registerRelayCandidate now p a n) = relayInbound n"
  "relayPendingTarget (registerRelayCandidate now p a n) = relayPendingTarget n"
  "gm_wf (relayAddrSet n) \<Longrightarrow> gm_wf (relayAddrSet (registerRelayCandidate now p a n))"
  by (simp_all add: registerRelayCandidate_def Let_def split: option.splits)

lemma tcpSessionSem_more [simp]:
  "tcpSessionSem (spawn t n) = tcpSessionSem n" "tcpSessionSem (emit_out e n) = tcpSessionSem n"
  "tcpSessionSem (upd_metrics f n) = tcpSessionSem n" "tcpSessionSem (upd_peer r g n) = tcpSessionSem n"
  by (simp_all add: spawn_def emit_out_def upd_metrics_def upd_peer_def)

lemma add_new_peer_side:
  assumes n': "n' = add_new_peer now c a t response s addrStr pid key n"
  shows "side_ok n n'"
proof -
  have "tcpSessionSem n' = tcpSessionSem n" "n_sfresh n' = n_sfresh n"
    "discoveryConnectSeen n' = discoveryConnectSeen n" "discoveryConnectSem n' = discoveryConnectSem n"
    "n_closing n' = n_closing n" "kcpTransport n' = kcpTransport n" "relayForward n' = relayForward n"
    "localChannelSet n' = localChannelSet n" "pendingHandshakes n' = gm_del key (pendingHandshakes n)"
    "gm_wf (relayAddrSet n) \<longrightarrow> gm_wf (relayAddrSet n')" "gm_wf (relayInbound n) \<longrightarrow> gm_wf (relayInbound n')"
    "gm_wf (relayPendingTarget n) \<longrightarrow> gm_wf (relayPendingTarget n')"
    by (simp_all add: n' add_new_peer_def Let_def)
  then show ?thesis by (simp add: side_ok_def maps_wf_def gate_ok_def stop_safe_def)
qed

lemma inv_session_made:
  assumes "node_inv n" and n': "n' = session_made now cl c a t response sess n"
  shows "node_inv n'"
proof -
  let ?s = "n_sfresh n" and ?pid = "peer_id_of_key cl (RemotePublicKey sess)" and ?key = "stateKey t (addr_String a)"
  let ?n1 = "n\<lparr>n_world := (n_world n)\<lparr>w_sess := (w_sess (n_world n))(?s := sess)\<rparr>, n_sfresh := Suc ?s\<rparr>"
  have w: "node_wf n'" using assms(1) by (intro node_wf_session_made [OF _ n']) (simp add: node_inv_def)
  have so: "s < ?s" if "ps_Get (n_Peers n) p = Some r" "PSession (n_pheap n r) = Some s" for p r s
    using assms(1) that by (auto simp: node_inv_def sessions_ok_def)
  have uq: "p' = p" if "ps_Get (n_Peers n) p = Some r" "PSession (n_pheap n r) = Some s"
      "ps_Get (n_Peers n) p' = Some r'" "PSession (n_pheap n r') = Some s" for p r s p' r'
    using assms(1) that unfolding node_inv_def sessions_ok_def by metis
  have inv1: "maps_wf ?n1 \<and> gate_ok ?n1 \<and> stop_safe ?n1 \<and> tcpSessionSem ?n1 \<le> maxConcurrentTCPHandlers"
    using assms(1) by (simp add: node_inv_defs)
  have sess: "sessions_ok n' \<and> peers_within n'"
    if ps: "\<And>p r. ps_Get (n_Peers n') p = Some r \<Longrightarrow> ps_Get (n_Peers n) p = Some r \<and> PSession (n_pheap n' r) = PSession (n_pheap n r) \<or>
        p = ?pid \<and> PSession (n_pheap n' r) = Some ?s" and sf: "n_sfresh n' = Suc ?s" and within: "peers_within n'"
  proof -
    have old: "s = ?s \<and> p = ?pid \<or> s < ?s \<and> ps_Get (n_Peers n) p = Some r \<and> PSession (n_pheap n r) = Some s"
      if "ps_Get (n_Peers n') p = Some r" "PSession (n_pheap n' r) = Some s" for p r s
      using ps [OF that(1)] that(2) so [of p r s] by auto
    have "p' = p" if "ps_Get (n_Peers n') p = Some r" "PSession (n_pheap n' r) = Some s"
        "ps_Get (n_Peers n') p' = Some r'" "PSession (n_pheap n' r') = Some s" for p r s p' r'
      using old [OF that(1,2)] old [OF that(3,4)] uq [of p r s p' r'] by auto
    moreover have "s < Suc ?s" if "ps_Get (n_Peers n') p = Some r" "PSession (n_pheap n' r) = Some s" for p r s
      using old [OF that] by auto
    ultimately show ?thesis using within unfolding sessions_ok_def sf by blast
  qed
  show ?thesis
  proof (cases "ps_Get (n_Peers n) ?pid")
    case (Some r)
    then have e: "n' = handleExistingPeer now r c a t ?s (addr_String a) ?pid ?key ?n1"
      by (simp add: n' session_made_def Let_def)
    note f = handleExistingPeer_fields [OF e] and k = handleExistingPeer_keeps [OF e]
    have "ps_Get (n_Peers n) p = Some q \<Longrightarrow> PSession (n_pheap n' q) = PSession (n_pheap n q) \<or>
        p = ?pid \<and> PSession (n_pheap n' q) = Some ?s" for p q
      using k(2) [of q] Some node_wf_inj [of n p q ?pid] assms(1) by (auto simp: node_inv_def)
    then have "sessions_ok n' \<and> peers_within n'"
      using f k(1) assms(1) by (intro sess) (auto simp: side_ok_def node_inv_def peers_within_def)
    then show ?thesis using w k(1) inv1 by (simp add: node_inv_def side_ok_def)
  next
    case None
    then have e: "n' = add_new_peer now c a t response ?s (addr_String a) ?pid ?key ?n1"
      by (simp add: n' session_made_def Let_def)
    note k = add_new_peer_side [OF e]
    have "sessions_ok n' \<and> peers_within n'"
    proof (cases "full ?n1")
      case True
      note f = add_new_peer_full [OF True e]
      show ?thesis using f k assms(1) by (intro sess) (auto simp: side_ok_def node_inv_def peers_within_def)
    next
      case False
      note f = add_new_peer_ok [OF False e]
      have "int (ps_Count (gm_put ?pid (n_pfresh n) (n_Peers n))) \<le> 1 + int (ps_Count (n_Peers n))"
        using ps.size_put [of "n_Peers n" ?pid "n_pfresh n"] assms(1) node_wfD(1) [of n] by (auto simp: node_inv_def)
      then have "peers_within n'" using False f(1,8) assms(1) by (auto simp: peers_within_def full_def node_inv_def)
      moreover have "q < n_pfresh n" if "ps_Get (n_Peers n) p = Some q" for p q
        using that assms(1) node_wfD(5) [of n p q] by (simp add: node_inv_def)
      ultimately show ?thesis using f(1,9) k
        by (intro sess) (auto simp: side_ok_def ps_Get_def handshake_peer_def split: if_splits)
    qed
    then show ?thesis using w k inv1 by (simp add: node_inv_def side_ok_def)
  qed
qed

lemma inv_processHandshake:
  assumes "node_inv n"
  shows "node_inv (processHandshake env now c a t payload n)"
proof (cases rule: processHandshake_cases [of env now c a t payload n])
  case (2 x out m)
  have "calm n (n\<lparr>pendingHandshakes := x, n_out := out, n_metrics := m\<rparr>)"
    using 2(2) by (simp add: calm_def maps_wf_def gate_ok_def stop_safe_def)
  with assms 2 show ?thesis by (simp add: calm_inv)
next
  case (3 hs hs' response sess x out)
  have "calm n (n\<lparr>pendingHandshakes := x, n_out := out\<rparr>)"
    using calm_trans [OF calm_maps(1) calm_upd(1)] 3(4) by blast
  with calm_inv [OF assms] inv_session_made 3(3) show ?thesis by metis
qed (use assms in simp)

subsection \<open>Discovery, relaying, dispatch\<close>

lemma calm_consider_peer: "calm n (consider_peer now e n)"
proof -
  obtain ok n1 where t: "tryBeginDiscoveryConnect now (fst e) (snd e) n = (ok, n1)" by (metis surj_pair)
  have g: "gate_ok n \<Longrightarrow> gate_ok n1" using tryBegin_gate [of n now "fst e" "snd e"] t by simp
  have "\<exists>x. n1 = n\<lparr>discoveryConnectSeen := x\<rparr> \<or> n1 = n\<lparr>discoveryConnectSeen := x, discoveryConnectSem := Suc (discoveryConnectSem n)\<rparr>"
    using t by (auto simp: tryBeginDiscoveryConnect_def Let_def split: if_splits)
  then have "calm n n1" using g by (auto simp: calm_def maps_wf_def stop_safe_def)
  then show ?thesis using t by (simp add: consider_peer_def calm_step(4) split: bool.splits)
qed

lemma calm_processDiscoveryResponse: "calm n (processDiscoveryResponse now a p n)"
  by (simp add: processDiscoveryResponse_def Let_def calm_fold calm_consider_peer)

lemma calm_processDiscoveryRequest: "calm n (processDiscoveryRequest env c a t p n)"
  by (simp add: processDiscoveryRequest_def Let_def)

lemma calm_sendDiscoveryRequest: "calm n (sendDiscoveryRequest env r n)"
  by (simp add: sendDiscoveryRequest_def Let_def split: prod.splits)

lemma calm_endDiscoveryConnect: "calm n (endDiscoveryConnect n)"
  by (auto simp: endDiscoveryConnect_def calm_def maps_wf_def gate_ok_def stop_safe_def)

lemma inv_handlePacket: "node_inv n \<Longrightarrow> node_inv (handlePacket env now c a t ty p n)"
  using calm_inv [of n] calm_processDiscoveryRequest [of n env c "Some a" t p] calm_processDiscoveryResponse [of n now "Some a" p]
    calm_processHeartbeat [of n env now c a t] calm_processHeartbeatAck [of n now a]
  by (simp add: handlePacket_def inv_processHandshake inv_processData)

lemma calm_getRelayAuthenticator: "calm n (snd (getRelayAuthenticator cl n))"
  by (simp add: getRelayAuthenticator_def Let_def split: option.splits)

lemma calm_relay_token: "relay_token env now n = (tok, n') \<Longrightarrow> calm n n'"
  using calm_getRelayAuthenticator [of n "e_crypto env"]
  by (auto simp: relay_token_def split: if_splits prod.splits option.splits)

lemma calm_buildRelayPacket: "calm n (snd (buildRelayPacket env now m t inner n))"
proof -
  obtain tok n1 where t: "relay_token env now n = (tok, n1)" by (metis surj_pair)
  with calm_relay_token [OF t] show ?thesis by (simp add: buildRelayPacket_def Let_def split: option.splits)
qed

lemma calm_connectViaRelay: "calm n (snd (connectViaRelay env now addr n))"
proof -
  have "calm n (snd (case buildRelayPacket env now RelayModeForward (Some ta) pkt n of
        (Inl e, n1) \<Rightarrow> (Some e, n1)
      | (Inr relayPacket, n1) \<Rightarrow>
          (case do_write env (UDPWrite ra relayPacket) (n1\<lparr>pendingHandshakes := gm_put k hs (pendingHandshakes n1),
              relayPendingTarget := gm_put k2 (Some ta) (relayPendingTarget n1)\<rparr>) of
             (ok, n3) \<Rightarrow> (if ok then None else Some ErrWriteUDP, n3))))" for ta pkt ra hs k k2
  proof -
    obtain res n1 where b: "buildRelayPacket env now RelayModeForward (Some ta) pkt n = (res, n1)" by (metis surj_pair)
    have c1: "calm n n1" using calm_buildRelayPacket [of n env now RelayModeForward "Some ta" pkt] b by simp
    have "calm n1 (n1\<lparr>pendingHandshakes := gm_put k hs (pendingHandshakes n1),
        relayPendingTarget := gm_put k2 (Some ta) (relayPendingTarget n1)\<rparr>)"
      by (rule calm_trans [OF calm_maps(1) calm_maps(4)]) simp_all
    from calm_step(2) [OF calm_trans [OF c1 this]] c1 b show ?thesis
      by (auto split: sum.splits prod.splits) (metis snd_conv)
  qed
  then show ?thesis
    unfolding connectViaRelay_def Let_def by (simp only: split: option.splits sum.splits prod.splits) auto
qed

lemma calm_relay_token_ok: "relay_token_ok env now tok n = (b, n') \<Longrightarrow> calm n n'"
  using calm_getRelayAuthenticator [of n "e_crypto env"]
  by (auto simp: relay_token_ok_def intro: calm_step(6) split: if_splits prod.splits option.splits sum.splits)

lemma inv_handleRelayPacket:
  assumes "node_inv n"
  shows "node_inv (handleRelayPacket env now orig payload n)"
proof -
  have fwd: "node_inv (case buildRelayPacket env now RelayModeTarget (Some ta) inner
        (n1\<lparr>relayForward := gm_put k v (relayForward n1)\<rparr>) of
       (Inl e, n3) \<Rightarrow> n3 | (Inr pkt, n3) \<Rightarrow> snd (do_write env (UDPWrite ta pkt) n3))"
    if "node_inv n1" for n1 :: "('a, 'b) Node" and ta inner k v
  proof -
    let ?n2 = "n1\<lparr>relayForward := gm_put k v (relayForward n1)\<rparr>"
    have "calm n1 ?n2" by (rule calm_maps) simp
    then have "calm n1 (snd (buildRelayPacket env now RelayModeTarget (Some ta) inner ?n2))"
      by (rule calm_trans [OF _ calm_buildRelayPacket])
    then show ?thesis
      by (cases "buildRelayPacket env now RelayModeTarget (Some ta) inner ?n2")
        (auto intro: calm_inv [OF that] calm_step(2) split: sum.splits)
  qed
  have tgt: "node_inv (handlePacket env now None o' ''udp'' ty p (n1\<lparr>relayInbound := gm_put k True (relayInbound n1)\<rparr>))"
    if "node_inv n1" for n1 :: "('a, 'b) Node" and o' ty p k
    by (rule inv_handlePacket, rule calm_inv [OF that], rule calm_maps) simp
  show ?thesis
  proof (cases "EnableRelay (n_Config n) \<and> orig \<noteq> None \<and> parse_relay payload \<noteq> None")
    case True
    then obtain o' m a tok inner where o: "orig = Some o'" "parse_relay payload = Some (m, a, tok, inner)" by auto
    obtain ok n1 where r: "relay_token_ok env now tok n = (ok, n1)" by (metis surj_pair)
    have "node_inv n1" by (rule calm_inv [OF assms calm_relay_token_ok [OF r]])
    then show ?thesis
      using True o r fwd tgt by (simp add: handleRelayPacket_def Let_def split: bool.splits option.splits)
  next
    case False
    then have "handleRelayPacket env now orig payload n = n"
      by (cases orig; cases "parse_relay payload") (simp_all add: handleRelayPacket_def)
    then show ?thesis using assms by simp
  qed
qed

lemma inv_datagram: "node_inv n \<Longrightarrow> node_inv (handle_datagram env now a d n)"
proof -
  assume i: "node_inv n"
  have w: "node_inv (snd (do_write env w n))" for w by (rule calm_inv [OF i]) simp
  have p: "node_inv (n\<lparr>natProber := x\<rparr>)" "node_inv (snd (do_write env w (n\<lparr>natProber := x\<rparr>)))" for w x
    by (rule calm_inv [OF i], simp add: calm_step(2))+
  show ?thesis
    unfolding handle_datagram_def Let_def
    by (simp add: i w p inv_handleRelayPacket inv_handlePacket split: prod.splits option.splits)
qed

lemma inv_read: "node_inv n \<Longrightarrow> node_inv (snd (handleRead env now res n))"
  by (simp add: handleRead_def inv_datagram split: read_result.splits)

subsection \<open>Starting, connecting, stopping\<close>

lemma calm_connectContext: "calm n (snd (connectContext env env2 R now a n))"
proof -
  have "calm n (registerPendingHandshakes ua ta uh th n)" for ua ta uh th
    unfolding registerPendingHandshakes_def Let_def by (rule calm_maps) simp
  then show ?thesis by (simp add: connectContext_def split: sum.splits prod.splits)
qed

lemma calm_use_tcp: "calm n (snd (use_tcp env tc p n))"
proof -
  obtain res n1 where w: "writeTCPPacket env tc p n = (res, n1)" by (metis surj_pair)
  then have "calm n n1" using calm_writeTCP [of n env tc p] by simp
  then show ?thesis using w by (simp add: use_tcp_def calm_step split: option.splits)
qed

lemma calm_connect_step: "connect_step env now e (c, n) = Some (c', n') \<Longrightarrow> calm n n'"
proof (cases e)
  case TakesResult
  assume "connect_step env now e (c, n) = Some (c', n')"
  with TakesResult obtain r rest where "take_result env r (c\<lparr>resultCh := rest\<rparr>, n) = (c', n')"
    by (auto split: if_splits list.splits)
  then show ?thesis using calm_use_tcp [of n env _ "cc_tcpPacket c"]
    by (auto simp: take_result_def split: if_splits option.splits prod.splits) (metis snd_conv)+
next
  case LateTakesResult
  assume "connect_step env now e (c, n) = Some (c', n')"
  with LateTakesResult obtain r rest where "awaitLateTCPUpgrade env r (c\<lparr>resultCh := rest\<rparr>, n) = (c', n')"
    by (auto split: if_splits list.splits)
  then show ?thesis using calm_use_tcp [of n env _ "cc_tcpPacket c"]
    by (auto simp: awaitLateTCPUpgrade_def split: if_splits option.splits)
next
  case DialTimeoutFires
  assume "connect_step env now e (c, n) = Some (c', n')"
  with DialTimeoutFires have "dial_timeout env now (c, n) = (c', n')" by (auto split: if_splits)
  then show ?thesis using calm_connectViaRelay [of n env now "cc_remoteAddr c"]
    by (auto simp: dial_timeout_def Let_def split: if_splits option.splits prod.splits)
qed (auto split: if_splits simp: calm_connectViaRelay)

lemma inv_Start: "node_inv n \<Longrightarrow> node_inv (snd (Start env now so n))"
proof -
  assume i: "node_inv n"
  have relay: "calm m (add_static_relay env now a m)" for a and m :: "('a, 'b) Node"
  proof -
    have "calm m (m\<lparr>relayManager := rm, relayAddrSet := gm_put k True (relayAddrSet m)\<rparr>)" for rm k
      by (rule calm_trans [OF calm_upd(6) calm_maps(5)]) simp
    then show ?thesis by (simp add: add_static_relay_def split: option.splits)
  qed
  have 1: "calm n (n\<lparr>n_started := True, n_mux := NewUDPMux, localPeerID := l\<rparr>)" for l
    by (rule calm_trans [OF calm_trans [OF calm_upd(15) calm_upd(8)] calm_upd(16)])
  have 2: "calm n (closeOnStartFailure m)" if "calm n m" for m
  proof -
    have "calm n (m\<lparr>tcpListener := False, n_mux := x, n_started := False\<rparr>)" for x
      by (rule calm_trans [OF that calm_trans [OF calm_trans [OF calm_upd(17) calm_upd(8)] calm_upd(15)]])
    moreover have "calm n (m\<lparr>tcpListener := False\<rparr>)" by (rule calm_trans [OF that calm_upd(17)])
    ultimately show ?thesis by (simp add: closeOnStartFailure_def Let_def)
  qed
  have 3: "calm n (startRelay env now (m\<lparr>tcpListener := True, tcpLocalPort := k\<rparr>))" if "calm n m" for m k
    unfolding startRelay_def
    by (rule calm_trans [OF calm_trans [OF that calm_trans [OF calm_trans [OF calm_upd(17) calm_upd(18)] calm_upd(6)]] calm_fold])
      (rule relay)
  have 4: "node_inv (startNATAndKCP so m)" if "node_inv m" for m :: "('a, 'b) Node"
  proof -
    have "node_inv (m\<lparr>natProber := x\<rparr>)" for x by (rule calm_inv [OF that]) simp
    moreover have "\<not> kt_closing (NewKCPTransport c) \<and> \<not> km_closing (kt_manager (NewKCPTransport c))" for c
      by (simp add: NewKCPTransport_def NewKCPManager_def Let_def)
    ultimately show ?thesis
      by (auto simp: startNATAndKCP_def Let_def KCP_Start_def ListenOnConn_def stop_safe_def intro!: inv_kcp split: prod.splits bool.splits)
  qed
  have 5: "calm m (startReconnectManager m)" for m :: "('a, 'b) Node"
    by (simp add: startReconnectManager_def Let_def)
  show ?thesis
    using i calm_inv [OF i 1] calm_inv [OF i 2 [OF 1]] calm_inv [OF 4 [OF calm_inv [OF i 3 [OF 1]]] 5]
    by (simp add: Start_def startUDP_def startTCP_def Let_def)
qed

lemma inv_accept: "node_inv n \<Longrightarrow> node_inv (acceptTCP c n)" "node_inv n \<Longrightarrow> node_inv (end_accepted c n)"
proof -
  have w: "node_inv (n\<lparr>n_world := w\<rparr>)" if "node_inv n" for w using that by (rule calm_inv) simp
  have s: "node_inv (n\<lparr>tcpSessionSem := k\<rparr>)" if "node_inv n" "k \<le> maxConcurrentTCPHandlers" for k
    using that by (simp add: node_inv_defs node_wf_def)
  show "node_inv n \<Longrightarrow> node_inv (acceptTCP c n)"
    by (auto simp: acceptTCP_def w intro!: calm_inv [OF s calm_upd(20)])
  show "node_inv n \<Longrightarrow> node_inv (end_accepted c n)"
    unfolding end_accepted_def by (rule calm_inv [OF s calm_upd(2)]) (auto simp: node_inv_def)
qed

lemma inv_stop:
  assumes "node_inv n"
  shows "\<exists>n'. GracefulStop env now n = Some n' \<and> node_inv n'"
proof (cases "n_closing n")
  case False
  let ?n1 = "fold (say_goodbye env now) (ps_IDs (n_Peers n)) n"
  let ?n2 = "?n1\<lparr>n_closing := True, n_mux := (if n_started ?n1 then Mux_Close (n_mux ?n1) else n_mux ?n1),
    tcpListener := False, natProber := map_option Prober_Close (natProber ?n1)\<rparr>"
  have "calm n ?n1" by (rule calm_fold) (rule calm_say_goodbye)
  then have "calm n ?n2"
    by (rule calm_trans) (rule calm_trans [OF calm_trans [OF calm_trans [OF calm_closing calm_upd(8)] calm_upd(17)] calm_upd(3)])
  then have i2: "node_inv ?n2" by (rule calm_inv [OF assms])
  obtain n3 where n3: "(case kcpTransport ?n2 of None \<Rightarrow> Some ?n2
        | Some t \<Rightarrow> (case Transport_Close (n_mux ?n2) t of None \<Rightarrow> None
                     | Some (mux, t') \<Rightarrow> Some (?n2\<lparr>n_mux := mux, kcpTransport := Some t'\<rparr>))) = Some n3" "node_inv n3"
  proof (cases "kcpTransport n")
    case None
    then show ?thesis using that [of ?n2] i2 by simp
  next
    case (Some t)
    have "\<not> kt_closing t" "\<not> km_closing (kt_manager t)" using assms False Some by (auto simp: node_inv_def stop_safe_def)
    from Transport_Close_ok [OF this, of "n_mux ?n2"] obtain mux t' where t': "Transport_Close (n_mux ?n2) t = Some (mux, t')" by blast
    have "node_inv (?n2\<lparr>n_mux := mux, kcpTransport := Some t'\<rparr>)"
      by (rule inv_kcp [OF calm_inv [OF i2 calm_upd(8)]]) (simp add: stop_safe_def)
    with t' Some that show ?thesis by simp
  qed
  let ?n4 = "n3\<lparr>reconnectManager := map_option Reconnect_Close (reconnectManager n3)\<rparr>"
  have "node_inv (fold close_peer_id (ps_IDs (n_Peers n)) ?n4)"
    by (rule calm_inv [OF n3(2) calm_trans [OF calm_upd(7) calm_fold]]) (rule calm_close_peer_id)
  with False n3(1) show ?thesis by (simp add: GracefulStop_def Let_def)
qed (use assms in \<open>simp add: GracefulStop_def\<close>)

subsection \<open>The machine\<close>

text \<open>The two tickers of the heartbeat loop.\<close>

datatype heartbeat_tick = HeartbeatTick | CleanupTick

fun heartbeatLoop :: "('h, 'c) env \<Rightarrow> gotime \<Rightarrow> heartbeat_tick \<Rightarrow> ('h, 'c) Node \<Rightarrow> ('h, 'c) Node" where
  "heartbeatLoop env now HeartbeatTick n = checkHeartbeatTimeouts now (sendHeartbeats env now n)"
| "heartbeatLoop env now CleanupTick n = cleanupStaleMappings now n"

text \<open>A goroutine the handlers have started. The readers of connections and the calls of \<open>Connect\<close>
  go on with events of their own.\<close>

fun run_task ::
    "('h, 'c) env \<Rightarrow> ('h, 'c) env \<Rightarrow> (string \<Rightarrow> netaddr option) \<Rightarrow> gotime \<Rightarrow> task \<Rightarrow> ('h, 'c) Node \<Rightarrow> ('h, 'c) Node" where
  "run_task env env2 R now (TSendDiscovery r) n = sendDiscoveryRequest env r n"
| "run_task env env2 R now (TSyncChannels pid) n = syncChannelsWithPeer env pid n"
| "run_task env env2 R now (TSendAppFrame pid t d) n = snd (sendAppFrame env pid t d n)"
| "run_task env env2 R now (TRehandshake pid r) n = run_rehandshake env now pid r n"
| "run_task env env2 R now (TExpireHandshake key d) n = expire_handshake key n"
| "run_task env env2 R now (TConnect addr) n = snd (connectContext env env2 R now addr n)"
| "run_task env env2 R now (THandleKCP s) n = n"
| "run_task env env2 R now (THandleTCP c) n = n"

text \<open>A read loop may have read a datagram before the node was stopped and handle it after, so the
  handling is an event of its own beside the iteration of the loop.\<close>

datatype node_event =
  EvRead read_result
| EvDatagram netaddr bytes
| EvTCPPacket conn netaddr byte bytes
| EvKCPPacket netaddr byte bytes
| EvHeartbeat heartbeat_tick
| EvTask task
| EvSend string string bytes
| EvBroadcast string bytes
| EvJoin string
| EvLeave string
| EvConnect string
| EvConnectStep connectCall connect_event
| EvDiscoveryEnds
| EvAccept conn
| EvAcceptedEnds conn
| EvReconnect float_env reconnect_event
| EvProbeBegins
| EvProbeEnds pendingProbe
| EvCallbacks bool bool bool
| EvStart start_outcome
| EvStop

text \<open>\<open>None\<close> is a panic, from which there is no way back. Every event has its own environment, so
  that nothing is assumed about the outside world from one event to the next.\<close>

fun node_do ::
    "('h, 'c) env \<Rightarrow> ('h, 'c) env \<Rightarrow> (string \<Rightarrow> netaddr option) \<Rightarrow> gotime \<Rightarrow> node_event \<Rightarrow> ('h, 'c) Node \<Rightarrow>
       ('h, 'c) Node option" where
  "node_do env env2 R now (EvRead res) n = Some (snd (handleRead env now res n))"
| "node_do env env2 R now (EvDatagram a d) n = Some (handle_datagram env now a d n)"
| "node_do env env2 R now (EvTCPPacket c a ty p) n = Some (handlePacket env now (Some c) a ''tcp'' ty p n)"
| "node_do env env2 R now (EvKCPPacket a ty p) n = Some (handlePacket env now None a ''kcp'' ty p n)"
| "node_do env env2 R now (EvHeartbeat tk) n = Some (heartbeatLoop env now tk n)"
| "node_do env env2 R now (EvTask t) n = Some (run_task env env2 R now t n)"
| "node_do env env2 R now (EvSend ch pid d) n = Some (snd (Node_Send env ch pid d n))"
| "node_do env env2 R now (EvBroadcast ch d) n = Some (snd (Broadcast env ch d n))"
| "node_do env env2 R now (EvJoin ch) n = Some (JoinChannel (e_crypto env) ch n)"
| "node_do env env2 R now (EvLeave ch) n = Some (LeaveChannel (e_crypto env) ch n)"
| "node_do env env2 R now (EvConnect a) n = Some (snd (connectContext env env2 R now a n))"
| "node_do env env2 R now (EvConnectStep c e) n = Some (case connect_step env now e (c, n) of None \<Rightarrow> n | Some (_, n') \<Rightarrow> n')"
| "node_do env env2 R now EvDiscoveryEnds n = Some (endDiscoveryConnect n)"
| "node_do env env2 R now (EvAccept c) n = Some (acceptTCP c n)"
| "node_do env env2 R now (EvAcceptedEnds c) n = Some (end_accepted c n)"
| "node_do env env2 R now (EvReconnect fe e) n = Some (n\<lparr>reconnectManager :=
     map_option (\<lambda>rm. case rm_step fe rm e of None \<Rightarrow> rm | Some rm' \<Rightarrow> rm') (reconnectManager n)\<rparr>)"
| "node_do env env2 R now EvProbeBegins n = Some (snd (ProbeNAT_begin env now n))"
| "node_do env env2 R now (EvProbeEnds p) n = Some (snd (ProbeNAT_finish env now p n))"
| "node_do env env2 R now (EvCallbacks a b c) n = Some (OnPeerDisconnected c (OnPeerConnected b (OnReceive a n)))"
| "node_do env env2 R now (EvStart so) n = Some (snd (Start env now so n))"
| "node_do env env2 R now EvStop n = GracefulStop env now n"

fun node_step ::
    "('h, 'c) Node option \<Rightarrow>
     ('h, 'c) env \<times> ('h, 'c) env \<times> (string \<Rightarrow> netaddr option) \<times> gotime \<times> node_event \<Rightarrow> ('h, 'c) Node option" where
  "node_step s (env, env2, R, now, e) = (case s of None \<Rightarrow> None | Some n \<Rightarrow> node_do env env2 R now e n)"

definition running :: "('h, 'c) Node option \<Rightarrow> bool" where
  "running s \<longleftrightarrow> (\<exists>n. s = Some n \<and> node_inv n)"

lemma calm_probe: "calm n (snd (ProbeNAT_begin env now n))" "calm n (snd (ProbeNAT_finish env now p n))"
proof -
  have f: "calm n (fold (\<lambda>a m. snd (do_write env (UDPWrite a pkt) m)) xs (n\<lparr>natProber := x\<rparr>))" for pkt xs x
    by (rule calm_trans [OF calm_upd(3) calm_fold]) simp
  have r: "calm n (record_nat_info res (n\<lparr>natProber := x\<rparr>))" for res x
    unfolding record_nat_info_def by (rule calm_trans [OF calm_upd(3) calm_upd(4)])
  show "calm n (snd (ProbeNAT_begin env now n))" "calm n (snd (ProbeNAT_finish env now p n))"
    by (simp_all add: ProbeNAT_begin_def ProbeNAT_finish_def Let_def f r split: option.splits prod.splits sum.splits)
qed

lemma inv_run_task: "node_inv n \<Longrightarrow> node_inv (run_task env env2 R now t n)"
proof (cases t)
  case (TExpireHandshake key d)
  assume "node_inv n"
  then have "node_inv (expire_handshake key n)" unfolding expire_handshake_def by (rule calm_inv) (rule calm_maps, simp)
  with TExpireHandshake show ?thesis by simp
qed (simp_all add: calm_inv calm_sendDiscoveryRequest inv_sync inv_sendAppFrame inv_run_rehandshake calm_connectContext)

lemma inv_heartbeatLoop: "node_inv n \<Longrightarrow> node_inv (heartbeatLoop env now tk n)"
  by (cases tk) (simp_all add: inv_timeouts inv_cleanup calm_inv [OF _ calm_heartbeats])

lemma running_do:
  assumes "node_inv n"
  shows "running (node_do env env2 R now e n)"
proof (cases e)
  case (EvConnectStep c ev)
  have "node_inv (case connect_step env now ev (c, n) of None \<Rightarrow> n | Some (_, n') \<Rightarrow> n')"
    using assms calm_inv [OF assms calm_connect_step] by (auto split: option.splits)
  with EvConnectStep show ?thesis by (simp add: running_def)
next
  case (EvCallbacks a b c)
  have "calm n (OnPeerDisconnected c (OnPeerConnected b (OnReceive a n)))"
    unfolding OnPeerDisconnected_def OnPeerConnected_def OnReceive_def
    by (rule calm_trans [OF calm_trans [OF calm_upd(9) calm_upd(10)] calm_upd(11)])
  with EvCallbacks assms show ?thesis by (simp add: running_def calm_inv)
qed (use assms inv_stop [OF assms] in \<open>simp_all add: running_def inv_read inv_datagram inv_handlePacket inv_heartbeatLoop inv_run_task
       inv_Send Broadcast_def inv_send_to_all inv_channels calm_inv calm_connectContext calm_endDiscoveryConnect inv_accept
       calm_probe inv_Start\<close>)

interpretation sys: invariant_machine node_step running
proof
  fix s :: "('h, 'c) Node option" and e :: "('h, 'c) env \<times> ('h, 'c) env \<times> (string \<Rightarrow> netaddr option) \<times> gotime \<times> node_event"
  obtain env env2 R now ev where e: "e = (env, env2, R, now, ev)" by (metis surj_pair)
  show "running s \<Longrightarrow> running (node_step s e)" using running_do by (auto simp: e running_def)
qed

lemma inv_fresh: "0 < MaxPeers cfg \<Longrightarrow> node_inv (fresh_node cl now cfg i)"
proof -
  have "gm_wf (fold (\<lambda>ch m. gm_put (hashChannelName cl ch) () m) chs m)" if "gm_wf m" for chs m
    using that by (induction chs arbitrary: m) simp_all
  then show "0 < MaxPeers cfg \<Longrightarrow> ?thesis"
    by (simp add: node_inv_defs node_wf_def fresh_node_def NewPeerStore_def ps_Get_def ps_Count_def gm_len_def)
qed

lemma NewNode_Inr:
  assumes "NewNode env now gen opts = Inr n"
  obtains cfg i where "n = fresh_node (e_crypto env) now cfg i" "0 < MaxPeers cfg"
proof -
  let ?c = "fold (\<lambda>opt c. opt c) opts DefaultConfig"
  obtain cfg i where v: "Validate (e_resolveUDP env) ?c = (None, cfg)" and n: "n = fresh_node (e_crypto env) now cfg i"
    using assms by (auto simp: NewNode_def Let_def split: option.splits sum.splits prod.splits)
  have c: "valid_config (e_resolveUDP env) ?c" "cfg = ?c\<lparr>cfg_Logger := cfg_Logger cfg\<rparr>"
    using validate_iff_valid [of "e_resolveUDP env" ?c] v by auto
  have "MaxPeers cfg = MaxPeers (?c\<lparr>cfg_Logger := cfg_Logger cfg\<rparr>)" using c(2) by (rule arg_cong)
  moreover have "1 \<le> MaxPeers ?c" using c(1) unfolding valid_config_def by blast
  ultimately have "0 < MaxPeers cfg" by simp
  with n show thesis by (rule that)
qed

subsection \<open>Properties\<close>



end
