(* ===== verification/Tunnel.thy ===== *)
theory Tunnel
  imports Node_System
begin

text \<open>
  The tunnel (\<open>api/tunnel.go\<close>), the interface applications use: its options, its life cycle around
  one node, and its calls. A callback is represented by whether it is set, as in the node. The
  mutex of the tunnel makes \<open>Start\<close>, \<open>Stop\<close> and \<open>GracefulStop\<close> exclude each other; every other
  call goes straight to the node.

  \<open>LocalAddr\<close> and \<open>PublicAddr\<close> print fields of the node that are no part of the model.
\<close>

subsection \<open>White space\<close>

text \<open>\<open>strings.TrimSpace\<close> on the bytes of a string: the encodings of the white space characters of
  Unicode are removed at both ends.\<close>

definition white_space :: "string list" where
  "white_space = [[CHR 0x09], [CHR 0x0A], [CHR 0x0B], [CHR 0x0C], [CHR 0x0D], [CHR 0x20],
     [CHR 0xC2, CHR 0x85], [CHR 0xC2, CHR 0xA0], [CHR 0xE1, CHR 0x9A, CHR 0x80],
     [CHR 0xE2, CHR 0x80, CHR 0x80], [CHR 0xE2, CHR 0x80, CHR 0x81], [CHR 0xE2, CHR 0x80, CHR 0x82],
     [CHR 0xE2, CHR 0x80, CHR 0x83], [CHR 0xE2, CHR 0x80, CHR 0x84], [CHR 0xE2, CHR 0x80, CHR 0x85],
     [CHR 0xE2, CHR 0x80, CHR 0x86], [CHR 0xE2, CHR 0x80, CHR 0x87], [CHR 0xE2, CHR 0x80, CHR 0x88],
     [CHR 0xE2, CHR 0x80, CHR 0x89], [CHR 0xE2, CHR 0x80, CHR 0x8A], [CHR 0xE2, CHR 0x80, CHR 0xA8],
     [CHR 0xE2, CHR 0x80, CHR 0xA9], [CHR 0xE2, CHR 0x80, CHR 0xAF], [CHR 0xE2, CHR 0x81, CHR 0x9F],
     [CHR 0xE3, CHR 0x80, CHR 0x80]]"

fun strip_front :: "string list \<Rightarrow> string \<Rightarrow> string" where
  "strip_front ws s =
     (case find (\<lambda>w. w \<noteq> [] \<and> take (length w) s = w) ws of None \<Rightarrow> s
      | Some w \<Rightarrow> if length (drop (length w) s) < length s then strip_front ws (drop (length w) s) else s)"

declare strip_front.simps [simp del]

definition TrimSpace :: "string \<Rightarrow> string" where
  "TrimSpace s = rev (strip_front (map rev white_space) (rev (strip_front white_space s)))"

subsection \<open>Options\<close>

record tunnelConfig =
  nodeOpts :: "Option list"
  tc_err :: "identity_error option"

type_synonym TunnelOption = "tunnelConfig \<Rightarrow> tunnelConfig"

definition add_opt :: "Option \<Rightarrow> TunnelOption" where
  "add_opt opt c = c\<lparr>nodeOpts := nodeOpts c @ [opt]\<rparr>"

definition Tunnel_WithPassword :: "string \<Rightarrow> TunnelOption" where
  "Tunnel_WithPassword password = add_opt (WithNetworkPassword password)"

definition Tunnel_WithListenPort :: "int \<Rightarrow> TunnelOption" where
  "Tunnel_WithListenPort port = add_opt (WithListenPort port)"

definition Tunnel_WithIdentityJSON :: "crypto_lib \<Rightarrow> json_lib \<Rightarrow> bytes \<Rightarrow> TunnelOption" where
  "Tunnel_WithIdentityJSON cl jl jsonData c =
     (if tc_err c \<noteq> None then c
      else case IdentityFromJSON cl jl jsonData of
             Inl e \<Rightarrow> c\<lparr>tc_err := Some e\<rparr>
           | Inr i \<Rightarrow> add_opt (WithIdentity (Some i)) c)"

definition Tunnel_WithEnableHolePunch :: "bool \<Rightarrow> TunnelOption" where
  "Tunnel_WithEnableHolePunch enable = add_opt (WithEnableHolePunch enable)"

definition Tunnel_WithEnableRelay :: "bool \<Rightarrow> TunnelOption" where
  "Tunnel_WithEnableRelay enable = add_opt (WithEnableRelay enable)"

definition Tunnel_WithMaxPeers :: "int \<Rightarrow> TunnelOption" where
  "Tunnel_WithMaxPeers m = add_opt (WithMaxPeers m)"

definition Tunnel_WithRelayNodes :: "string list \<Rightarrow> TunnelOption" where
  "Tunnel_WithRelayNodes addrs = add_opt (WithRelayNodes addrs)"

definition Tunnel_WithDialTimeout :: "duration \<Rightarrow> TunnelOption" where
  "Tunnel_WithDialTimeout timeout = add_opt (WithDialTimeout timeout)"

definition Tunnel_WithLogger :: "logger option \<Rightarrow> TunnelOption" where
  "Tunnel_WithLogger l = add_opt (WithLogger l)"

definition Tunnel_WithEnableRelayAuth :: "bool \<Rightarrow> TunnelOption" where
  "Tunnel_WithEnableRelayAuth enable = add_opt (WithEnableRelayAuth enable)"

definition Tunnel_WithKCPConfig :: "KCPConfig option \<Rightarrow> TunnelOption" where
  "Tunnel_WithKCPConfig cfg = add_opt (WithKCPConfig cfg)"

definition Tunnel_WithEnableReconnect :: "bool \<Rightarrow> TunnelOption" where
  "Tunnel_WithEnableReconnect enable = add_opt (WithEnableReconnect enable)"

definition Tunnel_WithReconnectConfig :: "ReconnectConfig option \<Rightarrow> TunnelOption" where
  "Tunnel_WithReconnectConfig cfg = add_opt (WithReconnectConfig cfg)"

definition Tunnel_WithReconnectMaxRetries :: "int \<Rightarrow> TunnelOption" where
  "Tunnel_WithReconnectMaxRetries maxRetries = add_opt (WithReconnectMaxRetries maxRetries)"

definition Tunnel_WithReconnectBackoff :: "duration \<Rightarrow> duration \<Rightarrow> gofloat \<Rightarrow> TunnelOption" where
  "Tunnel_WithReconnectBackoff initialDelay maxDelay multiplier = add_opt (WithReconnectBackoff initialDelay maxDelay multiplier)"

definition Tunnel_WithMaxConsecutiveDecryptFailures :: "int \<Rightarrow> TunnelOption" where
  "Tunnel_WithMaxConsecutiveDecryptFailures m = add_opt (WithMaxConsecutiveDecryptFailures m)"

definition Tunnel_WithFastRehandshakeBackoff :: "duration \<Rightarrow> duration \<Rightarrow> TunnelOption" where
  "Tunnel_WithFastRehandshakeBackoff baseDelay maxDelay = add_opt (WithFastRehandshakeBackoff baseDelay maxDelay)"

definition Tunnel_WithFastRehandshakeWindow :: "duration \<Rightarrow> int \<Rightarrow> TunnelOption" where
  "Tunnel_WithFastRehandshakeWindow window maxAttempts = add_opt (WithFastRehandshakeWindow window maxAttempts)"

definition Tunnel_WithFastRehandshakeFailThreshold :: "int \<Rightarrow> TunnelOption" where
  "Tunnel_WithFastRehandshakeFailThreshold threshold = add_opt (WithFastRehandshakeFailThreshold threshold)"

definition Tunnel_WithFastRehandshakePendingTTL :: "duration \<Rightarrow> TunnelOption" where
  "Tunnel_WithFastRehandshakePendingTTL ttl = add_opt (WithFastRehandshakePendingTTL ttl)"

definition Tunnel_WithChannelID :: "string \<Rightarrow> TunnelOption" where
  "Tunnel_WithChannelID channelName = add_opt (WithChannelID channelName)"

subsection \<open>The tunnel\<close>

record ('h, 'c) Tunnel =
  t_node :: "('h, 'c) Node"
  t_started :: bool
  t_closed :: bool

datatype tunnel_error =
  ErrTunnelConfig identity_error | ErrCreateNode node_error | ErrTunnelClosed | ErrTunnelStarted | ErrTunnelNotStarted
| ErrChannelRequired | ErrTunnelStart start_error | ErrTunnelNode node_error | ErrTunnelProbe probe_nat_error

definition NewTunnel ::
    "('h, 'c) env \<Rightarrow> gotime \<Rightarrow> (bytes \<times> bytes) option \<Rightarrow> TunnelOption list \<Rightarrow> tunnel_error + ('h, 'c) Tunnel" where
  "NewTunnel env now gen opts =
     (let cfg = fold (\<lambda>opt c. opt c) opts \<lparr>nodeOpts = [], tc_err = None\<rparr>
      in case tc_err cfg of Some e \<Rightarrow> Inl (ErrTunnelConfig e)
         | None \<Rightarrow> (case NewNode env now gen (nodeOpts cfg) of
                      Inl e \<Rightarrow> Inl (ErrCreateNode e)
                    | Inr n \<Rightarrow> Inr \<lparr>t_node = n, t_started = False, t_closed = False\<rparr>))"

definition Tunnel_Start ::
    "('h, 'c) env \<Rightarrow> gotime \<Rightarrow> start_outcome \<Rightarrow> ('h, 'c) Tunnel \<Rightarrow> tunnel_error option \<times> ('h, 'c) Tunnel" where
  "Tunnel_Start env now so t =
     (if t_closed t then (Some ErrTunnelClosed, t)
      else if t_started t then (Some ErrTunnelStarted, t)
      else case Start env now so (t_node t) of
             (Some e, n) \<Rightarrow> (Some (ErrTunnelStart e), t\<lparr>t_node := n\<rparr>)
           | (None, n) \<Rightarrow> (None, t\<lparr>t_node := n, t_started := True\<rparr>))"

text \<open>Stopping can panic in the node; then there is no result.\<close>

definition Tunnel_Stop ::
    "('h, 'c) env \<Rightarrow> gotime \<Rightarrow> ('h, 'c) Tunnel \<Rightarrow> (tunnel_error option \<times> ('h, 'c) Tunnel) option" where
  "Tunnel_Stop env now t =
     (if \<not> t_started t then Some (Some ErrTunnelNotStarted, t)
      else case GracefulStop env now (t_node t) of
             None \<Rightarrow> None | Some n \<Rightarrow> Some (None, t\<lparr>t_closed := True, t_started := False, t_node := n\<rparr>))"

definition Tunnel_GracefulStop ::
    "('h, 'c) env \<Rightarrow> gotime \<Rightarrow> ('h, 'c) Tunnel \<Rightarrow> (tunnel_error option \<times> ('h, 'c) Tunnel) option" where
  "Tunnel_GracefulStop env now t =
     (case GracefulStop env now (t_node t) of None \<Rightarrow> None | Some n \<Rightarrow> Some (None, t\<lparr>t_closed := True, t_node := n\<rparr>))"

definition Tunnel_Connect ::
    "('h, 'c) env \<Rightarrow> ('h, 'c) env \<Rightarrow> (string \<Rightarrow> netaddr option) \<Rightarrow> gotime \<Rightarrow> string \<Rightarrow> ('h, 'c) Tunnel \<Rightarrow>
       (node_error + connectCall) \<times> ('h, 'c) Tunnel" where
  "Tunnel_Connect env env2 R now addr t =
     (case connectContext env env2 R now addr (t_node t) of (res, n) \<Rightarrow> (res, t\<lparr>t_node := n\<rparr>))"

definition Tunnel_Send ::
    "('h, 'c) env \<Rightarrow> string \<Rightarrow> string \<Rightarrow> bytes \<Rightarrow> ('h, 'c) Tunnel \<Rightarrow> tunnel_error option \<times> ('h, 'c) Tunnel" where
  "Tunnel_Send env channelName peerID data t =
     (case Node_Send env channelName peerID data (t_node t) of (e, n) \<Rightarrow> (map_option ErrTunnelNode e, t\<lparr>t_node := n\<rparr>))"

definition Tunnel_Broadcast ::
    "('h, 'c) env \<Rightarrow> string \<Rightarrow> bytes \<Rightarrow> ('h, 'c) Tunnel \<Rightarrow> nat \<times> ('h, 'c) Tunnel" where
  "Tunnel_Broadcast env channelName data t =
     (case Broadcast env channelName data (t_node t) of (k, n) \<Rightarrow> (k, t\<lparr>t_node := n\<rparr>))"

definition Tunnel_JoinChannel ::
    "crypto_lib \<Rightarrow> string \<Rightarrow> ('h, 'c) Tunnel \<Rightarrow> tunnel_error option \<times> ('h, 'c) Tunnel" where
  "Tunnel_JoinChannel cl channelName t =
     (let channelName = TrimSpace channelName
      in if channelName = [] then (Some ErrChannelRequired, t)
         else (None, t\<lparr>t_node := JoinChannel cl channelName (t_node t)\<rparr>))"

definition Tunnel_LeaveChannel ::
    "crypto_lib \<Rightarrow> string \<Rightarrow> ('h, 'c) Tunnel \<Rightarrow> tunnel_error option \<times> ('h, 'c) Tunnel" where
  "Tunnel_LeaveChannel cl channelName t =
     (let channelName = TrimSpace channelName
      in if channelName = [] then (Some ErrChannelRequired, t)
         else (None, t\<lparr>t_node := LeaveChannel cl channelName (t_node t)\<rparr>))"

definition Tunnel_OnReceive :: "bool \<Rightarrow> ('h, 'c) Tunnel \<Rightarrow> ('h, 'c) Tunnel" where
  "Tunnel_OnReceive handler t = t\<lparr>t_node := OnReceive handler (t_node t)\<rparr>"

definition Tunnel_OnPeerConnected :: "bool \<Rightarrow> ('h, 'c) Tunnel \<Rightarrow> ('h, 'c) Tunnel" where
  "Tunnel_OnPeerConnected handler t = t\<lparr>t_node := OnPeerConnected handler (t_node t)\<rparr>"

definition Tunnel_OnPeerDisconnected :: "bool \<Rightarrow> ('h, 'c) Tunnel \<Rightarrow> ('h, 'c) Tunnel" where
  "Tunnel_OnPeerDisconnected handler t = t\<lparr>t_node := OnPeerDisconnected handler (t_node t)\<rparr>"

definition Tunnel_OnReconnecting :: "bool \<Rightarrow> ('h, 'c) Tunnel \<Rightarrow> ('h, 'c) Tunnel" where
  "Tunnel_OnReconnecting handler t = t\<lparr>t_node := OnReconnecting handler (t_node t)\<rparr>"

definition Tunnel_OnReconnected :: "bool \<Rightarrow> ('h, 'c) Tunnel \<Rightarrow> ('h, 'c) Tunnel" where
  "Tunnel_OnReconnected handler t = t\<lparr>t_node := OnReconnected handler (t_node t)\<rparr>"

definition Tunnel_OnGaveUp :: "bool \<Rightarrow> ('h, 'c) Tunnel \<Rightarrow> ('h, 'c) Tunnel" where
  "Tunnel_OnGaveUp handler t = t\<lparr>t_node := OnGaveUp handler (t_node t)\<rparr>"

definition Tunnel_CancelReconnect :: "string \<Rightarrow> ('h, 'c) Tunnel \<Rightarrow> ('h, 'c) Tunnel" where
  "Tunnel_CancelReconnect peerID t = t\<lparr>t_node := Node_CancelReconnect peerID (t_node t)\<rparr>"

definition Tunnel_CancelAllReconnects :: "('h, 'c) Tunnel \<Rightarrow> ('h, 'c) Tunnel" where
  "Tunnel_CancelAllReconnects t = t\<lparr>t_node := Node_CancelAllReconnects (t_node t)\<rparr>"

definition LocalID :: "('h, 'c) Tunnel \<Rightarrow> string" where
  "LocalID t = Node_ID (t_node t)"

definition Tunnel_Peers :: "('h, 'c) Tunnel \<Rightarrow> string list" where
  "Tunnel_Peers t = ps_IDs (n_Peers (t_node t))"

definition PeerCount :: "('h, 'c) Tunnel \<Rightarrow> nat" where
  "PeerCount t = ps_Count (n_Peers (t_node t))"

definition PeerTransport :: "string \<Rightarrow> ('h, 'c) Tunnel \<Rightarrow> string" where
  "PeerTransport peerID t = GetPeerTransport peerID (t_node t)"

definition PeerLinkMode :: "string \<Rightarrow> ('h, 'c) Tunnel \<Rightarrow> string" where
  "PeerLinkMode peerID t = GetPeerLinkMode peerID (t_node t)"

definition Tunnel_GetMetrics :: "gotime \<Rightarrow> ('h, 'c) Tunnel \<Rightarrow> Snapshot \<times> ('h, 'c) Tunnel" where
  "Tunnel_GetMetrics now t = (case GetMetrics now (t_node t) of (s, n) \<Rightarrow> (s, t\<lparr>t_node := n\<rparr>))"

definition GetIdentityJSON :: "json_lib \<Rightarrow> ('h, 'c) Tunnel \<Rightarrow> identity_error + bytes" where
  "GetIdentityJSON jl t = ToJSON jl (n_Identity (t_node t))"

text \<open>\<open>ProbeNAT\<close> up to the wait for answers and after it, as in the node.\<close>

definition Tunnel_ProbeNAT_begin ::
    "('h, 'c) env \<Rightarrow> gotime \<Rightarrow> ('h, 'c) Tunnel \<Rightarrow> (tunnel_error + 32 word) \<times> ('h, 'c) Tunnel" where
  "Tunnel_ProbeNAT_begin env now t =
     (case ProbeNAT_begin env now (t_node t) of
        (Inl e, n) \<Rightarrow> (Inl (ErrTunnelProbe e), t\<lparr>t_node := n\<rparr>) | (Inr i, n) \<Rightarrow> (Inr i, t\<lparr>t_node := n\<rparr>))"

definition Tunnel_ProbeNAT_finish ::
    "('h, 'c) env \<Rightarrow> gotime \<Rightarrow> pendingProbe \<Rightarrow> ('h, 'c) Tunnel \<Rightarrow> (tunnel_error + string) \<times> ('h, 'c) Tunnel" where
  "Tunnel_ProbeNAT_finish env now probe t =
     (case ProbeNAT_finish env now probe (t_node t) of
        (Inl e, n) \<Rightarrow> (Inl (ErrTunnelProbe e), t\<lparr>t_node := n\<rparr>)
      | (Inr result, n) \<Rightarrow> (Inr (NATType_String (NATType_of result)), t\<lparr>t_node := n\<rparr>))"

definition GetNATType :: "('h, 'c) Tunnel \<Rightarrow> string" where
  "GetNATType t = (case GetNATInfo (t_node t) of None \<Rightarrow> ''Unknown'' | Some info \<Rightarrow> NATType_String (ni_Type info))"

definition GetReconnectingPeers :: "('h, 'c) Tunnel \<Rightarrow> string list" where
  "GetReconnectingPeers t = map inf_PeerID (Node_GetAllReconnectInfo (t_node t))"

subsection \<open>Runs\<close>

text \<open>The calls of an application, and in between whatever happens to the node but a start or stop of
  its own, which only the tunnel makes.\<close>

datatype tunnel_call =
  CStart start_outcome | CStop | CGracefulStop | CConnect string | CSend string string bytes | CBroadcast string bytes
| CJoin string | CLeave string | COnReceive bool | COnPeerConnected bool | COnPeerDisconnected bool
| COnReconnecting bool | COnReconnected bool | COnGaveUp bool | CCancelReconnect string | CCancelAllReconnects
| CGetMetrics | CProbeBegin | CProbeFinish pendingProbe | CNode node_event

fun own_event :: "node_event \<Rightarrow> bool" where
  "own_event (EvStart so) = False"
| "own_event EvStop = False"
| "own_event e = True"

fun tunnel_do ::
    "('h, 'c) env \<Rightarrow> ('h, 'c) env \<Rightarrow> (string \<Rightarrow> netaddr option) \<Rightarrow> gotime \<Rightarrow> tunnel_call \<Rightarrow> ('h, 'c) Tunnel \<Rightarrow>
       (tunnel_error option \<times> ('h, 'c) Tunnel) option" where
  "tunnel_do env env2 R now (CStart so) t = Some (Tunnel_Start env now so t)"
| "tunnel_do env env2 R now CStop t = Tunnel_Stop env now t"
| "tunnel_do env env2 R now CGracefulStop t = Tunnel_GracefulStop env now t"
| "tunnel_do env env2 R now (CConnect a) t =
     (case Tunnel_Connect env env2 R now a t of
        (Inl e, t') \<Rightarrow> Some (Some (ErrTunnelNode e), t') | (Inr c, t') \<Rightarrow> Some (None, t'))"
| "tunnel_do env env2 R now (CSend ch pid d) t = Some (Tunnel_Send env ch pid d t)"
| "tunnel_do env env2 R now (CBroadcast ch d) t = Some (None, snd (Tunnel_Broadcast env ch d t))"
| "tunnel_do env env2 R now (CJoin ch) t = Some (Tunnel_JoinChannel (e_crypto env) ch t)"
| "tunnel_do env env2 R now (CLeave ch) t = Some (Tunnel_LeaveChannel (e_crypto env) ch t)"
| "tunnel_do env env2 R now (COnReceive b) t = Some (None, Tunnel_OnReceive b t)"
| "tunnel_do env env2 R now (COnPeerConnected b) t = Some (None, Tunnel_OnPeerConnected b t)"
| "tunnel_do env env2 R now (COnPeerDisconnected b) t = Some (None, Tunnel_OnPeerDisconnected b t)"
| "tunnel_do env env2 R now (COnReconnecting b) t = Some (None, Tunnel_OnReconnecting b t)"
| "tunnel_do env env2 R now (COnReconnected b) t = Some (None, Tunnel_OnReconnected b t)"
| "tunnel_do env env2 R now (COnGaveUp b) t = Some (None, Tunnel_OnGaveUp b t)"
| "tunnel_do env env2 R now (CCancelReconnect p) t = Some (None, Tunnel_CancelReconnect p t)"
| "tunnel_do env env2 R now CCancelAllReconnects t = Some (None, Tunnel_CancelAllReconnects t)"
| "tunnel_do env env2 R now CGetMetrics t = Some (None, snd (Tunnel_GetMetrics now t))"
| "tunnel_do env env2 R now CProbeBegin t =
     (case Tunnel_ProbeNAT_begin env now t of (Inl e, t') \<Rightarrow> Some (Some e, t') | (Inr i, t') \<Rightarrow> Some (None, t'))"
| "tunnel_do env env2 R now (CProbeFinish p) t =
     (case Tunnel_ProbeNAT_finish env now p t of (Inl e, t') \<Rightarrow> Some (Some e, t') | (Inr s, t') \<Rightarrow> Some (None, t'))"
| "tunnel_do env env2 R now (CNode e) t =
     (if own_event e
      then (case node_do env env2 R now e (t_node t) of None \<Rightarrow> None | Some n \<Rightarrow> Some (None, t\<lparr>t_node := n\<rparr>))
      else Some (None, t))"

text \<open>A run of calls, each with its surroundings, and the results.\<close>

fun tunnel_run ::
    "(('h, 'c) env \<times> ('h, 'c) env \<times> (string \<Rightarrow> netaddr option) \<times> gotime \<times> tunnel_call) list \<Rightarrow> ('h, 'c) Tunnel \<Rightarrow>
       ((tunnel_call \<times> tunnel_error option) list \<times> ('h, 'c) Tunnel) option" where
  "tunnel_run [] t = Some ([], t)"
| "tunnel_run ((env, env2, R, now, c) # cs) t =
     (case tunnel_do env env2 R now c t of None \<Rightarrow> None
      | Some (e, t') \<Rightarrow> (case tunnel_run cs t' of None \<Rightarrow> None | Some (rs, t'') \<Rightarrow> Some ((c, e) # rs, t'')))"

subsection \<open>Facts\<close>

text \<open>No call panics, and every call keeps the node's invariant.\<close>

lemma calm_handlers:
  "calm n (OnReceive b n)" "calm n (OnPeerConnected b n)" "calm n (OnPeerDisconnected b n)"
  "calm n (OnReconnecting b n)" "calm n (OnReconnected b n)" "calm n (OnGaveUp b n)"
  "calm n (Node_CancelReconnect p n)" "calm n (Node_CancelAllReconnects n)" "calm n (snd (GetMetrics now n))"
  by (simp_all add: calm_def OnReceive_def OnPeerConnected_def OnPeerDisconnected_def OnReconnecting_def OnReconnected_def
      OnGaveUp_def Node_CancelReconnect_def Node_CancelAllReconnects_def GetMetrics_def Let_def upd_metrics_def
      maps_wf_def gate_ok_def stop_safe_def)

lemmas tunnel_ops = Tunnel_Start_def Tunnel_Connect_def Tunnel_Send_def Tunnel_Broadcast_def
  Tunnel_JoinChannel_def Tunnel_LeaveChannel_def Tunnel_OnReceive_def Tunnel_OnPeerConnected_def Tunnel_OnPeerDisconnected_def
  Tunnel_OnReconnecting_def Tunnel_OnReconnected_def Tunnel_OnGaveUp_def Tunnel_CancelReconnect_def
  Tunnel_CancelAllReconnects_def Tunnel_GetMetrics_def Tunnel_ProbeNAT_begin_def Tunnel_ProbeNAT_finish_def

lemma node_inv_snd:
  assumes "node_inv n"
  shows "Start env now so n = (x1, m1) \<Longrightarrow> node_inv m1" "connectContext env env2 R now a n = (x2, m2) \<Longrightarrow> node_inv m2"
    "Node_Send env ch pid d n = (x3, m3) \<Longrightarrow> node_inv m3" "Broadcast env ch d n = (x4, m4) \<Longrightarrow> node_inv m4"
    "GetMetrics now n = (x5, m5) \<Longrightarrow> node_inv m5" "ProbeNAT_begin env now n = (x6, m6) \<Longrightarrow> node_inv m6"
    "ProbeNAT_finish env now p n = (x7, m7) \<Longrightarrow> node_inv m7"
proof -
  have "node_inv (snd (Start env now so n))" "node_inv (snd (connectContext env env2 R now a n))"
    "node_inv (snd (Node_Send env ch pid d n))" "node_inv (snd (Broadcast env ch d n))" "node_inv (snd (GetMetrics now n))"
    "node_inv (snd (ProbeNAT_begin env now n))" "node_inv (snd (ProbeNAT_finish env now p n))"
    using assms by (simp_all add: inv_Start inv_Send Broadcast_def inv_send_to_all calm_inv calm_connectContext calm_probe calm_handlers)
  then show "Start env now so n = (x1, m1) \<Longrightarrow> node_inv m1" "connectContext env env2 R now a n = (x2, m2) \<Longrightarrow> node_inv m2"
    "Node_Send env ch pid d n = (x3, m3) \<Longrightarrow> node_inv m3" "Broadcast env ch d n = (x4, m4) \<Longrightarrow> node_inv m4"
    "GetMetrics now n = (x5, m5) \<Longrightarrow> node_inv m5" "ProbeNAT_begin env now n = (x6, m6) \<Longrightarrow> node_inv m6"
    "ProbeNAT_finish env now p n = (x7, m7) \<Longrightarrow> node_inv m7" by simp_all
qed

lemma tunnel_do_safe:
  assumes "node_inv (t_node t)"
  shows "\<exists>e t'. tunnel_do env env2 R now c t = Some (e, t') \<and> node_inv (t_node t')"
proof (cases c)
  case CStop
  then show ?thesis using inv_stop [OF assms, of env now] assms by (auto simp: Tunnel_Stop_def)
next
  case CGracefulStop
  then show ?thesis using inv_stop [OF assms, of env now] by (auto simp: Tunnel_GracefulStop_def)
next
  case (CNode e)
  then show ?thesis using running_do [OF assms, of env env2 R now e] assms by (auto simp: running_def)
qed (use assms in \<open>auto simp: tunnel_ops Let_def inv_channels calm_inv calm_handlers dest: node_inv_snd
       split: if_splits option.splits prod.splits sum.splits\<close>)

definition start_succeeds :: "tunnel_call \<times> tunnel_error option \<Rightarrow> bool" where
  "start_succeeds r \<longleftrightarrow> (case fst r of CStart so \<Rightarrow> snd r = None | _ \<Rightarrow> False)"

definition stop_succeeds :: "tunnel_call \<times> tunnel_error option \<Rightarrow> bool" where
  "stop_succeeds r \<longleftrightarrow> (fst r = CStop \<or> fst r = CGracefulStop) \<and> snd r = None"

definition no_start :: "('h, 'c) Tunnel \<Rightarrow> bool" where
  "no_start t \<longleftrightarrow> t_started t \<or> t_closed t"

lemma tunnel_do_flags:
  assumes "tunnel_do env env2 R now c t = Some (e, t')"
  shows "no_start t \<Longrightarrow> no_start t' \<and> \<not> start_succeeds (c, e)"
    "start_succeeds (c, e) \<or> stop_succeeds (c, e) \<Longrightarrow> no_start t'"
  using assms
  by (cases c; auto simp: no_start_def start_succeeds_def stop_succeeds_def tunnel_ops Tunnel_Stop_def Tunnel_GracefulStop_def Let_def
      split: if_splits option.splits prod.splits sum.splits)+

lemma tunnel_run_no_start:
  "tunnel_run cs t = Some (rs, t') \<Longrightarrow> no_start t \<Longrightarrow> \<forall>r \<in> set rs. \<not> start_succeeds r"
proof (induction cs t arbitrary: rs rule: tunnel_run.induct)
  case (2 env env2 R now c cs t)
  then obtain e t1 rs1 where s: "tunnel_do env env2 R now c t = Some (e, t1)" "tunnel_run cs t1 = Some (rs1, t')" "rs = (c, e) # rs1"
    by (auto split: option.splits prod.splits)
  then show ?case using 2(1) [OF s(1) refl s(2)] tunnel_do_flags(1) [OF s(1) 2(3)] by simp
qed simp

lemma tunnel_run_order:
  "tunnel_run cs t = Some (rs, t') \<Longrightarrow> rs = xs @ y # ys \<Longrightarrow> start_succeeds y \<or> stop_succeeds y \<Longrightarrow> \<forall>z \<in> set ys. \<not> start_succeeds z"
proof (induction cs t arbitrary: rs xs rule: tunnel_run.induct)
  case (2 env env2 R now c cs t)
  then obtain e t1 rs1 where s: "tunnel_do env env2 R now c t = Some (e, t1)" "tunnel_run cs t1 = Some (rs1, t')" "rs = (c, e) # rs1"
    by (auto split: option.splits prod.splits)
  show ?case
  proof (cases xs)
    case Nil
    then show ?thesis using tunnel_run_no_start [OF s(2)] tunnel_do_flags(2) [OF s(1)] 2(3,4) s(3) by simp
  next
    case (Cons x xs')
    then show ?thesis using 2(1) [OF s(1) refl s(2)] 2(3,4) s(3) by simp
  qed
qed simp

lemma tunnel_run_safe:
  "node_inv (t_node t) \<Longrightarrow> \<exists>rs t'. tunnel_run cs t = Some (rs, t') \<and> node_inv (t_node t') \<and> map fst rs = map (\<lambda>(_, _, _, _, c). c) cs"
proof (induction cs arbitrary: t)
  case (Cons x cs)
  obtain env env2 R now c where x: "x = (env, env2, R, now, c)" by (metis surj_pair)
  from tunnel_do_safe [OF Cons.prems] obtain e t1 where "tunnel_do env env2 R now c t = Some (e, t1)" "node_inv (t_node t1)" by blast
  with Cons.IH [of t1] show ?case by (auto simp: x)
qed simp

lemma NewTunnel_inv: "NewTunnel env now gen opts = Inr t \<Longrightarrow> node_inv (t_node t) \<and> \<not> no_start t"
  by (auto simp: NewTunnel_def Let_def no_start_def inv_fresh split: option.splits sum.splits elim!: NewNode_Inr)

subsection \<open>Properties\<close>


text \<open>Joining and leaving trim the name of a channel, sending and the option do not: a name with white
  space around it joins another channel than the one that sending then asks for, and a channel
  named that way by the option cannot be left.\<close>

theorem untrimmed_channel_names:
  assumes "TrimSpace x \<noteq> x" "TrimSpace x \<noteq> []" "Tunnel_JoinChannel (e_crypto env) x t = (r, t')"
    and "hashChannelName (e_crypto env) (TrimSpace x) \<noteq> hashChannelName (e_crypto env) x"
    and "gm_wf (localChannelSet (t_node t))" "\<not> isChannelSubscribed (t_node t) (hashChannelName (e_crypto env) x)"
  shows "r = None \<and> TrimSpace x \<in> set (Channels (n_Config (t_node t'))) \<and>
    fst (Tunnel_Send env x pid d t') = Some (ErrTunnelNode ErrNotSubscribed) \<and>
    (x \<in> set (Channels (n_Config (t_node t))) \<longrightarrow>
       x \<in> set (Channels (n_Config (t_node (snd (Tunnel_LeaveChannel (e_crypto env) x t))))))"
proof -
  let ?h = "hashChannelName (e_crypto env)"
  have t': "r = None" "t' = t\<lparr>t_node := JoinChannel (e_crypto env) (TrimSpace x) (t_node t)\<rparr>"
    using assms(2,3) by (auto simp: Tunnel_JoinChannel_def)
  have "\<not> isChannelSubscribed (t_node t') (?h x)"
    using assms(4-6) t'(2) by (simp add: isChannelSubscribed_def JoinChannel_def Let_def gm_has_get split: if_splits)
  then have "fst (Tunnel_Send env x pid d t') = Some (ErrTunnelNode ErrNotSubscribed)"
    by (simp add: Tunnel_Send_def Node_Send_def Let_def)
  moreover have "TrimSpace x \<in> set (Channels (n_Config (t_node t')))" using t'(2) by (simp add: JoinChannel_def Let_def)
  moreover have "x \<in> set (Channels (n_Config (t_node (snd (Tunnel_LeaveChannel (e_crypto env) x t)))))"
    if "x \<in> set (Channels (n_Config (t_node t)))"
    using that assms(1,2) by (simp add: Tunnel_LeaveChannel_def LeaveChannel_def Let_def)
  ultimately show ?thesis using t'(1) by blast
qed

subsection \<open>Witnesses\<close>


end
