(* ===== verification/Hole_Punch.thy ===== *)
theory Hole_Punch
  imports NAT_Probe "HOL-Library.Multiset"
begin

text \<open>
  Hole punching: the UDP puncher and its retries and coordinator (\<open>nat/holepunch.go\<close>) and the TCP
  simultaneous open (\<open>nat/tcp_punch.go\<close>).

  A call of \<open>Punch\<close> runs beside the goroutines it starts. Its state is a record, what can happen
  next an event, and \<open>punch_step\<close> and \<open>tcp_step\<close> make the step of an event or refuse one that is
  not possible; a run is any interleaving. What the network does (datagrams, failing writes,
  connections that are made) and when a timer fires is up to the events.
\<close>

subsection \<open>UDP\<close>

record HolePunchConfig =
  Attempts :: int
  Interval :: duration
  punch_Timeout :: duration

definition DefaultHolePunchConfig :: HolePunchConfig where
  "DefaultHolePunchConfig = \<lparr>Attempts = 10, Interval = 100 * millisecond, punch_Timeout = 5 * second\<rparr>"

record HolePunchResult =
  Success :: bool
  PeerAddr :: ipaddr
  Latency :: duration

record HolePuncher =
  hp_config :: HolePunchConfig

definition NewHolePuncher :: "HolePunchConfig option \<Rightarrow> HolePuncher" where
  "NewHolePuncher config = \<lparr>hp_config = (case config of None \<Rightarrow> DefaultHolePunchConfig | Some c \<Rightarrow> c)\<rparr>"

datatype punch_error = ErrNilPeerAddr | ErrShortPeerID nat | ErrPunchWrite | ErrPunchTimeout

definition punchMagic :: bytes where
  "punchMagic = [0x50, 0x4E, 0x43, 0x48]"

text \<open>The magic bytes, the first 16 bytes of the peer ID and the time stamp, lowest byte first.\<close>

definition punchPacket :: "bytes \<Rightarrow> int \<Rightarrow> bytes" where
  "punchPacket peerID timestamp =
     (let p = replicate 28 0; p = copy_into p 0 punchMagic; p = copy_into p 4 (take 16 peerID)
      in fold (\<lambda>i p. p[20 + i := word_of_int (timestamp div 2 ^ (i * 8))]) [0..<8] p)"

text \<open>The main goroutine is about to send, waits an interval for an answer, waits for the last
  answer, or has returned a result, an error or both.\<close>

datatype punch_phase =
  Sending | WaitInterval | WaitLast duration | Returned "HolePunchResult option" "punch_error option"

record punch_call =
  pc_config :: HolePunchConfig
  pc_peer :: ipaddr
  pc_packet :: bytes
  pc_start :: gotime
  receiveChan :: "ipaddr list"
  pc_receiver :: bool
  pc_i :: int
  pc_phase :: punch_phase
  pc_sent :: "(ipaddr \<times> bytes) list"

definition Punch :: "gotime \<Rightarrow> gotime \<Rightarrow> HolePuncher \<Rightarrow> ipaddr option \<Rightarrow> bytes \<Rightarrow> punch_error + punch_call" where
  "Punch now startTime hp peerPublicAddr peerID =
     (case peerPublicAddr of None \<Rightarrow> Inl ErrNilPeerAddr
      | Some addr \<Rightarrow>
          if length peerID < 16 then Inl (ErrShortPeerID (length peerID))
          else Inr \<lparr>pc_config = hp_config hp, pc_peer = addr, pc_packet = punchPacket peerID (time_UnixNano now),
                   pc_start = startTime, receiveChan = [], pc_receiver = True, pc_i = 0, pc_phase = Sending, pc_sent = []\<rparr>)"

definition punch_remaining :: "HolePunchConfig \<Rightarrow> duration" where
  "punch_remaining c =
     (let remaining = wrap64 (punch_Timeout c - wrap64 (Attempts c * Interval c))
      in if remaining < 0 then 0 else remaining)"

text \<open>Whether the receiving goroutine takes a datagram for the answer of the peer. The buffer has 64
  bytes; \<open>None\<close> is an address that is not a UDP address.\<close>

definition is_punch_answer :: "ipaddr \<Rightarrow> ipaddr option \<Rightarrow> bytes \<Rightarrow> bool" where
  "is_punch_answer peer addr datagram =
     (case addr of None \<Rightarrow> False
      | Some a \<Rightarrow> \<not> (\<not> IP_Equal (IP a) (IP peer) \<or> Port a \<noteq> Port peer) \<and>
          (let buf = take 64 datagram in 4 \<le> length buf \<and> take 4 buf = punchMagic))"

definition punch_success :: "gotime \<Rightarrow> ipaddr \<Rightarrow> punch_call \<Rightarrow> HolePunchResult" where
  "punch_success now addr c = \<lparr>Success = True, PeerAddr = addr, Latency = time_Sub now (pc_start c)\<rparr>"

datatype punch_event =
  Datagram "ipaddr option" bytes | ReadFails | ReceiverStops | WritesPunch bool | AttemptsOver
| TakesAnswer gotime | IntervalOver | RemainingOver

fun punch_step :: "punch_event \<Rightarrow> punch_call \<Rightarrow> punch_call option" where
  "punch_step (Datagram addr datagram) c =
     (if \<not> pc_receiver c then None
      else if is_punch_answer (pc_peer c) addr datagram
      then Some (c\<lparr>receiveChan := (if receiveChan c = [] then [the addr] else receiveChan c), pc_receiver := False\<rparr>)
      else Some c)"
| "punch_step ReadFails c = (if pc_receiver c then Some (c\<lparr>pc_receiver := False\<rparr>) else None)"
| "punch_step ReceiverStops c =
     (case pc_phase c of
        Returned _ _ \<Rightarrow> if pc_receiver c then Some (c\<lparr>pc_receiver := False\<rparr>) else None
      | _ \<Rightarrow> None)"
| "punch_step (WritesPunch ok) c =
     (if pc_phase c = Sending \<and> pc_i c < Attempts (pc_config c)
      then Some (c\<lparr>pc_sent := pc_sent c @ [(pc_peer c, pc_packet c)],
                   pc_phase := (if ok then WaitInterval else Returned None (Some ErrPunchWrite))\<rparr>)
      else None)"
| "punch_step AttemptsOver c =
     (if pc_phase c = Sending \<and> \<not> pc_i c < Attempts (pc_config c)
      then Some (c\<lparr>pc_phase := WaitLast (punch_remaining (pc_config c))\<rparr>) else None)"
| "punch_step (TakesAnswer now) c =
     (case receiveChan c of [] \<Rightarrow> None
      | addr # rest \<Rightarrow>
          (case pc_phase c of
             WaitInterval \<Rightarrow> Some (c\<lparr>receiveChan := rest, pc_phase := Returned (Some (punch_success now addr c)) None\<rparr>)
           | WaitLast d \<Rightarrow> Some (c\<lparr>receiveChan := rest, pc_phase := Returned (Some (punch_success now addr c)) None\<rparr>)
           | _ \<Rightarrow> None))"
| "punch_step IntervalOver c =
     (if pc_phase c = WaitInterval then Some (c\<lparr>pc_phase := Sending, pc_i := pc_i c + 1\<rparr>) else None)"
| "punch_step RemainingOver c =
     (case pc_phase c of
        WaitLast d \<Rightarrow>
          Some (c\<lparr>pc_phase := Returned (Some \<lparr>Success = False, PeerAddr = pc_peer c, Latency = 0\<rparr>) (Some ErrPunchTimeout)\<rparr>)
      | _ \<Rightarrow> None)"

text \<open>The \<open>i\<close>-th call of \<open>Punch\<close> is a parameter: what it returns.\<close>

function PunchWithRetry_from ::
    "(int \<Rightarrow> HolePunchResult option \<times> punch_error option) \<Rightarrow> int \<Rightarrow> int \<Rightarrow> punch_error option \<Rightarrow>
       int \<times> punch_error option + HolePunchResult" where
  "PunchWithRetry_from punch i maxRetries lastErr =
     (if i < maxRetries
      then (case punch i of
              (Some result, None) \<Rightarrow>
                if Success result then Inr result else PunchWithRetry_from punch (i + 1) maxRetries None
            | (_, err) \<Rightarrow> PunchWithRetry_from punch (i + 1) maxRetries err)
      else Inl (maxRetries, lastErr))"
  by pat_completeness auto
termination
  by (relation "measure (\<lambda>(punch, i, maxRetries, lastErr). nat (maxRetries - i))") auto

declare PunchWithRetry_from.simps [simp del]

definition PunchWithRetry ::
    "(int \<Rightarrow> HolePunchResult option \<times> punch_error option) \<Rightarrow> int \<Rightarrow> int \<times> punch_error option + HolePunchResult" where
  "PunchWithRetry punch maxRetries = PunchWithRetry_from punch 0 maxRetries None"

record PunchCoordinator =
  co_config :: HolePunchConfig
  co_puncher :: HolePuncher
  co_startTime :: gotime
  co_syncInterval :: duration

definition NewPunchCoordinator :: PunchCoordinator where
  "NewPunchCoordinator = \<lparr>co_config = DefaultHolePunchConfig, co_puncher = NewHolePuncher None,
     co_startTime = 0, co_syncInterval = 500 * millisecond\<rparr>"

text \<open>How long to sleep, and the punch made at the time after the sleep.\<close>

definition SchedulePunch ::
    "PunchCoordinator \<Rightarrow> gotime \<Rightarrow> (duration \<Rightarrow> gotime) \<Rightarrow> ipaddr option \<Rightarrow> bytes \<Rightarrow> gotime \<Rightarrow>
       duration \<times> (punch_error + punch_call)" where
  "SchedulePunch co now after peerPublicAddr peerID startAt =
     (let waitDuration = time_Sub startAt now; slept = (if 0 < waitDuration then waitDuration else 0)
      in (slept, Punch (after slept) (after slept) (co_puncher co) peerPublicAddr peerID))"

subsection \<open>TCP\<close>

text \<open>The two goroutines of a TCP punch. A goroutine that holds a connection is at the select that
  delivers it or, when the context is done, closes it.\<close>

datatype dial_state = DialTries | DialWaits | DialHolds conn | DialEnded
datatype accept_state = Listening | Accepting | AcceptHolds conn | AcceptEnded

datatype tcp_punch_error = ErrNilTCPPeer | ErrPunchContext | ErrTCPPunchTimeout

record tcp_punch =
  tp_resultChan :: "conn list"
  tp_dial :: dial_state
  tp_accept :: accept_state
  tp_done :: bool
  tp_return :: "(tcp_punch_error + conn) option"
  tp_closed :: "conn list"
  tp_opened :: "conn list"

definition TCP_Punch :: "netaddr option \<Rightarrow> tcp_punch_error + tcp_punch" where
  "TCP_Punch peerAddr =
     (case peerAddr of None \<Rightarrow> Inl ErrNilTCPPeer
      | Some a \<Rightarrow> Inr \<lparr>tp_resultChan = [], tp_dial = DialTries, tp_accept = Listening, tp_done = False,
                       tp_return = None, tp_closed = [], tp_opened = []\<rparr>)"

datatype tcp_event =
  DialMade conn bool | DialFails | DialRetries | DialStops | DialDelivers | DialDrops
| ListenMade | ListenFails | AcceptMade conn bool | AcceptFails | AcceptStops | AcceptDelivers | AcceptDrops
| ParentDone | TakesConn | SeesDone | GlobalTimeout

definition return_tcp :: "tcp_punch_error + conn \<Rightarrow> tcp_punch \<Rightarrow> tcp_punch" where
  "return_tcp r t = t\<lparr>tp_return := Some r, tp_done := True\<rparr>"

fun tcp_step :: "tcp_event \<Rightarrow> tcp_punch \<Rightarrow> tcp_punch option" where
  "tcp_step (DialMade c isTCP) t =
     (if tp_dial t = DialTries
      then Some (if isTCP then t\<lparr>tp_opened := c # tp_opened t, tp_dial := DialHolds c\<rparr>
                 else t\<lparr>tp_opened := c # tp_opened t, tp_closed := c # tp_closed t\<rparr>)
      else None)"
| "tcp_step DialFails t = (if tp_dial t = DialTries then Some (t\<lparr>tp_dial := DialWaits\<rparr>) else None)"
| "tcp_step DialRetries t = (if tp_dial t = DialWaits then Some (t\<lparr>tp_dial := DialTries\<rparr>) else None)"
| "tcp_step DialStops t =
     (if tp_dial t \<in> {DialTries, DialWaits} \<and> tp_done t then Some (t\<lparr>tp_dial := DialEnded\<rparr>) else None)"
| "tcp_step DialDelivers t =
     (case tp_dial t of
        DialHolds c \<Rightarrow> if length (tp_resultChan t) < 2
                       then Some (t\<lparr>tp_resultChan := tp_resultChan t @ [c], tp_dial := DialEnded\<rparr>) else None
      | _ \<Rightarrow> None)"
| "tcp_step DialDrops t =
     (case tp_dial t of
        DialHolds c \<Rightarrow> if tp_done t then Some (t\<lparr>tp_closed := c # tp_closed t, tp_dial := DialEnded\<rparr>) else None
      | _ \<Rightarrow> None)"
| "tcp_step ListenMade t = (if tp_accept t = Listening then Some (t\<lparr>tp_accept := Accepting\<rparr>) else None)"
| "tcp_step ListenFails t = (if tp_accept t = Listening then Some (t\<lparr>tp_accept := AcceptEnded\<rparr>) else None)"
| "tcp_step (AcceptMade c isTCP) t =
     (if tp_accept t = Accepting
      then Some (if isTCP then t\<lparr>tp_opened := c # tp_opened t, tp_accept := AcceptHolds c\<rparr>
                 else t\<lparr>tp_opened := c # tp_opened t, tp_closed := c # tp_closed t\<rparr>)
      else None)"
| "tcp_step AcceptFails t = (if tp_accept t = Accepting then Some t else None)"
| "tcp_step AcceptStops t = (if tp_accept t = Accepting \<and> tp_done t then Some (t\<lparr>tp_accept := AcceptEnded\<rparr>) else None)"
| "tcp_step AcceptDelivers t =
     (case tp_accept t of
        AcceptHolds c \<Rightarrow> if length (tp_resultChan t) < 2
                         then Some (t\<lparr>tp_resultChan := tp_resultChan t @ [c], tp_accept := AcceptEnded\<rparr>) else None
      | _ \<Rightarrow> None)"
| "tcp_step AcceptDrops t =
     (case tp_accept t of
        AcceptHolds c \<Rightarrow> if tp_done t then Some (t\<lparr>tp_closed := c # tp_closed t, tp_accept := AcceptEnded\<rparr>) else None
      | _ \<Rightarrow> None)"
| "tcp_step ParentDone t = Some (t\<lparr>tp_done := True\<rparr>)"
| "tcp_step TakesConn t =
     (if tp_return t = None
      then (case tp_resultChan t of [] \<Rightarrow> None | c # rest \<Rightarrow> Some (return_tcp (Inr c) (t\<lparr>tp_resultChan := rest\<rparr>)))
      else None)"
| "tcp_step SeesDone t =
     (if tp_return t = None \<and> tp_done t then Some (return_tcp (Inl ErrPunchContext) t) else None)"
| "tcp_step GlobalTimeout t = (if tp_return t = None then Some (return_tcp (Inl ErrTCPPunchTimeout) t) else None)"

subsection \<open>Facts about the UDP punch\<close>

text \<open>What a call has sent by its phase.\<close>

fun sent_phase :: "int \<Rightarrow> int \<Rightarrow> int \<Rightarrow> punch_phase \<Rightarrow> bool" where
  "sent_phase k i a Sending \<longleftrightarrow> k = i \<and> k \<le> a"
| "sent_phase k i a WaitInterval \<longleftrightarrow> k = i + 1 \<and> 0 \<le> i \<and> k \<le> a"
| "sent_phase k i a (WaitLast d) \<longleftrightarrow> k = a"
| "sent_phase k i a (Returned r e) \<longleftrightarrow> k \<le> a \<and> (e = Some ErrPunchTimeout \<longrightarrow> k = a)"

definition sent_ok :: "punch_call \<Rightarrow> bool" where
  "sent_ok c \<longleftrightarrow> set (pc_sent c) \<subseteq> {(pc_peer c, pc_packet c)} \<and>
     sent_phase (int (length (pc_sent c))) (pc_i c) (max 0 (Attempts (pc_config c))) (pc_phase c)"

definition heard :: "punch_event list \<Rightarrow> ipaddr \<Rightarrow> ipaddr \<Rightarrow> bool" where
  "heard es peer a \<longleftrightarrow> (\<exists>d. Datagram (Some a) d \<in> set es \<and> is_punch_answer peer (Some a) d)"

definition phase_ok :: "punch_event list \<Rightarrow> ipaddr \<Rightarrow> punch_phase \<Rightarrow> bool" where
  "phase_ok es peer ph \<longleftrightarrow>
     (case ph of
        Returned (Some r) None \<Rightarrow> Success r \<and> heard es peer (PeerAddr r)
      | Returned (Some r) (Some e) \<Rightarrow> \<not> Success r \<and> e = ErrPunchTimeout
      | Returned None (Some e) \<Rightarrow> e = ErrPunchWrite
      | Returned None None \<Rightarrow> False
      | _ \<Rightarrow> True)"

definition answer_ok :: "punch_event list \<Rightarrow> punch_call \<Rightarrow> bool" where
  "answer_ok es c \<longleftrightarrow> (\<forall>a \<in> set (receiveChan c). heard es (pc_peer c) a) \<and> phase_ok es (pc_peer c) (pc_phase c)"

definition call_of :: "punch_call \<Rightarrow> HolePunchConfig \<times> ipaddr \<times> bytes" where
  "call_of c = (pc_config c, pc_peer c, pc_packet c)"

lemma heard_mono: "heard es p a \<Longrightarrow> heard (es @ fs) p a"
  by (auto simp: heard_def)

lemma heard_now: "is_punch_answer p a d \<Longrightarrow> heard (es @ [Datagram a d]) p (the a)"
  by (cases a) (auto simp: heard_def is_punch_answer_def)

lemma punch_step_sent:
  assumes "sent_ok c" "punch_step e c = Some c'"
  shows "sent_ok c' \<and> call_of c' = call_of c"
proof (cases e)
  case (TakesAnswer now)
  then show ?thesis using assms
    by (cases "pc_phase c") (auto simp: sent_ok_def call_of_def split: list.splits)
next
  case (WritesPunch ok)
  then show ?thesis using assms by (cases ok) (auto simp: sent_ok_def call_of_def split: if_splits)
next
  case RemainingOver
  then show ?thesis using assms by (cases "pc_phase c") (auto simp: sent_ok_def call_of_def)
next
  case ReceiverStops
  then show ?thesis using assms by (cases "pc_phase c") (auto simp: sent_ok_def call_of_def split: if_splits)
qed (use assms in \<open>auto simp: sent_ok_def call_of_def split: if_splits\<close>)

lemma phase_ok_mono: "phase_ok es p ph \<Longrightarrow> phase_ok (es @ fs) p ph"
  by (auto simp: phase_ok_def heard_mono split: punch_phase.splits option.splits)

lemma phase_ok_simps [simp]: "phase_ok es p Sending" "phase_ok es p WaitInterval" "phase_ok es p (WaitLast d)"
  "phase_ok es p (Returned None (Some ErrPunchWrite))"
  "phase_ok es p (Returned (Some r) (Some ErrPunchTimeout)) \<longleftrightarrow> \<not> Success r"
  "phase_ok es p (Returned (Some r) None) \<longleftrightarrow> Success r \<and> heard es p (PeerAddr r)"
  by (simp_all add: phase_ok_def)

lemma punch_step_answer:
  assumes "answer_ok es c" "punch_step e c = Some c'"
  shows "answer_ok (es @ [e]) c'"
proof -
  have k: "\<forall>a \<in> set (receiveChan c). heard (es @ [e]) (pc_peer c) a" "phase_ok (es @ [e]) (pc_peer c) (pc_phase c)"
    using assms(1) by (auto simp: answer_ok_def heard_mono phase_ok_mono)
  show ?thesis
  proof (cases e)
    case (Datagram a d)
    then show ?thesis using assms(2) k heard_now [of "pc_peer c" a d es] by (auto simp: answer_ok_def split: if_splits)
  next
    case (TakesAnswer now)
    then show ?thesis using assms(2) k by (auto simp: answer_ok_def punch_success_def split: list.splits punch_phase.splits)
  qed (use assms(2) k in \<open>simp_all add: answer_ok_def split: if_splits punch_phase.split_asm\<close>, auto simp: answer_ok_def)
qed

interpretation punch: event_machine punch_step "\<lambda>es c. sent_ok c \<and> call_of c = k \<and> answer_ok es c" for k
  by unfold_locales (use punch_step_sent punch_step_answer in blast)

lemma Punch_ok:
  assumes "Punch now st hp peer pid = Inr c"
  shows "peer = Some (pc_peer c)" "16 \<le> length pid" "sent_ok c" "answer_ok [] c"
    "call_of c = (hp_config hp, pc_peer c, punchPacket pid (time_UnixNano now))"
  using assms by (auto simp: Punch_def sent_ok_def answer_ok_def call_of_def split: option.splits if_splits)

text \<open>Without any help of the network the call goes on to its end.\<close>

lemma punch_sends_on:
  assumes "pc_phase c = Sending" "nat (Attempts (pc_config c) - pc_i c) = m"
  shows "\<exists>es c' r e. length es = 2 * m + 2 \<and> set es \<subseteq> {WritesPunch True, IntervalOver, AttemptsOver, RemainingOver} \<and>
    run_events punch_step es c = Some c' \<and> pc_phase c' = Returned r e"
  using assms
proof (induction m arbitrary: c)
  case 0
  then have "\<not> pc_i c < Attempts (pc_config c)" by simp
  then have "\<exists>c' r e. run_events punch_step [AttemptsOver, RemainingOver] c = Some c' \<and> pc_phase c' = Returned r e"
    using "0.prems"(1) by simp
  then show ?case by (intro exI [of _ "[AttemptsOver, RemainingOver]"]) auto
next
  case (Suc m)
  let ?c = "c\<lparr>pc_sent := pc_sent c @ [(pc_peer c, pc_packet c)], pc_phase := Sending, pc_i := pc_i c + 1\<rparr>"
  have "pc_i c < Attempts (pc_config c)" using Suc.prems(2) by linarith
  then have two: "run_events punch_step (WritesPunch True # IntervalOver # es) c = run_events punch_step es ?c" for es
    using Suc.prems(1) by simp
  have "nat (Attempts (pc_config ?c) - pc_i ?c) = m" using Suc.prems(2) by simp
  from Suc.IH [OF _ this] obtain es c' r e where es: "length es = 2 * m + 2"
    "set es \<subseteq> {WritesPunch True, IntervalOver, AttemptsOver, RemainingOver}"
    "run_events punch_step es ?c = Some c'" "pc_phase c' = Returned r e" by auto
  have "length (WritesPunch True # IntervalOver # es) = 2 * Suc m + 2"
    "set (WritesPunch True # IntervalOver # es) \<subseteq> {WritesPunch True, IntervalOver, AttemptsOver, RemainingOver}"
    using es(1,2) by simp_all
  then show ?case using es(3,4) unfolding two [symmetric] by blast
qed

subsection \<open>Facts about the TCP punch\<close>

definition held :: "tcp_punch \<Rightarrow> conn multiset" where
  "held t = (case tp_dial t of DialHolds c \<Rightarrow> {#c#} | _ \<Rightarrow> {#}) + (case tp_accept t of AcceptHolds c \<Rightarrow> {#c#} | _ \<Rightarrow> {#})"

definition returned :: "tcp_punch \<Rightarrow> conn multiset" where
  "returned t = (case tp_return t of Some (Inr c) \<Rightarrow> {#c#} | _ \<Rightarrow> {#})"

definition accounted :: "tcp_punch \<Rightarrow> bool" where
  "accounted t \<longleftrightarrow> mset (tp_opened t) = mset (tp_closed t) + mset (tp_resultChan t) + held t + returned t"

definition room :: "tcp_punch \<Rightarrow> bool" where
  "room t \<longleftrightarrow> length (tp_resultChan t) + size (returned t) + (if tp_dial t = DialEnded then 0 else 1) +
     (if tp_accept t = AcceptEnded then 0 else 1) \<le> 2 \<and> (tp_return t \<noteq> None \<longrightarrow> tp_done t)"

definition tcp_inv :: "tcp_punch \<Rightarrow> bool" where
  "tcp_inv t \<longleftrightarrow> accounted t \<and> room t"

lemma accounted_step: "accounted t \<Longrightarrow> tcp_step e t = Some t' \<Longrightarrow> accounted t'"
  by (cases e) (simp_all add: accounted_def held_def returned_def return_tcp_def
      split: if_splits list.splits dial_state.split_asm accept_state.split_asm, auto)

lemma room_step: "room t \<Longrightarrow> tcp_step e t = Some t' \<Longrightarrow> room t'"
  by (cases e) (simp_all add: room_def returned_def return_tcp_def
      split: if_splits list.splits dial_state.split_asm accept_state.split_asm, auto)

lemma tcp_inv_step: "tcp_inv t \<Longrightarrow> tcp_step e t = Some t' \<Longrightarrow> tcp_inv t'"
  using accounted_step room_step by (auto simp: tcp_inv_def)

interpretation tcpp: event_machine tcp_step "\<lambda>es. tcp_inv"
  by unfold_locales (rule tcp_inv_step)

lemma TCP_Punch_inv: "TCP_Punch a = Inr t \<Longrightarrow> tcp_inv t"
  by (auto simp: TCP_Punch_def tcp_inv_def accounted_def room_def held_def returned_def split: option.splits)

subsection \<open>Properties\<close>


text \<open>C31: no connection of a TCP punch is lost track of. In every run, each connection that was made is
  the one returned, closed, still held by a goroutine or in the channel, which has room for what
  the goroutines may still deliver; the connection that is returned is not closed. Once the call
  has returned, each goroutine is at most one event from its end.\<close>

theorem tcp_punch_accounts:
  assumes "TCP_Punch a = Inr t0" "run_events tcp_step es t0 = Some t"
  shows "mset (tp_opened t) = mset (tp_closed t) + mset (tp_resultChan t) + held t + returned t \<and>
    length (tp_resultChan t) + size (held t) + size (returned t) \<le> 2 \<and>
    (\<forall>c. tp_return t = Some (Inr c) \<longrightarrow> c \<in> set (tp_opened t) \<and> (distinct (tp_opened t) \<longrightarrow> c \<notin> set (tp_closed t))) \<and>
    (tp_return t \<noteq> None \<longrightarrow> (\<exists>es' t'. length es' \<le> 2 \<and> run_events tcp_step es' t = Some t' \<and>
       tp_dial t' = DialEnded \<and> tp_accept t' = AcceptEnded \<and> tp_return t' = tp_return t))"
proof -
  have inv: "tcp_inv t" using tcpp.inv_run [OF TCP_Punch_inv [OF assms(1)] assms(2)] .
  have c: "c \<in> set (tp_opened t) \<and> (distinct (tp_opened t) \<longrightarrow> c \<notin> set (tp_closed t))" if "tp_return t = Some (Inr c)" for c
  proof -
    have m: "mset (tp_opened t) = add_mset c (mset (tp_closed t) + mset (tp_resultChan t) + held t)"
      using inv that by (simp add: tcp_inv_def accounted_def returned_def)
    then have "c \<in># mset (tp_opened t)" by simp
    moreover have "count (mset (tp_opened t)) c \<le> 1" if "distinct (tp_opened t)" using that by (simp add: distinct_count_atmost_1)
    ultimately show ?thesis using m by (metis One_nat_def Suc_le_mono count_add_mset count_union in_multiset_in_set
          le_zero_eq not_in_iff set_mset_mset add_is_0)
  qed
  have e: "\<exists>es' t'. length es' \<le> 2 \<and> run_events tcp_step es' t = Some t' \<and>
       tp_dial t' = DialEnded \<and> tp_accept t' = AcceptEnded \<and> tp_return t' = tp_return t" if "tp_return t \<noteq> None"
  proof -
    have d: "tp_done t" using inv that by (simp add: tcp_inv_def room_def)
    have 1: "\<exists>xs u. length xs \<le> 1 \<and> run_events tcp_step xs t = Some u \<and> tp_dial u = DialEnded \<and>
        tp_accept u = tp_accept t \<and> tp_return u = tp_return t \<and> tp_done u"
    proof (cases "tp_dial t")
      case (DialHolds c)
      then show ?thesis using d by (intro exI [of _ "[DialDrops]"]) simp
    next
      case DialEnded
      then show ?thesis using d by (intro exI [of _ "[]"]) simp
    qed (use d in \<open>intro exI [of _ "[DialStops]"], simp\<close>)+
    then obtain xs u where u: "length xs \<le> 1" "run_events tcp_step xs t = Some u" "tp_dial u = DialEnded"
      "tp_return u = tp_return t" "tp_done u" by blast
    have "\<exists>ys v. length ys \<le> 1 \<and> run_events tcp_step ys u = Some v \<and> tp_dial v = DialEnded \<and>
        tp_accept v = AcceptEnded \<and> tp_return v = tp_return t"
    proof (cases "tp_accept u")
      case Listening
      then show ?thesis using u by (intro exI [of _ "[ListenFails]"]) simp
    next
      case Accepting
      then show ?thesis using u by (intro exI [of _ "[AcceptStops]"]) simp
    next
      case (AcceptHolds c)
      then show ?thesis using u by (intro exI [of _ "[AcceptDrops]"]) simp
    next
      case AcceptEnded
      then show ?thesis using u by (intro exI [of _ "[]"]) simp
    qed
    then obtain ys v where "length ys \<le> 1" "run_events tcp_step ys u = Some v" "tp_dial v = DialEnded"
      "tp_accept v = AcceptEnded" "tp_return v = tp_return t" by blast
    then show ?thesis using u by (intro exI [of _ "xs @ ys"] exI [of _ v]) (simp add: run_events_append)
  qed
  have "length (tp_resultChan t) + size (held t) + size (returned t) \<le> 2"
    using inv by (auto simp: tcp_inv_def room_def held_def split: dial_state.splits accept_state.splits if_splits)
  then show ?thesis using inv c e by (simp add: tcp_inv_def accounted_def)
qed

text \<open>If both the dial and the accept succeed before the call returns, the second connection stays
  in the channel, neither returned nor closed, after everything has ended.\<close>

theorem tcp_punch_leaves_second_open:
  "\<exists>t0 t. TCP_Punch (Some (TCPAddr a)) = Inr t0 \<and>
     run_events tcp_step [ListenMade, DialMade 1 True, AcceptMade 2 True, DialDelivers, AcceptDelivers, TakesConn] t0 = Some t \<and>
     tp_return t = Some (Inr 1) \<and> tp_dial t = DialEnded \<and> tp_accept t = AcceptEnded \<and>
     tp_resultChan t = [2] \<and> tp_closed t = []"
  by (simp add: TCP_Punch_def return_tcp_def)

text \<open>Retrying returns the first success within the limit, and otherwise the error of the last try.\<close>

lemma PunchWithRetry_from_result:
  "case PunchWithRetry_from punch i n e of
     Inr r \<Rightarrow> Success r \<and> (\<exists>j. i \<le> j \<and> j < n \<and> punch j = (Some r, None)) | Inl (m, err) \<Rightarrow> m = n"
proof (induction punch i n e rule: PunchWithRetry_from.induct)
  case (1 punch i n e)
  have more: "case PunchWithRetry_from punch (i + 1) n e' of
      Inr r \<Rightarrow> Success r \<and> (\<exists>j. i \<le> j \<and> j < n \<and> punch j = (Some r, None)) | Inl (m, err) \<Rightarrow> m = n"
    if "case PunchWithRetry_from punch (i + 1) n e' of
      Inr r \<Rightarrow> Success r \<and> (\<exists>j. i + 1 \<le> j \<and> j < n \<and> punch j = (Some r, None)) | Inl (m, err) \<Rightarrow> m = n" for e'
    using that by (auto split: sum.splits) (metis add_le_imp_le_left add.commute le_add_same_cancel2 order_trans zero_le_one)
  obtain ro eo where p: "punch i = (ro, eo)" by force
  show ?case
    using more 1 p by (cases "i < n"; cases ro; cases eo) (auto simp: PunchWithRetry_from.simps [of punch i])
qed

theorem punch_with_retry:
  "case PunchWithRetry punch n of
     Inr r \<Rightarrow> Success r \<and> (\<exists>j. 0 \<le> j \<and> j < n \<and> punch j = (Some r, None))
   | Inl (m, e) \<Rightarrow> m = n"
  using PunchWithRetry_from_result [where punch = punch and i = 0 and n = n and e = None] by (simp add: PunchWithRetry_def)

subsection \<open>Witnesses\<close>

definition demo_peer_addr :: ipaddr where
  "demo_peer_addr = \<lparr>IP = [10, 0, 0, 1], Port = 4000\<rparr>"


theorem tcp_punch_accounts_witness:
  "\<exists>t0 t. TCP_Punch (Some (TCPAddr ''a'')) = Inr t0 \<and>
     run_events tcp_step [ListenMade, DialMade 1 True, AcceptMade 2 True, DialDelivers, TakesConn, AcceptDrops] t0 = Some t \<and>
     1 \<notin> set (tp_closed t)"
proof -
  let ?es = "[ListenMade, DialMade 1 True, AcceptMade 2 True, DialDelivers, TakesConn, AcceptDrops]"
  have "\<exists>t0 t. TCP_Punch (Some (TCPAddr ''a'')) = Inr t0 \<and> run_events tcp_step ?es t0 = Some t \<and>
      tp_return t = Some (Inr 1) \<and> tp_opened t = [2, 1]"
    by (simp add: TCP_Punch_def return_tcp_def)
  then obtain t0 t where t: "TCP_Punch (Some (TCPAddr ''a'')) = Inr t0" "run_events tcp_step ?es t0 = Some t"
    "tp_return t = Some (Inr 1)" "tp_opened t = [2, 1]" by blast
  from tcp_punch_accounts [OF t(1,2)] t show ?thesis by auto
qed

end
