(* ===== verification/Buffer_Pool.thy ===== *)
theory Buffer_Pool
  imports Go_Prelude "HOL-Library.Multiset"
begin

text \<open>
  The buffer pools (\<open>internal/pool/pool.go\<close>): two pools of byte buffers, the functions that take a
  buffer from one and give it back, and the wrapper \<open>Buffer\<close>.

  A pointer to a slice is a reference into a heap of slices. \<open>sync.Pool\<close> promises little about what
  \<open>Get\<close> returns: any of the buffers that were put, or a new one; which of them is an argument.
  Dereferencing a nil pointer and slicing out of bounds panic, which is the value \<open>None\<close>.
\<close>

subsection \<open>Model\<close>

definition LargeBufferSize :: nat where "LargeBufferSize = 65535"
definition PacketBufferSize :: nat where "PacketBufferSize = 1500"

type_synonym bref = nat

record slice =
  sl_array :: bytes
  sl_len :: nat

abbreviation sl_cap :: "slice \<Rightarrow> nat" where
  "sl_cap s \<equiv> length (sl_array s)"

datatype pool_name = largeBufferPool | packetPool

definition pool_size :: "pool_name \<Rightarrow> nat" where
  "pool_size k = (case k of largeBufferPool \<Rightarrow> LargeBufferSize | packetPool \<Rightarrow> PacketBufferSize)"

record pools =
  p_heap :: "bref \<Rightarrow> slice"
  p_fresh :: bref
  p_free :: "pool_name \<Rightarrow> bref list"

definition new_pools :: pools where
  "new_pools = \<lparr>p_heap = (\<lambda>_. \<lparr>sl_array = [], sl_len = 0\<rparr>), p_fresh = 0, p_free = (\<lambda>_. [])\<rparr>"

definition pool_New :: "pool_name \<Rightarrow> pools \<Rightarrow> bref \<times> pools" where
  "pool_New k ps =
     (let r = p_fresh ps
      in (r, ps\<lparr>p_heap := (p_heap ps)(r := \<lparr>sl_array = replicate (pool_size k) 0, sl_len = pool_size k\<rparr>), p_fresh := Suc r\<rparr>))"

definition pool_Get :: "pool_name \<Rightarrow> nat option \<Rightarrow> pools \<Rightarrow> bref \<times> pools" where
  "pool_Get k choice ps =
     (case choice of None \<Rightarrow> pool_New k ps
      | Some i \<Rightarrow>
          if i < length (p_free ps k)
          then (p_free ps k ! i, ps\<lparr>p_free := (p_free ps)(k := take i (p_free ps k) @ drop (Suc i) (p_free ps k))\<rparr>)
          else pool_New k ps)"

definition GetLargeBuffer :: "nat option \<Rightarrow> pools \<Rightarrow> bref \<times> pools" where
  "GetLargeBuffer choice = pool_Get largeBufferPool choice"

definition GetPacketBuffer :: "nat option \<Rightarrow> pools \<Rightarrow> bref \<times> pools" where
  "GetPacketBuffer choice = pool_Get packetPool choice"

text \<open>Giving back: the slice gets its full capacity again.\<close>

definition give_back :: "pool_name \<Rightarrow> bref \<Rightarrow> pools \<Rightarrow> pools" where
  "give_back k r ps = ps\<lparr>p_heap := (p_heap ps)(r := (p_heap ps r)\<lparr>sl_len := sl_cap (p_heap ps r)\<rparr>),
                         p_free := (p_free ps)(k := p_free ps k @ [r])\<rparr>"

definition PutLargeBuffer :: "bref option \<Rightarrow> pools \<Rightarrow> pools" where
  "PutLargeBuffer buf ps = (case buf of None \<Rightarrow> ps | Some r \<Rightarrow> give_back largeBufferPool r ps)"

definition PutPacketBuffer :: "bref option \<Rightarrow> pools \<Rightarrow> pools" where
  "PutPacketBuffer buf ps = (case buf of None \<Rightarrow> ps | Some r \<Rightarrow> give_back packetPool r ps)"

record Buffer =
  b_data :: "bref option"
  b_pool :: "pool_name option"
  b_len :: int

definition NewBuffer :: "int \<Rightarrow> nat option \<Rightarrow> pools \<Rightarrow> Buffer \<times> pools" where
  "NewBuffer sz choice ps =
     (if sz \<le> int PacketBufferSize
      then (case GetPacketBuffer choice ps of (buf, ps1) \<Rightarrow> (\<lparr>b_data = Some buf, b_pool = Some packetPool, b_len = sz\<rparr>, ps1))
      else (case GetLargeBuffer choice ps of (buf, ps1) \<Rightarrow> (\<lparr>b_data = Some buf, b_pool = Some largeBufferPool, b_len = sz\<rparr>, ps1)))"

definition Buffer_Bytes :: "pools \<Rightarrow> Buffer \<Rightarrow> bytes option" where
  "Buffer_Bytes ps b =
     (case b_data b of None \<Rightarrow> Some []
      | Some r \<Rightarrow>
          let s = p_heap ps r
          in if int (sl_len s) < b_len b then Some (take (sl_len s) (sl_array s))
             else if b_len b < 0 then None
             else Some (take (nat (b_len b)) (sl_array s)))"

definition SetLen :: "pools \<Rightarrow> int \<Rightarrow> Buffer \<Rightarrow> Buffer option" where
  "SetLen ps n b =
     (case b_data b of None \<Rightarrow> None
      | Some r \<Rightarrow>
          let c = int (sl_cap (p_heap ps r)); n = (if c < n then c else n)
          in Some (b\<lparr>b_len := n\<rparr>))"

definition Buffer_Cap :: "pools \<Rightarrow> Buffer \<Rightarrow> nat" where
  "Buffer_Cap ps b = (case b_data b of None \<Rightarrow> 0 | Some r \<Rightarrow> sl_cap (p_heap ps r))"

definition Release :: "Buffer \<Rightarrow> pools \<Rightarrow> Buffer \<times> pools" where
  "Release b ps =
     (case (b_data b, b_pool b) of
        (Some r, Some k) \<Rightarrow> (b\<lparr>b_data := None, b_pool := None\<rparr>, give_back k r ps)
      | _ \<Rightarrow> (b, ps))"

subsection \<open>Clients\<close>

text \<open>What the rest of the program may do with the pools: take a buffer, use it (write into it, cut
  it), give a buffer it holds back to the pool it came from, and make and release wrappers.\<close>

record client =
  c_pools :: pools
  c_held :: "(bref \<times> pool_name) list"
  c_bufs :: "Buffer list"

datatype client_event =
  TakeRaw pool_name "nat option" | PutRaw bref pool_name | WriteRaw bref bytes | CutRaw bref nat
| MakeBuffer int "nat option" | SetBufferLen nat int | ReleaseBuffer nat

definition upd_slice :: "bref \<Rightarrow> (slice \<Rightarrow> slice) \<Rightarrow> pools \<Rightarrow> pools" where
  "upd_slice r f ps = ps\<lparr>p_heap := (p_heap ps)(r := f (p_heap ps r))\<rparr>"

fun client_step :: "client_event \<Rightarrow> client \<Rightarrow> client option" where
  "client_step (TakeRaw k choice) c =
     (case (case k of largeBufferPool \<Rightarrow> GetLargeBuffer choice (c_pools c) | packetPool \<Rightarrow> GetPacketBuffer choice (c_pools c)) of
        (r, ps) \<Rightarrow> Some (c\<lparr>c_pools := ps, c_held := (r, k) # c_held c\<rparr>))"
| "client_step (PutRaw r k) c =
     (if (r, k) \<in> set (c_held c)
      then Some (c\<lparr>c_pools := (case k of largeBufferPool \<Rightarrow> PutLargeBuffer (Some r) (c_pools c)
                                       | packetPool \<Rightarrow> PutPacketBuffer (Some r) (c_pools c)),
                   c_held := remove1 (r, k) (c_held c)\<rparr>)
      else None)"
| "client_step (WriteRaw r b) c =
     (if r \<in> fst ` set (c_held c)
      then Some (c\<lparr>c_pools := upd_slice r (\<lambda>s. s\<lparr>sl_array := copy_into (sl_array s) 0 (take (sl_len s) b)\<rparr>) (c_pools c)\<rparr>)
      else None)"
| "client_step (CutRaw r n) c =
     (if r \<in> fst ` set (c_held c) \<and> n \<le> sl_cap (p_heap (c_pools c) r)
      then Some (c\<lparr>c_pools := upd_slice r (\<lambda>s. s\<lparr>sl_len := n\<rparr>) (c_pools c)\<rparr>) else None)"
| "client_step (MakeBuffer sz choice) c =
     (case NewBuffer sz choice (c_pools c) of (b, ps) \<Rightarrow> Some (c\<lparr>c_pools := ps, c_bufs := c_bufs c @ [b]\<rparr>))"
| "client_step (SetBufferLen i n) c =
     (if i < length (c_bufs c)
      then (case SetLen (c_pools c) n (c_bufs c ! i) of None \<Rightarrow> None | Some b \<Rightarrow> Some (c\<lparr>c_bufs := (c_bufs c)[i := b]\<rparr>))
      else None)"
| "client_step (ReleaseBuffer i) c =
     (if i < length (c_bufs c)
      then (case Release (c_bufs c ! i) (c_pools c) of (b, ps) \<Rightarrow> Some (c\<lparr>c_pools := ps, c_bufs := (c_bufs c)[i := b]\<rparr>))
      else None)"

subsection \<open>Ownership\<close>

definition buffer_refs :: "Buffer \<Rightarrow> (bref \<times> pool_name) list" where
  "buffer_refs b = (case (b_data b, b_pool b) of (Some r, Some k) \<Rightarrow> [(r, k)] | _ \<Rightarrow> [])"

text \<open>Every reference there is, with the pool it belongs to: in a free list, held, or in a wrapper.\<close>

definition used :: "client \<Rightarrow> (bref \<times> pool_name) list" where
  "used c = c_held c @ concat (map buffer_refs (c_bufs c))"

definition free_refs :: "pools \<Rightarrow> (bref \<times> pool_name) multiset" where
  "free_refs ps = image_mset (\<lambda>r. (r, largeBufferPool)) (mset (p_free ps largeBufferPool)) +
     image_mset (\<lambda>r. (r, packetPool)) (mset (p_free ps packetPool))"

definition once :: "'a multiset \<Rightarrow> bool" where
  "once m \<longleftrightarrow> (\<forall>x. count m x \<le> 1)"

lemma once_add [simp]: "once (add_mset x m) \<longleftrightarrow> x \<notin># m \<and> once m"
proof
  assume o: "once (add_mset x m)"
  then have "count m y \<le> 1" for y unfolding once_def by (metis count_add_mset le_SucE le_SucI Suc_leD)
  moreover have "count m x = 0" using o unfolding once_def by (metis One_nat_def Suc_le_mono count_add_mset le_zero_eq)
  ultimately show "x \<notin># m \<and> once m" by (simp add: once_def not_in_iff)
next
  assume "x \<notin># m \<and> once m"
  then show "once (add_mset x m)" by (simp add: once_def not_in_iff)
qed

lemma once_union: "once (m + n) \<Longrightarrow> once m"
  unfolding once_def by (metis add_leE count_union)

lemma once_mset: "once (mset xs) \<longleftrightarrow> distinct xs"
proof (induction xs)
  case (Cons x xs)
  then show ?case by (simp only: mset.simps once_add) simp
qed (simp add: once_def)

text \<open>The pools and the references in use: no reference occurs twice, every buffer has the capacity
  of its pool, and the free ones are uncut.\<close>

definition good_slices :: "pools \<Rightarrow> (bref \<times> pool_name) multiset \<Rightarrow> bool" where
  "good_slices ps m \<longleftrightarrow> (\<forall>r k. (r, k) \<in># m \<longrightarrow> r < p_fresh ps \<and> sl_cap (p_heap ps r) = pool_size k \<and> sl_len (p_heap ps r) \<le> pool_size k)"

definition free_full :: "pools \<Rightarrow> bool" where
  "free_full ps \<longleftrightarrow> (\<forall>r k. (r, k) \<in># free_refs ps \<longrightarrow> sl_len (p_heap ps r) = pool_size k)"

definition owned :: "pools \<Rightarrow> (bref \<times> pool_name) multiset \<Rightarrow> bool" where
  "owned ps u \<longleftrightarrow> once (image_mset fst (u + free_refs ps)) \<and> good_slices ps (u + free_refs ps) \<and> free_full ps"

definition client_inv :: "client \<Rightarrow> bool" where
  "client_inv c \<longleftrightarrow> owned (c_pools c) (mset (used c)) \<and> (\<forall>b \<in> set (c_bufs c). b_data b = None \<longleftrightarrow> b_pool b = None)"

lemma free_refs_give_back: "free_refs (give_back k r ps) = add_mset (r, k) (free_refs ps)"
  by (cases k) (simp_all add: free_refs_def give_back_def)

lemma mset_remove_nth: "i < length xs \<Longrightarrow> mset xs = add_mset (xs ! i) (mset (take i xs @ drop (Suc i) xs))"
  by (metis id_take_nth_drop mset.simps(2) mset_append union_mset_add_mset_right)

lemma pool_Get_cases:
  assumes "pool_Get k choice ps = (r, ps')"
  obtains (reuse) "free_refs ps = add_mset (r, k) (free_refs ps')" "p_heap ps' = p_heap ps" "p_fresh ps' = p_fresh ps"
  | (new) "r = p_fresh ps" "free_refs ps' = free_refs ps" "p_fresh ps' = Suc r"
    "p_heap ps' = (p_heap ps)(r := \<lparr>sl_array = replicate (pool_size k) 0, sl_len = pool_size k\<rparr>)"
proof (cases "\<exists>i. choice = Some i \<and> i < length (p_free ps k)")
  case True
  then obtain i where i: "choice = Some i" "i < length (p_free ps k)" by blast
  have "r = p_free ps k ! i" "ps' = ps\<lparr>p_free := (p_free ps)(k := take i (p_free ps k) @ drop (Suc i) (p_free ps k))\<rparr>"
    using assms i by (simp_all add: pool_Get_def)
  with mset_remove_nth [OF i(2)] have "free_refs ps = add_mset (r, k) (free_refs ps')" "p_heap ps' = p_heap ps" "p_fresh ps' = p_fresh ps"
    by (cases k; simp add: free_refs_def)+
  then show thesis by (rule reuse)
next
  case False
  then have "pool_New k ps = (r, ps')" using assms by (auto simp: pool_Get_def split: option.splits if_splits)
  then show thesis by (intro new) (auto simp: pool_New_def Let_def free_refs_def)
qed

lemma owned_in_use:
  assumes "owned ps u" "(r, k) \<in># u"
  shows "(r, k') \<notin># free_refs ps" "(r, k') \<in># u \<Longrightarrow> k' = k"
proof -
  obtain v where v: "u = add_mset (r, k) v" using assms(2) by (metis multi_member_split)
  then have "r \<notin># image_mset fst (v + free_refs ps)" using assms(1) by (simp add: owned_def)
  then show "(r, k') \<notin># free_refs ps" "(r, k') \<in># u \<Longrightarrow> k' = k" using v by (auto simp: image_iff)
qed

lemma owned_get:
  assumes "owned ps u" "pool_Get k choice ps = (r, ps')"
  shows "owned ps' (add_mset (r, k) u)" "r \<notin># image_mset fst u" "sl_len (p_heap ps' r) = pool_size k"
proof -
  have "owned ps' (add_mset (r, k) u) \<and> r \<notin># image_mset fst u \<and> sl_len (p_heap ps' r) = pool_size k"
    using assms(2)
  proof (cases rule: pool_Get_cases)
    case reuse
    then show ?thesis using assms(1) by (auto simp: owned_def good_slices_def free_full_def)
  next
    case new
    have old: "x < p_fresh ps" if "(x, j) \<in># u + free_refs ps" for x j
      using assms(1) that unfolding owned_def good_slices_def by blast
    then have f: "r \<notin># image_mset fst (u + free_refs ps)" using new(1) by (fastforce simp: image_iff)
    moreover have "good_slices ps' (add_mset (r, k) (u + free_refs ps))"
      using assms(1) new(1,3,4) old unfolding owned_def good_slices_def by (fastforce simp: less_Suc_eq)
    moreover have "free_full ps'"
      using assms(1) new(2,4) f unfolding owned_def free_full_def by (force simp: image_iff)
    ultimately show ?thesis using assms(1) new by (simp add: owned_def)
  qed
  then show "owned ps' (add_mset (r, k) u)" "r \<notin># image_mset fst u" "sl_len (p_heap ps' r) = pool_size k" by blast+
qed

lemma owned_upd:
  assumes "owned ps u" "(r, k) \<in># u" "sl_cap (f (p_heap ps r)) = sl_cap (p_heap ps r)" "sl_len (f (p_heap ps r)) \<le> sl_cap (p_heap ps r)"
  shows "owned (upd_slice r f ps) u"
proof -
  have fr: "free_refs (upd_slice r f ps) = free_refs ps" by (simp add: upd_slice_def free_refs_def)
  have "good_slices (upd_slice r f ps) (u + free_refs ps)"
    unfolding good_slices_def
  proof (intro allI impI)
    fix x j assume m: "(x, j) \<in># u + free_refs ps"
    then have g: "x < p_fresh ps \<and> sl_cap (p_heap ps x) = pool_size j \<and> sl_len (p_heap ps x) \<le> pool_size j"
      using assms(1) unfolding owned_def good_slices_def by blast
    then show "x < p_fresh (upd_slice r f ps) \<and> sl_cap (p_heap (upd_slice r f ps) x) = pool_size j \<and>
        sl_len (p_heap (upd_slice r f ps) x) \<le> pool_size j"
      using assms(3,4) by (cases "x = r") (simp_all add: upd_slice_def)
  qed
  moreover have "free_full (upd_slice r f ps)"
    using assms(1) owned_in_use(1) [OF assms(1,2)] unfolding owned_def free_full_def fr by (auto simp: upd_slice_def)
  ultimately show ?thesis using assms(1) by (simp add: owned_def fr)
qed

lemma owned_put:
  assumes "owned ps (add_mset (r, k) u)"
  shows "owned (give_back k r ps) u"
proof -
  let ?f = "\<lambda>s. s\<lparr>sl_len := sl_cap s\<rparr>"
  have o: "owned (upd_slice r ?f ps) (add_mset (r, k) u)" by (rule owned_upd [OF assms, of r k]) simp_all
  have fr: "free_refs (upd_slice r ?f ps) = free_refs ps" by (simp add: upd_slice_def free_refs_def)
  have h: "p_heap (give_back k r ps) = p_heap (upd_slice r ?f ps)" "p_fresh (give_back k r ps) = p_fresh (upd_slice r ?f ps)"
    by (simp_all add: give_back_def upd_slice_def)
  have c: "sl_cap (p_heap ps r) = pool_size k" using assms by (auto simp: owned_def good_slices_def)
  have "free_full (give_back k r ps)"
    using o c unfolding owned_def free_full_def fr free_refs_give_back h by (auto simp: upd_slice_def)
  then show ?thesis using o by (simp add: owned_def good_slices_def h fr free_refs_give_back)
qed

lemma mset_buffers_update:
  "i < length bs \<Longrightarrow> mset (concat (map buffer_refs (bs[i := b]))) + mset (buffer_refs (bs ! i)) =
     mset (concat (map buffer_refs bs)) + mset (buffer_refs b)"
  by (induction bs arbitrary: i) (auto split: nat.splits)

lemma client_inv_step:
  assumes "client_inv c" "client_step e c = Some c'"
  shows "client_inv c'"
proof (cases e)
  case (TakeRaw k choice)
  obtain r ps where g: "pool_Get k choice (c_pools c) = (r, ps)" by force
  then have "c' = c\<lparr>c_pools := ps, c_held := (r, k) # c_held c\<rparr>"
    using assms(2) TakeRaw by (cases k) (auto simp: GetLargeBuffer_def GetPacketBuffer_def)
  then show ?thesis using assms(1) owned_get(1) [OF _ g, of "mset (used c)"] by (simp add: client_inv_def used_def)
next
  case (PutRaw r k)
  have h: "(r, k) \<in> set (c_held c)" "c' = c\<lparr>c_pools := give_back k r (c_pools c), c_held := remove1 (r, k) (c_held c)\<rparr>"
    using assms(2) PutRaw by (cases k; auto simp: PutLargeBuffer_def PutPacketBuffer_def split: if_splits)+
  then have "mset (used c) = add_mset (r, k) (mset (used c'))" by (simp add: used_def)
  then show ?thesis using assms(1) owned_put [of "c_pools c" r k "mset (used c')"] h(2) by (simp add: client_inv_def)
next
  case (WriteRaw r b)
  then have "r \<in> fst ` set (c_held c)" using assms(2) by (simp split: if_splits)
  then obtain k where "(r, k) \<in> set (c_held c)" by auto
  with WriteRaw have k: "(r, k) \<in># mset (used c)" "c' = c\<lparr>c_pools := upd_slice r (\<lambda>s. s\<lparr>sl_array := copy_into (sl_array s) 0 (take (sl_len s) b)\<rparr>) (c_pools c)\<rparr>"
    using assms(2) by (auto simp: used_def split: if_splits)
  have "sl_len (p_heap (c_pools c) r) \<le> sl_cap (p_heap (c_pools c) r)"
    using assms(1) k(1) by (auto simp: client_inv_def owned_def good_slices_def)
  then show ?thesis using assms(1) k owned_upd [OF _ k(1), of "c_pools c"] by (simp add: client_inv_def used_def copy_into_def)
next
  case (CutRaw r n)
  then have "r \<in> fst ` set (c_held c)" using assms(2) by (simp split: if_splits)
  then obtain k where "(r, k) \<in> set (c_held c)" by auto
  with CutRaw have k: "(r, k) \<in># mset (used c)" "c' = c\<lparr>c_pools := upd_slice r (\<lambda>s. s\<lparr>sl_len := n\<rparr>) (c_pools c)\<rparr>"
    "n \<le> sl_cap (p_heap (c_pools c) r)"
    using assms(2) by (auto simp: used_def split: if_splits)
  then show ?thesis using assms(1) owned_upd [OF _ k(1), of "c_pools c"] by (simp add: client_inv_def used_def)
next
  case (MakeBuffer sz choice)
  let ?k = "if sz \<le> int PacketBufferSize then packetPool else largeBufferPool"
  obtain r ps where g: "pool_Get ?k choice (c_pools c) = (r, ps)" by force
  then have c': "c' = c\<lparr>c_pools := ps, c_bufs := c_bufs c @ [\<lparr>b_data = Some r, b_pool = Some ?k, b_len = sz\<rparr>]\<rparr>"
    using assms(2) MakeBuffer by (auto simp: NewBuffer_def GetLargeBuffer_def GetPacketBuffer_def split: if_splits)
  then show ?thesis using assms(1) owned_get(1) [OF _ g, of "mset (used c)"] by (simp add: client_inv_def used_def buffer_refs_def)
next
  case (SetBufferLen i n)
  then obtain m where i: "i < length (c_bufs c)" "c' = c\<lparr>c_bufs := (c_bufs c)[i := (c_bufs c ! i)\<lparr>b_len := m\<rparr>]\<rparr>"
    using assms(2) by (auto simp: SetLen_def Let_def split: if_splits option.splits)
  then have "map buffer_refs (c_bufs c') = map buffer_refs (c_bufs c)"
    by (simp add: map_update buffer_refs_def list_update_same_conv)
  then have "used c' = used c" using i(2) by (simp add: used_def)
  moreover have "\<forall>b \<in> set (c_bufs c'). b_data b = None \<longleftrightarrow> b_pool b = None"
    using assms(1) i set_update_subset_insert [of "c_bufs c" i] by (fastforce simp: client_inv_def)
  ultimately show ?thesis using assms(1) i(2) by (simp add: client_inv_def)
next
  case (ReleaseBuffer i)
  let ?b = "c_bufs c ! i"
  have i: "i < length (c_bufs c)" using assms(2) ReleaseBuffer by (simp split: if_splits)
  then have nn: "b_data ?b = None \<longleftrightarrow> b_pool ?b = None" using assms(1) by (simp add: client_inv_def)
  show ?thesis
  proof (cases "b_data ?b")
    case None
    then have "c' = c" using assms(2) ReleaseBuffer i by (simp add: Release_def)
    then show ?thesis using assms(1) by simp
  next
    case (Some r)
    then obtain k where k: "b_pool ?b = Some k" using nn by auto
    have c': "c' = c\<lparr>c_pools := give_back k r (c_pools c), c_bufs := (c_bufs c)[i := ?b\<lparr>b_data := None, b_pool := None\<rparr>]\<rparr>"
      using assms(2) ReleaseBuffer i Some k by (simp add: Release_def)
    have "mset (used c) = add_mset (r, k) (mset (used c'))"
      using mset_buffers_update [OF i, of "?b\<lparr>b_data := None, b_pool := None\<rparr>"] c' Some k by (simp add: used_def buffer_refs_def)
    moreover have "\<forall>b \<in> set (c_bufs c'). b_data b = None \<longleftrightarrow> b_pool b = None"
      using assms(1) c' set_update_subset_insert [of "c_bufs c" i] by (fastforce simp: client_inv_def)
    ultimately show ?thesis using assms(1) owned_put [of "c_pools c" r k "mset (used c')"] c' by (simp add: client_inv_def)
  qed
qed

interpretation pool_client: event_machine client_step "\<lambda>es. client_inv"
  by unfold_locales (rule client_inv_step)

definition new_client :: client where
  "new_client = \<lparr>c_pools = new_pools, c_held = [], c_bufs = []\<rparr>"

lemma client_inv_new: "client_inv new_client"
  by (simp add: client_inv_def new_client_def new_pools_def used_def owned_def free_refs_def good_slices_def free_full_def once_def)

subsection \<open>Properties\<close>

text \<open>C32: a buffer belongs to one holder. Whatever sequence of takes, writes, cuts, returns and releases
  the program makes, as long as it gives back what it holds, a buffer that is handed out next
  is in nobody's hands, is the size of its pool again however it was cut before, and is of the
  right pool; a wrapper of at most the size of a large buffer offers exactly the bytes asked for,
  and releasing a wrapper twice gives nothing back twice.\<close>

theorem pool_exclusive:
  assumes "run_events client_step es new_client = Some c" "pool_Get k choice (c_pools c) = (r, ps)"
  shows "r \<notin> fst ` set (used c) \<and> distinct (map fst (used c)) \<and> sl_len (p_heap ps r) = pool_size k \<and>
    sl_cap (p_heap ps r) = pool_size k \<and>
    (\<forall>sz b ps1 bs. 0 \<le> sz \<longrightarrow> sz \<le> int LargeBufferSize \<longrightarrow> NewBuffer sz choice (c_pools c) = (b, ps1) \<longrightarrow>
       Buffer_Bytes ps1 b = Some bs \<longrightarrow> int (length bs) = sz) \<and>
    (\<forall>i c1. client_step (ReleaseBuffer i) c = Some c1 \<longrightarrow> client_step (ReleaseBuffer i) c1 = Some c1)"
proof -
  have inv: "client_inv c" using pool_client.inv_run [OF client_inv_new assms(1)] .
  then have o: "owned (c_pools c) (mset (used c))" by (simp add: client_inv_def)
  note g = owned_get [OF o assms(2)]
  have "once (mset (map fst (used c)))" using o by (auto simp: owned_def dest: once_union)
  then have d: "distinct (map fst (used c))" by (simp only: once_mset)
  have cap: "sl_cap (p_heap ps r) = pool_size k" using g(1) by (auto simp: owned_def good_slices_def)
  have bytes: "int (length bs) = sz"
    if "0 \<le> sz" "sz \<le> int LargeBufferSize" "NewBuffer sz choice (c_pools c) = (b, ps1)" "Buffer_Bytes ps1 b = Some bs" for sz b ps1 bs
  proof -
    note h = that
    let ?k = "if sz \<le> int PacketBufferSize then packetPool else largeBufferPool"
    obtain q where q: "pool_Get ?k choice (c_pools c) = (q, ps1)" "b = \<lparr>b_data = Some q, b_pool = Some ?k, b_len = sz\<rparr>"
      using h(3) by (auto simp: NewBuffer_def GetLargeBuffer_def GetPacketBuffer_def split: if_splits prod.splits)
    have "sl_len (p_heap ps1 q) = pool_size ?k" "sl_cap (p_heap ps1 q) = pool_size ?k"
      using owned_get(1,3) [OF o q(1)] by (auto simp: owned_def good_slices_def)
    then show ?thesis using h(1,2,4) q(2) by (auto simp: Buffer_Bytes_def Let_def pool_size_def split: if_splits)
  qed
  have twice: "client_step (ReleaseBuffer i) c1 = Some c1" if "client_step (ReleaseBuffer i) c = Some c1" for i c1
  proof -
    have i: "i < length (c_bufs c)" using that by (simp split: if_splits)
    have "b_data (c_bufs c ! i) = None \<longleftrightarrow> b_pool (c_bufs c ! i) = None" using inv i by (simp add: client_inv_def)
    then show ?thesis using that i by (auto simp: Release_def split: option.splits)
  qed
  from g(2,3) d cap bytes twice show ?thesis by (auto simp: image_iff)
qed

text \<open>A wrapper asked for more than a large buffer silently offers less; one whose length was set to
  a negative number panics when it is read, and so does setting the length after the release.\<close>

theorem buffer_limits:
  assumes "int LargeBufferSize < sz" "NewBuffer sz None ps = (b, ps1)"
  shows "(\<exists>bs. Buffer_Bytes ps1 b = Some bs \<and> length bs = LargeBufferSize) \<and>
    (\<exists>b'. SetLen ps1 (- 1) b = Some b' \<and> Buffer_Bytes ps1 b' = None) \<and> SetLen (snd (Release b ps1)) n (fst (Release b ps1)) = None"
proof -
  have "b = \<lparr>b_data = Some (p_fresh ps), b_pool = Some largeBufferPool, b_len = sz\<rparr>"
    "p_heap ps1 (p_fresh ps) = \<lparr>sl_array = replicate LargeBufferSize 0, sl_len = LargeBufferSize\<rparr>"
    using assms by (auto simp: NewBuffer_def GetLargeBuffer_def pool_Get_def pool_New_def Let_def PacketBufferSize_def LargeBufferSize_def pool_size_def)
  then show ?thesis using assms(1) by (simp add: Buffer_Bytes_def SetLen_def Release_def Let_def)
qed

subsection \<open>Witnesses\<close>

theorem pool_exclusive_witness:
  "\<exists>c r ps. run_events client_step [TakeRaw packetPool None, CutRaw 0 10, PutRaw 0 packetPool, MakeBuffer 100 (Some 0), ReleaseBuffer 0] new_client = Some c \<and>
     pool_Get packetPool (Some 0) (c_pools c) = (r, ps) \<and> sl_len (p_heap ps r) = 1500"
proof -
  let ?es = "[TakeRaw packetPool None, CutRaw 0 10, PutRaw 0 packetPool, MakeBuffer 100 (Some 0), ReleaseBuffer 0]"
  have "\<exists>c. run_events client_step ?es new_client = Some c"
    by (simp add: new_client_def new_pools_def GetPacketBuffer_def pool_Get_def pool_New_def Let_def PutPacketBuffer_def give_back_def
        NewBuffer_def Release_def upd_slice_def pool_size_def PacketBufferSize_def)
  then obtain c where c: "run_events client_step ?es new_client = Some c" ..
  obtain r ps where g: "pool_Get packetPool (Some 0) (c_pools c) = (r, ps)" by force
  from pool_exclusive [OF c g] c g show ?thesis by (auto simp: pool_size_def PacketBufferSize_def)
qed

end
