(* ===== verification/Logger.thy ===== *)
theory Logger
  imports Go_Prelude
begin

text \<open>
  Logging (\<open>log/logger.go\<close>): levels, the silent logger and the logger that filters by level and
  writes lines. A writer is a number; what was written to which writer is a list. The formatted
  time and the formatted message, which \<open>time.Format\<close> and \<open>fmt.Sprintf\<close> make, are arguments.
\<close>

subsection \<open>Model\<close>

type_synonym Level = int

definition LevelDebug :: Level where "LevelDebug = 0"
definition LevelInfo :: Level where "LevelInfo = 1"
definition LevelWarn :: Level where "LevelWarn = 2"
definition LevelError :: Level where "LevelError = 3"
definition LevelSilent :: Level where "LevelSilent = 4"

lemmas levels = LevelDebug_def LevelInfo_def LevelWarn_def LevelError_def LevelSilent_def

definition Level_String :: "Level \<Rightarrow> string" where
  "Level_String l =
     (if l = LevelDebug then ''DEBUG'' else if l = LevelInfo then ''INFO''
      else if l = LevelWarn then ''WARN'' else if l = LevelError then ''ERROR'' else ''UNKNOWN'')"

type_synonym writer = nat

definition os_Stderr :: writer where "os_Stderr = 0"

record StdLogger =
  lg_writer :: writer
  lg_level :: Level
  lg_prefix :: string

type_synonym StdLoggerOption = "StdLogger \<Rightarrow> StdLogger"

definition WithWriter :: "writer \<Rightarrow> StdLoggerOption" where
  "WithWriter w l = l\<lparr>lg_writer := w\<rparr>"

definition WithLevel :: "Level \<Rightarrow> StdLoggerOption" where
  "WithLevel level l = l\<lparr>lg_level := level\<rparr>"

definition WithPrefix :: "string \<Rightarrow> StdLoggerOption" where
  "WithPrefix prefix l = l\<lparr>lg_prefix := prefix\<rparr>"

definition NewStdLogger :: "StdLoggerOption list \<Rightarrow> StdLogger" where
  "NewStdLogger opts =
     fold (\<lambda>opt l. opt l) opts \<lparr>lg_writer = os_Stderr, lg_level = LevelInfo, lg_prefix = ''[tenet]''\<rparr>"

definition log_line :: "string \<Rightarrow> string \<Rightarrow> Level \<Rightarrow> string \<Rightarrow> string" where
  "log_line timestamp prefix level msg =
     (if prefix \<noteq> [] then timestamp @ '' '' @ prefix @ '' '' @ Level_String level @ '' '' @ msg @ [CHR 0x0A]
      else timestamp @ '' '' @ Level_String level @ '' '' @ msg @ [CHR 0x0A])"

type_synonym log_output = "(writer \<times> string) list"

definition log_msg :: "StdLogger \<Rightarrow> Level \<Rightarrow> string \<Rightarrow> string \<Rightarrow> log_output \<Rightarrow> log_output" where
  "log_msg l level timestamp msg out =
     (if level < lg_level l then out else out @ [(lg_writer l, log_line timestamp (lg_prefix l) level msg)])"

text \<open>The loggers a node can be given.\<close>

datatype Logger = NopLogger | Std StdLogger

definition Nop :: Logger where "Nop = NopLogger"
definition Default :: Logger where "Default = Std (NewStdLogger [])"

fun Log :: "Logger \<Rightarrow> Level \<Rightarrow> string \<Rightarrow> string \<Rightarrow> log_output \<Rightarrow> log_output" where
  "Log NopLogger level timestamp msg out = out"
| "Log (Std l) level timestamp msg out = log_msg l level timestamp msg out"

definition Log_Debug :: "Logger \<Rightarrow> string \<Rightarrow> string \<Rightarrow> log_output \<Rightarrow> log_output" where "Log_Debug l = Log l LevelDebug"
definition Log_Info :: "Logger \<Rightarrow> string \<Rightarrow> string \<Rightarrow> log_output \<Rightarrow> log_output" where "Log_Info l = Log l LevelInfo"
definition Log_Warn :: "Logger \<Rightarrow> string \<Rightarrow> string \<Rightarrow> log_output \<Rightarrow> log_output" where "Log_Warn l = Log l LevelWarn"
definition Log_Error :: "Logger \<Rightarrow> string \<Rightarrow> string \<Rightarrow> log_output \<Rightarrow> log_output" where "Log_Error l = Log l LevelError"

subsection \<open>Properties\<close>

text \<open>A logger writes exactly the messages at or above its level, in order, to its own writer; a silent
  one writes nothing at all, whatever the level.\<close>

theorem log_filters:
  "fold (\<lambda>(level, ts, msg). Log (Std l) level ts msg) ms out =
     out @ map (\<lambda>(level, ts, msg). (lg_writer l, log_line ts (lg_prefix l) level msg)) (filter (\<lambda>m. lg_level l \<le> fst m) ms) \<and>
   fold (\<lambda>(level, ts, msg). Log NopLogger level ts msg) ms out = out"
  by (induction ms arbitrary: out) (auto simp: log_msg_def)

text \<open>The level that silences a logger silences its four methods.\<close>

lemma silent_level:
  assumes "l = NewStdLogger [WithLevel LevelSilent]"
  shows "Log_Error (Std l) ts msg out = out" "Log_Warn (Std l) ts msg out = out" "Log_Info (Std l) ts msg out = out"
    "Log_Debug (Std l) ts msg out = out"
  using assms by (simp_all add: Log_Error_def Log_Warn_def Log_Info_def Log_Debug_def log_msg_def NewStdLogger_def WithLevel_def levels)

end
