(* ===== verification/Spec2Isabelle.thy ===== *)
theory Spec2Isabelle
  imports Tunnel Hole_Punch Buffer_Pool Logger
begin

text \<open>
  A verification development for tenet, a peer-to-peer tunnel in Go. Nodes find each other over UDP
  and TCP, authenticate each other with a Noise handshake under a network password, and then
  exchange messages on named channels; relays, NAT probing, hole punching, discovery and
  reconnection help two nodes behind NATs to stay connected.

  \<^bold>\<open>Parts and theories\<close> (sources under \<open>src/\<close>).

  \<^item> \<open>Go_Prelude\<close>: bytes, strings, 64-bit integers with wrap-around, time, slices, Go maps as
    association lists with their laws, and the interfaces the components are proved against, as
    locales: \<open>keyed_store\<close>, \<open>codec\<close>, \<open>stream_codec\<close>, \<open>invariant_machine\<close>, \<open>invariant_relation\<close> and
    \<open>event_machine\<close>. \<open>Go_Float\<close>: \<open>float64\<close> as rationals, infinities and NaN with rounding a
    parameter.
  \<^item> \<open>Protocol\<close> (\<open>internal/protocol\<close>) the packets; \<open>Framing\<close> (\<open>handleTCP\<close> of \<open>node/tcp_io.go\<close>, \<open>handleSession\<close>
    of \<open>node/kcp_transport.go\<close>, \<open>node/send_path.go\<close>) the two stream framings and their receive loops.
  \<^item> \<open>Noise_Session\<close> (\<open>crypto/noise.go\<close>, \<open>crypto/session.go\<close>) handshakes and sessions over the Noise
    library as a parameter; \<open>Identity\<close> (\<open>crypto/identity.go\<close>) identities, their JSON form and file.
  \<^item> \<open>Peer\<close> (\<open>peer/peer.go\<close>) one connected peer and the peer store; \<open>Metrics\<close> (\<open>metrics/metrics.go\<close>);
    \<open>Node_Config\<close> (\<open>node/config.go\<close>); \<open>Logger\<close> (\<open>log/logger.go\<close>); \<open>Buffer_Pool\<close> (\<open>internal/pool\<close>).
  \<^item> \<open>Mux\<close> (\<open>transport/mux.go\<close>) the UDP multiplexer and its read loop; \<open>KCP\<close> (\<open>node/kcp.go\<close>,
    \<open>node/kcp_transport.go\<close>) the session tables of the reliable transport.
  \<^item> \<open>NAT_Probe\<close> (\<open>nat/nat.go\<close>, \<open>nat/probe.go\<close>), \<open>Hole_Punch\<close> (\<open>nat/holepunch.go\<close>, \<open>nat/tcp_punch.go\<close>),
    \<open>Relay\<close> (\<open>nat/relay.go\<close>, \<open>nat/relay_auth.go\<close>), \<open>Reconnect\<close> (\<open>node/reconnect.go\<close>).
  \<^item> The node: \<open>Node_State\<close> (the struct and \<open>NewNode\<close> of \<open>node/node.go\<close>), \<open>Node_Peers\<close>
    (\<open>node/heartbeat.go\<close>, \<open>GracefulStop\<close>), \<open>Node_Data\<close> (\<open>node/data_flow.go\<close>, \<open>node/node_channel.go\<close>),
    \<open>Node_Handshake\<close> (\<open>node/handshake.go\<close>, \<open>node/rehandshake.go\<close>), \<open>Node_Discovery\<close>
    (\<open>node/discovery.go\<close>), \<open>Node_Dispatch\<close> (\<open>node/relay_handler.go\<close>, \<open>node/udp_io.go\<close>, \<open>handlePacket\<close> and
    the accessors of \<open>node/node.go\<close>), \<open>Node_Connect\<close> (\<open>node/startup.go\<close>, \<open>node/connect_flow.go\<close>,
    \<open>acceptTCP\<close>), \<open>Node_System\<close> (everything that can happen to a node, as one machine).
  \<^item> \<open>Tunnel\<close> (\<open>api/tunnel.go\<close>) the interface of applications. This theory holds what spans the
    components: connecting two nodes and delivering a message.

  \<^bold>\<open>How the code is modelled.\<close> A struct is a record and each function or method one definition with
  the source's name, suffixed or prefixed where it clashes; \<open>PROJECT.json\<close> maps them to lines.
  Methods pass their state explicitly. Objects shared by pointer (peers, Noise and KCP sessions,
  virtual connections, reconnect entries, pooled buffers) are references into heaps, so aliasing
  is as in the code. Errors are values of datatypes; a panic is \<open>None\<close>. What a node does to the
  outside (writes, callbacks) is appended to \<open>n_out\<close>, and the goroutines it starts to \<open>n_tasks\<close>.
  Code that runs concurrently for long (the read loop of the multiplexer, reconnect loops, a call
  of \<open>Connect\<close>, the hole punchers) is a step function on events, and a run is any interleaving;
  a handler that holds a lock or runs to its end without waiting is one step. A timer is an event
  that may come at any time, so safety theorems hold for every timing; liveness theorems say
  which events remain until the result.

  \<^bold>\<open>Parameters.\<close> The record \<open>env\<close> collects what is outside the repository: the Noise library, hashes
  and signatures, rounding, address resolution, whether a write or dial succeeds. Theorems name
  what they need of it: \<open>noise_xx_run\<close> (the three messages of an XX handshake fit together and give
  matching ciphers), \<open>cipher_pair\<close> (a cipher in step decrypts what the other encrypted),
  \<open>aead_overhead\<close>, lengths of hashes, \<open>ieee_rounding\<close>. Each such theorem has a witness with a concrete
  instance.

  \<^bold>\<open>What is proved.\<close> End to end: \<open>connect_establishes\<close> and \<open>message_delivered\<close> below. The whole node:
  \<open>Node_System.node_invariant\<close>, for every sequence of events, and \<open>Tunnel.tunnel_lifecycle\<close> for every use
  of the interface. Security: a receive callback runs only for an authenticated message on a
  joined channel, a peer ID is the hash of the static key that was authenticated, forged relay
  tokens are refused. Streams: the TCP and KCP receive loops deliver exactly the framed packets.
  Bounds: reassembly, discovery, multiplexer queues, rehandshake and reconnect attempts,
  backoff. Round trips: packets, relay packets and tokens, probes, NAT information, discovery
  answers, identities. Life cycle: heartbeat timeouts, removal of peers, graceful stop, start-up that
  leaves nothing behind when it fails, calls that return. Where the code does something it does
  not mean to, a theorem shows it (for instance \<open>Mux.mux_unregister_race_panics\<close>,
  \<open>Reconnect.backoff_overflow_unclamped\<close>, \<open>Node_Dispatch.relay_auth_skipped_without_token\<close>).

  \<^bold>\<open>Bounds and fuel.\<close> No definition uses fuel: loops are structural recursions, or recursions with a
  measure (the two receive loops and the reader of discovery answers by the bytes left,
  retries by the tries left). Integers that the code can overflow go through \<open>wrap64\<close> or are words.

  \<^bold>\<open>Not modelled.\<close> The KCP protocol, Noise and the standard cryptography (third-party code, parameters);
  socket options and the interfaces of \<open>transport/socket*.go\<close> and \<open>transport/transport.go\<close> (system calls
  and declarations); the commands under \<open>cmd/\<close> (terminal programs around the tunnel); log texts of
  the node; read deadlines beyond their effect of ending a read; mutexes, whose critical sections
  are the atomic steps; \<open>LocalAddr\<close> and \<open>PublicAddr\<close> of the tunnel.
\<close>

subsection \<open>From \<open>Connect\<close> to a session on both sides\<close>

text \<open>A handshake datagram from an address whose packets are not forwarded goes to the handshake
  handler.\<close>

definition not_forwarded :: "('h, 'c) Node \<Rightarrow> netaddr \<Rightarrow> bool" where
  "not_forwarded n a \<longleftrightarrow> is_udp_addr a \<and> (EnableRelay (n_Config n) \<longrightarrow> gm_get (relayForward n) (addr_String a) = None)"

lemma handshake_datagram:
  assumes "not_forwarded n a"
  shows "handle_datagram env now a (BuildHandshakePacket m) n = processHandshake env now None a ''udp'' m n"
proof -
  let ?d = "BuildHandshakePacket m"
  have d: "?d = string_bytes ''TENT'' @ PacketTypeHandshake # m" by (simp add: BuildHandshakePacket_eq MagicBytes_def)
  have p: "subslice 0 4 ?d = string_bytes ''TENT''" "?d ! 4 = PacketTypeHandshake" "drop 5 ?d = m" "5 \<le> length ?d"
    by (simp_all add: d subslice_def nth_append)
  show ?thesis
    using assms p tent_not_natp by (simp add: handle_datagram_def handlePacket_def not_forwarded_def packet_types Let_def)
qed

lemma pending_of_call:
  "gm_get (pendingHandshakes (registerPendingHandshakes u t hu ht n)) (stateKey ''udp'' (addr_String u)) = Some hu"
  by (simp add: registerPendingHandshakes_def stateKey_def Let_def)

lemma registered_fields [simp]:
  "n_Peers (registerPendingHandshakes u t hu ht n) = n_Peers n" "n_Config (registerPendingHandshakes u t hu ht n) = n_Config n"
  "n_Identity (registerPendingHandshakes u t hu ht n) = n_Identity n" "n_out (registerPendingHandshakes u t hu ht n) = n_out n"
  "relayForward (registerPendingHandshakes u t hu ht n) = relayForward n"
  by (simp_all add: registerPendingHandshakes_def Let_def)

lemma reply_keeps_forwarding:
  assumes "handshake_for env now (stateKey t (addr_String a)) n hs"
    and "ProcessMessage (e_noise env) hs payload = (Inr (response, None), hs')"
  shows "relayForward (processHandshake env now c a t payload n) = relayForward n"
proof -
  obtain y where e: "processHandshake env now c a t payload n = send_reply env c a t response (n\<lparr>pendingHandshakes := y\<rparr>)"
    by (rule processHandshake_accept [OF assms, of c]) simp
  show ?thesis unfolding e by (cases response) (simp_all add: send_reply_def)
qed

lemma first_message_keeps:
  assumes "nl_new (e_noise env) False (handshake_prologue (string_bytes (NetworkPassword (n_Config n))))
       (NoisePrivateKey (n_Identity n)) (NoisePublicKey (n_Identity n)) = Some r0"
    and "length (NoisePrivateKey (n_Identity n)) = 32" "length (NoisePublicKey (n_Identity n)) = 32"
    and "gm_get (pendingHandshakes n) (stateKey t (addr_String a)) = None"
    and "noise_xx_run (e_noise env) i0 r0 m1 m2 m3 c1 c2 i3 r3"
  shows "n_Config (processHandshake env now c a t m1 n) = n_Config n \<and>
    relayForward (processHandshake env now c a t m1 n) = relayForward n"
proof -
  from assms(1-3) have r: "NewResponderHandshake (e_noise env) now (NoisePrivateKey (n_Identity n)) (NoisePublicKey (n_Identity n))
     (string_bytes (NetworkPassword (n_Config n))) =
     Inr \<lparr>hs_noise = r0, hs_isInitiator = False, hs_completed = False, hs_createdAt = time_Unix now\<rparr>" (is "_ = Inr ?h")
    by (simp add: NewResponderHandshake_def)
  have h: "handshake_for env now (stateKey t (addr_String a)) n ?h" using assms(4) r by (simp add: handshake_for_def)
  from assms(5) obtain hs' where p: "ProcessMessage (e_noise env) ?h m1 = (Inr (Some m2, None), hs')"
    by (auto simp: noise_xx_run_def ProcessMessage_def)
  show ?thesis using reply_keeps_forwarding [OF h p] processHandshake_reply(3) [OF h p refl] by simp
qed

text \<open>C2: connecting works. A node calls \<open>Connect\<close> with an address that resolves to another node's;
  the UDP worker sends the first handshake packet there, and when the datagrams the two nodes
  send each other arrive, three of them make the nodes peers of each other, each under the ID of
  the static key the Noise library authenticated and reachable by the address the datagrams came
  from; what one session encrypts with is what the other decrypts with.\<close>

theorem connect_establishes:
  fixes A0 B :: "('h, 'c) Node"
  assumes "connectContext env env2 R t0 addr A0 = (Inr call, A)" "e_resolveUDP env addr = Some b"
    and "nl_new (e_noise env) True (handshake_prologue (string_bytes (NetworkPassword (n_Config A0))))
       (NoisePrivateKey (n_Identity A0)) (NoisePublicKey (n_Identity A0)) = Some i0"
    and "nl_new (e_noise env) False (handshake_prologue (string_bytes (NetworkPassword (n_Config B))))
       (NoisePrivateKey (n_Identity B)) (NoisePublicKey (n_Identity B)) = Some r0"
    and "length (NoisePrivateKey (n_Identity A0)) = 32" "length (NoisePublicKey (n_Identity A0)) = 32"
      "length (NoisePrivateKey (n_Identity B)) = 32" "length (NoisePublicKey (n_Identity B)) = 32"
    and "NetworkPassword (n_Config B) = NetworkPassword (n_Config A0)"
    and "noise_xx_run (e_noise env) i0 r0 m1 m2 m3 c1 c2 i3 r3"
    and "pidB = peer_id_of_key (e_crypto env) (Some (nl_peer_static (e_noise env) i3))"
      "pidA = peer_id_of_key (e_crypto env) (Some (nl_peer_static (e_noise env) r3))"
    and "ps_Get (n_Peers A0) pidB = None" "\<not> full A0" "ps_Get (n_Peers B) pidA = None" "\<not> full B"
    and "not_forwarded A0 b" "not_forwarded B a"
      "gm_get (pendingHandshakes B) (stateKey ''udp'' (addr_String a)) = None"
    and "connect_step env t UDPWorkerSends (call, A) = Some (call', A1)"
      "B1 = handle_datagram env t1 a (BuildHandshakePacket m1) B"
      "A2 = handle_datagram env t2 b (BuildHandshakePacket m2) A1"
      "B2 = handle_datagram env t3 a (BuildHandshakePacket m3) B1"
  shows "(\<exists>ok. n_out A1 = n_out A0 @ [Wrote (UDPWrite b (BuildHandshakePacket m1)) ok]) \<and>
    (\<exists>ok. n_out B1 = n_out B @ [Wrote (UDPWrite a (BuildHandshakePacket m2)) ok]) \<and>
    (\<exists>ok rest. n_out A2 = n_out A1 @ Wrote (UDPWrite b (BuildHandshakePacket m3)) ok # rest) \<and>
    (\<exists>rA rB sA sB. linked A2 b pidB rA sA \<and> linked B2 a pidA rB sB \<and>
       sendCipher sA = Some c1 \<and> recvCipher sA = Some c2 \<and> sendCipher sB = Some c2 \<and> recvCipher sB = Some c1)"
proof -
  obtain tc hu mu ht mt where u: "initiator_handshake env t0 A0 = Inr (hu, mu)"
    and call: "call = startPunchWorkers addr b (BuildHandshakePacket mu) (BuildHandshakePacket mt)"
    and A: "A = registerPendingHandshakes b tc hu ht A0"
    using assms(1,2) by (elim connectContext_ok) auto
  have A1: "call' = call" "A1 = snd (do_write env (UDPWrite b (BuildHandshakePacket mu)) A)"
    using assms(20) by (auto simp: call startPunchWorkers_def split: if_splits)
  have f1: "n_Peers A1 = n_Peers A0" "n_Config A1 = n_Config A0" "n_Identity A1 = n_Identity A0" "pendingHandshakes A1 = pendingHandshakes A"
    "relayForward A1 = relayForward A0" "\<exists>ok. n_out A1 = n_out A0 @ [Wrote (UDPWrite b (BuildHandshakePacket mu)) ok]"
    by (simp_all add: A1 A do_write_def Let_def)
  have nf: "not_forwarded A1 b" using assms(17) f1 by (simp add: not_forwarded_def)
  have ini: "initiator_handshake env t0 A1 = Inr (hu, mu)" using u f1 by (simp add: initiator_handshake_def)
  have pend: "gm_get (pendingHandshakes A1) (stateKey ''udp'' (addr_String b)) = Some hu"
    using pending_of_call f1(4) by (simp add: A)
  have udp: "is_udp_addr a" "is_udp_addr b" using assms(17,18) by (simp_all add: not_forwarded_def)
  have B1: "B1 = processHandshake env t1 None a ''udp'' m1 B" using assms(21) handshake_datagram [OF assms(18)] by simp
  have A2: "A2 = processHandshake env t2 None b ''udp'' m2 A1" using assms(22) handshake_datagram [OF nf] by simp
  have fw: "n_Config B1 = n_Config B \<and> relayForward B1 = relayForward B"
    unfolding B1 by (rule first_message_keeps [OF assms(4,7,8,19,10)])
  have B2: "B2 = processHandshake env t3 None a ''udp'' m3 B1"
    using assms(18,23) fw handshake_datagram [of B1 a] by (simp add: not_forwarded_def)
  have fullA: "\<not> full A1" "ps_Get (n_Peers A1) pidB = None" using assms(13,14) f1 by (simp_all add: full_def)
  note c = nodes_connect [where env = env and A = A1 and B = B and t = "''udp''" and b = b and a = a and ?t0.0 = t0 and hI = hu and m = mu
      and ?i0.0 = i0 and ?r0.0 = r0 and ?m1.0 = m1 and ?m2.0 = m2 and ?m3.0 = m3 and ?c1.0 = c1 and ?c2.0 = c2 and ?i3.0 = i3 and ?r3.0 = r3
      and pidA = pidA and pidB = pidB, OF _ _ _ _ _ _ _ assms(10-12) fullA(2,1) assms(15,16) ini pend assms(19) B1 A2 B2]
  have out: "n_out (snd (sendRaw env None (Some x) ''udp'' p n)) = n_out n @ [Wrote (UDPWrite x p) (e_write env (n_out n) (UDPWrite x p))]"
    if "is_udp_addr x" for x p and n :: "('h, 'c) Node"
    using that by (simp add: sendRaw_def do_write_def Let_def)
  have c': "mu = m1" "n_out B1 = n_out B @ [Wrote (UDPWrite a (BuildHandshakePacket m2)) (e_write env (n_out B) (UDPWrite a (BuildHandshakePacket m2)))]"
    "take (Suc (length (n_out A1))) (n_out A2) =
       n_out A1 @ [Wrote (UDPWrite b (BuildHandshakePacket m3)) (e_write env (n_out A1) (UDPWrite b (BuildHandshakePacket m3)))]"
    "\<exists>rA rB sA sB. linked A2 b pidB rA sA \<and> linked B2 a pidA rB sB \<and>
       sendCipher sA = Some c1 \<and> recvCipher sA = Some c2 \<and> sendCipher sB = Some c2 \<and> recvCipher sB = Some c1"
    using c assms(3-9) f1 udp by (simp_all add: out)
  have "\<exists>ok rest. n_out A2 = n_out A1 @ Wrote (UDPWrite b (BuildHandshakePacket m3)) ok # rest"
    using c'(3) append_take_drop_id [of "Suc (length (n_out A1))" "n_out A2"] by (metis append_Cons append_Nil append_assoc)
  then show ?thesis using c'(1,2,4) f1(6) by blast
qed

subsection \<open>From \<open>Send\<close> to the receive callback\<close>

lemma deliver_data:
  "deliver_packets (\<lambda>n ty p. handlePacket env t c a tr ty p n) B (map BuildDataPacket cts) = recv_all env a (map (Pair t) cts) B"
proof (induction cts arbitrary: B)
  case (Cons ct cts)
  have "is_tent_packet (BuildDataPacket ct)" "GetPacketType (BuildDataPacket ct) = PacketTypeData" "GetPayload (BuildDataPacket ct) = ct"
    by (simp_all add: is_tent_packet_def wire_simps)
  then show ?case using Cons by (simp add: deliver_packets_def handlePacket_def packet_types)
qed (simp add: deliver_packets_def)

lemma stream_end: "handleTCP h n [] = n" "handleSession h n [] = n"
  by (simp_all add: handleTCP.simps handleSession.simps)

text \<open>C1: a message arrives. If \<open>Send\<close> reports success, it has written a sequence of framed packets
  to the connection of the peer; if the receiver's session for the sender is in step, a receiver
  that reads that byte stream from the sender's address over TCP or KCP runs its receive
  callback exactly once, with the sender's ID and the data unchanged, whatever the length of the
  message up to 50 MiB and however it was cut.\<close>

theorem message_delivered:
  assumes "Node_Send env ch pidB data A = (None, A')" "ps_Get (n_Peers A) pidB = Some rA" "PSession (n_pheap A rA) = Some sA"
    and "peer_of_addr B a = Some (pidA, rB)" "PSession (n_pheap B rB) = Some sB"
    and "sendCipher (w_sess (n_world A) sA) = Some c" "recvCipher (w_sess (n_world B) sB) = Some d" "S c d"
    and "cipher_pair (e_noise env) S" "aead_overhead (e_noise env)" "\<And>b. length (Sum256 (e_crypto env) b) = 32"
    and "isChannelSubscribed B (hashChannelName (e_crypto env) ch)" "onReceive B" "33 + length data \<le> MaxReassemblySize"
  shows "\<exists>path k packets. n_out A' = n_out A @ map (\<lambda>p. Wrote (path_write path k p) True) packets \<and>
    (\<forall>t cn tr. n_out (handleTCP (\<lambda>n ty p. handlePacket env t cn a tr ty p n) B (concat (map EncodeTCPFrame packets))) =
       n_out B @ [CallReceive pidA data]) \<and>
    (\<forall>t tr. n_out (handleSession (\<lambda>n ty p. handlePacket env t None a tr ty p n) B (concat (map kcp_frame packets))) =
       n_out B @ [CallReceive pidA data])"
proof -
  let ?h = "hashChannelName (e_crypto env) ch" and ?fs = "fragments (AppFrameTypeUserWithChannel # hashChannelName (e_crypto env) ch @ data)"
  have h: "length ?h = 32" by (simp add: hashChannelName_def assms(11))
  have "sendAppFrame env pidB AppFrameTypeUserWithChannel (?h @ data) A = (None, A')"
    using assms(1) by (simp add: Node_Send_def Let_def split: if_splits)
  then obtain r s path n1 where r: "ps_Get (n_Peers A) pidB = Some r" "PSession (n_pheap A r) = Some s"
    "choose_path env r A = (Inr path, n1)" "send_all env path s r ?fs n1 = (None, A')"
    by (rule sendAppFrame_ok) simp
  have rs: "r = rA" "s = sA" using r assms(2,3) by simp_all
  note cp = choose_path_ok [OF r(3)]
  obtain k where k: "path_session path (ID (n_pheap n1 r)) k n1" using cp(3,5) by auto
  obtain cts where cts: "encrypt_all (e_noise env) (w_sess (n_world A) sA) (map frame_of ?fs) = map Inr cts"
    "n_out A' = n_out A @ map (\<lambda>ct. Wrote (path_write path k (BuildDataPacket ct)) True) cts"
    using send_all_trace [OF r(4) k] cp rs by auto
  have "decrypt_all (e_noise env) (w_sess (n_world B) sB) cts = map Inr (map frame_of ?fs)"
    by (rule decrypt_encrypt_all [OF assms(9,6,7,8) cts(1)])
  then have "receiving env a pidA rB sB cts (map frame_of ?fs) B" using assms(4,5) by (simp add: receiving_def)
  note recv = user_message_received [OF _ this h assms(12-14)]
  have zip: "map (Pair t) cts = zip (replicate (length cts) t) cts" for t by (induction cts) simp_all
  have sz: "\<forall>p \<in> set (map frame_of ?fs). length p \<le> Suc MaxPayloadSize"
    using fragment_size [of _ "AppFrameTypeUserWithChannel # ?h @ data"] by (auto simp: frame_of_def)
  have fr: "list_all frameable (map BuildDataPacket cts)"
    using encrypt_all_size [OF assms(10) cts(1) sz] by (auto simp: list_all_iff frameable_def MaxPayloadSize_def wire_simps)
  have "n_out (recv_all env a (map (Pair t) cts) B) = n_out B @ [CallReceive pidA data]" for t
    using recv [of "replicate (length cts) t"] by (simp add: zip)
  then have "n_out (handleTCP (\<lambda>n ty p. handlePacket env t cn a tr ty p n) B (concat (map EncodeTCPFrame (map BuildDataPacket cts)))) =
       n_out B @ [CallReceive pidA data]"
    "n_out (handleSession (\<lambda>n ty p. handlePacket env t None a tr ty p n) B (concat (map kcp_frame (map BuildDataPacket cts)))) =
       n_out B @ [CallReceive pidA data]" for t cn tr
    using tcp.loop_frames_then [OF fr, of "\<lambda>n ty p. handlePacket env t cn a tr ty p n" B "[]"]
      kcp.loop_frames_then [OF fr, of "\<lambda>n ty p. handlePacket env t None a tr ty p n" B "[]"]
    by (simp_all add: stream_end deliver_data)
  then show ?thesis using cts(2)
    by (intro exI [of _ path] exI [of _ k] exI [of _ "map BuildDataPacket cts"]) simp
qed

subsection \<open>Witnesses\<close>

lemma demo_dialler_facts:
  "n_Config demo_dialler = n_Config demo_B" "n_Identity demo_dialler = n_Identity demo_B" "n_Peers demo_dialler = n_Peers demo_B"
  "relayForward demo_dialler = relayForward demo_B" "\<not> full demo_dialler" "n_out demo_dialler = n_out demo_B"
  "gm_get (pendingHandshakes demo_B) k = None" "not_forwarded demo_B (UDPAddr x)" "not_forwarded demo_dialler (UDPAddr x)"
  by (simp_all add: demo_dialler_def demo_ab full_def ps_Count_def gm_len_def NewPeerStore_def gm_get_def not_forwarded_def)

theorem connect_establishes_witness:
  "\<exists>call A call' A1 A2 rA sA. connectContext demo_env demo_env (\<lambda>s. Some (TCPAddr s)) 0 ''b'' demo_dialler = (Inr call, A) \<and>
     connect_step demo_env 1 UDPWorkerSends (call, A) = Some (call', A1) \<and>
     A2 = handle_datagram demo_env 2 (UDPAddr ''b'') (BuildHandshakePacket [2]) A1 \<and> linked A2 (UDPAddr ''b'') demo_pid rA sA"
proof -
  obtain c A where c: "connectContext demo_env demo_env (\<lambda>s. Some (TCPAddr s)) 0 ''b'' demo_dialler = (Inr c, A)"
    "cc_return c = None" "\<not> punchCancelled c" using demo_call by blast
  obtain u m1 m2 where "c = startPunchWorkers ''b'' u m1 m2" using c(1) by (elim connectContext_ok) auto
  then have "\<exists>c' A1. connect_step demo_env 1 UDPWorkerSends (c, A) = Some (c', A1)"
    using c(3) by (simp add: startPunchWorkers_def)
  then obtain c' A1 where st: "connect_step demo_env 1 UDPWorkerSends (c, A) = Some (c', A1)" by blast
  have r: "e_resolveUDP demo_env ''b'' = Some (UDPAddr ''b'')" by (simp add: demo_env_def)
  have n: "nl_new (e_noise demo_env) True (handshake_prologue (string_bytes (NetworkPassword (n_Config demo_dialler))))
       (NoisePrivateKey (n_Identity demo_dialler)) (NoisePublicKey (n_Identity demo_dialler)) = Some 0"
    "nl_new (e_noise demo_env) False (handshake_prologue (string_bytes (NetworkPassword (n_Config demo_B))))
       (NoisePrivateKey (n_Identity demo_B)) (NoisePublicKey (n_Identity demo_B)) = Some 10"
    by (simp_all add: demo_noise_def)
  have k: "length (NoisePrivateKey (n_Identity demo_dialler)) = 32" "length (NoisePublicKey (n_Identity demo_dialler)) = 32"
    "length (NoisePrivateKey (n_Identity demo_B)) = 32" "length (NoisePublicKey (n_Identity demo_B)) = 32"
    "NetworkPassword (n_Config demo_B) = NetworkPassword (n_Config demo_dialler)"
    by (simp_all add: demo_dialler_facts) (simp_all add: demo_ab)
  have run: "noise_xx_run (e_noise demo_env) 0 10 [1] [2] [3] 100 200 3 13" by (simp add: demo_xx_run)
  have pid: "demo_pid = peer_id_of_key (e_crypto demo_env) (Some (nl_peer_static (e_noise demo_env) 3))"
    by (simp add: demo_pid_def demo_noise_def)
  have new: "ps_Get (n_Peers demo_dialler) p = None" for p by (simp add: demo_dialler_facts demo_A_facts)
  note ce = connect_establishes [OF c(1) r n k run pid refl new demo_dialler_facts(5) demo_A_facts(7,6)
      demo_dialler_facts(9) demo_dialler_facts(8) [of "''a''"] demo_dialler_facts(7) st refl refl refl, where ?t1.0 = 1 and ?t2.0 = 2 and ?t3.0 = 3]
  then obtain rA sA where "linked (handle_datagram demo_env 2 (UDPAddr ''b'') (BuildHandshakePacket [2]) A1) (UDPAddr ''b'') demo_pid rA sA"
    by blast
  then show ?thesis using c(1) st by blast
qed

lemma demo_Send: "\<exists>n'. Node_Send demo_env [] demo_peer_id [9] demo_tcp_node = (None, n')"
proof -
  have "hashChannelName demo_crypto [] = demo_chan"
    by (simp add: hashChannelName_def demo_crypto_def demo_chan_def string_bytes_def)
  moreover have "demo_peer_id \<noteq> Node_ID demo_tcp_node"
    by (simp add: demo_tcp_defs demo_peer_id_def Node_ID_def NodeID_String_def demo_identity_def hex_EncodeToString_def)
      code_simp
  moreover have "choose_path demo_env 0 demo_tcp_node = (Inr (PathTCP 4), demo_tcp_node)" "ps_Get (n_Peers demo_tcp_node) demo_peer_id = Some 0"
    by (simp_all add: choose_path_def GetTransportInfo_def demo_tcp_defs ps_Get_def gm_get_def)
  ultimately show ?thesis
    using demo_tcp_peer
    by (simp add: Node_Send_def sendAppFrame_def GetSession_def Let_def MaxPayloadSize_def sendFrame_def Session_Encrypt_def demo_session_def
        demo_noise_def send_on_def writeTCPPacket_def do_write_def)
      (simp add: demo_env_def)
qed

theorem message_delivered_witness:
  "\<exists>packets. \<forall>t. n_out (handleTCP (\<lambda>n ty p. handlePacket demo_env t None (UDPAddr ''10.0.0.1:9'') ''tcp'' ty p n) demo_tcp_node
     (concat (map EncodeTCPFrame packets))) = [CallReceive demo_peer_id [9]]"
proof -
  obtain A' where s: "Node_Send demo_env [] demo_peer_id [9] demo_tcp_node = (None, A')" using demo_Send by blast
  have p: "ps_Get (n_Peers demo_tcp_node) demo_peer_id = Some 0" by (simp add: demo_tcp_defs ps_Get_def gm_get_def)
  have ci: "sendCipher (w_sess (n_world demo_tcp_node) 0) = Some 0" "recvCipher (w_sess (n_world demo_tcp_node) 0) = Some 0"
    by (simp_all add: demo_tcp_peer demo_session_def)
  have e: "cipher_pair (e_noise demo_env) (=)" "aead_overhead (e_noise demo_env)" "length (Sum256 (e_crypto demo_env) b) = 32"
    "isChannelSubscribed demo_tcp_node (hashChannelName (e_crypto demo_env) [])" "33 + length [9 :: byte] \<le> MaxReassemblySize" for b
    using demo_tcp_peer(4)
    by (simp_all add: demo_cipher_pair demo_aead demo_Sum256 MaxReassemblySize_def hashChannelName_def demo_crypto_def demo_chan_def string_bytes_def)
  show ?thesis
    using message_delivered [OF s p demo_tcp_peer(2,1,2) ci refl e(1-4) demo_tcp_peer(5) e(5)] unfolding demo_tcp_peer by (metis append_Nil)
qed

end
